(* ===== verification/KP_Prelude.thy ===== *)
theory KP_Prelude
  imports "HOL-Library.State_Monad" "HOL-Library.Sublist"
begin

text \<open>
  Shared vocabulary of the kubepark development: error values, the state
  monad the handlers are written in and the two proof predicates over it, the
  parts of Go's standard library the sources use (\<open>strings\<close>,
  \<open>slices\<close>, \<open>time\<close>, \<open>fmt\<close>), and the
  generic lemmas every component needs.
\<close>

named_theorems go_strings \<open>facts about the string functions of Go's standard library\<close>
named_theorems runs \<open>unfolding of monadic handlers to their runs\<close>
named_theorems keeps_rules \<open>rules that propagate an invariant of the outside world\<close>
named_theorems always_rules \<open>rules that propagate a property of every possible result\<close>

section \<open>Errors\<close>

text \<open>
  Errors of the Kubernetes API fall into the classes the sources test
  (\<open>apierrors.IsNotFound\<close>, \<open>apierrors.IsAlreadyExists\<close>);
  every other error is \<open>OtherErr\<close>.  \<open>Wrapped\<close> is
  \<open>fmt.Errorf\<close> with a \<open>%w\<close> verb, which the class tests look
  through.
\<close>

datatype err =
    NotFound string
  | AlreadyExists string
  | OtherErr string
  | Wrapped string err

type_synonym 'a res = "err + 'a"

fun IsNotFound :: "err \<Rightarrow> bool" where
  "IsNotFound (NotFound _) = True"
| "IsNotFound (Wrapped _ e) = IsNotFound e"
| "IsNotFound _ = False"

fun IsAlreadyExists :: "err \<Rightarrow> bool" where
  "IsAlreadyExists (AlreadyExists _) = True"
| "IsAlreadyExists (Wrapped _ e) = IsAlreadyExists e"
| "IsAlreadyExists _ = False"

text \<open>\<open>client.IgnoreNotFound\<close> and \<open>client.IgnoreAlreadyExists\<close> on a call that returns no value.\<close>

definition ignore :: "(err \<Rightarrow> bool) \<Rightarrow> 'a res \<Rightarrow> unit res" where
  "ignore p r = (case r of Inl e \<Rightarrow> if p e then Inr () else Inl e | Inr _ \<Rightarrow> Inr ())"

section \<open>The state monad of the handlers\<close>

text \<open>
  A handler is a computation over the outside world \<open>'w\<close> (API
  server, clock, network).  A Go call returning \<open>(v, err)\<close> is a
  computation whose result is an error or a value.
\<close>

abbreviation ret :: "'a \<Rightarrow> ('w, 'a) state" where
  "ret \<equiv> State_Monad.return"

text \<open>\<open>always Q m\<close>: whatever the outside world answers, the result of \<open>m\<close> satisfies \<open>Q\<close>.\<close>

definition always :: "('a \<Rightarrow> bool) \<Rightarrow> ('w, 'a) state \<Rightarrow> bool" where
  "always Q m \<longleftrightarrow> (\<forall>w. Q (fst (run_state m w)))"

text \<open>\<open>keeps I m\<close>: every run of \<open>m\<close> preserves \<open>I\<close> of the outside world.\<close>

definition keeps :: "('w \<Rightarrow> bool) \<Rightarrow> ('w, 'a) state \<Rightarrow> bool" where
  "keeps I m \<longleftrightarrow> (\<forall>w. I w \<longrightarrow> I (snd (run_state m w)))"

text \<open>A result some run of a computation has.\<close>

definition provided :: "('w, 'a) state \<Rightarrow> 'a \<Rightarrow> bool" where
  "provided m x \<longleftrightarrow> (\<exists>w. fst (run_state m w) = x)"

text \<open>\<open>triple P m Q\<close>: from a world in \<open>P\<close>, the run of \<open>m\<close> ends with a result and world in \<open>Q\<close>.\<close>

definition triple :: "('w \<Rightarrow> bool) \<Rightarrow> ('w, 'a) state \<Rightarrow> ('a \<Rightarrow> 'w \<Rightarrow> bool) \<Rightarrow> bool" where
  "triple P m Q \<longleftrightarrow> (\<forall>w. P w \<longrightarrow> Q (fst (run_state m w)) (snd (run_state m w)))"

text \<open>A \<open>for\<close> loop over a slice whose body may return an error, which ends the loop.\<close>

primrec for_each :: "('a \<Rightarrow> ('w, unit res) state) \<Rightarrow> 'a list \<Rightarrow> ('w, unit res) state" where
  "for_each f [] = ret (Inr ())"
| "for_each f (x # xs) = do {
     r \<leftarrow> f x;
     (case r of Inl e \<Rightarrow> ret (Inl e) | Inr _ \<Rightarrow> for_each f xs)
   }"

section \<open>Strings\<close>

text \<open>
  Go strings are byte sequences; a \<open>string\<close> here is the list of
  bytes.  \<open>TrimSpace\<close> and \<open>ToLower\<close> are those of ASCII
  text, which host names and SSH targets are.
\<close>

fun Cut :: "string \<Rightarrow> string \<Rightarrow> string \<times> string \<times> bool" where
  "Cut [] sep = ([], [], sep = [])"
| "Cut (c # cs) sep =
     (if prefix sep (c # cs) then ([], drop (length sep) (c # cs), True)
      else (case Cut cs sep of (a, b, found) \<Rightarrow> (c # a, b, found)))"

definition HasPrefix :: "string \<Rightarrow> string \<Rightarrow> bool" where
  "HasPrefix s p = prefix p s"

definition HasSuffix :: "string \<Rightarrow> string \<Rightarrow> bool" where
  "HasSuffix s p = suffix p s"

definition TrimPrefix :: "string \<Rightarrow> string \<Rightarrow> string" where
  "TrimPrefix s p = (if HasPrefix s p then drop (length p) s else s)"

definition TrimSuffix :: "string \<Rightarrow> string \<Rightarrow> string" where
  "TrimSuffix s p = (if HasSuffix s p then take (length s - length p) s else s)"

definition is_space :: "char \<Rightarrow> bool" where
  "is_space c \<longleftrightarrow> c \<in> {CHR 0x09, CHR 0x0A, CHR 0x0B, CHR 0x0C, CHR 0x0D, CHR '' ''}"

definition TrimSpace :: "string \<Rightarrow> string" where
  "TrimSpace s = rev (dropWhile is_space (rev (dropWhile is_space s)))"

definition lower_char :: "char \<Rightarrow> char" where
  "lower_char c = (let n = of_char c :: nat in if 65 \<le> n \<and> n \<le> 90 then char_of (n + 32) else c)"

definition ToLower :: "string \<Rightarrow> string" where
  "ToLower s = map lower_char s"

definition Contains :: "string \<Rightarrow> string \<Rightarrow> bool" where
  "Contains s sub = snd (snd (Cut s sub))"

text \<open>\<open>strings.Join\<close>.\<close>

fun Join :: "string list \<Rightarrow> string \<Rightarrow> string" where
  "Join [] sep = []"
| "Join [x] sep = x"
| "Join (x # y # xs) sep = x @ sep @ Join (y # xs) sep"

text \<open>The byte-wise order Go compares strings with.\<close>

fun string_less :: "string \<Rightarrow> string \<Rightarrow> bool" where
  "string_less xs [] = False"
| "string_less [] (y # ys) = True"
| "string_less (x # xs) (y # ys) =
     ((of_char x :: nat) < of_char y \<or> (x = y \<and> string_less xs ys))"

text \<open>The \<open>%q\<close> verb on text without quotes or control characters, and \<open>%d\<close>.\<close>

definition quote :: "string \<Rightarrow> string" where
  "quote s = [CHR 0x22] @ s @ [CHR 0x22]"

fun show_nat :: "nat \<Rightarrow> string" where
  "show_nat n = (if n < 10 then [char_of (48 + n)] else show_nat (n div 10) @ [char_of (48 + n mod 10)])"

definition show_int :: "int \<Rightarrow> string" where
  "show_int i = (if i < 0 then ''-'' @ show_nat (nat (- i)) else show_nat (nat i))"

declare show_nat.simps [simp del]

section \<open>Time\<close>

text \<open>
  A \<open>time.Time\<close> is its number of nanoseconds since the Unix
  epoch; a \<open>time.Duration\<close> is a signed 64-bit number of
  nanoseconds.  \<open>Sub\<close> saturates at the ends of that range;
  arithmetic on durations wraps around.
\<close>

type_synonym Time = int
type_synonym Duration = int

abbreviation (input) Second :: Duration where
  "Second \<equiv> 1000000000"

abbreviation (input) Minute :: Duration where
  "Minute \<equiv> 60 * Second"

abbreviation (input) Hour :: Duration where
  "Hour \<equiv> 60 * Minute"

definition maxDuration :: Duration where
  "maxDuration = 2 ^ 63 - 1"

definition minDuration :: Duration where
  "minDuration = - (2 ^ 63)"

definition wrap64 :: "int \<Rightarrow> int" where
  "wrap64 x = (x + 2 ^ 63) mod 2 ^ 64 - 2 ^ 63"

definition time_Sub :: "Time \<Rightarrow> Time \<Rightarrow> Duration" where
  "time_Sub t u = max minDuration (min maxDuration (t - u))"

text \<open>The zero \<open>time.Time\<close> (January 1, year 1) and \<open>IsZero\<close> on values and on pointers.\<close>

definition zeroTime :: Time where
  "zeroTime = - 62135596800 * Second"

definition IsZero :: "Time option \<Rightarrow> bool" where
  "IsZero t = (case t of None \<Rightarrow> True | Some x \<Rightarrow> x = zeroTime)"

text \<open>Integer division of Go truncates towards zero.\<close>

definition quot64 :: "int \<Rightarrow> int \<Rightarrow> int" where
  "quot64 a b = sgn a * sgn b * (\<bar>a\<bar> div \<bar>b\<bar>)"

section \<open>Lemmas on runs\<close>

lemma always_ret [always_rules]: "Q x \<Longrightarrow> always Q (ret x)"
  by (simp add: always_def)

lemma always_bind: "always R m \<Longrightarrow> (\<And>a. R a \<Longrightarrow> always Q (f a)) \<Longrightarrow> always Q (State_Monad.bind m f)"
  unfolding always_def by (simp add: split_beta)

lemma always_bind_any [always_rules]: "(\<And>a. always Q (f a)) \<Longrightarrow> always Q (State_Monad.bind m f)"
  by (auto simp: always_def split: prod.splits)

lemma always_provided: "always (provided m) m"
  by (auto simp: always_def provided_def)

lemma always_True [simp]: "always (\<lambda>_. True) m"
  by (simp add: always_def)

lemma alwaysD: "always Q m \<Longrightarrow> run_state m w = (a, w') \<Longrightarrow> Q a"
  unfolding always_def by (metis fst_conv)

lemma always_mono: "always Q m \<Longrightarrow> (\<And>a. Q a \<Longrightarrow> R a) \<Longrightarrow> always R m"
  by (auto simp: always_def)

lemma always_if [always_rules]:
  "(b \<Longrightarrow> always Q m) \<Longrightarrow> (\<not> b \<Longrightarrow> always Q n) \<Longrightarrow> always Q (if b then m else n)"
  by simp

lemma keeps_ret [keeps_rules]: "keeps I (ret x)"
  by (simp add: keeps_def)

lemma keeps_bind [keeps_rules]:
  "keeps I m \<Longrightarrow> (\<And>a. keeps I (f a)) \<Longrightarrow> keeps I (State_Monad.bind m f)"
  unfolding keeps_def by (simp add: split_beta)

lemma keeps_bind_always:
  "always R m \<Longrightarrow> keeps I m \<Longrightarrow> (\<And>a. R a \<Longrightarrow> keeps I (f a)) \<Longrightarrow> keeps I (State_Monad.bind m f)"
  unfolding keeps_def always_def by (simp add: split_beta)

lemma keeps_if [keeps_rules]:
  "(b \<Longrightarrow> keeps I m) \<Longrightarrow> (\<not> b \<Longrightarrow> keeps I n) \<Longrightarrow> keeps I (if b then m else n)"
  by simp

lemma keepsD: "keeps I m \<Longrightarrow> I w \<Longrightarrow> run_state m w = (a, w') \<Longrightarrow> I w'"
  unfolding keeps_def by (metis snd_conv)

lemma keeps_for_each [keeps_rules]: "(\<And>x. x \<in> set xs \<Longrightarrow> keeps I (f x)) \<Longrightarrow> keeps I (for_each f xs)"
  by (induction xs) (auto intro!: keeps_rules split: sum.split)

lemma triple_ret: "(\<And>w. P w \<Longrightarrow> Q x w) \<Longrightarrow> triple P (ret x) Q"
  by (simp add: triple_def)

lemma triple_bind:
  "triple P m R \<Longrightarrow> (\<And>a. triple (R a) (f a) Q) \<Longrightarrow> triple P (State_Monad.bind m f) Q"
  unfolding triple_def by (simp add: split_beta)

lemma triple_weaken:
  "triple P' m Q' \<Longrightarrow> (\<And>w. P w \<Longrightarrow> P' w) \<Longrightarrow> (\<And>a w. Q' a w \<Longrightarrow> Q a w) \<Longrightarrow> triple P m Q"
  by (auto simp: triple_def)

lemma tripleD: "triple P m Q \<Longrightarrow> P w \<Longrightarrow> run_state m w = (a, w') \<Longrightarrow> Q a w'"
  unfolding triple_def by (metis fst_conv snd_conv)

section \<open>Lemmas on strings and time\<close>

lemma Cut_found: "Cut s sep = (a, b, True) \<Longrightarrow> s = a @ sep @ b"
  by (induction s sep arbitrary: a b rule: Cut.induct)
    (auto split: if_splits prod.splits simp: prefix_def)

lemma Cut_missing: "Cut s sep = (a, b, False) \<Longrightarrow> a = s \<and> b = [] \<and> \<not> sublist sep s"
  by (induction s sep arbitrary: a b rule: Cut.induct)
    (auto split: if_splits prod.splits simp: sublist_Cons_right)

lemma Contains_iff [go_strings]: "Contains s sep \<longleftrightarrow> sublist sep s"
proof (cases "Cut s sep")
  case (fields a b found)
  then show ?thesis
    using Cut_found [of s sep a b] Cut_missing [of s sep a b]
    by (cases found) (auto simp: Contains_def sublist_appendI)
qed

text \<open>A separator that overlaps the text before it only at its own place is found there.\<close>

lemma Cut_at: "\<not> sublist sep (a @ butlast sep) \<Longrightarrow> sep \<noteq> [] \<Longrightarrow> Cut (a @ sep @ b) sep = (a, b, True)"
proof (induction a)
  case Nil
  then show ?case by (cases sep) auto
next
  case (Cons c a)
  have no: "\<not> prefix sep (c # a @ sep @ b)"
  proof
    assume p: "prefix sep (c # a @ sep @ b)"
    have "prefix (c # a @ butlast sep) (c # a @ sep @ b)"
      using Cons.prems(2) by simp (metis append.assoc append_butlast_last_id prefixI)
    moreover have "length sep \<le> length (c # a @ butlast sep)" by simp
    ultimately have "prefix sep (c # a @ butlast sep)"
      by (rule prefix_length_prefix [OF p])
    with Cons.prems(1) show False by (auto intro: prefix_imp_sublist)
  qed
  from Cons.prems have "\<not> sublist sep (a @ butlast sep)" by (simp add: sublist_Cons_right)
  with Cons.IH Cons.prems(2) no show ?case by simp
qed

lemma prefix_butlast: "xs \<noteq> [] \<Longrightarrow> prefix (a @ butlast xs) (a @ xs @ b)"
  by (metis append.assoc append_butlast_last_id prefixI)

lemma Cut_first: "Cut s sep = (a, b, True) \<Longrightarrow> sep \<noteq> [] \<Longrightarrow> \<not> sublist sep (a @ butlast sep)"
proof (induction s sep arbitrary: a b rule: Cut.induct)
  case (2 c cs sep)
  show ?case
  proof (cases "prefix sep (c # cs)")
    case True
    then show ?thesis
      using 2 sublist_length_le [of sep "butlast sep"] by (cases sep) auto
  next
    case False
    with "2.prems"(1) obtain a' where a': "a = c # a'" "Cut cs sep = (a', b, True)"
      by (auto split: prod.splits)
    with 2 False have "\<not> sublist sep (a' @ butlast sep)" by blast
    moreover have "prefix (c # a' @ butlast sep) (c # cs)"
      using Cut_found [OF a'(2)] prefix_butlast [OF "2.prems"(2)] by simp
    then have "\<not> prefix sep (c # a' @ butlast sep)"
      using False prefix_order.trans by blast
    ultimately show ?thesis by (simp add: a'(1) sublist_Cons_right)
  qed
qed auto

text \<open>The whole meaning of \<open>strings.Cut\<close> when the separator occurs.\<close>

lemma Cut_iff [go_strings]:
  "sep \<noteq> [] \<Longrightarrow> Cut s sep = (a, b, True) \<longleftrightarrow> s = a @ sep @ b \<and> \<not> sublist sep (a @ butlast sep)"
  by (auto simp: Cut_at dest: Cut_found Cut_first)

lemma Cut_missing_iff [go_strings]: "Cut s sep = (a, b, False) \<longleftrightarrow> a = s \<and> b = [] \<and> \<not> sublist sep s"
proof
  assume "a = s \<and> b = [] \<and> \<not> sublist sep s"
  then show "Cut s sep = (a, b, False)"
    using Cut_found [of s sep] Cut_missing [of s sep]
    by (cases "Cut s sep"; cases "snd (snd (Cut s sep))") (auto intro: sublist_appendI)
qed (rule Cut_missing)

lemma TrimSpace_id:
  "s \<noteq> [] \<Longrightarrow> \<not> is_space (hd s) \<Longrightarrow> \<not> is_space (last s) \<Longrightarrow> TrimSpace s = s"
proof -
  assume s: "s \<noteq> []" "\<not> is_space (hd s)" "\<not> is_space (last s)"
  then have "dropWhile is_space s = s" by (simp add: dropWhile_eq_self_iff)
  moreover from s have "dropWhile is_space (rev s) = rev s" by (simp add: dropWhile_eq_self_iff hd_rev)
  ultimately show ?thesis by (simp add: TrimSpace_def)
qed

lemma string_less_irrefl [simp]: "\<not> string_less s s"
  by (induction s) auto

lemma string_less_asym: "string_less s t \<Longrightarrow> \<not> string_less t s"
  by (induction s t rule: string_less.induct) auto

lemma string_less_trans: "string_less s t \<Longrightarrow> string_less t u \<Longrightarrow> string_less s u"
proof (induction s t arbitrary: u rule: string_less.induct)
  case (3 x xs y ys)
  then show ?case by (cases u) auto
next
  case (2 y ys)
  then show ?case by (cases u) auto
qed auto

lemma string_less_total: "s \<noteq> t \<Longrightarrow> string_less s t \<or> string_less t s"
proof (induction s t rule: string_less.induct)
  case (1 xs)
  then show ?case by (cases xs) auto
next
  case (3 x xs y ys)
  have "x \<noteq> y \<Longrightarrow> (of_char x :: nat) < of_char y \<or> (of_char y :: nat) < of_char x"
    by (metis linorder_neqE_nat of_char_eq_iff)
  then show ?case using 3 by (cases "x = y") auto
qed auto

lemma wrap64_id: "minDuration \<le> x \<Longrightarrow> x \<le> maxDuration \<Longrightarrow> wrap64 x = x"
  by (simp add: wrap64_def minDuration_def maxDuration_def)

lemma wrap64_range: "minDuration \<le> wrap64 x \<and> wrap64 x \<le> maxDuration"
proof -
  have "0 \<le> (x + 2 ^ 63) mod 2 ^ 64" "(x + 2 ^ 63) mod 2 ^ 64 < 2 ^ 64"
    by (simp_all add: pos_mod_bound)
  then show ?thesis by (simp add: wrap64_def minDuration_def maxDuration_def)
qed

lemma time_Sub_range: "minDuration \<le> time_Sub t u \<and> time_Sub t u \<le> maxDuration"
  by (simp add: time_Sub_def minDuration_def maxDuration_def)

end
