(* ===== verification/Kube_Types.thy ===== *)
theory Kube_Types
  imports KP_Prelude "HOL-Library.AList"
begin

text \<open>
  The Kubernetes API types (\<open>metav1\<close>, \<open>corev1\<close>,
  \<open>networkingv1\<close>, \<open>rbacv1\<close>, \<open>discoveryv1\<close>)
  as far as kubepark reads or writes their fields.  They come from the
  Kubernetes libraries, not from kubepark; the records here are the carriers
  the models of the kubepark sources work on.  A Go map is an association
  list, a nil slice is the empty list, a pointer is an option, an opaque
  library value (a resource quantity) is its serialized text.
\<close>

type_synonym smap = "(string \<times> string) list"
type_synonym bytes = string
type_synonym Quantity = string

text \<open>\<open>types.NamespacedName\<close> as the pair (namespace, name).\<close>

type_synonym NamespacedName = "string \<times> string"

record OwnerReference =
  or_UID :: string
  or_Name :: string
  or_Controller :: bool

record ObjectMeta =
  om_Name :: string
  om_Namespace :: string
  om_UID :: string
  om_ResourceVersion :: string
  om_Generation :: int
  om_CreationTimestamp :: Time
  om_DeletionTimestamp :: "Time option"
  om_Finalizers :: "string list"
  om_Labels :: smap
  om_Annotations :: smap
  om_OwnerReferences :: "OwnerReference list"

text \<open>The zero value, from which the composite literals of the sources are built.\<close>

definition emptyMeta :: ObjectMeta where
  "emptyMeta = \<lparr>om_Name = [], om_Namespace = [], om_UID = [], om_ResourceVersion = [],
     om_Generation = 0, om_CreationTimestamp = zeroTime, om_DeletionTimestamp = None,
     om_Finalizers = [], om_Labels = [], om_Annotations = [], om_OwnerReferences = []\<rparr>"

definition key_of :: "ObjectMeta \<Rightarrow> NamespacedName" where
  "key_of m = (om_Namespace m, om_Name m)"

definition deleting :: "ObjectMeta \<Rightarrow> bool" where
  "deleting m \<longleftrightarrow> \<not> IsZero (om_DeletionTimestamp m)"

datatype ConditionStatus = ConditionTrue | ConditionFalse | ConditionUnknown

record Condition =
  cd_Type :: string
  cd_Status :: ConditionStatus
  cd_Reason :: string
  cd_Message :: string
  cd_ObservedGeneration :: int

text \<open>\<open>ctrl.Result\<close>; \<open>noRequeue\<close> is \<open>ctrl.Result{}\<close>.\<close>

record Result =
  RequeueAfter :: Duration

definition noRequeue :: Result where
  "noRequeue = \<lparr>RequeueAfter = 0\<rparr>"

section \<open>Pods and volumes\<close>

datatype PodPhase = PodPending | PodRunning | PodSucceeded | PodFailed | PodUnknown | PodPhaseOther string

datatype Protocol = ProtocolTCP | ProtocolUDP | ProtocolSCTP

datatype RestartPolicy = RestartPolicyAlways | RestartPolicyOnFailure | RestartPolicyNever

datatype SeccompProfileType = SeccompRuntimeDefault | SeccompUnconfined | SeccompLocalhost string

record PodCondition =
  pc_Type :: string
  pc_Status :: ConditionStatus
  pc_Message :: string

record EnvVar =
  ev_Name :: string
  ev_Value :: string

record ContainerPort =
  cp_Name :: string
  cp_ContainerPort :: int
  cp_Protocol :: Protocol

record SecurityContext =
  sc_AllowPrivilegeEscalation :: "bool option"
  sc_DropCapabilities :: "string list"

record VolumeMount =
  vm_Name :: string
  vm_MountPath :: string
  vm_ReadOnly :: bool

record Container =
  ct_Name :: string
  ct_Image :: string
  ct_Command :: "string list"
  ct_Args :: "string list"
  ct_Env :: "EnvVar list"
  ct_Ports :: "ContainerPort list"
  ct_Resources :: string
  ct_SecurityContext :: "SecurityContext option"
  ct_VolumeMounts :: "VolumeMount list"

datatype VolumeSource =
    VolumePVC string
  | VolumeEmptyDir
  | VolumeSecret string "int option"

record Volume =
  vol_Name :: string
  vol_Source :: VolumeSource

record PodSecurityContext =
  psc_RunAsNonRoot :: "bool option"
  psc_RunAsUser :: "int option"
  psc_FSGroup :: "int option"
  psc_SeccompProfile :: "SeccompProfileType option"

record PodSpec =
  ps_RestartPolicy :: RestartPolicy
  ps_Hostname :: string
  ps_ServiceAccountName :: string
  ps_AutomountServiceAccountToken :: "bool option"
  ps_TerminationGracePeriodSeconds :: "int option"
  ps_SecurityContext :: "PodSecurityContext option"
  ps_InitContainers :: "Container list"
  ps_Containers :: "Container list"
  ps_Volumes :: "Volume list"
  ps_PriorityClassName :: string
  ps_RuntimeClassName :: "string option"

record PodStatus =
  pst_Phase :: PodPhase
  pst_Conditions :: "PodCondition list"
  pst_PodIP :: string

record Pod =
  pod_meta :: ObjectMeta
  pod_spec :: PodSpec
  pod_status :: PodStatus

text \<open>The status of a pod that was just created.\<close>

definition emptyPodStatus :: PodStatus where
  "emptyPodStatus = \<lparr>pst_Phase = PodPhaseOther [], pst_Conditions = [], pst_PodIP = []\<rparr>"

record PersistentVolumeClaim =
  pvc_meta :: ObjectMeta
  pvc_AccessModes :: "string list"
  pvc_StorageClassName :: "string option"
  pvc_StorageRequest :: Quantity

record Secret =
  sec_meta :: ObjectMeta
  sec_Data :: "(string \<times> bytes) list"

text \<open>Reading a missing key of a Go map yields the zero value.\<close>

definition map_get :: "(string \<times> 'a list) list \<Rightarrow> string \<Rightarrow> 'a list" where
  "map_get m k = (case map_of m k of None \<Rightarrow> [] | Some v \<Rightarrow> v)"

section \<open>Network policies and endpoint slices\<close>

record LabelSelectorRequirement =
  lsr_Key :: string
  lsr_Operator :: string
  lsr_Values :: "string list"

record LabelSelector =
  ls_MatchLabels :: smap
  ls_MatchExpressions :: "LabelSelectorRequirement list"

abbreviation matchLabels :: "smap \<Rightarrow> LabelSelector" where
  "matchLabels m \<equiv> \<lparr>ls_MatchLabels = m, ls_MatchExpressions = []\<rparr>"

record IPBlock =
  ib_CIDR :: string
  ib_Except :: "string list"

record NetworkPolicyPeer =
  npp_PodSelector :: "LabelSelector option"
  npp_NamespaceSelector :: "LabelSelector option"
  npp_IPBlock :: "IPBlock option"

datatype IntOrString = FromInt32 int | FromString string

record NetworkPolicyPort =
  nport_Protocol :: "Protocol option"
  nport_Port :: "IntOrString option"
  nport_EndPort :: "int option"

record NetworkPolicyEgressRule =
  er_To :: "NetworkPolicyPeer list"
  er_Ports :: "NetworkPolicyPort list"

record NetworkPolicyIngressRule =
  ir_From :: "NetworkPolicyPeer list"
  ir_Ports :: "NetworkPolicyPort list"

datatype PolicyType = PolicyTypeIngress | PolicyTypeEgress

record NetworkPolicySpec =
  nps_PodSelector :: LabelSelector
  nps_PolicyTypes :: "PolicyType list"
  nps_Ingress :: "NetworkPolicyIngressRule list"
  nps_Egress :: "NetworkPolicyEgressRule list"

record NetworkPolicy =
  np_meta :: ObjectMeta
  np_spec :: NetworkPolicySpec

record Endpoint =
  ep_Addresses :: "string list"
  ep_Ready :: "bool option"

record EndpointSlice =
  es_meta :: ObjectMeta
  es_Endpoints :: "Endpoint list"
  es_Ports :: "int option list"

section \<open>RBAC\<close>

record ServiceAccount =
  sa_meta :: ObjectMeta

record PolicyRule =
  pr_Verbs :: "string list"
  pr_APIGroups :: "string list"
  pr_Resources :: "string list"
  pr_ResourceNames :: "string list"
  pr_NonResourceURLs :: "string list"

record Role =
  role_meta :: ObjectMeta
  role_Rules :: "PolicyRule list"

record RoleRef =
  rr_APIGroup :: string
  rr_Kind :: string
  rr_Name :: string

record Subject =
  sj_Kind :: string
  sj_Name :: string
  sj_Namespace :: string

record RoleBinding =
  rb_meta :: ObjectMeta
  rb_RoleRef :: RoleRef
  rb_Subjects :: "Subject list"

record KNamespace =
  ns_meta :: ObjectMeta

end
