(* ===== verification/Api_Types.thy ===== *)
theory Api_Types
  imports Kube_Types
begin

text \<open>
  The custom resources of \<open>api/v1alpha1\<close>: \<open>Sandbox\<close>,
  \<open>SandboxTemplate\<close>, \<open>AccessProfile\<close> and
  \<open>SandboxSession\<close>, with the constants of their enumerations and
  the admission rules their kubebuilder markers declare.  A Go string
  enumeration is a datatype with one constructor per constant and one for any
  other text, the empty string included.
\<close>

section \<open>Sandbox (sandbox_types.go)\<close>

datatype DesiredState = DesiredStateRunning | DesiredStateStopped | DesiredStateOther string

datatype AuthMode = AuthModeOIDC | AuthModeNone | AuthModeOther string

datatype RetainPolicy = RetainPolicyRetain | RetainPolicyDelete | RetainPolicyOther string

record OwnerSpec =
  own_Name :: string
  own_Groups :: "string list"

record ExposedPort =
  xp_Name :: string
  xp_Port :: int
  xp_Auth :: AuthMode
  xp_AllowedUsers :: "string list"
  xp_AllowedGroups :: "string list"

record HomeSpec =
  hs_Size :: "Quantity option"
  hs_StorageClassName :: "string option"
  hs_ExistingClaim :: string
  hs_RetainPolicy :: RetainPolicy

record SandboxSpec =
  sp_Template :: string
  sp_AccessProfile :: string
  sp_Owner :: OwnerSpec
  sp_DesiredState :: DesiredState
  sp_IdleTimeout :: "Duration option"
  sp_ExposedPorts :: "ExposedPort list"
  sp_Home :: "HomeSpec option"

datatype SandboxPhase =
    SandboxPhasePending
  | SandboxPhaseProvisioning
  | SandboxPhaseRunning
  | SandboxPhaseSuspending
  | SandboxPhaseSuspended
  | SandboxPhaseResuming
  | SandboxPhaseFailed
  | SandboxPhaseTerminating
  | SandboxPhaseOther string

definition ConditionReady :: string where "ConditionReady = ''Ready''"
definition ConditionPodReady :: string where "ConditionPodReady = ''PodReady''"
definition ConditionHomeReady :: string where "ConditionHomeReady = ''HomeReady''"
definition ConditionRBACReady :: string where "ConditionRBACReady = ''RBACReady''"
definition ConditionTemplateOutdated :: string where "ConditionTemplateOutdated = ''TemplateOutdated''"

definition ReasonInvalidRef :: string where "ReasonInvalidRef = ''InvalidRef''"
definition ReasonClaimInUse :: string where "ReasonClaimInUse = ''ClaimInUse''"
definition ReasonProfileNotPermitted :: string where "ReasonProfileNotPermitted = ''ProfileNotPermitted''"
definition ReasonProfileDeleted :: string where "ReasonProfileDeleted = ''ProfileDeleted''"
definition ReasonProvisioning :: string where "ReasonProvisioning = ''Provisioning''"
definition ReasonSuspended :: string where "ReasonSuspended = ''Suspended''"
definition ReasonRunning :: string where "ReasonRunning = ''Running''"
definition ReasonUpToDate :: string where "ReasonUpToDate = ''UpToDate''"
definition ReasonOutdated :: string where "ReasonOutdated = ''Outdated''"

record SandboxStatus =
  ss_Phase :: SandboxPhase
  ss_Conditions :: "Condition list"
  ss_PodName :: string
  ss_PVCName :: string
  ss_ServiceAccountName :: string
  ss_PodIP :: string
  ss_TemplateHash :: string
  ss_LastActivityTime :: "Time option"
  ss_ActiveSessions :: int
  ss_ObservedGeneration :: int

record Sandbox =
  sb_meta :: ObjectMeta
  sb_spec :: SandboxSpec
  sb_status :: SandboxStatus

abbreviation sb_Name :: "Sandbox \<Rightarrow> string" where "sb_Name sb \<equiv> om_Name (sb_meta sb)"
abbreviation sb_Namespace :: "Sandbox \<Rightarrow> string" where "sb_Namespace sb \<equiv> om_Namespace (sb_meta sb)"
abbreviation sb_UID :: "Sandbox \<Rightarrow> string" where "sb_UID sb \<equiv> om_UID (sb_meta sb)"

section \<open>SandboxTemplate (sandboxtemplate_types.go)\<close>

datatype IsolationLevel = IsolationStandard | IsolationStrong | IsolationOther string

record EgressRule =
  eg_To :: "NetworkPolicyPeer list"
  eg_Ports :: "NetworkPolicyPort list"

record SandboxTemplateSpec =
  ts_Image :: string
  ts_Command :: "string list"
  ts_Env :: "EnvVar list"
  ts_Resources :: string
  ts_IsolationLevel :: IsolationLevel
  ts_RuntimeClassName :: "string option"
  ts_HomeSize :: Quantity
  ts_StorageClassName :: "string option"
  ts_Egress :: "EgressRule list"
  ts_DefaultIdleTimeout :: "Duration option"
  ts_RunAsUser :: "int option"

record SandboxTemplate =
  tpl_meta :: ObjectMeta
  tpl_spec :: SandboxTemplateSpec

section \<open>AccessProfile (accessprofile_types.go)\<close>

record NamespacedGrant =
  gr_Namespaces :: "string list"
  gr_Rules :: "PolicyRule list"

record AccessProfileSpec =
  aps_Grants :: "NamespacedGrant list"
  aps_AllowedNamespaces :: "string list"

definition ConditionValid :: string where "ConditionValid = ''Valid''"
definition ReasonValid :: string where "ReasonValid = ''Valid''"
definition ReasonMissingNamespace :: string where "ReasonMissingNamespace = ''MissingNamespace''"

record AccessProfileStatus =
  apst_Conditions :: "Condition list"
  apst_ObservedGeneration :: int

record AccessProfile =
  ap_meta :: ObjectMeta
  ap_spec :: AccessProfileSpec
  ap_status :: AccessProfileStatus

abbreviation ap_Name :: "AccessProfile \<Rightarrow> string" where "ap_Name p \<equiv> om_Name (ap_meta p)"

section \<open>SandboxSession (sandboxsession_types.go)\<close>

datatype SessionKind = SessionKindSSH | SessionKindHTTP

datatype SessionState = SessionStateActive | SessionStateClosed | SessionStateOther string

definition ExitReasonDisconnected :: string where "ExitReasonDisconnected = ''Disconnected''"
definition ExitReasonStaleHeartbeat :: string where "ExitReasonStaleHeartbeat = ''StaleHeartbeat''"
definition ExitReasonSandboxDeleted :: string where "ExitReasonSandboxDeleted = ''SandboxDeleted''"

record SandboxSessionSpec =
  sx_SandboxName :: string
  sx_User :: string
  sx_ClientAddr :: string
  sx_Kind :: SessionKind
  sx_CertSerial :: string
  sx_HeartbeatInterval :: "Duration option"

record SandboxSessionStatus =
  st_State :: SessionState
  st_StartTime :: "Time option"
  st_LastActivityTime :: "Time option"
  st_EndTime :: "Time option"
  st_ExitReason :: string

record SandboxSession =
  ses_meta :: ObjectMeta
  ses_spec :: SandboxSessionSpec
  ses_status :: SandboxSessionStatus

text \<open>The zero status of a session that the gateway has just built.\<close>

definition emptySessionStatus :: SandboxSessionStatus where
  "emptySessionStatus = \<lparr>st_State = SessionStateOther [], st_StartTime = None,
     st_LastActivityTime = None, st_EndTime = None, st_ExitReason = []\<rparr>"

section \<open>Admission rules\<close>

text \<open>
  The \<open>+kubebuilder:validation\<close> markers become the CRD schemas the
  API server enforces.  The predicates below are those rules; properties that
  rely on admission name them as hypotheses.
\<close>

definition is_lower :: "char \<Rightarrow> bool" where
  "is_lower c \<longleftrightarrow> (let n = of_char c :: nat in 97 \<le> n \<and> n \<le> 122)"

definition is_lower_digit :: "char \<Rightarrow> bool" where
  "is_lower_digit c \<longleftrightarrow> (let n = of_char c :: nat in (97 \<le> n \<and> n \<le> 122) \<or> (48 \<le> n \<and> n \<le> 57))"

text \<open>The pattern \<open>^[a-z]([-a-z0-9]*[a-z0-9])?$\<close>.\<close>

definition port_name_pattern :: "string \<Rightarrow> bool" where
  "port_name_pattern s \<longleftrightarrow>
     s \<noteq> [] \<and> is_lower (hd s) \<and> is_lower_digit (last s) \<and>
     list_all (\<lambda>c. c = CHR ''-'' \<or> is_lower_digit c) s"

definition validExposedPort :: "ExposedPort \<Rightarrow> bool" where
  "validExposedPort p \<longleftrightarrow>
     length (xp_Name p) \<le> 15 \<and> port_name_pattern (xp_Name p) \<and> \<not> Contains (xp_Name p) ''--'' \<and>
     1 \<le> xp_Port p \<and> xp_Port p \<le> 65535 \<and> xp_Auth p \<in> {AuthModeOIDC, AuthModeNone}"

definition validHome :: "HomeSpec \<Rightarrow> bool" where
  "validHome h \<longleftrightarrow> \<not> (hs_ExistingClaim h \<noteq> [] \<and> hs_RetainPolicy h = RetainPolicyDelete)"

definition validSandboxSpec :: "SandboxSpec \<Rightarrow> bool" where
  "validSandboxSpec s \<longleftrightarrow>
     sp_Template s \<noteq> [] \<and> own_Name (sp_Owner s) \<noteq> [] \<and>
     sp_DesiredState s \<in> {DesiredStateRunning, DesiredStateStopped} \<and>
     list_all validExposedPort (sp_ExposedPorts s) \<and> distinct (map xp_Name (sp_ExposedPorts s)) \<and>
     (case sp_Home s of None \<Rightarrow> True | Some h \<Rightarrow> validHome h)"

definition validSandbox :: "Sandbox \<Rightarrow> bool" where
  "validSandbox sb \<longleftrightarrow>
     \<not> Contains (sb_Name sb) ''--'' \<and> length (sb_Name sb) \<le> 30 \<and> validSandboxSpec (sb_spec sb)"

definition validTemplateSpec :: "SandboxTemplateSpec \<Rightarrow> bool" where
  "validTemplateSpec t \<longleftrightarrow>
     ts_Image t \<noteq> [] \<and>
     (ts_IsolationLevel t = IsolationStrong \<longrightarrow> (\<exists>c. ts_RuntimeClassName t = Some c \<and> c \<noteq> [])) \<and>
     (case ts_RunAsUser t of None \<Rightarrow> True | Some u \<Rightarrow> 1 \<le> u)"

end
