(* ===== verification/Kube_Client.thy ===== *)
theory Kube_Client
  imports Api_Types
begin

text \<open>
  The outside of kubepark: the Kubernetes API server behind a
  controller-runtime \<open>client.Client\<close>, the clock, and the helper
  functions of the Kubernetes libraries.  None of this code is part of the
  repository, so none of it is defined here: it is a parameter of every model
  that calls it.  A client call may change the world in any way, which covers
  faults and the writes of other actors between two calls.

  \<open>audit\<close> wraps a client so that every call is recorded; statements
  about which calls a handler makes are statements about its run on a wrapped
  client.
\<close>

section \<open>The client\<close>

datatype ListOption =
    InNamespace string
  | MatchingFields string string
  | MatchingLabels string string

record ('o, 'w) kind_client =
  kc_Get :: "NamespacedName \<Rightarrow> ('w, 'o res) state"
  kc_List :: "ListOption list \<Rightarrow> ('w, 'o list res) state"
  kc_Create :: "'o \<Rightarrow> ('w, 'o res) state"
  kc_Update :: "'o \<Rightarrow> ('w, 'o res) state"
  kc_StatusUpdate :: "'o \<Rightarrow> ('w, 'o res) state"
  kc_Patch :: "'o \<Rightarrow> 'o \<Rightarrow> ('w, 'o res) state"
  kc_StatusPatch :: "'o \<Rightarrow> 'o \<Rightarrow> ('w, 'o res) state"
  kc_Delete :: "NamespacedName \<Rightarrow> ('w, unit res) state"

record 'w kube =
  k_Sandboxes :: "(Sandbox, 'w) kind_client"
  k_Templates :: "(SandboxTemplate, 'w) kind_client"
  k_Profiles :: "(AccessProfile, 'w) kind_client"
  k_Sessions :: "(SandboxSession, 'w) kind_client"
  k_Pods :: "(Pod, 'w) kind_client"
  k_PVCs :: "(PersistentVolumeClaim, 'w) kind_client"
  k_Secrets :: "(Secret, 'w) kind_client"
  k_NetPols :: "(NetworkPolicy, 'w) kind_client"
  k_ServiceAccounts :: "(ServiceAccount, 'w) kind_client"
  k_Roles :: "(Role, 'w) kind_client"
  k_RoleBindings :: "(RoleBinding, 'w) kind_client"
  k_Namespaces :: "(KNamespace, 'w) kind_client"
  k_EndpointSlices :: "(EndpointSlice, 'w) kind_client"
  k_Now :: "('w, Time) state"

section \<open>Library functions\<close>

record klib =
  SetControllerReference :: "Sandbox \<Rightarrow> ObjectMeta \<Rightarrow> ObjectMeta res"
  SetStatusCondition :: "Condition list \<Rightarrow> Condition \<Rightarrow> Condition list"
  ContainsFinalizer :: "ObjectMeta \<Rightarrow> string \<Rightarrow> bool"
  AddFinalizer :: "ObjectMeta \<Rightarrow> string \<Rightarrow> ObjectMeta"
  RemoveFinalizer :: "ObjectMeta \<Rightarrow> string \<Rightarrow> ObjectMeta"
  equality_Status :: "SandboxStatus \<Rightarrow> SandboxStatus \<Rightarrow> bool"
  equality_NetPolSpec :: "NetworkPolicySpec \<Rightarrow> NetworkPolicySpec \<Rightarrow> bool"
  equality_Subjects :: "Subject list \<Rightarrow> Subject list \<Rightarrow> bool"
  equality_Rules :: "PolicyRule list \<Rightarrow> PolicyRule list \<Rightarrow> bool"

text \<open>The condition of a given type, as \<open>meta.FindStatusCondition\<close> reads it.\<close>

definition condition_of :: "Condition list \<Rightarrow> string \<Rightarrow> Condition option" where
  "condition_of cs ty = find (\<lambda>c. cd_Type c = ty) cs"

section \<open>The audited client\<close>

datatype Verb = VGet | VList | VCreate | VUpdate | VStatusUpdate | VPatch | VStatusPatch | VDelete

datatype Kind =
    KSandbox | KSandboxTemplate | KAccessProfile | KSandboxSession | KPod | KPersistentVolumeClaim
  | KSecret | KNetworkPolicy | KServiceAccount | KRole | KRoleBinding | KNamespaceKind | KEndpointSlice

text \<open>A recorded call: its verb, kind and object, and the error the server answered, if any.\<close>

datatype Call = Call (call_verb: Verb) (call_kind: Kind) (call_key: NamespacedName) (call_err: "err option")

type_synonym 'w audited = "'w \<times> Call list"

definition is_ok :: "'a res \<Rightarrow> bool" where
  "is_ok r = (case r of Inl _ \<Rightarrow> False | Inr _ \<Rightarrow> True)"

definition err_of :: "'a res \<Rightarrow> err option" where
  "err_of r = (case r of Inl e \<Rightarrow> Some e | Inr _ \<Rightarrow> None)"

definition logged :: "(err option \<Rightarrow> Call) \<Rightarrow> ('w, 'a res) state \<Rightarrow> ('w audited, 'a res) state" where
  "logged k m = State (\<lambda>(w, l). case run_state m w of (r, w') \<Rightarrow> (r, (w', l @ [k (err_of r)])))"

definition unlogged :: "('w, 'a) state \<Rightarrow> ('w audited, 'a) state" where
  "unlogged m = State (\<lambda>(w, l). case run_state m w of (r, w') \<Rightarrow> (r, (w', l)))"

definition audit_kind ::
  "Kind \<Rightarrow> ('o \<Rightarrow> ObjectMeta) \<Rightarrow> ('o, 'w) kind_client \<Rightarrow> ('o, 'w audited) kind_client" where
  "audit_kind k mt kc = \<lparr>
     kc_Get = (\<lambda>n. logged (Call VGet k n) (kc_Get kc n)),
     kc_List = (\<lambda>opts. logged (Call VList k ([], [])) (kc_List kc opts)),
     kc_Create = (\<lambda>x. logged (Call VCreate k (key_of (mt x))) (kc_Create kc x)),
     kc_Update = (\<lambda>x. logged (Call VUpdate k (key_of (mt x))) (kc_Update kc x)),
     kc_StatusUpdate = (\<lambda>x. logged (Call VStatusUpdate k (key_of (mt x))) (kc_StatusUpdate kc x)),
     kc_Patch = (\<lambda>x b. logged (Call VPatch k (key_of (mt x))) (kc_Patch kc x b)),
     kc_StatusPatch = (\<lambda>x b. logged (Call VStatusPatch k (key_of (mt x))) (kc_StatusPatch kc x b)),
     kc_Delete = (\<lambda>n. logged (Call VDelete k n) (kc_Delete kc n))\<rparr>"

definition audit :: "'w kube \<Rightarrow> 'w audited kube" where
  "audit c = \<lparr>
     k_Sandboxes = audit_kind KSandbox sb_meta (k_Sandboxes c),
     k_Templates = audit_kind KSandboxTemplate tpl_meta (k_Templates c),
     k_Profiles = audit_kind KAccessProfile ap_meta (k_Profiles c),
     k_Sessions = audit_kind KSandboxSession ses_meta (k_Sessions c),
     k_Pods = audit_kind KPod pod_meta (k_Pods c),
     k_PVCs = audit_kind KPersistentVolumeClaim pvc_meta (k_PVCs c),
     k_Secrets = audit_kind KSecret sec_meta (k_Secrets c),
     k_NetPols = audit_kind KNetworkPolicy np_meta (k_NetPols c),
     k_ServiceAccounts = audit_kind KServiceAccount sa_meta (k_ServiceAccounts c),
     k_Roles = audit_kind KRole role_meta (k_Roles c),
     k_RoleBindings = audit_kind KRoleBinding rb_meta (k_RoleBindings c),
     k_Namespaces = audit_kind KNamespaceKind ns_meta (k_Namespaces c),
     k_EndpointSlices = audit_kind KEndpointSlice es_meta (k_EndpointSlices c),
     k_Now = unlogged (k_Now c)\<rparr>"

text \<open>Every call recorded so far satisfies \<open>P\<close>.\<close>

definition calls_all :: "(Call \<Rightarrow> bool) \<Rightarrow> 'w audited \<Rightarrow> bool" where
  "calls_all P = (\<lambda>(w, l). list_all P l)"

text \<open>The calls a handler makes when it is started with an empty record.\<close>

definition calls :: "('w audited, 'a) state \<Rightarrow> 'w \<Rightarrow> Call list" where
  "calls m w = snd (snd (run_state m (w, [])))"

section \<open>Lemmas on audited runs\<close>

lemma audit_sel [simp]:
  "k_Sandboxes (audit c) = audit_kind KSandbox sb_meta (k_Sandboxes c)"
  "k_Templates (audit c) = audit_kind KSandboxTemplate tpl_meta (k_Templates c)"
  "k_Profiles (audit c) = audit_kind KAccessProfile ap_meta (k_Profiles c)"
  "k_Sessions (audit c) = audit_kind KSandboxSession ses_meta (k_Sessions c)"
  "k_Pods (audit c) = audit_kind KPod pod_meta (k_Pods c)"
  "k_PVCs (audit c) = audit_kind KPersistentVolumeClaim pvc_meta (k_PVCs c)"
  "k_Secrets (audit c) = audit_kind KSecret sec_meta (k_Secrets c)"
  "k_NetPols (audit c) = audit_kind KNetworkPolicy np_meta (k_NetPols c)"
  "k_ServiceAccounts (audit c) = audit_kind KServiceAccount sa_meta (k_ServiceAccounts c)"
  "k_Roles (audit c) = audit_kind KRole role_meta (k_Roles c)"
  "k_RoleBindings (audit c) = audit_kind KRoleBinding rb_meta (k_RoleBindings c)"
  "k_Namespaces (audit c) = audit_kind KNamespaceKind ns_meta (k_Namespaces c)"
  "k_EndpointSlices (audit c) = audit_kind KEndpointSlice es_meta (k_EndpointSlices c)"
  "k_Now (audit c) = unlogged (k_Now c)"
  by (simp_all add: audit_def)

lemma audit_kind_sel [simp]:
  "kc_Get (audit_kind k mt kc) n = logged (Call VGet k n) (kc_Get kc n)"
  "kc_List (audit_kind k mt kc) opts = logged (Call VList k ([], [])) (kc_List kc opts)"
  "kc_Create (audit_kind k mt kc) x = logged (Call VCreate k (key_of (mt x))) (kc_Create kc x)"
  "kc_Update (audit_kind k mt kc) x = logged (Call VUpdate k (key_of (mt x))) (kc_Update kc x)"
  "kc_StatusUpdate (audit_kind k mt kc) x =
     logged (Call VStatusUpdate k (key_of (mt x))) (kc_StatusUpdate kc x)"
  "kc_Patch (audit_kind k mt kc) x b = logged (Call VPatch k (key_of (mt x))) (kc_Patch kc x b)"
  "kc_StatusPatch (audit_kind k mt kc) x b =
     logged (Call VStatusPatch k (key_of (mt x))) (kc_StatusPatch kc x b)"
  "kc_Delete (audit_kind k mt kc) n = logged (Call VDelete k n) (kc_Delete kc n)"
  by (simp_all add: audit_kind_def)

lemma keeps_logged [keeps_rules]: "(\<And>ok. P (k ok)) \<Longrightarrow> keeps (calls_all P) (logged k m)"
  by (auto simp: keeps_def calls_all_def logged_def split: prod.splits)

lemma keeps_unlogged [keeps_rules]: "keeps (calls_all P) (unlogged m)"
  by (auto simp: keeps_def calls_all_def unlogged_def split: prod.splits)

lemma calls_allI: "keeps (calls_all P) m \<Longrightarrow> list_all P (calls m w)"
  by (auto simp: keeps_def calls_all_def calls_def split_beta)

text \<open>Splitting rules: a handler that branches keeps an invariant when each branch does.\<close>

lemma keeps_case_sum [keeps_rules]:
  "(\<And>e. r = Inl e \<Longrightarrow> keeps I (f e)) \<Longrightarrow> (\<And>v. r = Inr v \<Longrightarrow> keeps I (g v)) \<Longrightarrow> keeps I (case_sum f g r)"
  by (cases r) auto

lemma keeps_case_option [keeps_rules]:
  "(r = None \<Longrightarrow> keeps I f) \<Longrightarrow> (\<And>v. r = Some v \<Longrightarrow> keeps I (g v)) \<Longrightarrow> keeps I (case_option f g r)"
  by (cases r) auto

lemma keeps_case_prod [keeps_rules]:
  "(\<And>a b. p = (a, b) \<Longrightarrow> keeps I (f a b)) \<Longrightarrow> keeps I (case_prod f p)"
  by (cases p) auto

lemma keeps_Let [keeps_rules]: "keeps I (f x) \<Longrightarrow> keeps I (Let x f)"
  by simp

lemma always_case_sum [always_rules]:
  "(\<And>e. r = Inl e \<Longrightarrow> always Q (f e)) \<Longrightarrow> (\<And>v. r = Inr v \<Longrightarrow> always Q (g v)) \<Longrightarrow> always Q (case_sum f g r)"
  by (cases r) auto

lemma always_case_option [always_rules]:
  "(r = None \<Longrightarrow> always Q f) \<Longrightarrow> (\<And>v. r = Some v \<Longrightarrow> always Q (g v)) \<Longrightarrow> always Q (case_option f g r)"
  by (cases r) auto

lemma always_case_prod [always_rules]:
  "(\<And>a b. p = (a, b) \<Longrightarrow> always Q (f a b)) \<Longrightarrow> always Q (case_prod f p)"
  by (cases p) auto

lemma always_Let [always_rules]: "always Q (f x) \<Longrightarrow> always Q (Let x f)"
  by simp

section \<open>What the library functions promise\<close>

text \<open>
  The documented behaviour of \<open>meta.SetStatusCondition\<close>, of the
  finalizer helpers and owner references of \<open>controllerutil\<close>, and of
  \<open>equality.Semantic.DeepEqual\<close> (nil and empty collections, which
  the latter identifies, are one value in the records here).
\<close>

locale kube_library =
  fixes L :: klib
  assumes set_condition_same: "condition_of (SetStatusCondition L cs c) (cd_Type c) = Some c"
    and set_condition_other: "ty \<noteq> cd_Type c \<Longrightarrow>
      condition_of (SetStatusCondition L cs c) ty = condition_of cs ty"
    and contains_iff: "ContainsFinalizer L m f \<longleftrightarrow> f \<in> set (om_Finalizers m)"
    and add_finalizer: "set (om_Finalizers (AddFinalizer L m f)) = insert f (set (om_Finalizers m))"
    and remove_finalizer: "set (om_Finalizers (RemoveFinalizer L m f)) = set (om_Finalizers m) - {f}"
    and add_key: "key_of (AddFinalizer L m f) = key_of m"
    and remove_key: "key_of (RemoveFinalizer L m f) = key_of m"
    and owner_key: "SetControllerReference L sb m = Inr m' \<Longrightarrow> key_of m' = key_of m"
    and owner_labels: "SetControllerReference L sb m = Inr m' \<Longrightarrow> om_Labels m' = om_Labels m"
    and equality_Status_iff: "equality_Status L s t \<longleftrightarrow> s = t"
    and equality_NetPolSpec_iff: "equality_NetPolSpec L p q \<longleftrightarrow> p = q"
    and equality_Subjects_iff: "equality_Subjects L a b \<longleftrightarrow> a = b"
    and equality_Rules_iff: "equality_Rules L x y \<longleftrightarrow> x = y"
begin

lemmas condition_simps = set_condition_same set_condition_other

text \<open>Setting two conditions of different types leaves both readable.\<close>

lemma condition_of_two:
  assumes "cd_Type c \<noteq> cd_Type d"
  shows "condition_of (SetStatusCondition L (SetStatusCondition L cs c) d) (cd_Type c) = Some c"
  using assms by (simp add: condition_simps)

end

text \<open>
  A reference library that behaves as documented, for evaluating handlers on
  concrete inputs.
\<close>

fun put_condition :: "Condition list \<Rightarrow> Condition \<Rightarrow> Condition list" where
  "put_condition [] c = [c]"
| "put_condition (d # ds) c = (if cd_Type d = cd_Type c then c # ds else d # put_condition ds c)"

definition put_owner :: "Sandbox \<Rightarrow> ObjectMeta \<Rightarrow> ObjectMeta res" where
  "put_owner sb m =
     (if list_ex (\<lambda>o'. or_Controller o' \<and> or_UID o' \<noteq> sb_UID sb) (om_OwnerReferences m)
      then Inl (OtherErr ''already owned by another controller'')
      else Inr (m\<lparr>om_OwnerReferences := [\<lparr>or_UID = sb_UID sb, or_Name = sb_Name sb, or_Controller = True\<rparr>]\<rparr>))"

definition refLib :: klib where
  "refLib = \<lparr>
     SetControllerReference = put_owner,
     SetStatusCondition = put_condition,
     ContainsFinalizer = (\<lambda>m f. f \<in> set (om_Finalizers m)),
     AddFinalizer = (\<lambda>m f. if f \<in> set (om_Finalizers m) then m else m\<lparr>om_Finalizers := om_Finalizers m @ [f]\<rparr>),
     RemoveFinalizer = (\<lambda>m f. m\<lparr>om_Finalizers := filter (\<lambda>g. g \<noteq> f) (om_Finalizers m)\<rparr>),
     equality_Status = (=),
     equality_NetPolSpec = (=),
     equality_Subjects = (=),
     equality_Rules = (=)\<rparr>"

lemma condition_of_put_same: "condition_of (put_condition cs c) (cd_Type c) = Some c"
  by (induction cs c rule: put_condition.induct) (auto simp: condition_of_def)

lemma condition_of_put_other:
  "ty \<noteq> cd_Type c \<Longrightarrow> condition_of (put_condition cs c) ty = condition_of cs ty"
  by (induction cs c rule: put_condition.induct) (auto simp: condition_of_def)

interpretation refLib: kube_library refLib
  by unfold_locales
    (auto simp: refLib_def condition_of_put_same condition_of_put_other put_owner_def key_of_def
       split: if_splits)

end
