(* ===== verification/Sample_Objects.thy ===== *)
theory Sample_Objects
  imports Kube_Client
begin

text \<open>
  A small concrete installation: one template, one access profile, one
  sandbox and a session on it.  The witnesses evaluate the models on these
  objects.
\<close>

definition sampleMeta :: "string \<Rightarrow> string \<Rightarrow> string \<Rightarrow> ObjectMeta" where
  "sampleMeta ns n uid = emptyMeta\<lparr>om_Name := n, om_Namespace := ns, om_UID := uid,
     om_Generation := 1, om_CreationTimestamp := 1000 * Second\<rparr>"

definition sampleTemplate :: SandboxTemplate where
  "sampleTemplate = \<lparr>
     tpl_meta = sampleMeta [] ''ops'' ''t1'',
     tpl_spec = \<lparr>ts_Image = ''ops:1'', ts_Command = [], ts_Env = [], ts_Resources = [],
       ts_IsolationLevel = IsolationStrong, ts_RuntimeClassName = Some ''gvisor'', ts_HomeSize = ''1Gi'',
       ts_StorageClassName = None, ts_Egress = [], ts_DefaultIdleTimeout = Some (30 * Minute),
       ts_RunAsUser = Some 1000\<rparr>\<rparr>"

definition sampleStatus :: SandboxStatus where
  "sampleStatus = \<lparr>ss_Phase = SandboxPhaseOther [], ss_Conditions = [], ss_PodName = [],
     ss_PVCName = [], ss_ServiceAccountName = [], ss_PodIP = [], ss_TemplateHash = [],
     ss_LastActivityTime = None, ss_ActiveSessions = 0, ss_ObservedGeneration = 0\<rparr>"

definition samplePort :: ExposedPort where
  "samplePort = \<lparr>xp_Name = ''web'', xp_Port = 8080, xp_Auth = AuthModeOIDC,
     xp_AllowedUsers = [''bob''], xp_AllowedGroups = [''ops'']\<rparr>"

definition sampleSandbox :: Sandbox where
  "sampleSandbox = \<lparr>
     sb_meta = sampleMeta ''team'' ''dev'' ''u1'',
     sb_spec = \<lparr>sp_Template = ''ops'', sp_AccessProfile = [],
       sp_Owner = \<lparr>own_Name = ''alice'', own_Groups = []\<rparr>, sp_DesiredState = DesiredStateRunning,
       sp_IdleTimeout = None, sp_ExposedPorts = [samplePort], sp_Home = None\<rparr>,
     sb_status = sampleStatus\<rparr>"

definition sampleProfile :: AccessProfile where
  "sampleProfile = \<lparr>
     ap_meta = sampleMeta [] ''reader'' ''p1'',
     ap_spec = \<lparr>aps_Grants = [
         \<lparr>gr_Namespaces = [''a'', ''b''], gr_Rules = []\<rparr>,
         \<lparr>gr_Namespaces = [''b'', ''c''], gr_Rules = []\<rparr>],
       aps_AllowedNamespaces = [''team'']\<rparr>,
     ap_status = \<lparr>apst_Conditions = [], apst_ObservedGeneration = 0\<rparr>\<rparr>"

definition sampleSession :: SandboxSession where
  "sampleSession = \<lparr>
     ses_meta = sampleMeta ''team'' ''dev-1'' ''s1'',
     ses_spec = \<lparr>sx_SandboxName = ''dev'', sx_User = ''alice'', sx_ClientAddr = [],
       sx_Kind = SessionKindSSH, sx_CertSerial = ''7'', sx_HeartbeatInterval = Some Minute\<rparr>,
     ses_status = \<lparr>st_State = SessionStateActive, st_StartTime = Some (2000 * Second),
       st_LastActivityTime = Some (2000 * Second), st_EndTime = None, st_ExitReason = []\<rparr>\<rparr>"

lemmas sample_defs = sampleMeta_def sampleTemplate_def sampleStatus_def samplePort_def
  sampleSandbox_def sampleProfile_def sampleSession_def emptyMeta_def

lemma sampleSandbox_valid: "validSandbox sampleSandbox"
  by (simp add: sample_defs validSandbox_def validSandboxSpec_def validExposedPort_def Contains_def
      port_name_pattern_def is_lower_def is_lower_digit_def)

lemma sampleTemplate_valid: "validTemplateSpec (tpl_spec sampleTemplate)"
  by (simp add: sample_defs validTemplateSpec_def)

end
