(* ===== verification/Ssh_CA.thy ===== *)
theory Ssh_CA
  imports Sample_Objects
begin

text \<open>
  \<open>internal/sshca/sshca.go\<close>, the certificate core shared by gateway and
  agent, and \<open>internal/controller/ca.go\<close>, the Secret with the CA keys.
  The package \<open>golang.org/x/crypto/ssh\<close> is a parameter: the record
  \<open>sshlib\<close> has the calls the sources make and the locale
  \<open>ssh_library\<close> their documented behaviour.
\<close>

section \<open>The SSH library\<close>

text \<open>
  An \<open>ssh.PublicKey\<close> is a plain key or a certificate (the sources
  decide by a type assertion).  A \<open>Signer\<close> is an opaque handle of a
  private key.
\<close>

datatype CertType = UserCert | HostCert | CertTypeOther nat

type_synonym Signer = bytes

datatype PublicKey =
    RawKey bytes
  | CertKey Certificate
and Certificate = Certificate
  (cert_Key: PublicKey)
  (cert_Serial: int)
  (cert_CertType: CertType)
  (cert_KeyId: string)
  (cert_ValidPrincipals: "string list")
  (cert_ValidAfter: int)
  (cert_ValidBefore: int)
  (cert_CriticalOptions: smap)
  (cert_Extensions: smap)
  (cert_SignatureKey: "PublicKey option")
  (cert_Signature: bytes)

text \<open>
  \<open>sl_GenerateKey\<close> and \<open>sl_Read\<close> draw from
  \<open>rand.Reader\<close>, so they are computations; the other functions are pure.
  \<open>sl_CheckCert\<close> is \<open>CertChecker.CheckCert\<close> with the
  checker's authority test and clock.
\<close>

record 'w sshlib =
  sl_GenerateKey :: "('w, (bytes \<times> bytes) res) state"
  sl_Read :: "nat \<Rightarrow> ('w, bytes res) state"
  sl_MarshalPrivateKey :: "bytes \<Rightarrow> string \<Rightarrow> bytes res"
  sl_NewPublicKey :: "bytes \<Rightarrow> PublicKey res"
  sl_MarshalAuthorizedKey :: "PublicKey \<Rightarrow> bytes"
  sl_ParseAuthorizedKey :: "bytes \<Rightarrow> PublicKey res"
  sl_ParsePrivateKey :: "bytes \<Rightarrow> Signer res"
  sl_SignerPublic :: "Signer \<Rightarrow> PublicKey"
  sl_Marshal :: "PublicKey \<Rightarrow> bytes"
  sl_SignCert :: "Certificate \<Rightarrow> Signer \<Rightarrow> ('w, Certificate res) state"
  sl_Verify :: "Certificate \<Rightarrow> bool"
  sl_CheckCert :: "(PublicKey \<Rightarrow> bool) \<Rightarrow> Time \<Rightarrow> string \<Rightarrow> Certificate \<Rightarrow> unit res"

text \<open>Seconds since the epoch, the 64-bit casts, and \<open>ssh.CertTimeInfinity\<close>.\<close>

definition Unix :: "Time \<Rightarrow> int" where
  "Unix t = t div Second"

definition uint64 :: "int \<Rightarrow> int" where
  "uint64 x = x mod 2 ^ 64"

definition CertTimeInfinity :: int where
  "CertTimeInfinity = 2 ^ 64 - 1"

section \<open>sshca.go\<close>

record KeyPair =
  PrivatePEM :: bytes
  PublicAuthorized :: bytes

definition GenerateKeyPair :: "'w sshlib \<Rightarrow> string \<Rightarrow> ('w, KeyPair res) state" where
  "GenerateKeyPair S comment = do {
     gen \<leftarrow> sl_GenerateKey S;
     (case gen of
        Inl e \<Rightarrow> ret (Inl (Wrapped ''generate ed25519 key'' e))
      | Inr (pub, priv) \<Rightarrow>
          (case sl_MarshalPrivateKey S priv comment of
             Inl e \<Rightarrow> ret (Inl (Wrapped ''marshal private key'' e))
           | Inr pem \<Rightarrow>
               (case sl_NewPublicKey S pub of
                  Inl e \<Rightarrow> ret (Inl (Wrapped ''convert public key'' e))
                | Inr sshPub \<Rightarrow> ret (Inr
                    \<lparr>PrivatePEM = pem, PublicAuthorized = sl_MarshalAuthorizedKey S sshPub\<rparr>))))
   }"

definition ParseSigner :: "'w sshlib \<Rightarrow> bytes \<Rightarrow> Signer res" where
  "ParseSigner S privatePEM =
     (case sl_ParsePrivateKey S privatePEM of
        Inl e \<Rightarrow> Inl (Wrapped ''parse private key'' e)
      | Inr signer \<Rightarrow> Inr signer)"

definition ParsePublicKey :: "'w sshlib \<Rightarrow> bytes \<Rightarrow> PublicKey res" where
  "ParsePublicKey S authorized =
     (case sl_ParseAuthorizedKey S authorized of
        Inl e \<Rightarrow> Inl (Wrapped ''parse public key'' e)
      | Inr pub \<Rightarrow> Inr pub)"

text \<open>\<open>binary.BigEndian.Uint64\<close>.\<close>

definition BigEndian_Uint64 :: "bytes \<Rightarrow> int" where
  "BigEndian_Uint64 b = foldl (\<lambda>n c. n * 256 + int (of_char c)) 0 b"

definition NewSerial :: "'w sshlib \<Rightarrow> ('w, int res) state" where
  "NewSerial S = do {
     b \<leftarrow> sl_Read S 8;
     (case b of
        Inl e \<Rightarrow> ret (Inl (Wrapped ''generate serial'' e))
      | Inr bs \<Rightarrow> ret (Inr (BigEndian_Uint64 bs)))
   }"

definition validBefore :: "Time \<Rightarrow> Duration \<Rightarrow> int" where
  "validBefore now validFor =
     (if validFor \<le> 0 then CertTimeInfinity else uint64 (Unix (now + validFor)))"

definition SignHostCert ::
  "'w sshlib \<Rightarrow> Signer \<Rightarrow> PublicKey \<Rightarrow> string list \<Rightarrow> Duration \<Rightarrow> Time \<Rightarrow> ('w, Certificate res) state" where
  "SignHostCert S ca hostPub principals validFor now = do {
     serial \<leftarrow> NewSerial S;
     (case serial of
        Inl e \<Rightarrow> ret (Inl e)
      | Inr n \<Rightarrow>
          (case principals of
             [] \<Rightarrow> ret (Inl (OtherErr ''index out of range''))
           | keyId # _ \<Rightarrow> do {
               signed \<leftarrow> sl_SignCert S (Certificate hostPub n HostCert keyId principals
                 (uint64 (Unix (now - Minute))) (validBefore now validFor) [] [] None []) ca;
               (case signed of
                  Inl e \<Rightarrow> ret (Inl (Wrapped ''sign host certificate'' e))
                | Inr cert \<Rightarrow> ret (Inr cert))
             }))
   }"

definition SignUserCert ::
  "'w sshlib \<Rightarrow> Signer \<Rightarrow> PublicKey \<Rightarrow> string \<Rightarrow> Duration \<Rightarrow> Time \<Rightarrow> ('w, Certificate res) state" where
  "SignUserCert S ca userPub prin validFor now =
     (if prin = []
      then ret (Inl (OtherErr ''refusing to sign a certificate without a principal''))
      else do {
        serial \<leftarrow> NewSerial S;
        (case serial of
           Inl e \<Rightarrow> ret (Inl e)
         | Inr n \<Rightarrow> do {
             signed \<leftarrow> sl_SignCert S (Certificate userPub n UserCert prin [prin]
               (uint64 (Unix (now - Minute))) (validBefore now validFor) []
               [(''permit-pty'', []), (''permit-port-forwarding'', []), (''permit-agent-forwarding'', [])]
               None []) ca;
             (case signed of
                Inl e \<Rightarrow> ret (Inl (Wrapped ''sign user certificate'' e))
              | Inr cert \<Rightarrow> ret (Inr cert))
           })
      })"

definition keysEqual :: "'w sshlib \<Rightarrow> PublicKey option \<Rightarrow> PublicKey option \<Rightarrow> bool" where
  "keysEqual S a b =
     (case (a, b) of
        (Some x, Some y) \<Rightarrow> sl_Marshal S x = sl_Marshal S y
      | _ \<Rightarrow> False)"

fun certTypeNumber :: "CertType \<Rightarrow> nat" where
  "certTypeNumber UserCert = 1"
| "certTypeNumber HostCert = 2"
| "certTypeNumber (CertTypeOther n) = n"

definition CheckUserCert ::
  "'w sshlib \<Rightarrow> Certificate option \<Rightarrow> PublicKey option \<Rightarrow> string \<Rightarrow> Time \<Rightarrow> unit res" where
  "CheckUserCert S cert caPub prin now =
     (case cert of
        None \<Rightarrow> Inl (OtherErr ''no certificate presented'')
      | Some c \<Rightarrow>
          if cert_CertType c \<noteq> UserCert
          then Inl (OtherErr (''certificate is not a user certificate (type '' @
            show_nat (certTypeNumber (cert_CertType c)) @ '')''))
          else if length (cert_ValidPrincipals c) = 0
          then Inl (OtherErr ''certificate has no principals'')
          else if \<not> keysEqual S (cert_SignatureKey c) caPub
          then Inl (OtherErr ''certificate not signed by the expected CA'')
          else (case sl_CheckCert S (\<lambda>auth. keysEqual S (Some auth) caPub) now prin c of
            Inl e \<Rightarrow> Inl (Wrapped ''certificate check failed'' e)
          | Inr _ \<Rightarrow> Inr ()))"

text \<open>\<open>internal/controller/util.go\<close>.\<close>

definition marshalCert :: "'w sshlib \<Rightarrow> Certificate \<Rightarrow> bytes" where
  "marshalCert S cert = sl_MarshalAuthorizedKey S (CertKey cert)"

section \<open>ca.go\<close>

definition CASecretName :: string where "CASecretName = ''kubepark-ca''"
definition KeyUserCAPrivate :: string where "KeyUserCAPrivate = ''user-ca.key''"
definition KeyUserCAPublic :: string where "KeyUserCAPublic = ''user-ca.pub''"
definition KeyHostCAPrivate :: string where "KeyHostCAPrivate = ''host-ca.key''"
definition KeyHostCAPublic :: string where "KeyHostCAPublic = ''host-ca.pub''"
definition KeyCookieHMAC :: string where "KeyCookieHMAC = ''cookie-hmac''"

text \<open>The argument is the value of the environment variable \<open>POD_NAMESPACE\<close>.\<close>

definition OperatorNamespace :: "string \<Rightarrow> string" where
  "OperatorNamespace podNamespace = (if podNamespace \<noteq> [] then podNamespace else ''kubepark-system'')"

definition caSecret :: "string \<Rightarrow> KeyPair \<Rightarrow> KeyPair \<Rightarrow> bytes \<Rightarrow> Secret" where
  "caSecret namespace userCA hostCA hmacKey = \<lparr>
     sec_meta = emptyMeta\<lparr>om_Name := CASecretName, om_Namespace := namespace,
       om_Labels := [(''app.kubernetes.io/managed-by'', ''kubepark'')]\<rparr>,
     sec_Data = [
       (KeyUserCAPrivate, PrivatePEM userCA),
       (KeyUserCAPublic, PublicAuthorized userCA),
       (KeyHostCAPrivate, PrivatePEM hostCA),
       (KeyHostCAPublic, PublicAuthorized hostCA),
       (KeyCookieHMAC, hmacKey)]\<rparr>"

definition EnsureCASecret :: "'w sshlib \<Rightarrow> 'w kube \<Rightarrow> string \<Rightarrow> ('w, Secret res) state" where
  "EnsureCASecret S c namespace = do {
     got \<leftarrow> kc_Get (k_Secrets c) (namespace, CASecretName);
     (case got of
        Inr secret \<Rightarrow> ret (Inr secret)
      | Inl e \<Rightarrow>
          if \<not> IsNotFound e then ret (Inl (Wrapped ''get CA secret'' e))
          else do {
            userCA \<leftarrow> GenerateKeyPair S ''kubepark-user-ca'';
            (case userCA of
               Inl e \<Rightarrow> ret (Inl e)
             | Inr userCA \<Rightarrow> do {
                 hostCA \<leftarrow> GenerateKeyPair S ''kubepark-host-ca'';
                 (case hostCA of
                    Inl e \<Rightarrow> ret (Inl e)
                  | Inr hostCA \<Rightarrow> do {
                      hmacKey \<leftarrow> sl_Read S 32;
                      (case hmacKey of
                         Inl e \<Rightarrow> ret (Inl (Wrapped ''generate cookie HMAC key'' e))
                       | Inr hmacKey \<Rightarrow> do {
                           created \<leftarrow> kc_Create (k_Secrets c) (caSecret namespace userCA hostCA hmacKey);
                           (case created of
                              Inr secret \<Rightarrow> ret (Inr secret)
                            | Inl err \<Rightarrow>
                                if IsAlreadyExists err then do {
                                  existing \<leftarrow> kc_Get (k_Secrets c) (namespace, CASecretName);
                                  (case existing of
                                     Inr secret \<Rightarrow> ret (Inr secret)
                                   | Inl _ \<Rightarrow> ret (Inl (Wrapped ''create CA secret'' err)))
                                }
                                else ret (Inl (Wrapped ''create CA secret'' err)))
                         })
                    })
               })
          })
   }"

section \<open>What the SSH library promises\<close>

text \<open>
  \<open>CheckCert\<close> checks critical options, principals, validity window and
  signature.  Timestamps are unsigned seconds that must fit a signed 64-bit
  number; an empty principal list admits everybody; the only critical option
  that is not refused is \<open>source-address\<close>.
\<close>

definition critical_ok :: "Certificate \<Rightarrow> bool" where
  "critical_ok c = list_all (\<lambda>(k, _). k = ''source-address'') (cert_CriticalOptions c)"

definition in_window :: "Certificate \<Rightarrow> Time \<Rightarrow> bool" where
  "in_window c now \<longleftrightarrow>
     cert_ValidAfter c < 2 ^ 63 \<and> cert_ValidAfter c \<le> Unix now \<and>
     (cert_ValidBefore c = CertTimeInfinity \<or> (cert_ValidBefore c < 2 ^ 63 \<and> Unix now < cert_ValidBefore c))"

text \<open>\<open>d\<close> is \<open>c\<close> with the signature of \<open>ca\<close> filled in.\<close>

definition signed_as :: "'w sshlib \<Rightarrow> Signer \<Rightarrow> Certificate \<Rightarrow> Certificate \<Rightarrow> bool" where
  "signed_as S ca c d \<longleftrightarrow>
     cert_Key d = cert_Key c \<and> cert_Serial d = cert_Serial c \<and> cert_CertType d = cert_CertType c \<and>
     cert_KeyId d = cert_KeyId c \<and> cert_ValidPrincipals d = cert_ValidPrincipals c \<and>
     cert_ValidAfter d = cert_ValidAfter c \<and> cert_ValidBefore d = cert_ValidBefore c \<and>
     cert_CriticalOptions d = cert_CriticalOptions c \<and> cert_Extensions d = cert_Extensions c \<and>
     cert_SignatureKey d = Some (sl_SignerPublic S ca) \<and> sl_Verify S d"

definition key_pair :: "'w sshlib \<Rightarrow> bytes \<Rightarrow> bytes \<Rightarrow> bool" where
  "key_pair S pub priv \<longleftrightarrow> (\<forall>comment pem s k.
     sl_MarshalPrivateKey S priv comment = Inr pem \<longrightarrow> sl_NewPublicKey S pub = Inr k \<longrightarrow>
     sl_ParsePrivateKey S pem = Inr s \<longrightarrow>
     sl_SignerPublic S s = k \<and> sl_ParseAuthorizedKey S (sl_MarshalAuthorizedKey S k) = Inr k)"

locale ssh_library =
  fixes S :: "'w sshlib"
  assumes check_cert: "sl_CheckCert S auth now p c = Inr () \<longleftrightarrow>
      critical_ok c \<and> (cert_ValidPrincipals c = [] \<or> p \<in> set (cert_ValidPrincipals c)) \<and>
      in_window c now \<and> sl_Verify S c"
    and sign_cert: "always (\<lambda>r. case r of Inl _ \<Rightarrow> True | Inr d \<Rightarrow> signed_as S ca c d) (sl_SignCert S c ca)"
    and generate_key: "always (\<lambda>r. case r of Inl _ \<Rightarrow> True | Inr (pub, priv) \<Rightarrow> key_pair S pub priv) (sl_GenerateKey S)"
begin

text \<open>The keystone: exactly which certificates \<open>CheckUserCert\<close> accepts.\<close>

lemma check_user_cert:
  "CheckUserCert S cert ca prin now = Inr () \<longleftrightarrow>
     (\<exists>c. cert = Some c \<and> cert_CertType c = UserCert \<and> prin \<in> set (cert_ValidPrincipals c) \<and>
        keysEqual S (cert_SignatureKey c) ca \<and> in_window c now \<and> critical_ok c \<and> sl_Verify S c)"
proof (cases cert)
  case None
  then show ?thesis by (simp add: CheckUserCert_def)
next
  case (Some c)
  then show ?thesis
    using check_cert [of "\<lambda>auth. keysEqual S (Some auth) ca" now prin c]
    by (auto simp: CheckUserCert_def split: sum.splits)
qed

text \<open>What a signed user certificate carries, whatever the random source does.\<close>

lemma signed_user_cert:
  "always (\<lambda>r. case r of Inl _ \<Rightarrow> True | Inr c \<Rightarrow>
     prin \<noteq> [] \<and> cert_Key c = pub \<and> cert_CertType c = UserCert \<and> cert_ValidPrincipals c = [prin] \<and>
     cert_ValidAfter c = uint64 (Unix (now - Minute)) \<and> cert_ValidBefore c = validBefore now validFor \<and>
     cert_CriticalOptions c = [] \<and> cert_SignatureKey c = Some (sl_SignerPublic S ca) \<and> sl_Verify S c)
   (SignUserCert S ca pub prin validFor now)"
  unfolding SignUserCert_def
  by (intro always_rules always_bind [OF always_True] always_bind [OF sign_cert])
    (auto simp: signed_as_def split: sum.splits intro!: always_rules)

end

text \<open>The window of a certificate issued at a time that fits the format.\<close>

lemma user_window:
  assumes "cert_ValidAfter c = uint64 (Unix (issued - Minute))" "cert_ValidBefore c = validBefore issued validFor"
    "0 \<le> Unix (issued - Minute)" "Unix issued < 2 ^ 63" "Unix (issued + validFor) < 2 ^ 63"
  shows "in_window c now \<longleftrightarrow>
    Unix (issued - Minute) \<le> Unix now \<and> (validFor \<le> 0 \<or> Unix now < Unix (issued + validFor))"
proof -
  have mono: "Unix (issued - Minute) \<le> Unix issued" "0 < validFor \<Longrightarrow> Unix issued \<le> Unix (issued + validFor)"
    by (simp_all add: Unix_def zdiv_mono1)
  then show ?thesis
    using assms(3-5) by (auto simp: in_window_def assms(1,2) validBefore_def uint64_def CertTimeInfinity_def)
qed

text \<open>
  A reference library: keys are their own encodings, a signature is the handle
  of the key that made it.
\<close>

definition refVerify :: "Certificate \<Rightarrow> bool" where
  "refVerify c = (cert_SignatureKey c = Some (RawKey (cert_Signature c)))"

definition refSsh :: "'w sshlib" where
  "refSsh = \<lparr>
     sl_GenerateKey = ret (Inr (''key'', ''key'')),
     sl_Read = (\<lambda>n. ret (Inr (replicate n CHR ''r''))),
     sl_MarshalPrivateKey = (\<lambda>priv comment. Inr priv),
     sl_NewPublicKey = (\<lambda>pub. Inr (RawKey pub)),
     sl_MarshalAuthorizedKey = (\<lambda>k. case k of RawKey b \<Rightarrow> b | CertKey c \<Rightarrow> cert_Signature c @ ''-cert''),
     sl_ParseAuthorizedKey = (\<lambda>b. if b = [] then Inl (OtherErr ''no key found'') else Inr (RawKey b)),
     sl_ParsePrivateKey = (\<lambda>b. if b = [] then Inl (OtherErr ''no key found'') else Inr b),
     sl_SignerPublic = RawKey,
     sl_Marshal = (\<lambda>k. case k of RawKey b \<Rightarrow> CHR ''k'' # b | CertKey c \<Rightarrow> CHR ''c'' # cert_Signature c),
     sl_SignCert = (\<lambda>c ca. ret (Inr (Certificate (cert_Key c) (cert_Serial c) (cert_CertType c) (cert_KeyId c)
       (cert_ValidPrincipals c) (cert_ValidAfter c) (cert_ValidBefore c) (cert_CriticalOptions c)
       (cert_Extensions c) (Some (RawKey ca)) ca))),
     sl_Verify = refVerify,
     sl_CheckCert = (\<lambda>auth now p c.
       if \<not> critical_ok c then Inl (OtherErr ''unsupported critical option'')
       else if cert_ValidPrincipals c \<noteq> [] \<and> p \<notin> set (cert_ValidPrincipals c)
       then Inl (OtherErr ''principal not in the set of valid principals'')
       else if \<not> in_window c now then Inl (OtherErr ''certificate is not valid at this time'')
       else if \<not> refVerify c then Inl (OtherErr ''signature does not verify'')
       else Inr ())\<rparr>"

lemma refSsh_sel [simp]:
  "sl_GenerateKey refSsh = ret (Inr (''key'', ''key''))"
  "sl_Read refSsh n = ret (Inr (replicate n CHR ''r''))"
  "sl_SignerPublic refSsh = RawKey" "sl_Verify refSsh = refVerify"
  by (simp_all add: refSsh_def)

interpretation refSsh: ssh_library refSsh
  by unfold_locales
    (auto simp: refSsh_def signed_as_def refVerify_def key_pair_def intro: always_ret)

section \<open>Properties\<close>

text \<open>
  C1. \<open>CheckUserCert\<close> accepts exactly the certificates that are user
  certificates naming the expected principal, signed by the expected CA with a
  signature that verifies, inside their validity window and without an
  unsupported critical option.
\<close>

theorem CheckUserCert_iff:
  assumes "ssh_library S"
  shows "CheckUserCert S cert caPub prin now = Inr () \<longleftrightarrow>
    (\<exists>c. cert = Some c \<and> cert_CertType c = UserCert \<and> prin \<in> set (cert_ValidPrincipals c) \<and>
       keysEqual S (cert_SignatureKey c) caPub \<and> in_window c now \<and> critical_ok c \<and> sl_Verify S c)"
  by (rule ssh_library.check_user_cert [OF assms])

definition sampleCert :: Certificate where
  "sampleCert = Certificate (RawKey ''alice-key'') 7 UserCert ''alice'' [''alice''] 940 4600 [] []
     (Some (RawKey ''ca'')) ''ca''"

theorem CheckUserCert_iff_witness:
  "CheckUserCert (refSsh :: unit sshlib) (Some sampleCert) (Some (RawKey ''ca'')) ''alice'' (1000 * Second) = Inr ()"
  using CheckUserCert_iff [OF refSsh.ssh_library_axioms,
      of "Some sampleCert" "Some (RawKey ''ca'')" "''alice''" "1000 * Second"]
  by (simp add: sampleCert_def keysEqual_def in_window_def Unix_def critical_ok_def refSsh_def refVerify_def)

text \<open>
  A certificate from \<open>SignUserCert\<close> passes \<open>CheckUserCert\<close>
  against the public half of the signing key for exactly the principal it was
  issued to, and exactly from one minute before issue until its validity ends
  (for ever when the validity is not positive).
\<close>

lemma SignUserCert_checks:
  assumes "ssh_library S" "fst (run_state (SignUserCert S ca pub prin validFor issued) w) = Inr c"
    "0 \<le> Unix (issued - Minute)" "Unix issued < 2 ^ 63" "Unix (issued + validFor) < 2 ^ 63"
  shows "CheckUserCert S (Some c) (Some (sl_SignerPublic S ca)) q now = Inr () \<longleftrightarrow>
    q = prin \<and> Unix (issued - Minute) \<le> Unix now \<and> (validFor \<le> 0 \<or> Unix now < Unix (issued + validFor))"
proof -
  have c: "cert_CertType c = UserCert" "cert_ValidPrincipals c = [prin]" "cert_CriticalOptions c = []"
    "cert_ValidAfter c = uint64 (Unix (issued - Minute))" "cert_ValidBefore c = validBefore issued validFor"
    "cert_SignatureKey c = Some (sl_SignerPublic S ca)" "sl_Verify S c"
    using ssh_library.signed_user_cert [OF assms(1), of prin pub issued validFor ca] assms(2)
    by (auto simp: always_def dest!: spec [of _ w])
  show ?thesis
    using user_window [OF c(4,5) assms(3-5), of now] ssh_library.check_user_cert [OF assms(1), of "Some c"] by (auto simp: c keysEqual_def critical_ok_def)
qed

end
