(* ===== verification/Podspec.thy ===== *)
theory Podspec
  imports Sample_Objects
begin

text \<open>
  \<open>internal/controller/podspec\<close>: the executor pod, the home PVC and
  the network policy of a sandbox as pure functions of the sandbox, its
  template and the operator's options (\<open>builder.go\<close>,
  \<open>netpol.go\<close>).  JSON encoding and SHA-256 are parameters of
  \<open>TemplateHash\<close>.
\<close>

section \<open>builder.go\<close>

definition LabelSandbox :: string where "LabelSandbox = ''kubepark.dev/sandbox''"
definition LabelSandboxUID :: string where "LabelSandboxUID = ''kubepark.dev/sandbox-uid''"
definition LabelComponent :: string where "LabelComponent = ''kubepark.dev/component''"
definition LabelManagedBy :: string where "LabelManagedBy = ''app.kubernetes.io/managed-by''"
definition ComponentSandbox :: string where "ComponentSandbox = ''sandbox''"
definition AgentPort :: int where "AgentPort = 2222"
definition HomeMountPath :: string where "HomeMountPath = ''/home/sandbox''"
definition agentDir :: string where "agentDir = ''/opt/kubepark''"
definition annotationSafeToEvict :: string where
  "annotationSafeToEvict = ''cluster-autoscaler.kubernetes.io/safe-to-evict''"
definition volumeHome :: string where "volumeHome = ''home''"
definition volumeAgent :: string where "volumeAgent = ''kubepark-bin''"
definition volumeHostKey :: string where "volumeHostKey = ''kubepark-host''"
definition HostKeyMountPath :: string where "HostKeyMountPath = ''/etc/kubepark/host''"

record Options =
  opt_AgentImage :: string
  opt_PriorityClassName :: string
  opt_ServiceAccountName :: string

definition PodName :: "string \<Rightarrow> string" where "PodName sandbox = ''kubepark-sb-'' @ sandbox"
definition PVCName :: "string \<Rightarrow> string" where "PVCName sandbox = ''kubepark-home-'' @ sandbox"
definition HostKeyName :: "string \<Rightarrow> string" where "HostKeyName sandbox = ''kubepark-hostkey-'' @ sandbox"
definition NetPolName :: "string \<Rightarrow> string" where "NetPolName sandbox = ''kubepark-sb-'' @ sandbox"

definition Labels :: "Sandbox \<Rightarrow> smap" where
  "Labels sb = [
     (LabelSandbox, sb_Name sb),
     (LabelSandboxUID, sb_UID sb),
     (LabelComponent, ComponentSandbox),
     (LabelManagedBy, ''kubepark'')]"

definition hex_digit :: "nat \<Rightarrow> char" where
  "hex_digit d = (if d < 10 then char_of (48 + d) else char_of (87 + d))"

definition hex_EncodeToString :: "bytes \<Rightarrow> string" where
  "hex_EncodeToString bs = concat (map (\<lambda>b. [hex_digit (of_char b div 16), hex_digit (of_char b mod 16)]) bs)"

definition TemplateHash ::
  "(SandboxTemplateSpec \<Rightarrow> bytes res) \<Rightarrow> (bytes \<Rightarrow> bytes) \<Rightarrow> SandboxTemplateSpec \<Rightarrow> string" where
  "TemplateHash json_Marshal sha256_Sum256 spec =
     (case json_Marshal spec of
        Inl err \<Rightarrow> ''unhashable''
      | Inr raw \<Rightarrow> take 12 (hex_EncodeToString (sha256_Sum256 raw)))"

text \<open>The claim a sandbox mounts as its home: the existing claim, or the generated name.\<close>

definition homeClaim :: "Sandbox \<Rightarrow> string" where
  "homeClaim sb =
     (case sp_Home (sb_spec sb) of
        Some h \<Rightarrow> if hs_ExistingClaim h \<noteq> [] then hs_ExistingClaim h else PVCName (sb_Name sb)
      | None \<Rightarrow> PVCName (sb_Name sb))"

text \<open>In the volumes below, 256 is the octal mode 0400.\<close>

definition containerSecurity :: SecurityContext where
  "containerSecurity = \<lparr>sc_AllowPrivilegeEscalation = Some False, sc_DropCapabilities = [''ALL'']\<rparr>"

definition podPorts :: "Sandbox \<Rightarrow> ContainerPort list" where
  "podPorts sb =
     \<lparr>cp_Name = ''ssh'', cp_ContainerPort = AgentPort, cp_Protocol = ProtocolTCP\<rparr> #
     map (\<lambda>p. \<lparr>cp_Name = xp_Name p, cp_ContainerPort = xp_Port p, cp_Protocol = ProtocolTCP\<rparr>)
       (sp_ExposedPorts (sb_spec sb))"

definition podEnv :: "Sandbox \<Rightarrow> SandboxTemplate \<Rightarrow> EnvVar list" where
  "podEnv sb tpl = [
     \<lparr>ev_Name = ''HOME'', ev_Value = HomeMountPath\<rparr>,
     \<lparr>ev_Name = ''KUBEPARK_SANDBOX'', ev_Value = sb_Name sb\<rparr>,
     \<lparr>ev_Name = ''KUBEPARK_NAMESPACE'', ev_Value = sb_Namespace sb\<rparr>,
     \<lparr>ev_Name = ''KUBEPARK_OWNER'', ev_Value = own_Name (sp_Owner (sb_spec sb))\<rparr>] @ ts_Env (tpl_spec tpl)"

definition BuildPod :: "Sandbox \<Rightarrow> SandboxTemplate \<Rightarrow> Options \<Rightarrow> Pod" where
  "BuildPod sb tpl opts =
     (let runAsUser = (case ts_RunAsUser (tpl_spec tpl) of Some u \<Rightarrow> u | None \<Rightarrow> 1000);
          command = [agentDir @ ''/agent''];
          args = (if ts_Command (tpl_spec tpl) \<noteq> [] then ''--'' # ts_Command (tpl_spec tpl) else []);
          pod = \<lparr>
            pod_meta = emptyMeta\<lparr>
              om_Name := PodName (sb_Name sb),
              om_Namespace := sb_Namespace sb,
              om_Labels := Labels sb,
              om_Annotations := [(annotationSafeToEvict, ''false'')]\<rparr>,
            pod_spec = \<lparr>
              ps_RestartPolicy = RestartPolicyAlways,
              ps_Hostname = sb_Name sb,
              ps_ServiceAccountName = opt_ServiceAccountName opts,
              ps_AutomountServiceAccountToken = Some (opt_ServiceAccountName opts \<noteq> []),
              ps_TerminationGracePeriodSeconds = Some 30,
              ps_SecurityContext = Some \<lparr>
                psc_RunAsNonRoot = Some True,
                psc_RunAsUser = Some runAsUser,
                psc_FSGroup = Some runAsUser,
                psc_SeccompProfile = Some SeccompRuntimeDefault\<rparr>,
              ps_InitContainers = [\<lparr>
                ct_Name = ''agent-install'',
                ct_Image = opt_AgentImage opts,
                ct_Command = [],
                ct_Args = [''agent'', ''install'', agentDir],
                ct_Env = [],
                ct_Ports = [],
                ct_Resources = [],
                ct_SecurityContext = Some containerSecurity,
                ct_VolumeMounts = [
                  \<lparr>vm_Name = volumeAgent, vm_MountPath = agentDir, vm_ReadOnly = False\<rparr>]\<rparr>],
              ps_Containers = [\<lparr>
                ct_Name = ''sandbox'',
                ct_Image = ts_Image (tpl_spec tpl),
                ct_Command = command,
                ct_Args = args,
                ct_Env = podEnv sb tpl,
                ct_Ports = podPorts sb,
                ct_Resources = ts_Resources (tpl_spec tpl),
                ct_SecurityContext = Some containerSecurity,
                ct_VolumeMounts = [
                  \<lparr>vm_Name = volumeHome, vm_MountPath = HomeMountPath, vm_ReadOnly = False\<rparr>,
                  \<lparr>vm_Name = volumeAgent, vm_MountPath = agentDir, vm_ReadOnly = True\<rparr>,
                  \<lparr>vm_Name = volumeHostKey, vm_MountPath = HostKeyMountPath, vm_ReadOnly = True\<rparr>]\<rparr>],
              ps_Volumes = [
                \<lparr>vol_Name = volumeHome, vol_Source = VolumePVC (homeClaim sb)\<rparr>,
                \<lparr>vol_Name = volumeAgent, vol_Source = VolumeEmptyDir\<rparr>,
                \<lparr>vol_Name = volumeHostKey, vol_Source = VolumeSecret (HostKeyName (sb_Name sb)) (Some 256)\<rparr>],
              ps_PriorityClassName = [],
              ps_RuntimeClassName = None\<rparr>,
            pod_status = emptyPodStatus\<rparr>;
          pod = (if opt_PriorityClassName opts \<noteq> []
                 then pod\<lparr>pod_spec := (pod_spec pod)\<lparr>ps_PriorityClassName := opt_PriorityClassName opts\<rparr>\<rparr>
                 else pod)
      in if ts_IsolationLevel (tpl_spec tpl) = IsolationStrong \<and> ts_RuntimeClassName (tpl_spec tpl) \<noteq> None
         then pod\<lparr>pod_spec := (pod_spec pod)\<lparr>ps_RuntimeClassName := ts_RuntimeClassName (tpl_spec tpl)\<rparr>\<rparr>
         else pod)"

definition BuildPVC :: "Sandbox \<Rightarrow> SandboxTemplate \<Rightarrow> PersistentVolumeClaim" where
  "BuildPVC sb tpl =
     (let size = (case sp_Home (sb_spec sb) of
                    Some h \<Rightarrow> (case hs_Size h of Some s \<Rightarrow> s | None \<Rightarrow> ts_HomeSize (tpl_spec tpl))
                  | None \<Rightarrow> ts_HomeSize (tpl_spec tpl));
          storageClass = (case sp_Home (sb_spec sb) of
                    Some h \<Rightarrow> (case hs_StorageClassName h of
                                 Some c \<Rightarrow> Some c | None \<Rightarrow> ts_StorageClassName (tpl_spec tpl))
                  | None \<Rightarrow> ts_StorageClassName (tpl_spec tpl))
      in \<lparr>pvc_meta = emptyMeta\<lparr>
            om_Name := PVCName (sb_Name sb),
            om_Namespace := sb_Namespace sb,
            om_Labels := Labels sb\<rparr>,
          pvc_AccessModes = [''ReadWriteOnce''],
          pvc_StorageClassName = storageClass,
          pvc_StorageRequest = size\<rparr>)"

definition FQDNPrincipals :: "Sandbox \<Rightarrow> string list" where
  "FQDNPrincipals sb = [sb_Name sb @ ''.'' @ sb_Namespace sb]"

section \<open>The shape of the executor pod\<close>

text \<open>
  A pod the API server accepts: volume names are unique, every mount names a
  declared volume, and no container mounts two volumes at one path.
\<close>

definition mounts_wellformed :: "Pod \<Rightarrow> bool" where
  "mounts_wellformed pod \<longleftrightarrow>
     distinct (map vol_Name (ps_Volumes (pod_spec pod))) \<and>
     list_all (\<lambda>ct.
         distinct (map vm_MountPath (ct_VolumeMounts ct)) \<and>
         list_all (\<lambda>m. vm_Name m \<in> vol_Name ` set (ps_Volumes (pod_spec pod))) (ct_VolumeMounts ct))
       (ps_InitContainers (pod_spec pod) @ ps_Containers (pod_spec pod))"

definition secret_volumes :: "Pod \<Rightarrow> string list" where
  "secret_volumes pod =
     concat (map (\<lambda>v. case vol_Source v of VolumeSecret s _ \<Rightarrow> [s] | _ \<Rightarrow> []) (ps_Volumes (pod_spec pod)))"

definition claim_volumes :: "Pod \<Rightarrow> string list" where
  "claim_volumes pod =
     concat (map (\<lambda>v. case vol_Source v of VolumePVC s \<Rightarrow> [s] | _ \<Rightarrow> []) (ps_Volumes (pod_spec pod)))"

lemmas podspec_consts = volumeHome_def volumeAgent_def volumeHostKey_def HomeMountPath_def
  HostKeyMountPath_def agentDir_def

lemma BuildPod_meta [simp]:
  "om_Name (pod_meta (BuildPod sb tpl opts)) = PodName (sb_Name sb)"
  "om_Namespace (pod_meta (BuildPod sb tpl opts)) = sb_Namespace sb"
  "om_Labels (pod_meta (BuildPod sb tpl opts)) = Labels sb"
  "pod_status (BuildPod sb tpl opts) = emptyPodStatus"
  by (simp_all add: BuildPod_def Let_def)

lemma BuildPod_key [simp]: "key_of (pod_meta (BuildPod sb tpl opts)) = (sb_Namespace sb, PodName (sb_Name sb))"
  by (simp add: key_of_def)

lemma BuildPVC_key [simp]: "key_of (pvc_meta (BuildPVC sb tpl)) = (sb_Namespace sb, PVCName (sb_Name sb))"
  by (simp add: BuildPVC_def key_of_def Let_def)

lemma BuildPod_security:
  "ps_SecurityContext (pod_spec (BuildPod sb tpl opts)) = Some \<lparr>
     psc_RunAsNonRoot = Some True,
     psc_RunAsUser = Some (case ts_RunAsUser (tpl_spec tpl) of Some u \<Rightarrow> u | None \<Rightarrow> 1000),
     psc_FSGroup = Some (case ts_RunAsUser (tpl_spec tpl) of Some u \<Rightarrow> u | None \<Rightarrow> 1000),
     psc_SeccompProfile = Some SeccompRuntimeDefault\<rparr>"
  by (simp add: BuildPod_def Let_def)

lemma BuildPod_containers:
  "ct \<in> set (ps_InitContainers (pod_spec (BuildPod sb tpl opts)) @ ps_Containers (pod_spec (BuildPod sb tpl opts)))
   \<Longrightarrow> ct_SecurityContext ct = Some containerSecurity"
  by (auto simp: BuildPod_def Let_def split: if_splits)

lemma BuildPod_Volumes:
  "ps_Volumes (pod_spec (BuildPod sb tpl opts)) = [
     \<lparr>vol_Name = volumeHome, vol_Source = VolumePVC (homeClaim sb)\<rparr>,
     \<lparr>vol_Name = volumeAgent, vol_Source = VolumeEmptyDir\<rparr>,
     \<lparr>vol_Name = volumeHostKey, vol_Source = VolumeSecret (HostKeyName (sb_Name sb)) (Some 256)\<rparr>]"
  by (simp add: BuildPod_def Let_def)

lemma BuildPod_mounts:
  "map ct_VolumeMounts
     (ps_InitContainers (pod_spec (BuildPod sb tpl opts)) @ ps_Containers (pod_spec (BuildPod sb tpl opts))) = [
       [\<lparr>vm_Name = volumeAgent, vm_MountPath = agentDir, vm_ReadOnly = False\<rparr>],
       [\<lparr>vm_Name = volumeHome, vm_MountPath = HomeMountPath, vm_ReadOnly = False\<rparr>,
        \<lparr>vm_Name = volumeAgent, vm_MountPath = agentDir, vm_ReadOnly = True\<rparr>,
        \<lparr>vm_Name = volumeHostKey, vm_MountPath = HostKeyMountPath, vm_ReadOnly = True\<rparr>]]"
  by (simp add: BuildPod_def Let_def)

lemma BuildPod_token:
  "ps_ServiceAccountName (pod_spec (BuildPod sb tpl opts)) = opt_ServiceAccountName opts"
  "ps_AutomountServiceAccountToken (pod_spec (BuildPod sb tpl opts)) = Some (opt_ServiceAccountName opts \<noteq> [])"
  by (simp_all add: BuildPod_def Let_def)

text \<open>The isolation baseline every sandbox pod has to meet.\<close>

definition isolation_baseline :: "Pod \<Rightarrow> bool" where
  "isolation_baseline pod \<longleftrightarrow>
     (\<exists>sc u. ps_SecurityContext (pod_spec pod) = Some sc \<and> psc_RunAsNonRoot sc = Some True \<and>
        psc_RunAsUser sc = Some u \<and> 1 \<le> u \<and> psc_SeccompProfile sc = Some SeccompRuntimeDefault) \<and>
     list_all (\<lambda>ct. \<exists>c. ct_SecurityContext ct = Some c \<and> sc_AllowPrivilegeEscalation c = Some False \<and>
          ''ALL'' \<in> set (sc_DropCapabilities c))
       (ps_InitContainers (pod_spec pod) @ ps_Containers (pod_spec pod))"

text \<open>
  C17. Every sandbox pod built from an admitted template meets the isolation
  baseline, whatever the sandbox asks for: it must run as non-root under a
  positive user id, under the runtime's seccomp profile, and none of its
  containers may gain privileges or keep a capability; with isolation level
  \<open>strong\<close> it also runs under a non-empty runtime class.
\<close>

theorem BuildPod_isolation_baseline:
  assumes "validTemplateSpec (tpl_spec tpl)"
  shows "isolation_baseline (BuildPod sb tpl opts) \<and>
    (ts_IsolationLevel (tpl_spec tpl) = IsolationStrong \<longrightarrow>
      (\<exists>rc. ps_RuntimeClassName (pod_spec (BuildPod sb tpl opts)) = Some rc \<and> rc \<noteq> []))"
proof (intro conjI impI)
  have "list_all (\<lambda>ct. \<exists>c. ct_SecurityContext ct = Some c \<and> sc_AllowPrivilegeEscalation c = Some False \<and>
          ''ALL'' \<in> set (sc_DropCapabilities c))
       (ps_InitContainers (pod_spec (BuildPod sb tpl opts)) @ ps_Containers (pod_spec (BuildPod sb tpl opts)))"
    unfolding list_all_iff by (intro ballI) (simp add: BuildPod_containers containerSecurity_def)
  then show "isolation_baseline (BuildPod sb tpl opts)"
    using assms unfolding isolation_baseline_def
    by (auto simp: BuildPod_security validTemplateSpec_def split: option.splits)
next
  assume "ts_IsolationLevel (tpl_spec tpl) = IsolationStrong"
  with assms show "\<exists>rc. ps_RuntimeClassName (pod_spec (BuildPod sb tpl opts)) = Some rc \<and> rc \<noteq> []"
    by (auto simp: BuildPod_def Let_def validTemplateSpec_def)
qed

theorem BuildPod_isolation_baseline_witness:
  "isolation_baseline (BuildPod sampleSandbox sampleTemplate
     \<lparr>opt_AgentImage = ''kubepark:1'', opt_PriorityClassName = [], opt_ServiceAccountName = []\<rparr>)"
  using BuildPod_isolation_baseline [OF sampleTemplate_valid] by blast

text \<open>
  The executor pod is accepted by the API server as far as its volumes
  go, mounts the sandbox's home claim and nothing else persistent, and the
  only Secret it can read is its own host key; a service-account token is
  mounted exactly when the pod runs under a service account.
\<close>

lemma BuildPod_volumes:
  "mounts_wellformed (BuildPod sb tpl opts) \<and>
   secret_volumes (BuildPod sb tpl opts) = [HostKeyName (sb_Name sb)] \<and>
   claim_volumes (BuildPod sb tpl opts) = [homeClaim sb] \<and>
   ps_AutomountServiceAccountToken (pod_spec (BuildPod sb tpl opts)) =
     Some (ps_ServiceAccountName (pod_spec (BuildPod sb tpl opts)) \<noteq> [])"
proof -
  have "list_all (\<lambda>ms. distinct (map vm_MountPath ms) \<and>
      list_all (\<lambda>m. vm_Name m \<in> vol_Name ` set (ps_Volumes (pod_spec (BuildPod sb tpl opts)))) ms)
    (map ct_VolumeMounts (ps_InitContainers (pod_spec (BuildPod sb tpl opts)) @
       ps_Containers (pod_spec (BuildPod sb tpl opts))))"
    unfolding BuildPod_mounts BuildPod_Volumes by (simp add: podspec_consts)
  then have "mounts_wellformed (BuildPod sb tpl opts)"
    unfolding mounts_wellformed_def list.pred_map comp_def
    by (simp add: BuildPod_Volumes podspec_consts)
  then show ?thesis
    by (simp add: secret_volumes_def claim_volumes_def BuildPod_Volumes BuildPod_token)
qed

lemma podPorts_names: "map cp_Name (podPorts sb) = ''ssh'' # map xp_Name (sp_ExposedPorts (sb_spec sb))"
  by (simp add: podPorts_def)

text \<open>
  The container ports of a sandbox have unique names, as the API server
  requires, exactly when no exposed port is called \<open>ssh\<close>; admission
  alone does not rule that name out.
\<close>

lemma podPorts_distinct_iff:
  assumes "validSandbox sb"
  shows "distinct (map cp_Name (podPorts sb)) \<longleftrightarrow> ''ssh'' \<notin> xp_Name ` set (sp_ExposedPorts (sb_spec sb))"
  using assms by (auto simp: podPorts_names validSandbox_def validSandboxSpec_def)

definition sshPortSandbox :: Sandbox where
  "sshPortSandbox = sampleSandbox\<lparr>sb_spec := (sb_spec sampleSandbox)\<lparr>
     sp_ExposedPorts := [samplePort\<lparr>xp_Name := ''ssh''\<rparr>]\<rparr>\<rparr>"

lemma ssh_port_admitted:
  "validSandbox sshPortSandbox \<and> \<not> distinct (map cp_Name (podPorts sshPortSandbox))"
proof -
  have v: "validSandbox sshPortSandbox"
    by (simp add: sshPortSandbox_def sample_defs validSandbox_def validSandboxSpec_def validExposedPort_def
        Contains_def port_name_pattern_def is_lower_def is_lower_digit_def)
  then show ?thesis
    using podPorts_distinct_iff [OF v] by (simp add: sshPortSandbox_def)
qed

lemma hex_length [simp]: "length (hex_EncodeToString bs) = 2 * length bs"
  by (induction bs) (simp_all add: hex_EncodeToString_def)

text \<open>
  A template hash is never the empty string, which the controller reads as no
  hash pinned yet, and has twelve digits whenever the template encodes.
\<close>

lemma TemplateHash_length:
  assumes "\<And>b. length (sha b) = 32"
  shows "TemplateHash json sha spec \<noteq> [] \<and>
    (\<forall>raw. json spec = Inr raw \<longrightarrow> length (TemplateHash json sha spec) = 12)"
proof (cases "json spec")
  case (Inr raw)
  have "length (take 12 (hex_EncodeToString (sha raw))) = 12"
    using assms by simp
  then show ?thesis
    using Inr by (auto simp: TemplateHash_def simp del: length_take)
qed (simp add: TemplateHash_def)

end
