(* ===== verification/NetPol.thy ===== *)
theory NetPol
  imports Podspec
begin

text \<open>
  \<open>internal/controller/podspec/netpol.go\<close>: the per-sandbox network
  policy, together with the meaning Kubernetes documents for network policies,
  against which the rendered policy is proved to be default-deny.
\<close>

section \<open>netpol.go\<close>

definition ComponentGateway :: string where "ComponentGateway = ''gateway''"

text \<open>\<open>corev1.LabelMetadataName\<close>, the label Kubernetes puts on every namespace.\<close>

definition LabelMetadataName :: string where "LabelMetadataName = ''kubernetes.io/metadata.name''"

record APIServerEndpoint =
  ase_IP :: string
  ase_Port :: int

record NetPolOptions =
  npo_GatewayNamespace :: string
  npo_APIServerEndpoints :: "APIServerEndpoint list"

definition ptrIntStr :: "int \<Rightarrow> IntOrString option" where
  "ptrIntStr port = Some (FromInt32 port)"

definition gatewayPeer :: "NetPolOptions \<Rightarrow> NetworkPolicyPeer" where
  "gatewayPeer opts = \<lparr>
     npp_PodSelector = Some (matchLabels [(LabelComponent, ComponentGateway)]),
     npp_NamespaceSelector = Some (matchLabels [(LabelMetadataName, npo_GatewayNamespace opts)]),
     npp_IPBlock = None\<rparr>"

definition ingressPorts :: "Sandbox \<Rightarrow> NetworkPolicyPort list" where
  "ingressPorts sb =
     \<lparr>nport_Protocol = Some ProtocolTCP, nport_Port = ptrIntStr AgentPort, nport_EndPort = None\<rparr> #
     map (\<lambda>p. \<lparr>nport_Protocol = Some ProtocolTCP, nport_Port = ptrIntStr (xp_Port p), nport_EndPort = None\<rparr>)
       (sp_ExposedPorts (sb_spec sb))"

definition dnsRule :: NetworkPolicyEgressRule where
  "dnsRule = \<lparr>
     er_To = [\<lparr>
       npp_PodSelector = Some (matchLabels [(''k8s-app'', ''kube-dns'')]),
       npp_NamespaceSelector = Some (matchLabels [(LabelMetadataName, ''kube-system'')]),
       npp_IPBlock = None\<rparr>],
     er_Ports = [
       \<lparr>nport_Protocol = Some ProtocolUDP, nport_Port = Some (FromInt32 53), nport_EndPort = None\<rparr>,
       \<lparr>nport_Protocol = Some ProtocolTCP, nport_Port = Some (FromInt32 53), nport_EndPort = None\<rparr>]\<rparr>"

definition apiServerRule :: "APIServerEndpoint \<Rightarrow> NetworkPolicyEgressRule" where
  "apiServerRule ep = \<lparr>
     er_To = [\<lparr>npp_PodSelector = None, npp_NamespaceSelector = None,
       npp_IPBlock = Some \<lparr>ib_CIDR = ase_IP ep @ ''/32'', ib_Except = []\<rparr>\<rparr>],
     er_Ports = [\<lparr>nport_Protocol = Some ProtocolTCP, nport_Port = Some (FromInt32 (ase_Port ep)), nport_EndPort = None\<rparr>]\<rparr>"

definition BuildNetworkPolicy :: "Sandbox \<Rightarrow> SandboxTemplate \<Rightarrow> NetPolOptions \<Rightarrow> NetworkPolicy" where
  "BuildNetworkPolicy sb tpl opts = \<lparr>
     np_meta = emptyMeta\<lparr>
       om_Name := NetPolName (sb_Name sb),
       om_Namespace := sb_Namespace sb,
       om_Labels := Labels sb\<rparr>,
     np_spec = \<lparr>
       nps_PodSelector = matchLabels [(LabelSandboxUID, sb_UID sb)],
       nps_PolicyTypes = [PolicyTypeIngress, PolicyTypeEgress],
       nps_Ingress = [\<lparr>ir_From = [gatewayPeer opts], ir_Ports = ingressPorts sb\<rparr>],
       nps_Egress = dnsRule # map apiServerRule (npo_APIServerEndpoints opts) @
         map (\<lambda>rule. \<lparr>er_To = eg_To rule, er_Ports = eg_Ports rule\<rparr>) (ts_Egress (tpl_spec tpl))\<rparr>\<rparr>"

section \<open>The meaning of a network policy\<close>

text \<open>
  The other end of a connection, and what Kubernetes documents about
  selectors, peers, ports and rules: an empty peer or port list matches
  everything; a selector without a namespace selector stays in the policy's
  namespace; a direction the policy does not list is not restricted.
  Membership of an address in a CIDR block and the resolution of named ports
  are parameters.
\<close>

record Party =
  pty_InCluster :: bool
  pty_Namespace :: string
  pty_NsLabels :: smap
  pty_PodLabels :: smap
  pty_IP :: string

definition requirement_holds :: "smap \<Rightarrow> LabelSelectorRequirement \<Rightarrow> bool" where
  "requirement_holds labels r =
     (let v = map_of labels (lsr_Key r)
      in if lsr_Operator r = ''In'' then (case v of None \<Rightarrow> False | Some x \<Rightarrow> x \<in> set (lsr_Values r))
         else if lsr_Operator r = ''NotIn'' then (case v of None \<Rightarrow> True | Some x \<Rightarrow> x \<notin> set (lsr_Values r))
         else if lsr_Operator r = ''Exists'' then v \<noteq> None
         else if lsr_Operator r = ''DoesNotExist'' then v = None
         else False)"

definition selects :: "LabelSelector \<Rightarrow> smap \<Rightarrow> bool" where
  "selects s labels \<longleftrightarrow>
     list_all (\<lambda>(k, v). map_of labels k = Some v) (ls_MatchLabels s) \<and>
     list_all (requirement_holds labels) (ls_MatchExpressions s)"

definition peer_matches :: "(string \<Rightarrow> string \<Rightarrow> bool) \<Rightarrow> string \<Rightarrow> Party \<Rightarrow> NetworkPolicyPeer \<Rightarrow> bool" where
  "peer_matches in_cidr ns pty p =
     (case npp_IPBlock p of
        Some b \<Rightarrow> in_cidr (pty_IP pty) (ib_CIDR b) \<and> \<not> list_ex (in_cidr (pty_IP pty)) (ib_Except b)
      | None \<Rightarrow> pty_InCluster pty \<and>
          (case npp_NamespaceSelector p of None \<Rightarrow> pty_Namespace pty = ns | Some s \<Rightarrow> selects s (pty_NsLabels pty)) \<and>
          (case npp_PodSelector p of None \<Rightarrow> True | Some s \<Rightarrow> selects s (pty_PodLabels pty)))"

definition port_matches :: "(string \<Rightarrow> int \<Rightarrow> bool) \<Rightarrow> Protocol \<Rightarrow> int \<Rightarrow> NetworkPolicyPort \<Rightarrow> bool" where
  "port_matches named proto port np \<longleftrightarrow>
     (case nport_Protocol np of None \<Rightarrow> proto = ProtocolTCP | Some q \<Rightarrow> proto = q) \<and>
     (case nport_Port np of
        None \<Rightarrow> True
      | Some (FromInt32 n) \<Rightarrow> (case nport_EndPort np of None \<Rightarrow> port = n | Some e \<Rightarrow> n \<le> port \<and> port \<le> e)
      | Some (FromString s) \<Rightarrow> named s port)"

definition rule_allows ::
  "(string \<Rightarrow> string \<Rightarrow> bool) \<Rightarrow> (string \<Rightarrow> int \<Rightarrow> bool) \<Rightarrow> string \<Rightarrow>
   NetworkPolicyPeer list \<Rightarrow> NetworkPolicyPort list \<Rightarrow> Party \<Rightarrow> Protocol \<Rightarrow> int \<Rightarrow> bool" where
  "rule_allows in_cidr named ns peers ports pty proto port \<longleftrightarrow>
     (peers = [] \<or> list_ex (peer_matches in_cidr ns pty) peers) \<and>
     (ports = [] \<or> list_ex (port_matches named proto port) ports)"

definition ingress_allowed ::
  "(string \<Rightarrow> string \<Rightarrow> bool) \<Rightarrow> (string \<Rightarrow> int \<Rightarrow> bool) \<Rightarrow> NetworkPolicy \<Rightarrow> Party \<Rightarrow> Protocol \<Rightarrow> int \<Rightarrow> bool" where
  "ingress_allowed in_cidr named np pty proto port \<longleftrightarrow>
     PolicyTypeIngress \<notin> set (nps_PolicyTypes (np_spec np)) \<or>
     list_ex (\<lambda>r. rule_allows in_cidr named (om_Namespace (np_meta np)) (ir_From r) (ir_Ports r) pty proto port)
       (nps_Ingress (np_spec np))"

definition egress_allowed ::
  "(string \<Rightarrow> string \<Rightarrow> bool) \<Rightarrow> (string \<Rightarrow> int \<Rightarrow> bool) \<Rightarrow> NetworkPolicy \<Rightarrow> Party \<Rightarrow> Protocol \<Rightarrow> int \<Rightarrow> bool" where
  "egress_allowed in_cidr named np pty proto port \<longleftrightarrow>
     PolicyTypeEgress \<notin> set (nps_PolicyTypes (np_spec np)) \<or>
     list_ex (\<lambda>r. rule_allows in_cidr named (om_Namespace (np_meta np)) (er_To r) (er_Ports r) pty proto port)
       (nps_Egress (np_spec np))"

section \<open>Properties\<close>

lemma BuildNetworkPolicy_key [simp]:
  "key_of (np_meta (BuildNetworkPolicy sb tpl opts)) = (sb_Namespace sb, NetPolName (sb_Name sb))"
  by (simp add: BuildNetworkPolicy_def key_of_def)

lemma ingressPorts_match:
  "list_ex (port_matches named proto port) (ingressPorts sb) \<longleftrightarrow>
     proto = ProtocolTCP \<and> (port = AgentPort \<or> port \<in> xp_Port ` set (sp_ExposedPorts (sb_spec sb)))"
  by (auto simp: ingressPorts_def port_matches_def ptrIntStr_def list_ex_iff)

lemma dnsRule_allows:
  "rule_allows in_cidr named ns (er_To dnsRule) (er_Ports dnsRule) pty proto port \<longleftrightarrow>
     pty_InCluster pty \<and> map_of (pty_NsLabels pty) LabelMetadataName = Some ''kube-system'' \<and>
     map_of (pty_PodLabels pty) ''k8s-app'' = Some ''kube-dns'' \<and>
     proto \<in> {ProtocolUDP, ProtocolTCP} \<and> port = 53"
  by (auto simp: rule_allows_def dnsRule_def peer_matches_def selects_def port_matches_def)

lemma apiServerRule_allows:
  "rule_allows in_cidr named ns (er_To (apiServerRule ep)) (er_Ports (apiServerRule ep)) pty proto port \<longleftrightarrow>
     in_cidr (pty_IP pty) (ase_IP ep @ ''/32'') \<and> proto = ProtocolTCP \<and> port = ase_Port ep"
  by (auto simp: rule_allows_def apiServerRule_def peer_matches_def port_matches_def)

text \<open>
  A sandbox can be reached from gateway pods in the gateway's namespace
  over TCP, on the agent port or a port it exposes, and from nowhere else.
\<close>

lemma BuildNetworkPolicy_ingress:
  "ingress_allowed in_cidr named (BuildNetworkPolicy sb tpl opts) pty proto port \<longleftrightarrow>
     pty_InCluster pty \<and>
     map_of (pty_NsLabels pty) LabelMetadataName = Some (npo_GatewayNamespace opts) \<and>
     map_of (pty_PodLabels pty) LabelComponent = Some ComponentGateway \<and>
     proto = ProtocolTCP \<and> (port = AgentPort \<or> port \<in> xp_Port ` set (sp_ExposedPorts (sb_spec sb)))"
proof -
  have "ingressPorts sb \<noteq> []" by (simp add: ingressPorts_def)
  then show ?thesis
    by (simp add: ingress_allowed_def BuildNetworkPolicy_def rule_allows_def ingressPorts_match
        gatewayPeer_def peer_matches_def selects_def)
qed

text \<open>
  A sandbox can open connections to the cluster's DNS service, to the
  API-server endpoints the controller resolved, and to what its template's
  egress rules allow, and to nothing else.
\<close>

lemma BuildNetworkPolicy_egress:
  "egress_allowed in_cidr named (BuildNetworkPolicy sb tpl opts) pty proto port \<longleftrightarrow>
     (pty_InCluster pty \<and> map_of (pty_NsLabels pty) LabelMetadataName = Some ''kube-system'' \<and>
      map_of (pty_PodLabels pty) ''k8s-app'' = Some ''kube-dns'' \<and>
      proto \<in> {ProtocolUDP, ProtocolTCP} \<and> port = 53) \<or>
     (\<exists>ep \<in> set (npo_APIServerEndpoints opts).
        in_cidr (pty_IP pty) (ase_IP ep @ ''/32'') \<and> proto = ProtocolTCP \<and> port = ase_Port ep) \<or>
     (\<exists>r \<in> set (ts_Egress (tpl_spec tpl)).
        rule_allows in_cidr named (sb_Namespace sb) (eg_To r) (eg_Ports r) pty proto port)"
  by (simp add: egress_allowed_def BuildNetworkPolicy_def list_ex_iff bex_Un dnsRule_allows apiServerRule_allows)


end
