(* ===== verification/Sandbox_Base.thy ===== *)
theory Sandbox_Base
  imports Ssh_CA NetPol
begin

text \<open>
  The sandbox reconciler's state and small helpers
  (\<open>sandbox_controller.go\<close>, \<open>util.go\<close>), the derived RBAC
  names (\<open>rbacnames.go\<close>), and the audited reconciler whose runs
  record every call to the API server.
\<close>

section \<open>Constants and names\<close>

definition SandboxFinalizer :: string where "SandboxFinalizer = ''kubepark.dev/finalizer''"
definition LabelOrphanedHome :: string where "LabelOrphanedHome = ''kubepark.dev/orphaned-home''"
definition indexSandboxTemplate :: string where "indexSandboxTemplate = ''.spec.template''"
definition indexSandboxExistingClaim :: string where
  "indexSandboxExistingClaim = ''.spec.home.existingClaim''"
definition hostCertValidity :: Duration where "hostCertValidity = 10 * 365 * 24 * Hour"

definition LabelProfile :: string where "LabelProfile = ''kubepark.dev/profile''"
definition ManagedByValue :: string where "ManagedByValue = ''kubepark''"
definition AccessProfileFinalizer :: string where "AccessProfileFinalizer = ''kubepark.dev/finalizer''"
definition indexSandboxAccessProfile :: string where "indexSandboxAccessProfile = ''.spec.accessProfile''"
definition saName :: "string \<Rightarrow> string" where "saName sandbox = ''kubepark-sb-'' @ sandbox"
definition profileRoleName :: "string \<Rightarrow> string" where "profileRoleName profile = ''kubepark-ap-'' @ profile"
definition roleBindingName :: "string \<Rightarrow> string" where "roleBindingName sandbox = ''kubepark-sb-'' @ sandbox"

text \<open>The field indexes registered with the manager, which \<open>MatchingFields\<close> searches.\<close>

definition sandboxIndex :: "string \<Rightarrow> Sandbox \<Rightarrow> string list" where
  "sandboxIndex field sb =
     (if field = indexSandboxTemplate then [sp_Template (sb_spec sb)]
      else if field = indexSandboxExistingClaim then
        (case sp_Home (sb_spec sb) of
           None \<Rightarrow> []
         | Some h \<Rightarrow> if hs_ExistingClaim h = [] then [] else [hs_ExistingClaim h])
      else if field = indexSandboxAccessProfile then
        (if sp_AccessProfile (sb_spec sb) = [] then [] else [sp_AccessProfile (sb_spec sb)])
      else [])"

section \<open>The reconciler\<close>

text \<open>
  The last five fields are what the methods reach outside the struct: the
  Kubernetes and SSH libraries, the JSON encoding and hash behind the template
  hash, and the environment variable \<open>POD_NAMESPACE\<close>.
\<close>

record 'w SandboxReconciler =
  sr_Client :: "'w kube"
  sr_AgentImage :: string
  sr_PriorityClassName :: string
  sr_GatewayNamespace :: string
  sr_Now :: "('w, Time) state option"
  sr_Lib :: klib
  sr_Ssh :: "'w sshlib"
  sr_Marshal :: "SandboxTemplateSpec \<Rightarrow> bytes res"
  sr_Sum256 :: "bytes \<Rightarrow> bytes"
  sr_PodNamespace :: string

text \<open>The wall clock \<open>time.Now\<close>, and the overridable clock of the reconciler.\<close>

definition sr_wall :: "'w SandboxReconciler \<Rightarrow> ('w, Time) state" where
  "sr_wall r = k_Now (sr_Client r)"

definition sr_now :: "'w SandboxReconciler \<Rightarrow> ('w, Time) state" where
  "sr_now r = (case sr_Now r of Some f \<Rightarrow> f | None \<Rightarrow> sr_wall r)"

definition gatewayNamespace :: "'w SandboxReconciler \<Rightarrow> string" where
  "gatewayNamespace r =
     (if sr_GatewayNamespace r \<noteq> [] then sr_GatewayNamespace r else OperatorNamespace (sr_PodNamespace r))"

definition setCondition ::
  "'w SandboxReconciler \<Rightarrow> Sandbox \<Rightarrow> SandboxStatus \<Rightarrow> string \<Rightarrow> ConditionStatus \<Rightarrow> string \<Rightarrow> string \<Rightarrow> SandboxStatus" where
  "setCondition r sb status condType condStatus reason message =
     status\<lparr>ss_Conditions := SetStatusCondition (sr_Lib r) (ss_Conditions status)
       \<lparr>cd_Type = condType, cd_Status = condStatus, cd_Reason = reason, cd_Message = message,
        cd_ObservedGeneration = om_Generation (sb_meta sb)\<rparr>\<rparr>"

definition controllerSetOwner :: "'w SandboxReconciler \<Rightarrow> Sandbox \<Rightarrow> ObjectMeta \<Rightarrow> ObjectMeta res" where
  "controllerSetOwner r sb m = SetControllerReference (sr_Lib r) sb m"

lemma setCondition_sel [simp]:
  "ss_Phase (setCondition r sb s ty st re msg) = ss_Phase s"
  "ss_PodName (setCondition r sb s ty st re msg) = ss_PodName s"
  "ss_PVCName (setCondition r sb s ty st re msg) = ss_PVCName s"
  "ss_ServiceAccountName (setCondition r sb s ty st re msg) = ss_ServiceAccountName s"
  "ss_PodIP (setCondition r sb s ty st re msg) = ss_PodIP s"
  "ss_TemplateHash (setCondition r sb s ty st re msg) = ss_TemplateHash s"
  "ss_LastActivityTime (setCondition r sb s ty st re msg) = ss_LastActivityTime s"
  "ss_ActiveSessions (setCondition r sb s ty st re msg) = ss_ActiveSessions s"
  "ss_ObservedGeneration (setCondition r sb s ty st re msg) = ss_ObservedGeneration s"
  by (simp_all add: setCondition_def)

section \<open>The audited reconciler\<close>

definition audit_ssh :: "'w sshlib \<Rightarrow> 'w audited sshlib" where
  "audit_ssh S = \<lparr>
     sl_GenerateKey = unlogged (sl_GenerateKey S),
     sl_Read = (\<lambda>n. unlogged (sl_Read S n)),
     sl_MarshalPrivateKey = sl_MarshalPrivateKey S,
     sl_NewPublicKey = sl_NewPublicKey S,
     sl_MarshalAuthorizedKey = sl_MarshalAuthorizedKey S,
     sl_ParseAuthorizedKey = sl_ParseAuthorizedKey S,
     sl_ParsePrivateKey = sl_ParsePrivateKey S,
     sl_SignerPublic = sl_SignerPublic S,
     sl_Marshal = sl_Marshal S,
     sl_SignCert = (\<lambda>c ca. unlogged (sl_SignCert S c ca)),
     sl_Verify = sl_Verify S,
     sl_CheckCert = sl_CheckCert S\<rparr>"

definition auditR :: "'w SandboxReconciler \<Rightarrow> 'w audited SandboxReconciler" where
  "auditR r = \<lparr>
     sr_Client = audit (sr_Client r),
     sr_AgentImage = sr_AgentImage r,
     sr_PriorityClassName = sr_PriorityClassName r,
     sr_GatewayNamespace = sr_GatewayNamespace r,
     sr_Now = map_option unlogged (sr_Now r),
     sr_Lib = sr_Lib r,
     sr_Ssh = audit_ssh (sr_Ssh r),
     sr_Marshal = sr_Marshal r,
     sr_Sum256 = sr_Sum256 r,
     sr_PodNamespace = sr_PodNamespace r\<rparr>"

lemma auditR_sel [simp]:
  "sr_Client (auditR r) = audit (sr_Client r)" "sr_AgentImage (auditR r) = sr_AgentImage r"
  "sr_PriorityClassName (auditR r) = sr_PriorityClassName r"
  "sr_GatewayNamespace (auditR r) = sr_GatewayNamespace r"
  "sr_Now (auditR r) = map_option unlogged (sr_Now r)" "sr_Lib (auditR r) = sr_Lib r"
  "sr_Ssh (auditR r) = audit_ssh (sr_Ssh r)" "sr_Marshal (auditR r) = sr_Marshal r"
  "sr_Sum256 (auditR r) = sr_Sum256 r" "sr_PodNamespace (auditR r) = sr_PodNamespace r"
  by (simp_all add: auditR_def)

lemma audit_ssh_sel [simp]:
  "sl_GenerateKey (audit_ssh S) = unlogged (sl_GenerateKey S)"
  "sl_Read (audit_ssh S) n = unlogged (sl_Read S n)"
  "sl_MarshalPrivateKey (audit_ssh S) = sl_MarshalPrivateKey S"
  "sl_NewPublicKey (audit_ssh S) = sl_NewPublicKey S"
  "sl_MarshalAuthorizedKey (audit_ssh S) = sl_MarshalAuthorizedKey S"
  "sl_ParseAuthorizedKey (audit_ssh S) = sl_ParseAuthorizedKey S"
  "sl_ParsePrivateKey (audit_ssh S) = sl_ParsePrivateKey S"
  "sl_SignCert (audit_ssh S) c ca = unlogged (sl_SignCert S c ca)"
  by (simp_all add: audit_ssh_def)

lemma keeps_sr_now [keeps_rules]: "keeps (calls_all P) (sr_now (auditR r))"
  by (auto simp: sr_now_def sr_wall_def split: option.splits intro: keeps_unlogged)

lemma keeps_sr_wall [keeps_rules]: "keeps (calls_all P) (sr_wall (auditR r))"
  by (simp add: sr_wall_def keeps_unlogged)

end
