(* ===== verification/Sandbox_Children.thy ===== *)
theory Sandbox_Children
  imports Sandbox_Base
begin

text \<open>
  The children every sandbox has whether or not its pod runs
  (\<open>sandbox_controller.go\<close>): the home claim with the guard against
  sharing one claim, the host key Secret, and the network policy.
\<close>

section \<open>The home claim\<close>

text \<open>Whether \<open>a\<close> beats \<open>b\<close> in the claim tie-break.\<close>

definition wins :: "Sandbox \<Rightarrow> Sandbox \<Rightarrow> bool" where
  "wins a b =
     (let at = om_CreationTimestamp (sb_meta a); bt = om_CreationTimestamp (sb_meta b)
      in if at \<noteq> bt then at < bt else string_less (sb_UID a) (sb_UID b))"

definition ownerOfGeneratedClaim :: "string \<Rightarrow> string \<times> bool" where
  "ownerOfGeneratedClaim claim =
     (let pre = ''kubepark-home-''
      in if length claim > length pre \<and> take (length pre) claim = pre
         then (drop (length pre) claim, True) else ([], False))"

text \<open>The two \<open>continue\<close> tests of the candidate loop, negated.\<close>

definition contends :: "Sandbox \<Rightarrow> Sandbox \<Rightarrow> bool" where
  "contends sb other \<longleftrightarrow>
     \<not> (sb_UID other = sb_UID sb \<or> deleting (sb_meta other)) \<and>
     \<not> (sp_DesiredState (sb_spec other) = DesiredStateStopped \<and>
        ss_Phase (sb_status other) = SandboxPhaseSuspended)"

definition firstWinner :: "Sandbox \<Rightarrow> Sandbox list \<Rightarrow> string" where
  "firstWinner sb candidates =
     (case find (\<lambda>other. contends sb other \<and> wins other sb) candidates of
        Some other \<Rightarrow> sb_Name other
      | None \<Rightarrow> [])"

definition claimConflict :: "'w SandboxReconciler \<Rightarrow> Sandbox \<Rightarrow> string \<Rightarrow> ('w, string res) state" where
  "claimConflict r sb claim = do {
     others \<leftarrow> kc_List (k_Sandboxes (sr_Client r))
       [InNamespace (sb_Namespace sb), MatchingFields indexSandboxExistingClaim claim];
     (case others of
        Inl e \<Rightarrow> ret (Inl e)
      | Inr items \<Rightarrow>
          (case ownerOfGeneratedClaim claim of (owner, ok) \<Rightarrow>
            if ok \<and> owner \<noteq> sb_Name sb then do {
              got \<leftarrow> kc_Get (k_Sandboxes (sr_Client r)) (sb_Namespace sb, owner);
              (case got of
                 Inr ownerSb \<Rightarrow> ret (Inr (firstWinner sb (items @ [ownerSb])))
               | Inl e \<Rightarrow> if IsNotFound e then ret (Inr (firstWinner sb items)) else ret (Inl e))
            }
            else ret (Inr (firstWinner sb items))))
   }"

definition homeReady :: "'w SandboxReconciler \<Rightarrow> Sandbox \<Rightarrow> string \<Rightarrow> SandboxStatus \<Rightarrow> SandboxStatus" where
  "homeReady r sb claim status =
     setCondition r sb (status\<lparr>ss_PVCName := claim\<rparr>) ConditionHomeReady ConditionTrue
       ReasonProvisioning ''home volume ready''"

definition homePending ::
  "'w SandboxReconciler \<Rightarrow> Sandbox \<Rightarrow> string \<Rightarrow> string \<Rightarrow> SandboxStatus \<Rightarrow> SandboxStatus" where
  "homePending r sb reason message status =
     setCondition r sb (status\<lparr>ss_Phase := SandboxPhasePending\<rparr>) ConditionHomeReady ConditionFalse reason message"

text \<open>A result \<open>Inr (Some res)\<close> ends the reconcile with \<open>res\<close>.\<close>

definition reconcileHome ::
  "'w SandboxReconciler \<Rightarrow> Sandbox \<Rightarrow> SandboxStatus \<Rightarrow> ('w, Result option res \<times> SandboxStatus) state" where
  "reconcileHome r sb status =
     (let claim = homeClaim sb
      in if (case sp_Home (sb_spec sb) of Some h \<Rightarrow> hs_ExistingClaim h \<noteq> [] | None \<Rightarrow> False)
         then do {
           conflict \<leftarrow> claimConflict r sb claim;
           (case conflict of
              Inl e \<Rightarrow> ret (Inl e, status)
            | Inr other \<Rightarrow>
                if other \<noteq> [] then
                  ret (Inr (Some \<lparr>RequeueAfter = 30 * Second\<rparr>),
                    homePending r sb ReasonClaimInUse
                      (''claim '' @ quote claim @ '' is in use by sandbox '' @ quote other) status)
                else do {
                  got \<leftarrow> kc_Get (k_PVCs (sr_Client r)) (sb_Namespace sb, claim);
                  (case got of
                     Inl e \<Rightarrow>
                       if IsNotFound e then
                         ret (Inr (Some noRequeue),
                           homePending r sb ReasonInvalidRef (''existing claim '' @ quote claim @ '' not found'') status)
                       else ret (Inl e, status)
                   | Inr _ \<Rightarrow> ret (Inr None, homeReady r sb claim status))
                })
         }
         else do {
           tpl \<leftarrow> kc_Get (k_Templates (sr_Client r)) ([], sp_Template (sb_spec sb));
           (case tpl of
              Inl e \<Rightarrow> ret (Inl e, status)
            | Inr tpl \<Rightarrow> do {
                got \<leftarrow> kc_Get (k_PVCs (sr_Client r)) (sb_Namespace sb, claim);
                (case got of
                   Inl e \<Rightarrow>
                     if IsNotFound e then do {
                       created \<leftarrow> kc_Create (k_PVCs (sr_Client r)) (BuildPVC sb tpl);
                       (case ignore IsAlreadyExists created of
                          Inl e' \<Rightarrow> ret (Inl e', status)
                        | Inr _ \<Rightarrow> ret (Inr None, homeReady r sb claim status))
                     }
                     else ret (Inl e, status)
                 | Inr _ \<Rightarrow> ret (Inr None, homeReady r sb claim status))
              })
         })"

section \<open>The host key\<close>

definition hostKeySecret ::
  "'w sshlib \<Rightarrow> Sandbox \<Rightarrow> KeyPair \<Rightarrow> Certificate \<Rightarrow> bytes \<Rightarrow> Secret" where
  "hostKeySecret S sb key cert userCAPub = \<lparr>
     sec_meta = emptyMeta\<lparr>om_Name := HostKeyName (sb_Name sb), om_Namespace := sb_Namespace sb,
       om_Labels := Labels sb\<rparr>,
     sec_Data = [
       (''ssh_host_ed25519_key'', PrivatePEM key),
       (''ssh_host_ed25519_key.pub'', PublicAuthorized key),
       (''ssh_host_ed25519_key-cert.pub'', marshalCert S cert),
       (''user-ca.pub'', userCAPub)]\<rparr>"

definition reconcileHostKey :: "'w SandboxReconciler \<Rightarrow> Sandbox \<Rightarrow> ('w, unit res) state" where
  "reconcileHostKey r sb = do {
     existing \<leftarrow> kc_Get (k_Secrets (sr_Client r)) (sb_Namespace sb, HostKeyName (sb_Name sb));
     (case existing of
        Inr _ \<Rightarrow> ret (Inr ())
      | Inl e \<Rightarrow>
          if \<not> IsNotFound e then ret (Inl e)
          else do {
            ca \<leftarrow> EnsureCASecret (sr_Ssh r) (sr_Client r) (OperatorNamespace (sr_PodNamespace r));
            (case ca of
               Inl e \<Rightarrow> ret (Inl e)
             | Inr ca \<Rightarrow>
                 (case ParseSigner (sr_Ssh r) (map_get (sec_Data ca) KeyHostCAPrivate) of
                    Inl e \<Rightarrow> ret (Inl (Wrapped ''parse host CA'' e))
                  | Inr hostCA \<Rightarrow> do {
                      key \<leftarrow> GenerateKeyPair (sr_Ssh r) (''kubepark-host-'' @ sb_Name sb);
                      (case key of
                         Inl e \<Rightarrow> ret (Inl e)
                       | Inr key \<Rightarrow>
                           (case ParsePublicKey (sr_Ssh r) (PublicAuthorized key) of
                              Inl e \<Rightarrow> ret (Inl e)
                            | Inr hostPub \<Rightarrow> do {
                                now \<leftarrow> sr_wall r;
                                cert \<leftarrow> SignHostCert (sr_Ssh r) hostCA hostPub (FQDNPrincipals sb) hostCertValidity now;
                                (case cert of
                                   Inl e \<Rightarrow> ret (Inl e)
                                 | Inr cert \<Rightarrow>
                                     (let secret = hostKeySecret (sr_Ssh r) sb key cert (map_get (sec_Data ca) KeyUserCAPublic)
                                      in case SetControllerReference (sr_Lib r) sb (sec_meta secret) of
                                           Inl e \<Rightarrow> ret (Inl e)
                                         | Inr m \<Rightarrow> do {
                                             err \<leftarrow> kc_Create (k_Secrets (sr_Client r)) (secret\<lparr>sec_meta := m\<rparr>);
                                             ret (ignore IsAlreadyExists err)
                                           }))
                              }))
                    }))
          })
   }"

section \<open>The network policy\<close>

definition sliceEndpoints :: "EndpointSlice \<Rightarrow> APIServerEndpoint list" where
  "sliceEndpoints slice =
     concat (map (\<lambda>ep. if ep_Ready ep = Some False then []
       else concat (map (\<lambda>addr. concat (map (\<lambda>port. case port of
              None \<Rightarrow> [] | Some p \<Rightarrow> [\<lparr>ase_IP = addr, ase_Port = p\<rparr>]) (es_Ports slice)))
            (ep_Addresses ep))) (es_Endpoints slice))"

definition apiServerEndpoints :: "'w SandboxReconciler \<Rightarrow> ('w, APIServerEndpoint list res) state" where
  "apiServerEndpoints r = do {
     slices \<leftarrow> kc_List (k_EndpointSlices (sr_Client r))
       [InNamespace ''default'', MatchingLabels ''kubernetes.io/service-name'' ''kubernetes''];
     (case slices of
        Inl e \<Rightarrow> ret (Inl (Wrapped ''resolve kubernetes.default endpoint slices'' e))
      | Inr items \<Rightarrow> ret (Inr (concat (map sliceEndpoints items))))
   }"

definition reconcileNetworkPolicy ::
  "'w SandboxReconciler \<Rightarrow> Sandbox \<Rightarrow> SandboxTemplate \<Rightarrow> ('w, unit res) state" where
  "reconcileNetworkPolicy r sb tpl = do {
     endpoints \<leftarrow> apiServerEndpoints r;
     (case endpoints of
        Inl e \<Rightarrow> ret (Inl e)
      | Inr endpoints \<Rightarrow>
          (let desired0 = BuildNetworkPolicy sb tpl
             \<lparr>npo_GatewayNamespace = gatewayNamespace r, npo_APIServerEndpoints = endpoints\<rparr>
           in case SetControllerReference (sr_Lib r) sb (np_meta desired0) of
                Inl e \<Rightarrow> ret (Inl e)
              | Inr m \<Rightarrow> (let desired = desired0\<lparr>np_meta := m\<rparr> in do {
                  got \<leftarrow> kc_Get (k_NetPols (sr_Client r)) (key_of (np_meta desired));
                  (case got of
                     Inl e \<Rightarrow>
                       if IsNotFound e then do {
                         err \<leftarrow> kc_Create (k_NetPols (sr_Client r)) desired;
                         ret (ignore IsAlreadyExists err)
                       }
                       else ret (Inl e)
                   | Inr existing \<Rightarrow>
                       if \<not> equality_NetPolSpec (sr_Lib r) (np_spec existing) (np_spec desired) then do {
                         err \<leftarrow> kc_Update (k_NetPols (sr_Client r)) (existing\<lparr>np_spec := np_spec desired\<rparr>);
                         ret (ignore (\<lambda>_. False) err)
                       }
                       else ret (Inr ()))
                })))
   }"

end
