(* ===== verification/Kube_Server.thy ===== *)
theory Kube_Server
  imports Sandbox_Base
begin

text \<open>
  What a Kubernetes API server promises its only writer.  A server is a client
  record together with a \<open>view\<close> of its objects; the locale
  \<open>kind_server\<close> states the documented effect of every call on the
  objects of one kind, and \<open>kube_server\<close> collects the kinds.  A
  handler is specified by \<open>succeeds\<close>: when it returns without an error,
  the objects satisfy the postcondition.
\<close>

section \<open>The objects of a server\<close>

record cluster =
  cl_Sandboxes :: "NamespacedName \<rightharpoonup> Sandbox"
  cl_Templates :: "NamespacedName \<rightharpoonup> SandboxTemplate"
  cl_Profiles :: "NamespacedName \<rightharpoonup> AccessProfile"
  cl_Sessions :: "NamespacedName \<rightharpoonup> SandboxSession"
  cl_Pods :: "NamespacedName \<rightharpoonup> Pod"
  cl_PVCs :: "NamespacedName \<rightharpoonup> PersistentVolumeClaim"
  cl_Secrets :: "NamespacedName \<rightharpoonup> Secret"
  cl_NetPols :: "NamespacedName \<rightharpoonup> NetworkPolicy"
  cl_ServiceAccounts :: "NamespacedName \<rightharpoonup> ServiceAccount"
  cl_Roles :: "NamespacedName \<rightharpoonup> Role"
  cl_RoleBindings :: "NamespacedName \<rightharpoonup> RoleBinding"
  cl_Namespaces :: "NamespacedName \<rightharpoonup> KNamespace"
  cl_EndpointSlices :: "NamespacedName \<rightharpoonup> EndpointSlice"

text \<open>
  Metadata that writers choose; the server sets the other fields.  An object is
  selected by a list option through its metadata and, for fields, its indexes.
\<close>

definition user_meta :: "ObjectMeta \<Rightarrow> NamespacedName \<times> string list \<times> smap \<times> smap" where
  "user_meta m = (key_of m, om_Finalizers m, om_Labels m, om_Annotations m)"

definition server_meta :: "ObjectMeta \<Rightarrow> string \<times> Time \<times> Time option" where
  "server_meta m = (om_UID m, om_CreationTimestamp m, om_DeletionTimestamp m)"

fun selected :: "(string \<Rightarrow> 'o \<Rightarrow> string list) \<Rightarrow> ('o \<Rightarrow> ObjectMeta) \<Rightarrow> ListOption \<Rightarrow> 'o \<Rightarrow> bool" where
  "selected index mt (InNamespace ns) x = (om_Namespace (mt x) = ns)"
| "selected index mt (MatchingLabels k v) x = (map_of (om_Labels (mt x)) k = Some v)"
| "selected index mt (MatchingFields f v) x = (v \<in> set (index f x))"

text \<open>The status of a new session: status is a subresource, so creation leaves it zero.\<close>

definition emptySessionStatus :: SandboxSessionStatus where
  "emptySessionStatus = \<lparr>st_State = SessionStateOther [], st_StartTime = None, st_LastActivityTime = None,
     st_EndTime = None, st_ExitReason = []\<rparr>"

section \<open>Specifications over the view\<close>

definition vtriple ::
  "('w \<Rightarrow> cluster) \<Rightarrow> (cluster \<Rightarrow> bool) \<Rightarrow> ('w, 'a) state \<Rightarrow> ('a \<Rightarrow> cluster \<Rightarrow> bool) \<Rightarrow> bool" where
  "vtriple view p m q = triple (\<lambda>w. p (view w)) m (\<lambda>r w. q r (view w))"

definition succeeds ::
  "('w \<Rightarrow> cluster) \<Rightarrow> (cluster \<Rightarrow> bool) \<Rightarrow> ('w, 'a res) state \<Rightarrow> ('a \<Rightarrow> cluster \<Rightarrow> bool) \<Rightarrow> bool" where
  "succeeds view p m q = vtriple view p m (\<lambda>r v. case r of Inl _ \<Rightarrow> True | Inr x \<Rightarrow> q x v)"

lemma vtriple_ret: "(\<And>v. p v \<Longrightarrow> q x v) \<Longrightarrow> vtriple view p (ret x) q"
  by (simp add: vtriple_def triple_def)

lemma vtriple_bind:
  "vtriple view p m s \<Longrightarrow> (\<And>a. vtriple view (s a) (f a) q) \<Longrightarrow> vtriple view p (State_Monad.bind m f) q"
  unfolding vtriple_def triple_def by (simp add: split_beta)

lemma vtriple_conseq:
  "vtriple view p m q \<Longrightarrow> (\<And>v. p' v \<Longrightarrow> p v) \<Longrightarrow> (\<And>a v. q a v \<Longrightarrow> q' a v) \<Longrightarrow> vtriple view p' m q'"
  by (auto simp: vtriple_def triple_def)

lemma vtriple_conj: "vtriple view p m q \<Longrightarrow> vtriple view p m r \<Longrightarrow> vtriple view p m (\<lambda>x v. q x v \<and> r x v)"
  by (simp add: vtriple_def triple_def)

lemma vtripleD: "vtriple view p m q \<Longrightarrow> run_state m w = (a, w') \<Longrightarrow> p (view w) \<Longrightarrow> q a (view w')"
  unfolding vtriple_def triple_def by (metis fst_conv snd_conv)

lemma succeedsD: "succeeds view p m q \<Longrightarrow> run_state m w = (Inr x, w') \<Longrightarrow> p (view w) \<Longrightarrow> q x (view w')"
  unfolding succeeds_def by (drule vtripleD) auto

lemma succeeds_ret: "(\<And>v. p v \<Longrightarrow> q x v) \<Longrightarrow> succeeds view p (ret (Inr x)) q"
  by (simp add: succeeds_def vtriple_ret)

lemma succeeds_err: "succeeds view p (ret (Inl e)) q"
  by (simp add: succeeds_def vtriple_ret)

lemma succeeds_conseq:
  "succeeds view p m q \<Longrightarrow> (\<And>v. p' v \<Longrightarrow> p v) \<Longrightarrow> (\<And>a v. q a v \<Longrightarrow> q' a v) \<Longrightarrow> succeeds view p' m q'"
  unfolding succeeds_def by (erule vtriple_conseq) (auto split: sum.splits)

lemma succeeds_ex: "(\<And>x. succeeds view (p x) m q) \<Longrightarrow> succeeds view (\<lambda>v. \<exists>x. p x v) m q"
  by (auto simp: succeeds_def vtriple_def triple_def)

lemma succeeds_pre: "(b \<Longrightarrow> succeeds view p m q) \<Longrightarrow> succeeds view (\<lambda>v. p v \<and> b) m q"
  by (auto simp: succeeds_def vtriple_def triple_def)

lemma succeeds_frozen:
  "(\<And>v0. p v0 \<Longrightarrow> succeeds view (\<lambda>v. v = v0) m (q v0)) \<Longrightarrow> succeeds view p m (\<lambda>x v. \<exists>v0. p v0 \<and> q v0 x v)"
  unfolding succeeds_def vtriple_def triple_def
  by (clarsimp split: sum.splits) (metis sum.case(2))

lemma succeeds_if:
  "(b \<Longrightarrow> succeeds view p m q) \<Longrightarrow> (\<not> b \<Longrightarrow> succeeds view p n q) \<Longrightarrow> succeeds view p (if b then m else n) q"
  by simp

text \<open>A call whose error is inspected before it is returned.\<close>

lemma succeeds_case:
  assumes "vtriple view p m R" "\<And>e. succeeds view (R (Inl e)) (f e) q" "\<And>x. succeeds view (R (Inr x)) (g x) q"
  shows "succeeds view p (State_Monad.bind m (\<lambda>r. case r of Inl e \<Rightarrow> f e | Inr x \<Rightarrow> g x)) q"
  unfolding succeeds_def
  by (rule vtriple_bind [OF assms(1)]) (use assms(2,3) in \<open>auto simp: succeeds_def split: sum.split\<close>)

text \<open>The idiom \<open>if err != nil \{ return err \}\<close> after a call.\<close>

lemma succeeds_then:
  assumes "succeeds view p m q" "\<And>x. succeeds view (q x) (g x) s"
  shows "succeeds view p (State_Monad.bind m (\<lambda>r. case r of Inl e \<Rightarrow> ret (Inl (h e)) | Inr x \<Rightarrow> g x)) s"
  unfolding succeeds_def
proof (rule vtriple_bind [OF assms(1) [unfolded succeeds_def]])
  fix r
  show "vtriple view (\<lambda>v. case r of Inl _ \<Rightarrow> True | Inr x \<Rightarrow> q x v) (case r of Inl e \<Rightarrow> ret (Inl (h e)) | Inr x \<Rightarrow> g x)
      (\<lambda>r v. case r of Inl _ \<Rightarrow> True | Inr x \<Rightarrow> s x v)"
    using assms(2) by (cases r) (simp_all add: succeeds_def vtriple_ret)
qed

text \<open>A law that fixes the view before the call gives a rule for any precondition.\<close>

lemma vtriple_frozen:
  assumes "\<And>v0. vtriple view (\<lambda>v. v = v0) m (Q v0)" "\<And>v0 r v. p v0 \<Longrightarrow> Q v0 r v \<Longrightarrow> q r v"
  shows "vtriple view p m q"
  using assms by (auto simp: vtriple_def triple_def)

lemma vtriple_frozen_view:
  assumes "\<And>v0. vtriple view (\<lambda>v. v = v0) m (Q v0)" "\<And>w r v. p (view w) \<Longrightarrow> Q (view w) r v \<Longrightarrow> q r v"
  shows "vtriple view p m q"
  using assms by (auto simp: vtriple_def triple_def)

lemma succeeds_for_each:
  assumes "\<And>x T. x \<in> set xs \<Longrightarrow> succeeds view (I T) (f x) (\<lambda>_. I (insert x T))"
  shows "succeeds view (I T) (for_each f xs) (\<lambda>_. I (T \<union> set xs))"
  using assms
proof (induction xs arbitrary: T)
  case Nil
  then show ?case by (simp add: succeeds_ret)
next
  case (Cons x xs)
  have "succeeds view (I (insert x T)) (for_each f xs) (\<lambda>_. I (insert x T \<union> set xs))"
    using Cons.prems by (intro Cons.IH) auto
  then show ?case
    using Cons.prems [of x T] by (auto intro: succeeds_then)
qed

text \<open>The same for a loop over distinct items, where each item is new to the invariant.\<close>

lemma succeeds_for_each_distinct:
  assumes "distinct xs" "T \<inter> set xs = {}"
    "\<And>x T. x \<in> set xs \<Longrightarrow> x \<notin> T \<Longrightarrow> succeeds view (I T) (f x) (\<lambda>_. I (insert x T))"
  shows "succeeds view (I T) (for_each f xs) (\<lambda>_. I (T \<union> set xs))"
  using assms
proof (induction xs arbitrary: T)
  case Nil
  then show ?case by (simp add: succeeds_ret)
next
  case (Cons x xs)
  have "succeeds view (I (insert x T)) (for_each f xs) (\<lambda>_. I (insert x T \<union> set xs))"
    using Cons.prems by (intro Cons.IH) auto
  then show ?case
    using Cons.prems by (auto intro!: succeeds_then [OF Cons.prems(3)])
qed

text \<open>What holds in every outcome, the errors included.\<close>

lemma vtriple_then:
  assumes "vtriple view p m (\<lambda>_. p)" "\<And>x. vtriple view p (g x) (\<lambda>_. q)" "\<And>v. p v \<Longrightarrow> q v"
  shows "vtriple view p (State_Monad.bind m (\<lambda>r. case r of Inl e \<Rightarrow> ret (Inl (h e)) | Inr x \<Rightarrow> g x)) (\<lambda>_. q)"
  by (rule vtriple_bind [OF assms(1)]) (use assms(2,3) in \<open>auto intro: vtriple_ret split: sum.split\<close>)

lemma vtriple_for_each:
  assumes "\<And>x. vtriple view p (f x) (\<lambda>_. p)"
  shows "vtriple view p (for_each f xs) (\<lambda>_. p)"
  by (induction xs) (auto intro: vtriple_ret vtriple_then assms)

lemma vtriple_pre: "(b \<Longrightarrow> vtriple view p m q) \<Longrightarrow> vtriple view (\<lambda>v. p v \<and> b) m q"
  by (auto simp: vtriple_def triple_def)

lemma vtriple_if:
  "(b \<Longrightarrow> vtriple view p m q) \<Longrightarrow> (\<not> b \<Longrightarrow> vtriple view p n q) \<Longrightarrow> vtriple view p (if b then m else n) q"
  by simp

lemma vtriple_ignore: "vtriple view p m (\<lambda>_. p) \<Longrightarrow> vtriple view p (do { err \<leftarrow> m; ret (F err) }) (\<lambda>_. p)"
  by (rule vtriple_bind) (auto intro: vtriple_ret)

text \<open>Handlers that return a status next to their result.\<close>

definition psucceeds ::
  "('w \<Rightarrow> cluster) \<Rightarrow> (cluster \<Rightarrow> bool) \<Rightarrow> ('w, 'a res \<times> 'b) state \<Rightarrow> ('a \<Rightarrow> cluster \<Rightarrow> bool) \<Rightarrow> bool" where
  "psucceeds view p m q = vtriple view p m (\<lambda>r v. case fst r of Inl _ \<Rightarrow> True | Inr x \<Rightarrow> q x v)"

lemma psucceedsD:
  "psucceeds view p m q \<Longrightarrow> run_state m w = ((Inr x, s), w') \<Longrightarrow> p (view w) \<Longrightarrow> q x (view w')"
  unfolding psucceeds_def by (drule vtripleD) auto

lemma psucceeds_ret: "(\<And>v. p v \<Longrightarrow> q x v) \<Longrightarrow> psucceeds view p (ret (Inr x, s)) q"
  by (simp add: psucceeds_def vtriple_ret)

lemma psucceeds_err: "psucceeds view p (ret (Inl e, s)) q"
  by (simp add: psucceeds_def vtriple_ret)

lemma psucceeds_then:
  assumes "succeeds view p m q" "\<And>x. psucceeds view (q x) (g x) s"
  shows "psucceeds view p (State_Monad.bind m (\<lambda>r. case r of Inl e \<Rightarrow> ret (Inl e, st) | Inr x \<Rightarrow> g x)) s"
  unfolding psucceeds_def
proof (rule vtriple_bind [OF assms(1) [unfolded succeeds_def]])
  fix r
  show "vtriple view (\<lambda>v. case r of Inl _ \<Rightarrow> True | Inr x \<Rightarrow> q x v) (case r of Inl e \<Rightarrow> ret (Inl e, st) | Inr x \<Rightarrow> g x)
      (\<lambda>r v. case fst r of Inl _ \<Rightarrow> True | Inr x \<Rightarrow> s x v)"
    using assms(2) by (cases r) (simp_all add: psucceeds_def vtriple_ret)
qed

lemma psucceeds_conseq:
  "psucceeds view p m q \<Longrightarrow> (\<And>v. p' v \<Longrightarrow> p v) \<Longrightarrow> (\<And>a v. q a v \<Longrightarrow> q' a v) \<Longrightarrow> psucceeds view p' m q'"
  unfolding psucceeds_def by (erule vtriple_conseq) (auto split: sum.splits)

lemma psucceeds_case:
  assumes "vtriple view p m R" "\<And>e. psucceeds view (R (Inl e)) (f e) q" "\<And>x. psucceeds view (R (Inr x)) (g x) q"
  shows "psucceeds view p (State_Monad.bind m (\<lambda>r. case r of Inl e \<Rightarrow> f e | Inr x \<Rightarrow> g x)) q"
  unfolding psucceeds_def
  by (rule vtriple_bind [OF assms(1)]) (use assms(2,3) in \<open>auto simp: psucceeds_def split: sum.split\<close>)

lemma psucceeds_pre: "(b \<Longrightarrow> psucceeds view p m q) \<Longrightarrow> psucceeds view (\<lambda>v. p v \<and> b) m q"
  by (auto simp: psucceeds_def vtriple_def triple_def)

lemma psucceeds_vacuous: "(\<And>v. \<not> p v) \<Longrightarrow> psucceeds view p m q"
  by (simp add: psucceeds_def vtriple_def triple_def)

section \<open>The laws of one kind\<close>

text \<open>
  \<open>same\<close> relates a stored object to the version that only its deletion
  mark distinguishes; \<open>gone\<close> says that an object is absent or being
  deleted.
\<close>

definition same :: "('o \<Rightarrow> ObjectMeta) \<Rightarrow> ('o \<Rightarrow> 'b) \<Rightarrow> ('o \<Rightarrow> 's) \<Rightarrow> 'o \<Rightarrow> 'o \<Rightarrow> bool" where
  "same mt body stat x y \<longleftrightarrow>
     body y = body x \<and> stat y = stat x \<and> user_meta (mt y) = user_meta (mt x) \<and> om_UID (mt y) = om_UID (mt x)"

definition gone :: "('o \<Rightarrow> ObjectMeta) \<Rightarrow> ('k \<rightharpoonup> 'o) \<Rightarrow> 'k \<Rightarrow> bool" where
  "gone mt m n = (case m n of None \<Rightarrow> True | Some x \<Rightarrow> deleting (mt x))"

text \<open>\<open>retired N m m'\<close>: the objects named by \<open>N\<close> are gone, the others untouched.\<close>

definition retired ::
  "('o \<Rightarrow> ObjectMeta) \<Rightarrow> 'k set \<Rightarrow> ('k \<rightharpoonup> 'o) \<Rightarrow> ('k \<rightharpoonup> 'o) \<Rightarrow> bool" where
  "retired mt N m m' \<longleftrightarrow> (\<forall>n \<in> N. gone mt m' n) \<and> (\<forall>n. n \<notin> N \<longrightarrow> m' n = m n)"

declare split_paired_All [simp del] split_paired_Ex [simp del]

lemma retired_empty [simp]: "retired mt {} m m"
  by (simp add: retired_def)

lemma retired_absent: "retired mt N m m' \<Longrightarrow> m' k = None \<Longrightarrow> retired mt (insert k N) m m'"
  by (auto simp: retired_def gone_def)

lemma retired_remove: "retired mt N m m' \<Longrightarrow> retired mt (insert k N) m (m'(k := None))"
  by (auto simp: retired_def gone_def)

lemma retired_mark: "retired mt N m m' \<Longrightarrow> deleting (mt y) \<Longrightarrow> retired mt (insert k N) m (m'(k \<mapsto> y))"
  by (auto simp: retired_def gone_def)

lemmas retired_intros = retired_absent retired_remove retired_mark

text \<open>
  The objects with a label value outside the namespaces to keep, and the keys a
  sweep over a set of objects deletes.
\<close>

definition surplus_of ::
  "('o \<Rightarrow> ObjectMeta) \<Rightarrow> string \<Rightarrow> string \<Rightarrow> string set \<Rightarrow> (NamespacedName \<rightharpoonup> 'o) \<Rightarrow> NamespacedName set" where
  "surplus_of mt label val keep m =
     {n. (\<exists>x. m n = Some x \<and> map_of (om_Labels (mt x)) label = Some val) \<and> fst n \<notin> keep}"

definition sweepKeys :: "('o \<Rightarrow> ObjectMeta) \<Rightarrow> string set \<Rightarrow> 'o set \<Rightarrow> NamespacedName set" where
  "sweepKeys mt keep T = {n \<in> (\<lambda>x. key_of (mt x)) ` T. fst n \<notin> keep}"

lemma sweepKeys_insert:
  "sweepKeys mt keep (insert x T) =
     (if om_Namespace (mt x) \<in> keep then sweepKeys mt keep T else insert (key_of (mt x)) (sweepKeys mt keep T))"
  by (auto simp: sweepKeys_def key_of_def)

lemma sweepKeys_surplus:
  assumes "\<forall>n x. m n = Some x \<longrightarrow> key_of (mt x) = n"
  shows "sweepKeys mt keep {x \<in> ran m. map_of (om_Labels (mt x)) label = Some val} = surplus_of mt label val keep m"
  using assms by (auto simp: sweepKeys_def surplus_of_def ran_def image_iff)

lemma retired_surplus_of:
  assumes "retired mt (surplus_of mt label val keep m) m m'" "m' n = Some x"
    "map_of (om_Labels (mt x)) label = Some val" "\<not> deleting (mt x)"
  shows "fst n \<in> keep"
proof (rule ccontr)
  assume out: "fst n \<notin> keep"
  show False
  proof (cases "n \<in> surplus_of mt label val keep m")
    case True
    then have "gone mt m' n" using assms(1) by (simp add: retired_def)
    then show False using assms by (simp add: gone_def)
  next
    case False
    then have "m' n = m n" using assms(1) by (simp add: retired_def)
    then show False using False assms(2,3) out by (simp add: surplus_of_def)
  qed
qed

locale kind_server =
  fixes view :: "'w \<Rightarrow> cluster"
    and prj :: "cluster \<Rightarrow> (NamespacedName \<rightharpoonup> 'o)"
    and upd :: "((NamespacedName \<rightharpoonup> 'o) \<Rightarrow> (NamespacedName \<rightharpoonup> 'o)) \<Rightarrow> cluster \<Rightarrow> cluster"
    and mt :: "'o \<Rightarrow> ObjectMeta"
    and body :: "'o \<Rightarrow> 'b"
    and stat :: "'o \<Rightarrow> 's"
    and index :: "string \<Rightarrow> 'o \<Rightarrow> string list"
    and kc :: "('o, 'w) kind_client"
  assumes prj_upd: "prj (upd f v) = f (prj v)"
    and upd_upd: "upd f (upd g v) = upd (\<lambda>m. f (g m)) v"
    and upd_id: "upd (\<lambda>_. prj v) v = v"
    and keyed: "prj (view w) n = Some x \<Longrightarrow> key_of (mt x) = n"
    and get: "vtriple view (\<lambda>v. v = v0) (kc_Get kc n) (\<lambda>r v. v = v0 \<and>
      (case r of Inr x \<Rightarrow> prj v0 n = Some x | Inl e \<Rightarrow> IsNotFound e \<longrightarrow> prj v0 n = None))"
    and list: "vtriple view (\<lambda>v. v = v0) (kc_List kc opts) (\<lambda>r v. v = v0 \<and>
      (case r of Inr xs \<Rightarrow> set xs = {x \<in> ran (prj v0). \<forall>opt \<in> set opts. selected index mt opt x} | Inl e \<Rightarrow> True))"
    and create: "vtriple view (\<lambda>v. v = v0) (kc_Create kc x) (\<lambda>r v.
      case r of
        Inl e \<Rightarrow> v = v0 \<and> (IsAlreadyExists e \<longrightarrow> prj v0 (key_of (mt x)) \<noteq> None)
      | Inr y \<Rightarrow> prj v0 (key_of (mt x)) = None \<and> body y = body x \<and> user_meta (mt y) = user_meta (mt x) \<and>
          om_DeletionTimestamp (mt y) = None \<and> v = upd (\<lambda>m. m(key_of (mt x) \<mapsto> y)) v0)"
    and update: "vtriple view (\<lambda>v. v = v0) (kc_Update kc x) (\<lambda>r v.
      case r of
        Inl e \<Rightarrow> v = v0 \<and> (IsNotFound e \<longrightarrow> prj v0 (key_of (mt x)) = None)
      | Inr y \<Rightarrow> \<exists>x0. prj v0 (key_of (mt x)) = Some x0 \<and> body y = body x \<and> stat y = stat x0 \<and>
          user_meta (mt y) = user_meta (mt x) \<and> server_meta (mt y) = server_meta (mt x0) \<and>
          v = upd (\<lambda>m. m(key_of (mt x) := if deleting (mt y) \<and> om_Finalizers (mt y) = [] then None else Some y)) v0)"
    and status_update: "vtriple view (\<lambda>v. v = v0) (kc_StatusUpdate kc x) (\<lambda>r v.
      case r of
        Inl e \<Rightarrow> v = v0 \<and> (IsNotFound e \<longrightarrow> prj v0 (key_of (mt x)) = None)
      | Inr y \<Rightarrow> \<exists>x0. prj v0 (key_of (mt x)) = Some x0 \<and> body y = body x0 \<and> stat y = stat x \<and>
          user_meta (mt y) = user_meta (mt x0) \<and> server_meta (mt y) = server_meta (mt x0) \<and>
          v = upd (\<lambda>m. m(key_of (mt x) \<mapsto> y)) v0)"
    and patch: "vtriple view (\<lambda>v. v = v0) (kc_Patch kc x base) (\<lambda>r v.
      case r of
        Inl e \<Rightarrow> v = v0 \<and> (IsNotFound e \<longrightarrow> prj v0 (key_of (mt x)) = None)
      | Inr y \<Rightarrow> \<exists>x0. prj v0 (key_of (mt x)) = Some x0 \<and> stat y = stat x0 \<and>
          (body x = body base \<longrightarrow> body y = body x0) \<and> (om_Finalizers (mt x) = om_Finalizers (mt base) \<longrightarrow>
            om_Finalizers (mt y) = om_Finalizers (mt x0)) \<and>
          (x0 = base \<longrightarrow> body y = body x \<and> user_meta (mt y) = user_meta (mt x)) \<and>
          key_of (mt y) = key_of (mt x) \<and> server_meta (mt y) = server_meta (mt x0) \<and>
          v = upd (\<lambda>m. m(key_of (mt x) := if deleting (mt y) \<and> om_Finalizers (mt y) = [] then None else Some y)) v0)"
    and status_patch: "vtriple view (\<lambda>v. v = v0) (kc_StatusPatch kc x base) (\<lambda>r v.
      case r of
        Inl e \<Rightarrow> v = v0 \<and> (IsNotFound e \<longrightarrow> prj v0 (key_of (mt x)) = None)
      | Inr y \<Rightarrow> \<exists>x0. prj v0 (key_of (mt x)) = Some x0 \<and> body y = body x0 \<and> (x0 = base \<longrightarrow> stat y = stat x) \<and>
          user_meta (mt y) = user_meta (mt x0) \<and> server_meta (mt y) = server_meta (mt x0) \<and>
          v = upd (\<lambda>m. m(key_of (mt x) \<mapsto> y)) v0)"
    and delete: "vtriple view (\<lambda>v. v = v0) (kc_Delete kc n) (\<lambda>r v.
      case r of
        Inl e \<Rightarrow> v = v0 \<and> (IsNotFound e \<longrightarrow> prj v0 n = None)
      | Inr _ \<Rightarrow> \<exists>x0. prj v0 n = Some x0 \<and>
          (v = upd (\<lambda>m. m(n := None)) v0 \<or>
           (\<exists>y. same mt body stat x0 y \<and> deleting (mt y) \<and> v = upd (\<lambda>m. m(n \<mapsto> y)) v0)))"
begin

lemma get_rule:
  assumes "\<And>v x. p v \<Longrightarrow> prj v n = Some x \<Longrightarrow> key_of (mt x) = n \<Longrightarrow> q (Inr x) v"
    "\<And>v e. p v \<Longrightarrow> (IsNotFound e \<Longrightarrow> prj v n = None) \<Longrightarrow> q (Inl e) v"
  shows "vtriple view p (kc_Get kc n) q"
  by (rule vtriple_frozen_view [OF get]) (auto intro: assms dest: keyed split: sum.splits)

lemma list_rule:
  assumes "\<And>v xs. p v \<Longrightarrow> (\<And>n x. prj v n = Some x \<Longrightarrow> key_of (mt x) = n) \<Longrightarrow> set xs = {x \<in> ran (prj v). \<forall>opt \<in> set opts. selected index mt opt x} \<Longrightarrow> q xs v"
  shows "succeeds view p (kc_List kc opts) q"
  unfolding succeeds_def
proof (rule vtriple_frozen_view [OF list], goal_cases)
  case (1 w r v)
  then show ?case using assms [of v] keyed [of w] by (auto split: sum.splits)
qed

text \<open>Creating an object, where an object of that name may already exist.\<close>

lemma create_rule:
  assumes "\<And>v y. p v \<Longrightarrow> prj v (key_of (mt x)) = None \<Longrightarrow> body y = body x \<Longrightarrow> user_meta (mt y) = user_meta (mt x) \<Longrightarrow>
      om_DeletionTimestamp (mt y) = None \<Longrightarrow> q (upd (\<lambda>m. m(key_of (mt x) \<mapsto> y)) v)"
    "\<And>v x0. p v \<Longrightarrow> prj v (key_of (mt x)) = Some x0 \<Longrightarrow> q v"
  shows "succeeds view p (do { err \<leftarrow> kc_Create kc x; ret (ignore IsAlreadyExists err) }) (\<lambda>_. q)"
  unfolding succeeds_def
proof (rule vtriple_bind)
  show "vtriple view p (kc_Create kc x) (\<lambda>r v. case r of Inl e \<Rightarrow> IsAlreadyExists e \<longrightarrow> q v | Inr _ \<Rightarrow> q v)"
    by (rule vtriple_frozen [OF create]) (auto intro: assms split: sum.splits)
qed (auto intro!: vtriple_ret simp: ignore_def split: sum.splits)

text \<open>Deleting an object that may already be absent.\<close>

lemma delete_rule:
  assumes "\<And>v. p v \<Longrightarrow> prj v n = None \<Longrightarrow> q v"
    "\<And>v x. p v \<Longrightarrow> prj v n = Some x \<Longrightarrow> q (upd (\<lambda>m. m(n := None)) v)"
    "\<And>v x y. p v \<Longrightarrow> prj v n = Some x \<Longrightarrow> same mt body stat x y \<Longrightarrow> deleting (mt y) \<Longrightarrow> q (upd (\<lambda>m. m(n \<mapsto> y)) v)"
  shows "succeeds view p (do { err \<leftarrow> kc_Delete kc n; ret (ignore IsNotFound err) }) (\<lambda>_. q)"
  unfolding succeeds_def
proof (rule vtriple_bind)
  show "vtriple view p (kc_Delete kc n) (\<lambda>r v. case r of Inl e \<Rightarrow> IsNotFound e \<longrightarrow> q v | Inr _ \<Rightarrow> q v)"
    by (rule vtriple_frozen [OF delete]) (auto intro: assms split: sum.splits)
qed (auto intro!: vtriple_ret simp: ignore_def split: sum.splits)

lemma delete_retires:
  "succeeds view (\<lambda>v. \<exists>m. v = upd (\<lambda>_. m) v0 \<and> retired mt N (prj v0) m)
     (do { err \<leftarrow> kc_Delete kc n; ret (ignore IsNotFound err) })
     (\<lambda>_ v. \<exists>m. v = upd (\<lambda>_. m) v0 \<and> retired mt (insert n N) (prj v0) m)"
  by (rule delete_rule) (fastforce simp: prj_upd upd_upd intro: retired_intros)+

lemma delete_one:
  "succeeds view (\<lambda>v. v = v0) (do { err \<leftarrow> kc_Delete kc n; ret (ignore IsNotFound err) })
     (\<lambda>_ v. \<exists>m. v = upd (\<lambda>_. m) v0 \<and> retired mt {n} (prj v0) m)"
  by (rule succeeds_conseq [OF delete_retires [where N = "{}"]]) (auto intro: exI [of _ "prj v0"] simp: upd_id)

text \<open>Deleting the listed objects of a label outside the namespaces to keep.\<close>

lemma sweep_one:
  assumes "f x = (if om_Namespace (mt x) \<in> keep then ret (Inr ())
    else do { err \<leftarrow> kc_Delete kc (key_of (mt x)); ret (ignore IsNotFound err) })"
  shows "succeeds view (\<lambda>v. \<exists>m. v = upd (\<lambda>_. m) v0 \<and> retired mt (sweepKeys mt keep T) (prj v0) m) (f x)
    (\<lambda>_ v. \<exists>m. v = upd (\<lambda>_. m) v0 \<and> retired mt (sweepKeys mt keep (insert x T)) (prj v0) m)"
  unfolding assms
  by (rule succeeds_if) (simp_all add: sweepKeys_insert succeeds_ret delete_retires)

lemma sweep:
  assumes "\<And>x. f x = (if om_Namespace (mt x) \<in> keep then ret (Inr ())
    else do { err \<leftarrow> kc_Delete kc (key_of (mt x)); ret (ignore IsNotFound err) })"
  shows "succeeds view (\<lambda>v. v = v0)
    (do { got \<leftarrow> kc_List kc [MatchingLabels label val]; (case got of Inl e \<Rightarrow> ret (Inl e) | Inr items \<Rightarrow> for_each f items) })
    (\<lambda>_ v. \<exists>m. v = upd (\<lambda>_. m) v0 \<and> retired mt (surplus_of mt label val keep (prj v0)) (prj v0) m)"
proof (rule succeeds_then)
  let ?items = "{x \<in> ran (prj v0). map_of (om_Labels (mt x)) label = Some val}"
  let ?keyed = "\<forall>n x. prj v0 n = Some x \<longrightarrow> key_of (mt x) = n"
  let ?I = "\<lambda>T v. \<exists>m. v = upd (\<lambda>_. m) v0 \<and> retired mt (sweepKeys mt keep T) (prj v0) m"
  show "succeeds view (\<lambda>v. v = v0) (kc_List kc [MatchingLabels label val]) (\<lambda>items v. v = v0 \<and> (?keyed \<and> set items = ?items))"
    by (rule list_rule) auto
  fix items
  have loop: "succeeds view (?I {}) (for_each f items) (\<lambda>_. ?I ({} \<union> set items))"
    by (rule succeeds_for_each) (rule sweep_one [OF assms])
  have start: "?I {} v0" by (intro exI [of _ "prj v0"]) (simp add: sweepKeys_def upd_id)
  show "succeeds view (\<lambda>v. v = v0 \<and> (?keyed \<and> set items = ?items)) (for_each f items)
      (\<lambda>_ v. \<exists>m. v = upd (\<lambda>_. m) v0 \<and> retired mt (surplus_of mt label val keep (prj v0)) (prj v0) m)"
    by (rule succeeds_pre, rule succeeds_conseq [OF loop]) (use start in \<open>auto simp: sweepKeys_surplus\<close>)
qed

lemma update_rule:
  assumes "\<And>v x0 y. p v \<Longrightarrow> prj v (key_of (mt x)) = Some x0 \<Longrightarrow> body y = body x \<Longrightarrow> stat y = stat x0 \<Longrightarrow>
      user_meta (mt y) = user_meta (mt x) \<Longrightarrow> server_meta (mt y) = server_meta (mt x0) \<Longrightarrow>
      q y (upd (\<lambda>m. m(key_of (mt x) := if deleting (mt y) \<and> om_Finalizers (mt y) = [] then None else Some y)) v)"
  shows "succeeds view p (kc_Update kc x) q"
  unfolding succeeds_def by (rule vtriple_frozen [OF update]) (auto intro: assms split: sum.splits)

lemma status_update_rule:
  assumes "\<And>v x0 y. p v \<Longrightarrow> prj v (key_of (mt x)) = Some x0 \<Longrightarrow> body y = body x0 \<Longrightarrow> stat y = stat x \<Longrightarrow>
      user_meta (mt y) = user_meta (mt x0) \<Longrightarrow> server_meta (mt y) = server_meta (mt x0) \<Longrightarrow>
      q (Inr y) (upd (\<lambda>m. m(key_of (mt x) \<mapsto> y)) v)"
    "\<And>v e. p v \<Longrightarrow> (IsNotFound e \<Longrightarrow> prj v (key_of (mt x)) = None) \<Longrightarrow> q (Inl e) v"
  shows "vtriple view p (kc_StatusUpdate kc x) q"
  by (rule vtriple_frozen [OF status_update]) (auto intro: assms split: sum.splits)

text \<open>Patching the status of the version that is stored, where the object may be gone.\<close>

lemma status_patch_rule:
  assumes "\<And>v y. p v \<Longrightarrow> prj v (key_of (mt x)) = Some base \<Longrightarrow> body y = body base \<Longrightarrow> stat y = stat x \<Longrightarrow>
      user_meta (mt y) = user_meta (mt base) \<Longrightarrow> server_meta (mt y) = server_meta (mt base) \<Longrightarrow>
      q (upd (\<lambda>m. m(key_of (mt x) \<mapsto> y)) v)"
    "\<And>v. p v \<Longrightarrow> prj v (key_of (mt x)) = Some base"
  shows "succeeds view p (do { err \<leftarrow> kc_StatusPatch kc x base; ret (ignore IsNotFound err) }) (\<lambda>_. q)"
  unfolding succeeds_def
proof (rule vtriple_bind)
  show "vtriple view p (kc_StatusPatch kc x base) (\<lambda>r v. case r of Inl e \<Rightarrow> \<not> IsNotFound e | Inr _ \<Rightarrow> q v)"
    by (rule vtriple_frozen [OF status_patch]) (use assms in \<open>fastforce split: sum.splits\<close>)
qed (auto intro!: vtriple_ret simp: ignore_def split: sum.splits)

text \<open>Calls on this kind keep every predicate that does not look at its objects.\<close>

lemma frame:
  assumes "\<And>f v. I (upd f v) = I v"
  shows "vtriple view I (kc_Get kc n) (\<lambda>_. I)" "vtriple view I (kc_List kc opts) (\<lambda>_. I)"
    "vtriple view I (kc_Create kc x) (\<lambda>_. I)" "vtriple view I (kc_Update kc x) (\<lambda>_. I)"
    "vtriple view I (kc_StatusUpdate kc x) (\<lambda>_. I)" "vtriple view I (kc_Delete kc n) (\<lambda>_. I)"
    "vtriple view I (kc_Patch kc x base) (\<lambda>_. I)" "vtriple view I (kc_StatusPatch kc x base) (\<lambda>_. I)"
  by (rule vtriple_frozen [OF get] vtriple_frozen [OF list] vtriple_frozen [OF create] vtriple_frozen [OF update]
      vtriple_frozen [OF status_update] vtriple_frozen [OF delete] vtriple_frozen [OF patch] vtriple_frozen [OF status_patch],
      auto simp: assms split: sum.splits)+

end

section \<open>The laws of a server\<close>

locale kube_server =
  fixes view :: "'w \<Rightarrow> cluster" and c :: "'w kube"
  assumes sandboxes_law: "kind_server view cl_Sandboxes cl_Sandboxes_update sb_meta sb_spec sb_status
      sandboxIndex (k_Sandboxes c)"
    and templates_law: "kind_server view cl_Templates cl_Templates_update tpl_meta tpl_spec (\<lambda>_. ())
      (\<lambda>_ _. []) (k_Templates c)"
    and profiles_law: "kind_server view cl_Profiles cl_Profiles_update ap_meta ap_spec ap_status
      (\<lambda>_ _. []) (k_Profiles c)"
    and sessions_law: "kind_server view cl_Sessions cl_Sessions_update ses_meta ses_spec ses_status
      (\<lambda>_ _. []) (k_Sessions c)"
    and pods_law: "kind_server view cl_Pods cl_Pods_update pod_meta pod_spec pod_status (\<lambda>_ _. []) (k_Pods c)"
    and pvcs_law: "kind_server view cl_PVCs cl_PVCs_update pvc_meta
      (\<lambda>p. (pvc_AccessModes p, pvc_StorageClassName p, pvc_StorageRequest p)) (\<lambda>_. ()) (\<lambda>_ _. []) (k_PVCs c)"
    and secrets_law: "kind_server view cl_Secrets cl_Secrets_update sec_meta sec_Data (\<lambda>_. ())
      (\<lambda>_ _. []) (k_Secrets c)"
    and netpols_law: "kind_server view cl_NetPols cl_NetPols_update np_meta np_spec (\<lambda>_. ())
      (\<lambda>_ _. []) (k_NetPols c)"
    and serviceaccounts_law: "kind_server view cl_ServiceAccounts cl_ServiceAccounts_update sa_meta (\<lambda>_. ())
      (\<lambda>_. ()) (\<lambda>_ _. []) (k_ServiceAccounts c)"
    and roles_law: "kind_server view cl_Roles cl_Roles_update role_meta role_Rules (\<lambda>_. ())
      (\<lambda>_ _. []) (k_Roles c)"
    and rolebindings_law: "kind_server view cl_RoleBindings cl_RoleBindings_update rb_meta
      (\<lambda>b. (rb_RoleRef b, rb_Subjects b)) (\<lambda>_. ()) (\<lambda>_ _. []) (k_RoleBindings c)"
    and namespaces_law: "kind_server view cl_Namespaces cl_Namespaces_update ns_meta (\<lambda>_. ()) (\<lambda>_. ())
      (\<lambda>_ _. []) (k_Namespaces c)"
    and endpointslices_law: "kind_server view cl_EndpointSlices cl_EndpointSlices_update es_meta
      (\<lambda>e. (es_Endpoints e, es_Ports e)) (\<lambda>_. ()) (\<lambda>_ _. []) (k_EndpointSlices c)"
    and sandbox_patch_law: "vtriple view (\<lambda>v. v = v0)
      (kc_Patch (k_Sandboxes c) (sb\<lparr>sb_spec := (sb_spec sb)\<lparr>sp_DesiredState := d\<rparr>\<rparr>) sb)
      (\<lambda>r v. case r of Inl _ \<Rightarrow> True | Inr y \<Rightarrow> \<forall>x0. cl_Sandboxes v0 (key_of (sb_meta sb)) = Some x0 \<longrightarrow>
        d \<noteq> sp_DesiredState (sb_spec sb) \<longrightarrow> sb_spec y = (sb_spec x0)\<lparr>sp_DesiredState := d\<rparr>)"
    and session_status_law: "vtriple view (\<lambda>v. True) (kc_Create (k_Sessions c) s)
      (\<lambda>r v. case r of Inl _ \<Rightarrow> True | Inr s' \<Rightarrow> ses_status s' = emptySessionStatus)"
    and now_law: "vtriple view (\<lambda>v. v = v0) (k_Now c) (\<lambda>_ v. v = v0)"

sublocale kube_server \<subseteq> sandboxes: kind_server view cl_Sandboxes cl_Sandboxes_update sb_meta sb_spec sb_status
    sandboxIndex "k_Sandboxes c"
  by (rule sandboxes_law)

sublocale kube_server \<subseteq> sessions: kind_server view cl_Sessions cl_Sessions_update ses_meta ses_spec ses_status
    "\<lambda>_ _. []" "k_Sessions c"
  by (rule sessions_law)

sublocale kube_server \<subseteq> roles: kind_server view cl_Roles cl_Roles_update role_meta role_Rules
    "\<lambda>_. ()" "\<lambda>_ _. []" "k_Roles c"
  by (rule roles_law)

sublocale kube_server \<subseteq> namespaces: kind_server view cl_Namespaces cl_Namespaces_update ns_meta
    "\<lambda>_. ()" "\<lambda>_. ()" "\<lambda>_ _. []" "k_Namespaces c"
  by (rule namespaces_law)

sublocale kube_server \<subseteq> profiles: kind_server view cl_Profiles cl_Profiles_update ap_meta ap_spec ap_status
    "\<lambda>_ _. []" "k_Profiles c"
  by (rule profiles_law)

sublocale kube_server \<subseteq> pods: kind_server view cl_Pods cl_Pods_update pod_meta pod_spec pod_status
    "\<lambda>_ _. []" "k_Pods c"
  by (rule pods_law)

sublocale kube_server \<subseteq> pvcs: kind_server view cl_PVCs cl_PVCs_update pvc_meta
    "\<lambda>p. (pvc_AccessModes p, pvc_StorageClassName p, pvc_StorageRequest p)" "\<lambda>_. ()" "\<lambda>_ _. []" "k_PVCs c"
  by (rule pvcs_law)

sublocale kube_server \<subseteq> secrets: kind_server view cl_Secrets cl_Secrets_update sec_meta sec_Data
    "\<lambda>_. ()" "\<lambda>_ _. []" "k_Secrets c"
  by (rule secrets_law)

sublocale kube_server \<subseteq> netpols: kind_server view cl_NetPols cl_NetPols_update np_meta np_spec
    "\<lambda>_. ()" "\<lambda>_ _. []" "k_NetPols c"
  by (rule netpols_law)

sublocale kube_server \<subseteq> serviceaccounts: kind_server view cl_ServiceAccounts cl_ServiceAccounts_update sa_meta
    "\<lambda>_. ()" "\<lambda>_. ()" "\<lambda>_ _. []" "k_ServiceAccounts c"
  by (rule serviceaccounts_law)

sublocale kube_server \<subseteq> rolebindings: kind_server view cl_RoleBindings cl_RoleBindings_update rb_meta
    "\<lambda>b. (rb_RoleRef b, rb_Subjects b)" "\<lambda>_. ()" "\<lambda>_ _. []" "k_RoleBindings c"
  by (rule rolebindings_law)

end
