(* ===== verification/Kube_Memory.thy ===== *)
theory Kube_Memory
  imports Kube_Server
begin

text \<open>
  A server that keeps the objects of each kind in a list, the latest version
  first, and a clock that stands still.  Handlers can be evaluated on it.
\<close>

definition lookup :: "('o \<Rightarrow> ObjectMeta) \<Rightarrow> 'o list \<Rightarrow> NamespacedName \<rightharpoonup> 'o" where
  "lookup mt xs n = find (\<lambda>x. key_of (mt x) = n) xs"

definition put :: "('o \<Rightarrow> ObjectMeta) \<Rightarrow> 'o \<Rightarrow> 'o list \<Rightarrow> 'o list" where
  "put mt x xs = x # xs"

definition drop_key :: "('o \<Rightarrow> ObjectMeta) \<Rightarrow> NamespacedName \<Rightarrow> 'o list \<Rightarrow> 'o list" where
  "drop_key mt n xs = filter (\<lambda>x. key_of (mt x) \<noteq> n) xs"

definition notFound :: "NamespacedName \<Rightarrow> err" where
  "notFound n = NotFound (snd n)"

definition memKind ::
  "('s \<Rightarrow> 'o list) \<Rightarrow> (('o list \<Rightarrow> 'o list) \<Rightarrow> 's \<Rightarrow> 's) \<Rightarrow> ('s \<Rightarrow> Time) \<Rightarrow> ('o \<Rightarrow> ObjectMeta) \<Rightarrow>
   ((ObjectMeta \<Rightarrow> ObjectMeta) \<Rightarrow> 'o \<Rightarrow> 'o) \<Rightarrow> ('o \<Rightarrow> 'o \<Rightarrow> 'o) \<Rightarrow> (string \<Rightarrow> 'o \<Rightarrow> string list) \<Rightarrow>
   ('o \<Rightarrow> 'o) \<Rightarrow> ('o, 's) kind_client" where
  "memKind g u clock mt setMeta withStatus index fresh =
     (let update = (\<lambda>x. State (\<lambda>s. case lookup mt (g s) (key_of (mt x)) of
            None \<Rightarrow> (Inl (notFound (key_of (mt x))), s)
          | Some x0 \<Rightarrow>
              (let y = withStatus x0 (setMeta (\<lambda>m. m\<lparr>om_UID := om_UID (mt x0),
                     om_CreationTimestamp := om_CreationTimestamp (mt x0),
                     om_DeletionTimestamp := om_DeletionTimestamp (mt x0)\<rparr>) x)
               in (Inr y, u (if deleting (mt y) \<and> om_Finalizers (mt y) = [] then drop_key mt (key_of (mt x))
                             else put mt y) s))));
          statusUpdate = (\<lambda>x. State (\<lambda>s. case lookup mt (g s) (key_of (mt x)) of
            None \<Rightarrow> (Inl (notFound (key_of (mt x))), s)
          | Some x0 \<Rightarrow> (let y = withStatus x x0 in (Inr y, u (put mt y) s))))
      in \<lparr>
        kc_Get = (\<lambda>n. State (\<lambda>s. (case lookup mt (g s) n of None \<Rightarrow> Inl (notFound n) | Some x \<Rightarrow> Inr x, s))),
        kc_List = (\<lambda>opts. State (\<lambda>s. (Inr (filter (\<lambda>x. lookup mt (g s) (key_of (mt x)) = Some x \<and>
          list_all (\<lambda>opt. selected index mt opt x) opts) (g s)), s))),
        kc_Create = (\<lambda>x. State (\<lambda>s. case lookup mt (g s) (key_of (mt x)) of
            Some _ \<Rightarrow> (Inl (AlreadyExists (om_Name (mt x))), s)
          | None \<Rightarrow> (let y = fresh (setMeta (\<lambda>m. m\<lparr>om_DeletionTimestamp := None\<rparr>) x) in (Inr y, u (put mt y) s)))),
        kc_Update = update,
        kc_StatusUpdate = statusUpdate,
        kc_Patch = (\<lambda>x base. State (\<lambda>s. case lookup mt (g s) (key_of (mt x)) of
            None \<Rightarrow> (Inl (notFound (key_of (mt x))), s)
          | Some x0 \<Rightarrow> if x0 = base then run_state (update x) s else (Inl (OtherErr ''conflict''), s))),
        kc_StatusPatch = (\<lambda>x base. State (\<lambda>s. case lookup mt (g s) (key_of (mt x)) of
            None \<Rightarrow> (Inl (notFound (key_of (mt x))), s)
          | Some x0 \<Rightarrow> if x0 = base then run_state (statusUpdate x) s else (Inl (OtherErr ''conflict''), s))),
        kc_Delete = (\<lambda>n. State (\<lambda>s. case lookup mt (g s) n of
            None \<Rightarrow> (Inl (notFound n), s)
          | Some x \<Rightarrow> (Inr (), u (if om_Finalizers (mt x) = [] then drop_key mt n
              else put mt (setMeta (\<lambda>m. m\<lparr>om_DeletionTimestamp := Some (max 0 (clock s))\<rparr>) x)) s)))\<rparr>)"

lemma lookup_put [simp]: "lookup mt (put mt y xs) = (lookup mt xs)(key_of (mt y) \<mapsto> y)"
  by (auto simp: lookup_def put_def)

lemma lookup_drop_key [simp]: "lookup mt (drop_key mt n xs) = (lookup mt xs)(n := None)"
proof
  show "lookup mt (drop_key mt n xs) k = ((lookup mt xs)(n := None)) k" for k
    by (induction xs) (auto simp: lookup_def drop_key_def)
qed

lemma lookup_key: "lookup mt xs n = Some x \<Longrightarrow> key_of (mt x) = n \<and> x \<in> set xs"
  by (auto simp: lookup_def find_Some_iff)

lemma ran_lookup: "ran (lookup mt xs) = {x \<in> set xs. lookup mt xs (key_of (mt x)) = Some x}"
  unfolding ran_def set_eq_iff mem_Collect_eq using lookup_key by metis


text \<open>The in-memory operations keep the laws of a kind, whatever record holds the list.\<close>

lemma marked_same:
  assumes "\<And>f x. mt (setMeta f x) = f (mt x)" "\<And>f x. body (setMeta f x) = body x" "\<And>f x. stat (setMeta f x) = stat x"
  shows "same mt body stat x (setMeta (\<lambda>m. m\<lparr>om_DeletionTimestamp := Some (max 0 t)\<rparr>) x)"
    "deleting (mt (setMeta (\<lambda>m. m\<lparr>om_DeletionTimestamp := Some (max 0 t)\<rparr>) x))"
  by (simp_all add: assms same_def user_meta_def key_of_def deleting_def IsZero_def zeroTime_def)

lemma memKind_lawful:
  assumes lens: "\<And>f s. g (u f s) = f (g s)"
    and prj: "\<And>s. prj (view s) = lookup mt (g s)"
    and upd: "\<And>f h s. h (lookup mt (g s)) = lookup mt (f (g s)) \<Longrightarrow> view (u f s) = upd h (view s)"
    and record_laws: "\<And>f v. prj (upd f v) = f (prj v)" "\<And>f h v. upd f (upd h v) = upd (\<lambda>m. f (h m)) v"
      "\<And>v. upd (\<lambda>_. prj v) v = v"
    and meta: "\<And>f x. mt (setMeta f x) = f (mt x)" "\<And>f x. body (setMeta f x) = body x"
      "\<And>f x. stat (setMeta f x) = stat x"
    and fresh: "\<And>x. body (fresh x) = body x" "\<And>x. mt (fresh x) = mt x"
    and status: "\<And>a x. body (ws a x) = body x" "\<And>a x. mt (ws a x) = mt x" "\<And>a x. stat (ws a x) = stat a"
  shows "kind_server view prj upd mt body stat index (memKind g u clock mt setMeta ws index fresh)"
proof unfold_locales
  show "prj (upd f v) = f (prj v)" "upd f (upd h v) = upd (\<lambda>m. f (h m)) v" "upd (\<lambda>_. prj v) v = v" for f h v
    by (rule record_laws)+
next
  fix w n x
  assume "prj (view w) n = Some x"
  then show "key_of (mt x) = n" using lookup_key [of mt "g w" n x] by (simp add: prj)
next
  show "vtriple view (\<lambda>v. v = v0) (kc_Get (memKind g u clock mt setMeta ws index fresh) n) (\<lambda>r v. v = v0 \<and>
      (case r of Inr x \<Rightarrow> prj v0 n = Some x | Inl e \<Rightarrow> IsNotFound e \<longrightarrow> prj v0 n = None))" for v0 n
    by (auto simp: vtriple_def triple_def memKind_def prj Let_def split: option.splits)
next
  show "vtriple view (\<lambda>v. v = v0) (kc_List (memKind g u clock mt setMeta ws index fresh) opts) (\<lambda>r v. v = v0 \<and>
      (case r of Inr xs \<Rightarrow> set xs = {x \<in> ran (prj v0). \<forall>opt \<in> set opts. selected index mt opt x} | Inl e \<Rightarrow> True))" for v0 opts
    by (auto simp: vtriple_def triple_def memKind_def prj Let_def ran_lookup list_all_iff)
next
  show "vtriple view (\<lambda>v. v = v0) (kc_Create (memKind g u clock mt setMeta ws index fresh) x) (\<lambda>r v.
      case r of
        Inl e \<Rightarrow> v = v0 \<and> (IsAlreadyExists e \<longrightarrow> prj v0 (key_of (mt x)) \<noteq> None)
      | Inr y \<Rightarrow> prj v0 (key_of (mt x)) = None \<and> body y = body x \<and> user_meta (mt y) = user_meta (mt x) \<and>
          om_DeletionTimestamp (mt y) = None \<and> v = upd (\<lambda>m. m(key_of (mt x) \<mapsto> y)) v0)" for v0 x
    by (auto simp: vtriple_def triple_def memKind_def prj Let_def meta fresh user_meta_def key_of_def
        intro!: upd split: option.splits)
next
  show "vtriple view (\<lambda>v. v = v0) (kc_Update (memKind g u clock mt setMeta ws index fresh) x) (\<lambda>r v.
      case r of
        Inl e \<Rightarrow> v = v0 \<and> (IsNotFound e \<longrightarrow> prj v0 (key_of (mt x)) = None)
      | Inr y \<Rightarrow> \<exists>x0. prj v0 (key_of (mt x)) = Some x0 \<and> body y = body x \<and> stat y = stat x0 \<and>
          user_meta (mt y) = user_meta (mt x) \<and> server_meta (mt y) = server_meta (mt x0) \<and>
          v = upd (\<lambda>m. m(key_of (mt x) := if deleting (mt y) \<and> om_Finalizers (mt y) = [] then None else Some y)) v0)" for v0 x
    by (auto simp: vtriple_def triple_def memKind_def prj Let_def meta status user_meta_def server_meta_def key_of_def
        intro!: upd split: option.splits)
next
  show "vtriple view (\<lambda>v. v = v0) (kc_StatusUpdate (memKind g u clock mt setMeta ws index fresh) x) (\<lambda>r v.
      case r of
        Inl e \<Rightarrow> v = v0 \<and> (IsNotFound e \<longrightarrow> prj v0 (key_of (mt x)) = None)
      | Inr y \<Rightarrow> \<exists>x0. prj v0 (key_of (mt x)) = Some x0 \<and> body y = body x0 \<and> stat y = stat x \<and>
          user_meta (mt y) = user_meta (mt x0) \<and> server_meta (mt y) = server_meta (mt x0) \<and>
          v = upd (\<lambda>m. m(key_of (mt x) \<mapsto> y)) v0)" for v0 x
    by (auto simp: vtriple_def triple_def memKind_def prj Let_def status intro!: upd split: option.splits)
      (metis lookup_key)
next
  show "vtriple view (\<lambda>v. v = v0) (kc_Patch (memKind g u clock mt setMeta ws index fresh) x base) (\<lambda>r v.
      case r of
        Inl e \<Rightarrow> v = v0 \<and> (IsNotFound e \<longrightarrow> prj v0 (key_of (mt x)) = None)
      | Inr y \<Rightarrow> \<exists>x0. prj v0 (key_of (mt x)) = Some x0 \<and> stat y = stat x0 \<and>
          (body x = body base \<longrightarrow> body y = body x0) \<and> (om_Finalizers (mt x) = om_Finalizers (mt base) \<longrightarrow>
            om_Finalizers (mt y) = om_Finalizers (mt x0)) \<and>
          (x0 = base \<longrightarrow> body y = body x \<and> user_meta (mt y) = user_meta (mt x)) \<and>
          key_of (mt y) = key_of (mt x) \<and> server_meta (mt y) = server_meta (mt x0) \<and>
          v = upd (\<lambda>m. m(key_of (mt x) := if deleting (mt y) \<and> om_Finalizers (mt y) = [] then None else Some y)) v0)" for v0 x base
    by (auto simp: vtriple_def triple_def memKind_def prj Let_def meta status user_meta_def server_meta_def key_of_def
        intro!: upd split: option.splits)
next
  show "vtriple view (\<lambda>v. v = v0) (kc_StatusPatch (memKind g u clock mt setMeta ws index fresh) x base) (\<lambda>r v.
      case r of
        Inl e \<Rightarrow> v = v0 \<and> (IsNotFound e \<longrightarrow> prj v0 (key_of (mt x)) = None)
      | Inr y \<Rightarrow> \<exists>x0. prj v0 (key_of (mt x)) = Some x0 \<and> body y = body x0 \<and> (x0 = base \<longrightarrow> stat y = stat x) \<and>
          user_meta (mt y) = user_meta (mt x0) \<and> server_meta (mt y) = server_meta (mt x0) \<and>
          v = upd (\<lambda>m. m(key_of (mt x) \<mapsto> y)) v0)" for v0 x base
    by (auto simp: vtriple_def triple_def memKind_def prj Let_def status intro!: upd split: option.splits)
      (metis lookup_key)
next
  show "vtriple view (\<lambda>v. v = v0) (kc_Delete (memKind g u clock mt setMeta ws index fresh) n) (\<lambda>r v.
      case r of
        Inl e \<Rightarrow> v = v0 \<and> (IsNotFound e \<longrightarrow> prj v0 n = None)
      | Inr _ \<Rightarrow> \<exists>x0. prj v0 n = Some x0 \<and>
          (v = upd (\<lambda>m. m(n := None)) v0 \<or>
           (\<exists>y. same mt body stat x0 y \<and> deleting (mt y) \<and> v = upd (\<lambda>m. m(n \<mapsto> y)) v0)))" for v0 n
    unfolding vtriple_def triple_def
  proof (intro allI impI, goal_cases)
    case (1 w)
    show ?case
    proof (cases "lookup mt (g w) n")
      case None
      then show ?thesis using 1 by (auto simp: memKind_def Let_def prj)
    next
      case (Some x)
      let ?y = "setMeta (\<lambda>m. m\<lparr>om_DeletionTimestamp := Some (max 0 (clock w))\<rparr>) x"
      have "view (u (drop_key mt n) w) = upd (\<lambda>m. m(n := None)) v0"
        unfolding 1 [symmetric] by (rule upd) simp
      moreover have "view (u (put mt ?y) w) = upd (\<lambda>m. m(n \<mapsto> ?y)) v0"
        unfolding 1 [symmetric] using lookup_key [OF Some] by (intro upd) (simp add: meta key_of_def)
      moreover have "same mt body stat x ?y" "deleting (mt ?y)"
        using marked_same [of mt setMeta body stat] meta by auto
      ultimately show ?thesis
        using Some 1 by (auto simp: memKind_def Let_def prj)
    qed
  qed
qed

record memory =
  mem_Sandboxes :: "Sandbox list"
  mem_Templates :: "SandboxTemplate list"
  mem_Profiles :: "AccessProfile list"
  mem_Sessions :: "SandboxSession list"
  mem_Pods :: "Pod list"
  mem_PVCs :: "PersistentVolumeClaim list"
  mem_Secrets :: "Secret list"
  mem_NetPols :: "NetworkPolicy list"
  mem_ServiceAccounts :: "ServiceAccount list"
  mem_Roles :: "Role list"
  mem_RoleBindings :: "RoleBinding list"
  mem_Namespaces :: "KNamespace list"
  mem_EndpointSlices :: "EndpointSlice list"
  mem_Clock :: Time

definition memView :: "memory \<Rightarrow> cluster" where
  "memView s = \<lparr>
     cl_Sandboxes = lookup sb_meta (mem_Sandboxes s),
     cl_Templates = lookup tpl_meta (mem_Templates s),
     cl_Profiles = lookup ap_meta (mem_Profiles s),
     cl_Sessions = lookup ses_meta (mem_Sessions s),
     cl_Pods = lookup pod_meta (mem_Pods s),
     cl_PVCs = lookup pvc_meta (mem_PVCs s),
     cl_Secrets = lookup sec_meta (mem_Secrets s),
     cl_NetPols = lookup np_meta (mem_NetPols s),
     cl_ServiceAccounts = lookup sa_meta (mem_ServiceAccounts s),
     cl_Roles = lookup role_meta (mem_Roles s),
     cl_RoleBindings = lookup rb_meta (mem_RoleBindings s),
     cl_Namespaces = lookup ns_meta (mem_Namespaces s),
     cl_EndpointSlices = lookup es_meta (mem_EndpointSlices s)\<rparr>"

definition memKube :: "memory kube" where
  "memKube = \<lparr>
     k_Sandboxes = memKind mem_Sandboxes mem_Sandboxes_update mem_Clock sb_meta sb_meta_update
       (\<lambda>a x. x\<lparr>sb_status := sb_status a\<rparr>) sandboxIndex (\<lambda>x. x),
     k_Templates = memKind mem_Templates mem_Templates_update mem_Clock tpl_meta tpl_meta_update
       (\<lambda>a x. x) (\<lambda>_ _. []) (\<lambda>x. x),
     k_Profiles = memKind mem_Profiles mem_Profiles_update mem_Clock ap_meta ap_meta_update
       (\<lambda>a x. x\<lparr>ap_status := ap_status a\<rparr>) (\<lambda>_ _. []) (\<lambda>x. x),
     k_Sessions = memKind mem_Sessions mem_Sessions_update mem_Clock ses_meta ses_meta_update
       (\<lambda>a x. x\<lparr>ses_status := ses_status a\<rparr>) (\<lambda>_ _. []) (\<lambda>x. x\<lparr>ses_status := emptySessionStatus\<rparr>),
     k_Pods = memKind mem_Pods mem_Pods_update mem_Clock pod_meta pod_meta_update
       (\<lambda>a x. x\<lparr>pod_status := pod_status a\<rparr>) (\<lambda>_ _. []) (\<lambda>x. x),
     k_PVCs = memKind mem_PVCs mem_PVCs_update mem_Clock pvc_meta pvc_meta_update
       (\<lambda>a x. x) (\<lambda>_ _. []) (\<lambda>x. x),
     k_Secrets = memKind mem_Secrets mem_Secrets_update mem_Clock sec_meta sec_meta_update
       (\<lambda>a x. x) (\<lambda>_ _. []) (\<lambda>x. x),
     k_NetPols = memKind mem_NetPols mem_NetPols_update mem_Clock np_meta np_meta_update
       (\<lambda>a x. x) (\<lambda>_ _. []) (\<lambda>x. x),
     k_ServiceAccounts = memKind mem_ServiceAccounts mem_ServiceAccounts_update mem_Clock sa_meta sa_meta_update
       (\<lambda>a x. x) (\<lambda>_ _. []) (\<lambda>x. x),
     k_Roles = memKind mem_Roles mem_Roles_update mem_Clock role_meta role_meta_update
       (\<lambda>a x. x) (\<lambda>_ _. []) (\<lambda>x. x),
     k_RoleBindings = memKind mem_RoleBindings mem_RoleBindings_update mem_Clock rb_meta rb_meta_update
       (\<lambda>a x. x) (\<lambda>_ _. []) (\<lambda>x. x),
     k_Namespaces = memKind mem_Namespaces mem_Namespaces_update mem_Clock ns_meta ns_meta_update
       (\<lambda>a x. x) (\<lambda>_ _. []) (\<lambda>x. x),
     k_EndpointSlices = memKind mem_EndpointSlices mem_EndpointSlices_update mem_Clock es_meta es_meta_update
       (\<lambda>a x. x) (\<lambda>_ _. []) (\<lambda>x. x),
     k_Now = State (\<lambda>s. (mem_Clock s, s))\<rparr>"

lemma memKind_create_fresh:
  assumes "fst (run_state (kc_Create (memKind g u clock mt setMeta ws index fresh) x) s) = Inr y"
  shows "\<exists>z. y = fresh z"
  using assms by (auto simp: memKind_def Let_def split: option.splits)

lemma memKind_patch_base:
  assumes "fst (run_state (kc_Patch (memKind g u clock mt setMeta ws index fresh) x base) s) = Inr y"
    "lookup mt (g s) (key_of (mt x)) = Some x0"
  shows "x0 = base \<and> (\<exists>f. y = ws x0 (setMeta f x))"
  using assms by (auto simp: memKind_def Let_def split: option.splits if_splits)

interpretation memKube: kube_server memView memKube
proof -
  have patched: "vtriple memView (\<lambda>v. v = v0)
      (kc_Patch (k_Sandboxes memKube) (sb\<lparr>sb_spec := (sb_spec sb)\<lparr>sp_DesiredState := d\<rparr>\<rparr>) sb)
      (\<lambda>r v. case r of Inl _ \<Rightarrow> True | Inr y \<Rightarrow> \<forall>x0. cl_Sandboxes v0 (key_of (sb_meta sb)) = Some x0 \<longrightarrow>
        d \<noteq> sp_DesiredState (sb_spec sb) \<longrightarrow> sb_spec y = (sb_spec x0)\<lparr>sp_DesiredState := d\<rparr>)" for v0 sb d
    unfolding vtriple_def triple_def memKube_def
    by (auto simp: split_beta memView_def split: sum.splits dest!: memKind_patch_base)
  have fresh: "vtriple memView (\<lambda>v. True) (kc_Create (k_Sessions memKube) s)
      (\<lambda>r v. case r of Inl _ \<Rightarrow> True | Inr s' \<Rightarrow> ses_status s' = emptySessionStatus)" for s
    unfolding vtriple_def triple_def memKube_def
    by (auto simp: split_beta split: sum.splits dest!: memKind_create_fresh)
  show "kube_server memView memKube"
    by (intro kube_server.intro fresh patched)
      (simp_all add: memKube_def vtriple_def triple_def memKind_lawful memView_def o_def)
qed

definition emptyMemory :: memory where
  "emptyMemory = \<lparr>
     mem_Sandboxes = [],
     mem_Templates = [],
     mem_Profiles = [],
     mem_Sessions = [],
     mem_Pods = [],
     mem_PVCs = [],
     mem_Secrets = [],
     mem_NetPols = [],
     mem_ServiceAccounts = [],
     mem_Roles = [],
     mem_RoleBindings = [],
     mem_Namespaces = [],
     mem_EndpointSlices = [], mem_Clock = 5000 * Second\<rparr>"

section \<open>A sample installation\<close>

definition sampleReconciler :: "memory SandboxReconciler" where
  "sampleReconciler = \<lparr>sr_Client = memKube, sr_AgentImage = ''agent'', sr_PriorityClassName = [],
     sr_GatewayNamespace = [], sr_Now = None, sr_Lib = refLib, sr_Ssh = refSsh,
     sr_Marshal = (\<lambda>t. Inr (ts_Image t)), sr_Sum256 = (\<lambda>b. replicate 32 CHR ''h''), sr_PodNamespace = []\<rparr>"

definition sampleMemory :: memory where
  "sampleMemory = emptyMemory\<lparr>mem_Sandboxes := [sampleSandbox], mem_Templates := [sampleTemplate],
     mem_Profiles := [sampleProfile], mem_Sessions := [sampleSession]\<rparr>"

lemma sampleReconciler_sel [simp]:
  "sr_Client sampleReconciler = memKube" "sr_Lib sampleReconciler = refLib" "sr_Ssh sampleReconciler = refSsh"
  by (simp_all add: sampleReconciler_def)

lemma result_split: "is_ok (fst (run_state m w)) \<Longrightarrow> \<exists>x w'. run_state m w = (Inr x, w')"
  by (cases "run_state m w") (auto simp: is_ok_def split: sum.splits)

end
