(* ===== verification/Sandbox_Home.thy ===== *)
theory Sandbox_Home
  imports Sandbox_Children Kube_Memory
begin

text \<open>
  The guard of home claims: the tie-break is a strict order, so of the sandboxes
  that name one existing claim at most one gets past the guard.
\<close>

declare split_paired_All [simp del] split_paired_Ex [simp del]

section \<open>The tie-break\<close>

lemma wins_asym: "wins a b \<Longrightarrow> \<not> wins b a"
  by (auto simp: wins_def Let_def dest: string_less_asym split: if_splits)

lemma wins_total: "sb_UID a \<noteq> sb_UID b \<Longrightarrow> wins a b \<or> wins b a"
  using string_less_total [of "sb_UID a" "sb_UID b"] by (auto simp: wins_def Let_def)

lemma wins_trans: "wins a b \<Longrightarrow> wins b c \<Longrightarrow> wins a c"
  by (auto simp: wins_def Let_def dest: string_less_trans split: if_splits)

lemma longer_prefix:
  fixes pre claim :: string
  shows "(if length pre < length claim \<and> take (length pre) claim = pre then (drop (length pre) claim, True) else ([], False))
      = (x, True) \<longleftrightarrow> x \<noteq> [] \<and> claim = pre @ x"
proof
  assume "x \<noteq> [] \<and> claim = pre @ x"
  then show "(if length pre < length claim \<and> take (length pre) claim = pre then (drop (length pre) claim, True) else ([], False))
      = (x, True)" by simp
next
  assume "(if length pre < length claim \<and> take (length pre) claim = pre then (drop (length pre) claim, True) else ([], False))
      = (x, True)"
  then have p: "length pre < length claim" "take (length pre) claim = pre" "x = drop (length pre) claim"
    by (auto split: if_splits)
  have "claim = take (length pre) claim @ x" unfolding p(3) by simp
  then show "x \<noteq> [] \<and> claim = pre @ x" using p by simp
qed

text \<open>Exactly the generated claim names are recognised, each as the claim of its sandbox.\<close>

lemma ownerOfGeneratedClaim_iff: "ownerOfGeneratedClaim claim = (x, True) \<longleftrightarrow> x \<noteq> [] \<and> claim = PVCName x"
  unfolding ownerOfGeneratedClaim_def Let_def PVCName_def by (rule longer_prefix)

section \<open>The candidates\<close>

text \<open>The sandboxes the guard compares a sandbox with: those of its namespace that name the claim.\<close>

definition names_claim :: "string \<Rightarrow> Sandbox \<Rightarrow> bool" where
  "names_claim claim sb \<longleftrightarrow> (\<exists>h. sp_Home (sb_spec sb) = Some h \<and> hs_ExistingClaim h = claim \<and> claim \<noteq> [])"

lemma index_claim: "claim \<in> set (sandboxIndex indexSandboxExistingClaim sb) \<longleftrightarrow> names_claim claim sb"
proof (cases "sp_Home (sb_spec sb)")
  case (Some h)
  then show ?thesis
    by (auto simp: sandboxIndex_def names_claim_def indexSandboxExistingClaim_def indexSandboxTemplate_def)
qed (simp add: sandboxIndex_def names_claim_def indexSandboxExistingClaim_def indexSandboxTemplate_def)

lemma firstWinner_none:
  assumes "firstWinner sb candidates = []" "other \<in> set candidates" "contends sb other" "sb_Name other \<noteq> []"
    "\<forall>x \<in> set candidates. sb_Name x \<noteq> []"
  shows "\<not> wins other sb"
  using assms by (auto simp: firstWinner_def find_None_iff find_Some_iff split: option.splits)

context kube_server
begin

lemma claimConflict_unbeaten:
  assumes "sr_Client r = c" "\<forall>n sb. cl_Sandboxes v0 n = Some sb \<longrightarrow> sb_Name sb \<noteq> []"
  shows "vtriple view (\<lambda>v. v = v0) (claimConflict r sb claim)
    (\<lambda>res v. res = Inr [] \<longrightarrow> (\<forall>other \<in> ran (cl_Sandboxes v0). sb_Namespace other = sb_Namespace sb \<longrightarrow>
       names_claim claim other \<longrightarrow> contends sb other \<longrightarrow> \<not> wins other sb))"
proof -
  let ?items = "{x \<in> ran (cl_Sandboxes v0). sb_Namespace x = sb_Namespace sb \<and> names_claim claim x}"
  let ?post = "\<lambda>res v. res = Inr [] \<longrightarrow> (\<forall>other \<in> ?items. contends sb other \<longrightarrow> \<not> wins other sb)"
  have list: "succeeds view (\<lambda>v. v = v0)
      (kc_List (k_Sandboxes (sr_Client r)) [InNamespace (sb_Namespace sb), MatchingFields indexSandboxExistingClaim claim])
      (\<lambda>items v. v = v0 \<and> set items = ?items)"
    unfolding assms(1) by (rule sandboxes.list_rule) (auto simp: index_claim)
  have named: "x \<in> ran (cl_Sandboxes v0) \<Longrightarrow> sb_Name x \<noteq> []" for x
    using assms(2) by (auto simp: ran_def)
  have first: "\<forall>other \<in> ?items. contends sb other \<longrightarrow> \<not> wins other sb"
    if "firstWinner sb (items @ more) = []" "set items = ?items" "\<forall>x \<in> set more. sb_Name x \<noteq> []" for items more
  proof -
    have "\<forall>x \<in> set (items @ more). sb_Name x \<noteq> []" using that(2,3) named by auto
    then show ?thesis using firstWinner_none [OF that(1)] that(2) by auto
  qed
  have get: "vtriple view (\<lambda>v. v = v0 \<and> set items = ?items) (kc_Get (k_Sandboxes c) n)
      (\<lambda>g v. set items = ?items \<and> (case g of Inr x \<Rightarrow> sb_Name x \<noteq> [] | Inl _ \<Rightarrow> True))" for items n
    by (rule sandboxes.get_rule) (use assms(2) in auto)
  have tail: "vtriple view (\<lambda>v. v = v0 \<and> set items = ?items) (do {
              got \<leftarrow> kc_Get (k_Sandboxes c) n;
              (case got of
                 Inr ownerSb \<Rightarrow> ret (Inr (firstWinner sb (items @ [ownerSb])))
               | Inl e \<Rightarrow> if IsNotFound e then ret (Inr (firstWinner sb items)) else ret (Inl e))
            }) ?post" for items n
  proof (rule vtriple_bind [OF get])
    show "vtriple view (\<lambda>v. set items = ?items \<and> (case g of Inr x \<Rightarrow> sb_Name x \<noteq> [] | Inl _ \<Rightarrow> True))
        (case g of Inr ownerSb \<Rightarrow> ret (Inr (firstWinner sb (items @ [ownerSb])))
         | Inl e \<Rightarrow> if IsNotFound e then ret (Inr (firstWinner sb items)) else ret (Inl e)) ?post" for g
      using first [of items "[]"] first [of items "[projr g]"]
      by (cases g) (auto intro!: vtriple_ret simp del: mem_Collect_eq)
  qed
  have "vtriple view (\<lambda>v. v = v0) (claimConflict r sb claim) ?post"
    unfolding claimConflict_def
  proof (rule vtriple_bind [OF list [unfolded succeeds_def]])
    show "vtriple view (\<lambda>v. case g of Inl _ \<Rightarrow> True | Inr items \<Rightarrow> v = v0 \<and> set items = ?items)
        (case g of Inl e \<Rightarrow> ret (Inl e) | Inr items \<Rightarrow> (case ownerOfGeneratedClaim claim of (owner, ok) \<Rightarrow>
            if ok \<and> owner \<noteq> sb_Name sb then do {
              got \<leftarrow> kc_Get (k_Sandboxes (sr_Client r)) (sb_Namespace sb, owner);
              (case got of
                 Inr ownerSb \<Rightarrow> ret (Inr (firstWinner sb (items @ [ownerSb])))
               | Inl e \<Rightarrow> if IsNotFound e then ret (Inr (firstWinner sb items)) else ret (Inl e))
            }
            else ret (Inr (firstWinner sb items)))) ?post" for g
    proof (cases g)
      case (Inr items)
      obtain owner ok where "ownerOfGeneratedClaim claim = (owner, ok)" by (cases "ownerOfGeneratedClaim claim")
      moreover have "vtriple view (\<lambda>v. v = v0 \<and> set items = ?items) (ret (Inr (firstWinner sb items))) ?post"
        using first [of items "[]"] by (auto intro!: vtriple_ret)
      ultimately show ?thesis
        using Inr tail [of items "(sb_Namespace sb, owner)"] by (cases "ok \<and> owner \<noteq> sb_Name sb") (auto simp: assms(1))
    qed (simp add: vtriple_ret)
  qed
  then show ?thesis by (rule vtriple_conseq) auto
qed

end

section \<open>Properties\<close>

text \<open>A sandbox that may use its claim now: not being deleted and not stopped and suspended.\<close>

definition claimant :: "string \<Rightarrow> Sandbox \<Rightarrow> bool" where
  "claimant claim sb \<longleftrightarrow> names_claim claim sb \<and> \<not> deleting (sb_meta sb) \<and>
     \<not> (sp_DesiredState (sb_spec sb) = DesiredStateStopped \<and> ss_Phase (sb_status sb) = SandboxPhaseSuspended)"

text \<open>
  C9. An existing claim backs at most one sandbox: of two different sandboxes of
  one namespace that name the same existing claim and may use it now, the guard
  reports a conflict to at least one, judged on the same state of the cluster.
\<close>

theorem claim_guard_exclusive:
  assumes "kube_server view (sr_Client r)" "\<forall>n sb. cl_Sandboxes (view w) n = Some sb \<longrightarrow> sb_Name sb \<noteq> []"
    "a \<in> ran (cl_Sandboxes (view w))" "b \<in> ran (cl_Sandboxes (view w))" "sb_UID a \<noteq> sb_UID b"
    "sb_Namespace a = sb_Namespace b" "claimant claim a" "claimant claim b"
    "fst (run_state (claimConflict r a claim) w) = Inr []" "view w' = view w"
  shows "fst (run_state (claimConflict r b claim) w') \<noteq> Inr []"
proof
  assume b: "fst (run_state (claimConflict r b claim) w') = Inr []"
  have "\<not> wins b a"
    using vtripleD [OF kube_server.claimConflict_unbeaten [OF assms(1) refl assms(2), of a claim] surjective_pairing [of "run_state _ w"] refl]
      assms by (auto simp: claimant_def contends_def)
  moreover have "\<not> wins a b"
    using vtripleD [OF kube_server.claimConflict_unbeaten [OF assms(1) refl assms(2), of b claim] surjective_pairing [of "run_state _ w'"]]
      assms b by (auto simp: claimant_def contends_def)
  ultimately show False using wins_total [OF assms(5)] by blast
qed

definition sharing :: "string \<Rightarrow> string \<Rightarrow> Sandbox" where
  "sharing n uid = \<lparr>sb_meta = sampleMeta ''team'' n uid,
     sb_spec = (sb_spec sampleSandbox)\<lparr>sp_Home := Some \<lparr>hs_Size = None, hs_StorageClassName = None,
       hs_ExistingClaim = ''data'', hs_RetainPolicy = RetainPolicyRetain\<rparr>\<rparr>,
     sb_status = sampleStatus\<rparr>"

theorem claim_guard_exclusive_witness:
  "let w = emptyMemory\<lparr>mem_Sandboxes := [sharing ''x'' ''u1'', sharing ''y'' ''u2'']\<rparr> in
   fst (run_state (claimConflict sampleReconciler (sharing ''x'' ''u1'') ''data'') w) = Inr [] \<and>
   fst (run_state (claimConflict sampleReconciler (sharing ''y'' ''u2'') ''data'') w) \<noteq> Inr []"
proof -
  let ?w = "emptyMemory\<lparr>mem_Sandboxes := [sharing ''x'' ''u1'', sharing ''y'' ''u2'']\<rparr>"
  have view: "cl_Sandboxes (memView ?w) = [(''team'', ''x'') \<mapsto> sharing ''x'' ''u1'', (''team'', ''y'') \<mapsto> sharing ''y'' ''u2'']"
    by (auto simp: memView_def lookup_def fun_eq_iff sharing_def sample_defs key_of_def)
  have x: "fst (run_state (claimConflict sampleReconciler (sharing ''x'' ''u1'') ''data'') ?w) = Inr []"
    by code_simp
  have sel: "sb_Name (sharing n u) = n" "sb_UID (sharing n u) = u" "sb_Namespace (sharing n u) = ''team''"
    "claimant ''data'' (sharing n u)" for n u
    by (simp_all add: claimant_def names_claim_def sharing_def sample_defs deleting_def IsZero_def)
  have ran: "sharing ''x'' ''u1'' \<in> ran (cl_Sandboxes (memView ?w))" "sharing ''y'' ''u2'' \<in> ran (cl_Sandboxes (memView ?w))"
    unfolding view by (rule ranI [of _ "(''team'', ''x'')"], simp, rule ranI [of _ "(''team'', ''y'')"], simp)
  have names: "\<forall>n sb. cl_Sandboxes (memView ?w) n = Some sb \<longrightarrow> sb_Name sb \<noteq> []"
    unfolding view by (simp add: sel split: if_splits)
  have "fst (run_state (claimConflict sampleReconciler (sharing ''y'' ''u2'') ''data'') ?w) \<noteq> Inr []"
    by (rule claim_guard_exclusive [where view = memView and w = ?w, OF _ names ran _ _ _ _ x refl]) (simp_all add: sel memKube.kube_server_axioms)
  with x show ?thesis by (simp add: Let_def)
qed

text \<open>
  A sandbox with a generated claim is not subject to the guard: whatever the
  server answers, its home step never ends the reconcile early.
\<close>

lemma generated_home_unguarded:
  assumes "case sp_Home (sb_spec sb) of None \<Rightarrow> True | Some h \<Rightarrow> hs_ExistingClaim h = []"
  shows "always (\<lambda>(res, s). \<forall>x. res \<noteq> Inr (Some x)) (reconcileHome r sb status)"
  using assms unfolding reconcileHome_def
  by (auto simp: Let_def intro!: always_rules split: option.splits)

end
