(* ===== verification/Sandbox_Rbac.thy ===== *)
theory Sandbox_Rbac
  imports Sandbox_Base
begin

text \<open>
  \<open>internal/controller/sandbox_rbac.go\<close>: from the access profile of a
  sandbox to its ServiceAccount and one RoleBinding per granted namespace.
\<close>

section \<open>sandbox_rbac.go\<close>

record rbacResult =
  rbr_ServiceAccount :: string
  rbr_Ready :: bool

definition noRbac :: rbacResult where
  "noRbac = \<lparr>rbr_ServiceAccount = [], rbr_Ready = False\<rparr>"

text \<open>
  \<open>grantNamespaces\<close> walks the grants with the set \<open>seen\<close> of
  namespaces already emitted; \<open>collect\<close> is one step of the inner loop.
\<close>

definition collect :: "string set \<times> string list \<Rightarrow> string \<Rightarrow> string set \<times> string list" where
  "collect acc ns = (case acc of (seen, out) \<Rightarrow> if ns \<in> seen then (seen, out) else (insert ns seen, out @ [ns]))"

definition grantNamespaces :: "AccessProfile \<Rightarrow> string list" where
  "grantNamespaces profile =
     snd (foldl (\<lambda>acc g. foldl collect acc (gr_Namespaces g)) ({}, []) (aps_Grants (ap_spec profile)))"

text \<open>
  \<open>gcBinding\<close> is the body of the loop of \<open>gcRBAC\<close>;
  \<open>keep = None\<close> is the nil slice, which keeps nothing.
\<close>

definition gcBinding :: "'w SandboxReconciler \<Rightarrow> string list option \<Rightarrow> RoleBinding \<Rightarrow> ('w, unit res) state" where
  "gcBinding r keep rb =
     (if (case keep of None \<Rightarrow> False | Some ks \<Rightarrow> om_Namespace (rb_meta rb) \<in> set ks) then ret (Inr ())
      else do {
        err \<leftarrow> kc_Delete (k_RoleBindings (sr_Client r)) (key_of (rb_meta rb));
        ret (ignore IsNotFound err)
      })"

definition gcRBAC :: "'w SandboxReconciler \<Rightarrow> Sandbox \<Rightarrow> string list option \<Rightarrow> ('w, unit res) state" where
  "gcRBAC r sb keep = do {
     bindings \<leftarrow> kc_List (k_RoleBindings (sr_Client r)) [MatchingLabels LabelSandboxUID (sb_UID sb)];
     (case bindings of
        Inl e \<Rightarrow> ret (Inl e)
      | Inr items \<Rightarrow> for_each (gcBinding r keep) items)
   }"

definition ensureOwned ::
  "'w SandboxReconciler \<Rightarrow> Sandbox \<Rightarrow> ServiceAccount \<Rightarrow> ('w, unit res) state" where
  "ensureOwned r sb obj =
     (case controllerSetOwner r sb (sa_meta obj) of
        Inl e \<Rightarrow> ret (Inl e)
      | Inr m \<Rightarrow> do {
          err \<leftarrow> kc_Create (k_ServiceAccounts (sr_Client r)) (obj\<lparr>sa_meta := m\<rparr>);
          ret (ignore IsAlreadyExists err)
        })"

definition applyRoleBinding :: "'w SandboxReconciler \<Rightarrow> RoleBinding \<Rightarrow> ('w, unit res) state" where
  "applyRoleBinding r desired = do {
     got \<leftarrow> kc_Get (k_RoleBindings (sr_Client r)) (key_of (rb_meta desired));
     (case got of
        Inl e \<Rightarrow>
          if IsNotFound e then do {
            err \<leftarrow> kc_Create (k_RoleBindings (sr_Client r)) desired;
            ret (ignore IsAlreadyExists err)
          }
          else ret (Inl e)
      | Inr existing \<Rightarrow>
          if rb_RoleRef existing \<noteq> rb_RoleRef desired then do {
            deleted \<leftarrow> kc_Delete (k_RoleBindings (sr_Client r)) (key_of (rb_meta existing));
            (case ignore IsNotFound deleted of
               Inl e \<Rightarrow> ret (Inl e)
             | Inr _ \<Rightarrow> do {
                 err \<leftarrow> kc_Create (k_RoleBindings (sr_Client r)) desired;
                 ret (ignore IsAlreadyExists err)
               })
          }
          else if \<not> equality_Subjects (sr_Lib r) (rb_Subjects existing) (rb_Subjects desired) then do {
            err \<leftarrow> kc_Update (k_RoleBindings (sr_Client r)) (existing\<lparr>rb_Subjects := rb_Subjects desired\<rparr>);
            ret (ignore (\<lambda>_. False) err)
          }
          else ret (Inr ()))
   }"

text \<open>The two objects \<open>reconcileRBAC\<close> builds for a permitted profile.\<close>

definition sandboxSA :: "Sandbox \<Rightarrow> AccessProfile \<Rightarrow> ServiceAccount" where
  "sandboxSA sb profile = \<lparr>sa_meta = emptyMeta\<lparr>
     om_Name := saName (sb_Name sb),
     om_Namespace := sb_Namespace sb,
     om_Labels := Labels sb,
     om_Annotations := [(''kubepark.dev/owner'', own_Name (sp_Owner (sb_spec sb))),
       (''kubepark.dev/access-profile'', om_Name (ap_meta profile))]\<rparr>\<rparr>"

definition sandboxBinding :: "Sandbox \<Rightarrow> AccessProfile \<Rightarrow> string \<Rightarrow> RoleBinding" where
  "sandboxBinding sb profile ns = \<lparr>
     rb_meta = emptyMeta\<lparr>
       om_Name := roleBindingName (sb_Name sb),
       om_Namespace := ns,
       om_Labels := [(LabelSandboxUID, sb_UID sb), (LabelProfile, om_Name (ap_meta profile)),
         (LabelManagedBy, ManagedByValue)]\<rparr>,
     rb_RoleRef = \<lparr>rr_APIGroup = ''rbac.authorization.k8s.io'', rr_Kind = ''Role'',
       rr_Name = profileRoleName (om_Name (ap_meta profile))\<rparr>,
     rb_Subjects = [\<lparr>sj_Kind = ''ServiceAccount'', sj_Name = saName (sb_Name sb),
       sj_Namespace = sb_Namespace sb\<rparr>]\<rparr>"

text \<open>
  The methods that take \<open>status\<close> by pointer return the status they leave
  behind next to their result, also when they fail.
\<close>

definition refuseRBAC ::
  "'w SandboxReconciler \<Rightarrow> Sandbox \<Rightarrow> SandboxStatus \<Rightarrow> string \<Rightarrow> string \<Rightarrow>
   ('w, rbacResult res \<times> SandboxStatus) state" where
  "refuseRBAC r sb status reason message = do {
     gc \<leftarrow> gcRBAC r sb None;
     (case gc of
        Inl e \<Rightarrow> ret (Inl e, status)
      | Inr _ \<Rightarrow> ret (Inr noRbac,
          setCondition r sb (status\<lparr>ss_ServiceAccountName := []\<rparr>) ConditionRBACReady ConditionFalse reason message))
   }"

text \<open>The part of \<open>reconcileRBAC\<close> for a permitted profile.\<close>

definition grantRBAC ::
  "'w SandboxReconciler \<Rightarrow> Sandbox \<Rightarrow> AccessProfile \<Rightarrow> SandboxStatus \<Rightarrow>
   ('w, rbacResult res \<times> SandboxStatus) state" where
  "grantRBAC r sb profile status = do {
     owned \<leftarrow> ensureOwned r sb (sandboxSA sb profile);
     (case owned of
        Inl e \<Rightarrow> ret (Inl e, status)
      | Inr _ \<Rightarrow> do {
          bound \<leftarrow> for_each (\<lambda>ns. applyRoleBinding r (sandboxBinding sb profile ns)) (grantNamespaces profile);
          (case bound of
             Inl e \<Rightarrow> ret (Inl e, status)
           | Inr _ \<Rightarrow> do {
               gc \<leftarrow> gcRBAC r sb (if grantNamespaces profile = [] then None else Some (grantNamespaces profile));
               (case gc of
                  Inl e \<Rightarrow> ret (Inl e, status)
                | Inr _ \<Rightarrow> ret (Inr \<lparr>rbr_ServiceAccount = saName (sb_Name sb), rbr_Ready = True\<rparr>,
                    setCondition r sb (status\<lparr>ss_ServiceAccountName := saName (sb_Name sb)\<rparr>)
                      ConditionRBACReady ConditionTrue ReasonRunning
                      (''bound to AccessProfile '' @ quote (om_Name (ap_meta profile)) @ '' in '' @
                       show_nat (length (grantNamespaces profile)) @ '' namespace(s)'')))
             })
        })
   }"

definition reconcileRBAC ::
  "'w SandboxReconciler \<Rightarrow> Sandbox \<Rightarrow> SandboxStatus \<Rightarrow> ('w, rbacResult res \<times> SandboxStatus) state" where
  "reconcileRBAC r sb status =
     (if sp_AccessProfile (sb_spec sb) = [] then do {
        gc \<leftarrow> gcRBAC r sb None;
        (case gc of
           Inl e \<Rightarrow> ret (Inl e, status)
         | Inr _ \<Rightarrow> ret (Inr \<lparr>rbr_ServiceAccount = [], rbr_Ready = True\<rparr>,
             setCondition r sb (status\<lparr>ss_ServiceAccountName := []\<rparr>) ConditionRBACReady ConditionTrue
               ReasonRunning ''no access profile; sandbox has no cluster credentials''))
      }
      else do {
        got \<leftarrow> kc_Get (k_Profiles (sr_Client r)) ([], sp_AccessProfile (sb_spec sb));
        (case got of
           Inl e \<Rightarrow>
             if IsNotFound e then
               refuseRBAC r sb status ReasonProfileDeleted
                 (''AccessProfile '' @ quote (sp_AccessProfile (sb_spec sb)) @ '' not found'')
             else ret (Inl e, status)
         | Inr profile \<Rightarrow>
             if sb_Namespace sb \<notin> set (aps_AllowedNamespaces (ap_spec profile)) then
               refuseRBAC r sb status ReasonProfileNotPermitted
                 (''namespace '' @ quote (sb_Namespace sb) @ '' is not in AccessProfile '' @
                  quote (om_Name (ap_meta profile)) @ '' allowedNamespaces'')
             else grantRBAC r sb profile status)
      })"

end
