(* ===== verification/Sandbox_Controller.thy ===== *)
theory Sandbox_Controller
  imports Sandbox_Rbac Sandbox_Children
begin

text \<open>
  \<open>internal/controller/sandbox_controller.go\<close>: the state machine of a
  sandbox, its finalizer, and the watch mappings.  The status is a value that
  every step takes and returns, next to the result or error; the caller writes
  it once at the end, as in the source.
\<close>

section \<open>Reading the cluster\<close>

definition int32 :: "int \<Rightarrow> int" where
  "int32 n = (n + 2 ^ 31) mod 2 ^ 32 - 2 ^ 31"

definition activeFor :: "Sandbox \<Rightarrow> SandboxSession \<Rightarrow> bool" where
  "activeFor sb s \<longleftrightarrow> sx_SandboxName (ses_spec s) = sb_Name sb \<and> st_State (ses_status s) = SessionStateActive"

definition activeSessionCount :: "'w SandboxReconciler \<Rightarrow> Sandbox \<Rightarrow> ('w, nat res) state" where
  "activeSessionCount r sb = do {
     sessions \<leftarrow> kc_List (k_Sessions (sr_Client r)) [InNamespace (sb_Namespace sb)];
     (case sessions of
        Inl e \<Rightarrow> ret (Inl e)
      | Inr items \<Rightarrow> ret (Inr (length (filter (activeFor sb) items))))
   }"

definition effectiveIdleTimeout :: "Sandbox \<Rightarrow> SandboxTemplate \<Rightarrow> Duration" where
  "effectiveIdleTimeout sb tpl =
     (case sp_IdleTimeout (sb_spec sb) of
        Some d \<Rightarrow> d
      | None \<Rightarrow> (case ts_DefaultIdleTimeout (tpl_spec tpl) of Some d \<Rightarrow> d | None \<Rightarrow> 0))"

definition idleExpired :: "'w SandboxReconciler \<Rightarrow> Time option \<Rightarrow> Duration \<Rightarrow> ('w, bool) state" where
  "idleExpired r lastActivity timeout =
     (case lastActivity of
        None \<Rightarrow> ret False
      | Some t \<Rightarrow>
          if timeout \<le> 0 then ret False
          else do {
            now \<leftarrow> sr_wall r;
            ret (time_Sub now t > timeout)
          })"

definition podReady :: "Pod \<Rightarrow> bool" where
  "podReady pod =
     (if pst_Phase (pod_status pod) \<noteq> PodRunning then False
      else (case find (\<lambda>c. pc_Type c = ''Ready'') (pst_Conditions (pod_status pod)) of
        Some c \<Rightarrow> pc_Status c = ConditionTrue
      | None \<Rightarrow> False))"

definition podPendingMessage :: "Pod \<Rightarrow> string" where
  "podPendingMessage pod =
     (case find (\<lambda>c. pc_Type c = ''PodScheduled'' \<and> pc_Status c \<noteq> ConditionTrue)
        (pst_Conditions (pod_status pod)) of
        Some c \<Rightarrow> ''pod not scheduled: '' @ pc_Message c
      | None \<Rightarrow> ''waiting for sandbox pod to become ready'')"

section \<open>Suspend and run\<close>

definition suspend ::
  "'w SandboxReconciler \<Rightarrow> Sandbox \<Rightarrow> SandboxStatus \<Rightarrow> ('w, Result res \<times> SandboxStatus) state" where
  "suspend r sb status0 =
     (let status = status0\<lparr>ss_PodIP := []\<rparr> in do {
        got \<leftarrow> kc_Get (k_Pods (sr_Client r)) (sb_Namespace sb, PodName (sb_Name sb));
        (case got of
           Inl e \<Rightarrow>
             if IsNotFound e then
               (let s1 = status\<lparr>ss_Phase := SandboxPhaseSuspended, ss_PodName := []\<rparr>;
                    s2 = setCondition r sb s1 ConditionPodReady ConditionFalse ReasonSuspended ''sandbox is suspended'';
                    s3 = setCondition r sb s2 ConditionReady ConditionFalse ReasonSuspended ''sandbox is suspended''
                in ret (Inr noRequeue, s3))
             else ret (Inl e, status)
         | Inr pod \<Rightarrow>
             (let s1 = status\<lparr>ss_Phase := SandboxPhaseSuspending\<rparr>
              in if \<not> deleting (pod_meta pod) then do {
                   deleted \<leftarrow> kc_Delete (k_Pods (sr_Client r)) (key_of (pod_meta pod));
                   (case ignore IsNotFound deleted of
                      Inl e \<Rightarrow> ret (Inl e, s1)
                    | Inr _ \<Rightarrow> ret (Inr noRequeue, s1))
                 }
                 else ret (Inr noRequeue, s1)))
      })"

definition podPhaseString :: "PodPhase \<Rightarrow> string" where
  "podPhaseString p = (case p of PodPending \<Rightarrow> ''Pending'' | PodRunning \<Rightarrow> ''Running''
     | PodSucceeded \<Rightarrow> ''Succeeded'' | PodFailed \<Rightarrow> ''Failed'' | PodUnknown \<Rightarrow> ''Unknown'' | PodPhaseOther s \<Rightarrow> s)"

text \<open>The branches of \<open>run\<close>: no pod, a dead pod, a ready pod, a pod that is not ready yet.\<close>

definition createPod ::
  "'w SandboxReconciler \<Rightarrow> Sandbox \<Rightarrow> SandboxTemplate \<Rightarrow> string \<Rightarrow> string \<Rightarrow> SandboxStatus \<Rightarrow>
   ('w, Result res \<times> SandboxStatus) state" where
  "createPod r sb tpl currentHash serviceAccount status =
     (let resuming = ss_Phase status \<in> {SandboxPhaseSuspended, SandboxPhaseSuspending, SandboxPhaseResuming};
          desired = BuildPod sb tpl \<lparr>opt_AgentImage = sr_AgentImage r,
            opt_PriorityClassName = sr_PriorityClassName r, opt_ServiceAccountName = serviceAccount\<rparr>
      in case SetControllerReference (sr_Lib r) sb (pod_meta desired) of
           Inl e \<Rightarrow> ret (Inl e, status)
         | Inr m \<Rightarrow> do {
             created \<leftarrow> kc_Create (k_Pods (sr_Client r)) (desired\<lparr>pod_meta := m\<rparr>);
             (case ignore IsAlreadyExists created of
                Inl e \<Rightarrow> ret (Inl e, status)
              | Inr _ \<Rightarrow>
                  (let s1 = status\<lparr>ss_TemplateHash := currentHash, ss_PodName := om_Name (pod_meta desired),
                         ss_Phase := (if resuming then SandboxPhaseResuming else SandboxPhaseProvisioning)\<rparr>;
                       s2 = setCondition r sb s1 ConditionPodReady ConditionFalse ReasonProvisioning ''creating sandbox pod'';
                       s3 = setCondition r sb s2 ConditionReady ConditionFalse ReasonProvisioning ''creating sandbox pod''
                   in ret (Inr noRequeue, s3)))
           })"

definition replaceDeadPod ::
  "'w SandboxReconciler \<Rightarrow> Sandbox \<Rightarrow> Pod \<Rightarrow> SandboxStatus \<Rightarrow> ('w, Result res \<times> SandboxStatus) state" where
  "replaceDeadPod r sb pod status = do {
     deleted \<leftarrow> (if \<not> deleting (pod_meta pod)
                 then kc_Delete (k_Pods (sr_Client r)) (key_of (pod_meta pod)) else ret (Inr ()));
     (case ignore IsNotFound deleted of
        Inl e \<Rightarrow> ret (Inl e, status)
      | Inr _ \<Rightarrow>
          (let s1 = status\<lparr>ss_Phase := SandboxPhaseProvisioning, ss_PodIP := []\<rparr>
           in ret (Inr \<lparr>RequeueAfter = 10 * Second\<rparr>,
                setCondition r sb s1 ConditionPodReady ConditionFalse ReasonProvisioning
                  (''pod '' @ podPhaseString (pst_Phase (pod_status pod)) @ '', recreating''))))
   }"

definition markReady ::
  "'w SandboxReconciler \<Rightarrow> Sandbox \<Rightarrow> Pod \<Rightarrow> SandboxStatus \<Rightarrow> ('w, SandboxStatus) state" where
  "markReady r sb pod status = do {
     s1 \<leftarrow> (if ss_Phase status \<noteq> SandboxPhaseRunning then
              (let s = status\<lparr>ss_Phase := SandboxPhaseRunning\<rparr>
               in if ss_LastActivityTime s = None then do {
                    now \<leftarrow> sr_wall r;
                    ret (s\<lparr>ss_LastActivityTime := Some now\<rparr>)
                  }
                  else ret s)
            else ret status);
     let s2 = s1\<lparr>ss_PodIP := pst_PodIP (pod_status pod)\<rparr>;
     let s3 = setCondition r sb s2 ConditionPodReady ConditionTrue ReasonRunning ''sandbox pod is ready'';
     ret (setCondition r sb s3 ConditionReady ConditionTrue ReasonRunning ''sandbox is running'')
   }"

definition markWaiting :: "'w SandboxReconciler \<Rightarrow> Sandbox \<Rightarrow> Pod \<Rightarrow> SandboxStatus \<Rightarrow> SandboxStatus" where
  "markWaiting r sb pod status =
     (let s1 = (if ss_Phase status \<noteq> SandboxPhaseResuming then status\<lparr>ss_Phase := SandboxPhaseProvisioning\<rparr>
                else status);
          s2 = s1\<lparr>ss_PodIP := []\<rparr>;
          s3 = setCondition r sb s2 ConditionPodReady ConditionFalse ReasonProvisioning (podPendingMessage pod)
      in setCondition r sb s3 ConditionReady ConditionFalse ReasonProvisioning ''waiting for sandbox pod'')"

definition markDrift :: "'w SandboxReconciler \<Rightarrow> Sandbox \<Rightarrow> string \<Rightarrow> SandboxStatus \<Rightarrow> SandboxStatus" where
  "markDrift r sb currentHash status =
     (if ss_TemplateHash status \<noteq> [] \<and> ss_TemplateHash status \<noteq> currentHash
      then setCondition r sb status ConditionTemplateOutdated ConditionTrue ReasonOutdated
        ''template changed; the new template applies on the next suspend/resume cycle''
      else setCondition r sb status ConditionTemplateOutdated ConditionFalse ReasonUpToDate
        ''pod matches the template'')"

definition run ::
  "'w SandboxReconciler \<Rightarrow> Sandbox \<Rightarrow> SandboxTemplate \<Rightarrow> string \<Rightarrow> string \<Rightarrow> SandboxStatus \<Rightarrow>
   ('w, Result res \<times> SandboxStatus) state" where
  "run r sb tpl currentHash serviceAccount status = do {
     got \<leftarrow> kc_Get (k_Pods (sr_Client r)) (sb_Namespace sb, PodName (sb_Name sb));
     (case got of
        Inl e \<Rightarrow>
          if IsNotFound e then createPod r sb tpl currentHash serviceAccount status
          else ret (Inl e, status)
      | Inr pod \<Rightarrow>
          (let s1 = status\<lparr>ss_PodName := om_Name (pod_meta pod)\<rparr>
           in if pst_Phase (pod_status pod) = PodFailed \<or> pst_Phase (pod_status pod) = PodSucceeded
              then replaceDeadPod r sb pod s1
              else do {
                s2 \<leftarrow> (if podReady pod then markReady r sb pod s1 else ret (markWaiting r sb pod s1));
                ret (Inr noRequeue, markDrift r sb currentHash s2)
              }))
   }"

section \<open>Reconcile\<close>

text \<open>
  The last part of \<open>reconcileSandbox\<close>, once the template, home, host
  key, policy and RBAC are in place: stop, suspend when idle, or run.
\<close>

definition requeueAtIdleDeadline ::
  "'w SandboxReconciler \<Rightarrow> nat \<Rightarrow> Duration \<Rightarrow> Result \<Rightarrow> SandboxStatus \<Rightarrow> ('w, Result res \<times> SandboxStatus) state" where
  "requeueAtIdleDeadline r active timeout result status =
     (case ss_LastActivityTime status of
        None \<Rightarrow> ret (Inr result, status)
      | Some activity \<Rightarrow>
          if RequeueAfter result = 0 \<and> active = 0 \<and> timeout > 0 \<and> ss_Phase status = SandboxPhaseRunning
          then do {
            now \<leftarrow> sr_now r;
            ret (Inr \<lparr>RequeueAfter = max (wrap64 (timeout - time_Sub now activity)) Second\<rparr>, status)
          }
          else ret (Inr result, status))"

definition desiredStateMachine ::
  "'w SandboxReconciler \<Rightarrow> Sandbox \<Rightarrow> SandboxTemplate \<Rightarrow> string \<Rightarrow> SandboxStatus \<Rightarrow>
   ('w, Result res \<times> SandboxStatus) state" where
  "desiredStateMachine r sb tpl serviceAccount status =
     (let currentHash = TemplateHash (sr_Marshal r) (sr_Sum256 r) (tpl_spec tpl)
      in if sp_DesiredState (sb_spec sb) = DesiredStateStopped then suspend r sb status
         else do {
           counted \<leftarrow> activeSessionCount r sb;
           (case counted of
              Inl e \<Rightarrow> ret (Inl e, status)
            | Inr active \<Rightarrow> do {
                let status = status\<lparr>ss_ActiveSessions := int32 (int active)\<rparr>;
                let timeout = effectiveIdleTimeout sb tpl;
                expired \<leftarrow> (if active = 0 then idleExpired r (ss_LastActivityTime status) timeout else ret False);
                if expired then suspend r sb status
                else do {
                  ran \<leftarrow> run r sb tpl currentHash serviceAccount status;
                  (case ran of
                     (Inl e, status) \<Rightarrow> ret (Inl e, status)
                   | (Inr result, status) \<Rightarrow> requeueAtIdleDeadline r active timeout result status)
                }
              })
         })"

definition reconcileSandbox ::
  "'w SandboxReconciler \<Rightarrow> Sandbox \<Rightarrow> SandboxStatus \<Rightarrow> ('w, Result res \<times> SandboxStatus) state" where
  "reconcileSandbox r sb status = do {
     got \<leftarrow> kc_Get (k_Templates (sr_Client r)) ([], sp_Template (sb_spec sb));
     (case got of
        Inl e \<Rightarrow>
          if IsNotFound e then
            ret (Inr noRequeue,
              setCondition r sb (status\<lparr>ss_Phase := SandboxPhasePending\<rparr>) ConditionReady ConditionFalse
                ReasonInvalidRef (''SandboxTemplate '' @ quote (sp_Template (sb_spec sb)) @ '' not found''))
          else ret (Inl e, status)
      | Inr tpl \<Rightarrow> do {
          (home, status) \<leftarrow> reconcileHome r sb status;
          (case home of
             Inl e \<Rightarrow> ret (Inl e, status)
           | Inr (Some requeue) \<Rightarrow> ret (Inr requeue, status)
           | Inr None \<Rightarrow> do {
               hostKey \<leftarrow> reconcileHostKey r sb;
               (case hostKey of
                  Inl e \<Rightarrow> ret (Inl e, status)
                | Inr _ \<Rightarrow> do {
                    netpol \<leftarrow> reconcileNetworkPolicy r sb tpl;
                    (case netpol of
                       Inl e \<Rightarrow> ret (Inl e, status)
                     | Inr _ \<Rightarrow> do {
                         (rbac, status) \<leftarrow> reconcileRBAC r sb status;
                         (case rbac of
                            Inl e \<Rightarrow> ret (Inl e, status)
                          | Inr rbac \<Rightarrow>
                              if \<not> rbr_Ready rbac then
                                ret (Inr noRequeue,
                                  setCondition r sb (status\<lparr>ss_Phase := SandboxPhasePending\<rparr>) ConditionReady
                                    ConditionFalse ReasonProvisioning ''waiting on access profile'')
                              else desiredStateMachine r sb tpl (rbr_ServiceAccount rbac) status)
                       })
                  })
             })
        })
   }"

definition patchStatus :: "'w SandboxReconciler \<Rightarrow> Sandbox \<Rightarrow> SandboxStatus \<Rightarrow> ('w, unit res) state" where
  "patchStatus r sb status =
     (if equality_Status (sr_Lib r) (sb_status sb) status then ret (Inr ())
      else do {
        err \<leftarrow> kc_StatusUpdate (k_Sandboxes (sr_Client r)) (sb\<lparr>sb_status := status\<rparr>);
        ret (ignore IsNotFound err)
      })"

section \<open>Finalize\<close>

definition closeDeleted :: "Time \<Rightarrow> SandboxSession \<Rightarrow> SandboxSession" where
  "closeDeleted now s = s\<lparr>ses_status := (ses_status s)\<lparr>
     st_State := SessionStateClosed, st_EndTime := Some now, st_ExitReason := ExitReasonSandboxDeleted\<rparr>\<rparr>"

text \<open>The body of the loop of \<open>closeSessions\<close>.\<close>

definition closeOne :: "'w SandboxReconciler \<Rightarrow> Sandbox \<Rightarrow> Time \<Rightarrow> SandboxSession \<Rightarrow> ('w, unit res) state" where
  "closeOne r sb now s =
     (if \<not> activeFor sb s then ret (Inr ())
      else do {
        err \<leftarrow> kc_StatusUpdate (k_Sessions (sr_Client r)) (closeDeleted now s);
        ret (ignore IsNotFound err)
      })"

definition closeSessions :: "'w SandboxReconciler \<Rightarrow> Sandbox \<Rightarrow> ('w, unit res) state" where
  "closeSessions r sb = do {
     sessions \<leftarrow> kc_List (k_Sessions (sr_Client r)) [InNamespace (sb_Namespace sb)];
     (case sessions of
        Inl e \<Rightarrow> ret (Inl e)
      | Inr items \<Rightarrow> do {
          now \<leftarrow> sr_wall r;
          for_each (closeOne r sb now) items
        })
   }"

text \<open>Writing a key of a Go map.\<close>

definition setLabel :: "string \<Rightarrow> string \<Rightarrow> smap \<Rightarrow> smap" where
  "setLabel k v m = AList.update k v m"

definition applyHomeRetainPolicy :: "'w SandboxReconciler \<Rightarrow> Sandbox \<Rightarrow> ('w, unit res) state" where
  "applyHomeRetainPolicy r sb =
     (if (case sp_Home (sb_spec sb) of Some h \<Rightarrow> hs_ExistingClaim h \<noteq> [] | None \<Rightarrow> False) then ret (Inr ())
      else do {
        got \<leftarrow> kc_Get (k_PVCs (sr_Client r)) (sb_Namespace sb, PVCName (sb_Name sb));
        (case got of
           Inl e \<Rightarrow> if IsNotFound e then ret (Inr ()) else ret (Inl e)
         | Inr pvc \<Rightarrow>
             if (case sp_Home (sb_spec sb) of Some h \<Rightarrow> hs_RetainPolicy h = RetainPolicyDelete | None \<Rightarrow> False)
             then do {
               err \<leftarrow> kc_Delete (k_PVCs (sr_Client r)) (key_of (pvc_meta pvc));
               ret (ignore IsNotFound err)
             }
             else do {
               err \<leftarrow> kc_Update (k_PVCs (sr_Client r)) (pvc\<lparr>pvc_meta := (pvc_meta pvc)\<lparr>
                 om_Labels := setLabel LabelOrphanedHome ''true'' (om_Labels (pvc_meta pvc))\<rparr>\<rparr>);
               ret (ignore IsNotFound err)
             })
      })"

text \<open>The four namespace-local children, deleted in this order.\<close>

definition deleteChildren :: "'w SandboxReconciler \<Rightarrow> Sandbox \<Rightarrow> ('w, unit res) state" where
  "deleteChildren r sb = for_each (\<lambda>del. do { err \<leftarrow> del; ret (ignore IsNotFound err) })
     [kc_Delete (k_Pods (sr_Client r)) (sb_Namespace sb, PodName (sb_Name sb)),
      kc_Delete (k_Secrets (sr_Client r)) (sb_Namespace sb, HostKeyName (sb_Name sb)),
      kc_Delete (k_NetPols (sr_Client r)) (sb_Namespace sb, NetPolName (sb_Name sb)),
      kc_Delete (k_ServiceAccounts (sr_Client r)) (sb_Namespace sb, saName (sb_Name sb))]"

text \<open>The phase update at the start of \<open>finalize\<close>; it yields the sandbox the rest works on.\<close>

definition markTerminating :: "'w SandboxReconciler \<Rightarrow> Sandbox \<Rightarrow> ('w, Sandbox res) state" where
  "markTerminating r sb0 =
     (if ss_Phase (sb_status sb0) \<noteq> SandboxPhaseTerminating then
        (let sb1 = sb0\<lparr>sb_status := (sb_status sb0)\<lparr>ss_Phase := SandboxPhaseTerminating\<rparr>\<rparr> in do {
           upd \<leftarrow> kc_StatusUpdate (k_Sandboxes (sr_Client r)) sb1;
           (case upd of
              Inr sb2 \<Rightarrow> ret (Inr sb2)
            | Inl e \<Rightarrow> if IsNotFound e then ret (Inr sb1) else ret (Inl e))
         })
      else ret (Inr sb0))"

definition finalize :: "'w SandboxReconciler \<Rightarrow> Sandbox \<Rightarrow> ('w, Result res) state" where
  "finalize r sb0 =
     (if \<not> ContainsFinalizer (sr_Lib r) (sb_meta sb0) SandboxFinalizer then ret (Inr noRequeue)
      else do {
        marked \<leftarrow> markTerminating r sb0;
        (case marked of
           Inl e \<Rightarrow> ret (Inl e)
         | Inr sb \<Rightarrow> do {
             children \<leftarrow> deleteChildren r sb;
             (case children of
                Inl e \<Rightarrow> ret (Inl e)
              | Inr _ \<Rightarrow> do {
                  gc \<leftarrow> gcRBAC r sb None;
                  (case gc of
                     Inl e \<Rightarrow> ret (Inl e)
                   | Inr _ \<Rightarrow> do {
                       closed \<leftarrow> closeSessions r sb;
                       (case closed of
                          Inl e \<Rightarrow> ret (Inl e)
                        | Inr _ \<Rightarrow> do {
                            retained \<leftarrow> applyHomeRetainPolicy r sb;
                            (case retained of
                               Inl e \<Rightarrow> ret (Inl e)
                             | Inr _ \<Rightarrow> do {
                                 upd \<leftarrow> kc_Update (k_Sandboxes (sr_Client r))
                                   (sb\<lparr>sb_meta := RemoveFinalizer (sr_Lib r) (sb_meta sb) SandboxFinalizer\<rparr>);
                                 (case upd of Inl e \<Rightarrow> ret (Inl e) | Inr _ \<Rightarrow> ret (Inr noRequeue))
                               })
                          })
                     })
                })
           })
      })"

definition Reconcile :: "'w SandboxReconciler \<Rightarrow> NamespacedName \<Rightarrow> ('w, Result res) state" where
  "Reconcile r req = do {
     got \<leftarrow> kc_Get (k_Sandboxes (sr_Client r)) req;
     (case got of
        Inl e \<Rightarrow> if IsNotFound e then ret (Inr noRequeue) else ret (Inl e)
      | Inr sb0 \<Rightarrow>
          if deleting (sb_meta sb0) then finalize r sb0
          else do {
            guarded \<leftarrow>
              (if \<not> ContainsFinalizer (sr_Lib r) (sb_meta sb0) SandboxFinalizer
               then kc_Update (k_Sandboxes (sr_Client r))
                 (sb0\<lparr>sb_meta := AddFinalizer (sr_Lib r) (sb_meta sb0) SandboxFinalizer\<rparr>)
               else ret (Inr sb0));
            (case guarded of
               Inl e \<Rightarrow> ret (Inl e)
             | Inr sb \<Rightarrow> do {
                 (result, status) \<leftarrow> reconcileSandbox r sb
                   ((sb_status sb)\<lparr>ss_ObservedGeneration := om_Generation (sb_meta sb)\<rparr>);
                 updErr \<leftarrow> patchStatus r sb status;
                 (case (result, updErr) of
                    (Inr _, Inl e) \<Rightarrow> ret (Inl e)
                  | _ \<Rightarrow> ret result)
               })
          })
   }"

section \<open>Watches\<close>

definition toRequests :: "Sandbox list \<Rightarrow> NamespacedName list" where
  "toRequests items = map (\<lambda>sb. (sb_Namespace sb, sb_Name sb)) items"

definition sandboxesForTemplate ::
  "'w SandboxReconciler \<Rightarrow> ObjectMeta \<Rightarrow> ('w, NamespacedName list) state" where
  "sandboxesForTemplate r obj = do {
     sandboxes \<leftarrow> kc_List (k_Sandboxes (sr_Client r)) [MatchingFields indexSandboxTemplate (om_Name obj)];
     (case sandboxes of Inl _ \<Rightarrow> ret [] | Inr items \<Rightarrow> ret (toRequests items))
   }"

definition sandboxesForAccessProfile ::
  "'w SandboxReconciler \<Rightarrow> ObjectMeta \<Rightarrow> ('w, NamespacedName list) state" where
  "sandboxesForAccessProfile r obj = do {
     sandboxes \<leftarrow> kc_List (k_Sandboxes (sr_Client r)) [MatchingFields indexSandboxAccessProfile (om_Name obj)];
     (case sandboxes of Inl _ \<Rightarrow> ret [] | Inr items \<Rightarrow> ret (toRequests items))
   }"

definition sandboxForSession :: "SandboxSession \<Rightarrow> NamespacedName list" where
  "sandboxForSession session =
     (if sx_SandboxName (ses_spec session) = [] then []
      else [(om_Namespace (ses_meta session), sx_SandboxName (ses_spec session))])"

definition sandboxesForAPIServerEndpoints ::
  "'w SandboxReconciler \<Rightarrow> ObjectMeta \<Rightarrow> ('w, NamespacedName list) state" where
  "sandboxesForAPIServerEndpoints r obj =
     (if om_Namespace obj \<noteq> ''default'' \<or> map_get (om_Labels obj) ''kubernetes.io/service-name'' \<noteq> ''kubernetes''
      then ret []
      else do {
        sandboxes \<leftarrow> kc_List (k_Sandboxes (sr_Client r)) [];
        (case sandboxes of Inl _ \<Rightarrow> ret [] | Inr items \<Rightarrow> ret (toRequests items))
      })"

end
