(* ===== verification/Sandbox_Safety.thy ===== *)
theory Sandbox_Safety
  imports Sandbox_Controller Kube_Memory
begin

text \<open>
  Properties of the sandbox reconciler that hold whatever the API server
  answers, including faults and concurrent writers: which calls each handler
  can make, how the status can change, default deny of credentials, and the
  protection of a pod that is in use.
\<close>

section \<open>The calls of each handler\<close>

lemma gcRBAC_calls:
  assumes "\<And>v n ok. v \<in> {VList, VDelete} \<Longrightarrow> P (Call v KRoleBinding n ok)"
  shows "keeps (calls_all P) (gcRBAC (auditR r) sb keep)"
  unfolding gcRBAC_def gcBinding_def by (intro keeps_rules) (simp_all add: assms keeps_logged keeps_unlogged)

lemma ensureOwned_calls:
  assumes "\<And>n ok. P (Call VCreate KServiceAccount n ok)"
  shows "keeps (calls_all P) (ensureOwned (auditR r) sb sa)"
  unfolding ensureOwned_def by (intro keeps_rules) (simp_all add: assms keeps_logged keeps_unlogged)

lemma applyRoleBinding_calls:
  assumes "\<And>v n ok. v \<in> {VGet, VCreate, VUpdate, VDelete} \<Longrightarrow> P (Call v KRoleBinding n ok)"
  shows "keeps (calls_all P) (applyRoleBinding (auditR r) rb)"
  unfolding applyRoleBinding_def by (intro keeps_rules) (simp_all add: assms keeps_logged keeps_unlogged)

lemma refuseRBAC_calls:
  assumes "\<And>v n ok. v \<in> {VList, VDelete} \<Longrightarrow> P (Call v KRoleBinding n ok)"
  shows "keeps (calls_all P) (refuseRBAC (auditR r) sb status reason message)"
  unfolding refuseRBAC_def by (intro keeps_rules gcRBAC_calls) (simp_all add: assms keeps_logged keeps_unlogged)

lemma reconcileRBAC_calls:
  assumes "\<And>v n ok. P (Call v KRoleBinding n ok)" "\<And>n ok. P (Call VGet KAccessProfile n ok)"
    "\<And>n ok. P (Call VCreate KServiceAccount n ok)"
  shows "keeps (calls_all P) (reconcileRBAC (auditR r) sb status)"
  unfolding reconcileRBAC_def grantRBAC_def
  by (intro keeps_rules gcRBAC_calls refuseRBAC_calls ensureOwned_calls applyRoleBinding_calls) (simp_all add: assms keeps_logged keeps_unlogged)

lemma claimConflict_calls:
  assumes "\<And>v n ok. v \<in> {VGet, VList} \<Longrightarrow> P (Call v KSandbox n ok)"
  shows "keeps (calls_all P) (claimConflict (auditR r) sb claim)"
  unfolding claimConflict_def by (intro keeps_rules) (simp_all add: assms keeps_logged keeps_unlogged)

lemma reconcileHome_calls:
  assumes "\<And>v n ok. v \<in> {VGet, VList} \<Longrightarrow> P (Call v KSandbox n ok)"
    "\<And>v n ok. v \<in> {VGet, VCreate} \<Longrightarrow> P (Call v KPersistentVolumeClaim n ok)"
    "\<And>n ok. P (Call VGet KSandboxTemplate n ok)"
  shows "keeps (calls_all P) (reconcileHome (auditR r) sb status)"
  unfolding reconcileHome_def by (intro keeps_rules claimConflict_calls) (simp_all add: assms keeps_logged keeps_unlogged)

lemma GenerateKeyPair_calls: "keeps (calls_all P) (GenerateKeyPair (audit_ssh S) comment)"
  by (auto simp: GenerateKeyPair_def intro!: keeps_rules)

lemma SignHostCert_calls: "keeps (calls_all P) (SignHostCert (audit_ssh S) ca pub principals d now)"
  by (auto simp: SignHostCert_def NewSerial_def intro!: keeps_rules split: list.split)

lemma EnsureCASecret_calls:
  assumes "\<And>v n ok. v \<in> {VGet, VCreate} \<Longrightarrow> P (Call v KSecret n ok)"
  shows "keeps (calls_all P) (EnsureCASecret (audit_ssh S) (audit c) ns)"
  unfolding EnsureCASecret_def by (intro keeps_rules GenerateKeyPair_calls) (simp_all add: assms keeps_logged keeps_unlogged)

lemma reconcileHostKey_calls:
  assumes "\<And>v n ok. v \<in> {VGet, VCreate} \<Longrightarrow> P (Call v KSecret n ok)"
  shows "keeps (calls_all P) (reconcileHostKey (auditR r) sb)"
proof -
  have "keeps (calls_all P) (EnsureCASecret (audit_ssh S) (audit c) ns)" for S :: "'a sshlib" and c ns
    by (rule EnsureCASecret_calls) (rule assms)
  then show ?thesis
    unfolding reconcileHostKey_def
    by (intro keeps_rules) (simp_all add: assms keeps_logged GenerateKeyPair_calls SignHostCert_calls)
qed

lemma reconcileNetworkPolicy_calls:
  assumes "\<And>v n ok. v \<in> {VGet, VCreate, VUpdate} \<Longrightarrow> P (Call v KNetworkPolicy n ok)"
    "\<And>n ok. P (Call VList KEndpointSlice n ok)"
  shows "keeps (calls_all P) (reconcileNetworkPolicy (auditR r) sb tpl)"
  unfolding reconcileNetworkPolicy_def apiServerEndpoints_def by (intro keeps_rules) (simp_all add: assms keeps_logged keeps_unlogged)

lemma suspend_calls:
  assumes "\<And>v n ok. v \<in> {VGet, VDelete} \<Longrightarrow> P (Call v KPod n ok)"
  shows "keeps (calls_all P) (suspend (auditR r) sb status)"
  unfolding suspend_def by (intro keeps_rules) (simp_all add: assms keeps_logged keeps_unlogged)

lemma createPod_calls:
  assumes "\<And>n ok. P (Call VCreate KPod n ok)"
  shows "keeps (calls_all P) (createPod (auditR r) sb tpl h sa status)"
  unfolding createPod_def by (intro keeps_rules) (simp_all add: assms keeps_logged keeps_unlogged)

lemma replaceDeadPod_calls:
  assumes "\<And>n ok. P (Call VDelete KPod n ok)"
  shows "keeps (calls_all P) (replaceDeadPod (auditR r) sb pod status)"
  unfolding replaceDeadPod_def by (intro keeps_rules) (simp_all add: assms keeps_logged keeps_unlogged)

lemma markReady_calls: "keeps (calls_all P) (markReady (auditR r) sb pod status)"
  unfolding markReady_def by (auto intro!: keeps_rules simp: Let_def)

lemma requeue_calls: "keeps (calls_all P) (requeueAtIdleDeadline (auditR r) active timeout result status)"
  unfolding requeueAtIdleDeadline_def by (auto intro!: keeps_rules)

lemma idleExpired_calls: "keeps (calls_all P) (idleExpired (auditR r) t timeout)"
  unfolding idleExpired_def by (auto intro!: keeps_rules)

section \<open>Pods in use\<close>

text \<open>A pod that has neither failed nor finished.\<close>

definition pod_alive :: "Pod \<Rightarrow> bool" where
  "pod_alive pod \<longleftrightarrow> pst_Phase (pod_status pod) \<notin> {PodFailed, PodSucceeded}"

definition reads_alive :: "'w SandboxReconciler \<Rightarrow> Sandbox \<Rightarrow> bool" where
  "reads_alive r sb \<longleftrightarrow> always (\<lambda>g. case g of Inl _ \<Rightarrow> True | Inr pod \<Rightarrow> pod_alive pod)
     (kc_Get (k_Pods (sr_Client r)) (sb_Namespace sb, PodName (sb_Name sb)))"

definition lists_active :: "'w SandboxReconciler \<Rightarrow> Sandbox \<Rightarrow> bool" where
  "lists_active r sb \<longleftrightarrow> always (\<lambda>l. case l of Inl _ \<Rightarrow> True | Inr items \<Rightarrow> \<exists>s \<in> set items. activeFor sb s)
     (kc_List (k_Sessions (sr_Client r)) [InNamespace (sb_Namespace sb)])"

text \<open>A result property of a call survives the recording.\<close>

lemma always_logged: "always Q m \<Longrightarrow> always Q (logged k m)"
  by (auto simp: always_def logged_def split: prod.splits) (metis fst_conv)

lemma run_calls:
  assumes "\<And>n ok. P (Call VGet KPod n ok)" "\<And>n ok. P (Call VCreate KPod n ok)" "reads_alive r sb"
  shows "keeps (calls_all P) (run (auditR r) sb tpl h sa status)"
  unfolding run_def
proof (rule keeps_bind_always)
  show "always (\<lambda>g. case g of Inl _ \<Rightarrow> True | Inr pod \<Rightarrow> pod_alive pod)
      (kc_Get (k_Pods (sr_Client (auditR r))) (sb_Namespace sb, PodName (sb_Name sb)))"
    using assms(3) by (simp add: reads_alive_def always_logged)
qed (auto simp: assms(1,2) pod_alive_def Let_def intro!: keeps_rules createPod_calls markReady_calls)

lemma activeSessionCount_positive:
  assumes "lists_active r sb"
  shows "always (\<lambda>n. case n of Inl _ \<Rightarrow> True | Inr k \<Rightarrow> k \<noteq> 0) (activeSessionCount (auditR r) sb)"
  unfolding activeSessionCount_def
proof (rule always_bind)
  show "always (\<lambda>l. case l of Inl _ \<Rightarrow> True | Inr items \<Rightarrow> \<exists>s \<in> set items. activeFor sb s)
      (kc_List (k_Sessions (sr_Client (auditR r))) [InNamespace (sb_Namespace sb)])"
    using assms by (simp add: lists_active_def always_logged)
qed (auto intro!: always_rules simp: filter_empty_conv split: sum.splits)

lemma desiredStateMachine_calls:
  assumes "\<And>n ok. P (Call VGet KPod n ok)" "\<And>n ok. P (Call VCreate KPod n ok)"
    "\<And>n ok. P (Call VList KSandboxSession n ok)"
    "sp_DesiredState (sb_spec sb) \<noteq> DesiredStateStopped" "reads_alive r sb" "lists_active r sb"
  shows "keeps (calls_all P) (desiredStateMachine (auditR r) sb tpl sa status)"
proof -
  have "keeps (calls_all P) (activeSessionCount (auditR r) sb)"
    unfolding activeSessionCount_def by (intro keeps_rules) (simp_all add: assms keeps_logged)
  moreover have "keeps (calls_all P) (run (auditR r) sb tpl h sa s)" for h s
    by (rule run_calls) (fact assms)+
  ultimately show ?thesis
    using assms(4) unfolding desiredStateMachine_def Let_def
    by (simp, intro keeps_bind_always [OF activeSessionCount_positive [OF assms(6)]])
      (auto intro!: keeps_rules requeue_calls split: sum.splits)
qed

lemma reconcileSandbox_calls:
  assumes "\<And>v k n ok. (v, k) \<noteq> (VDelete, KPod) \<Longrightarrow> P (Call v k n ok)"
    "sp_DesiredState (sb_spec sb) \<noteq> DesiredStateStopped" "reads_alive r sb" "lists_active r sb"
  shows "keeps (calls_all P) (reconcileSandbox (auditR r) sb status)"
  unfolding reconcileSandbox_def
  by (intro keeps_rules reconcileHome_calls reconcileHostKey_calls reconcileNetworkPolicy_calls
      reconcileRBAC_calls desiredStateMachine_calls)
    (simp_all add: assms keeps_logged)

section \<open>Refused profiles\<close>

definition reads_denied :: "'w SandboxReconciler \<Rightarrow> Sandbox \<Rightarrow> bool" where
  "reads_denied r sb \<longleftrightarrow> always (\<lambda>g. case g of Inl _ \<Rightarrow> True
       | Inr profile \<Rightarrow> sb_Namespace sb \<notin> set (aps_AllowedNamespaces (ap_spec profile)))
     (kc_Get (k_Profiles (sr_Client r)) ([], sp_AccessProfile (sb_spec sb)))"

lemma denied_calls:
  assumes "sp_AccessProfile (sb_spec sb) = [] \<or> reads_denied r sb"
    "\<And>v n ok. v \<in> {VList, VDelete} \<Longrightarrow> P (Call v KRoleBinding n ok)" "\<And>n ok. P (Call VGet KAccessProfile n ok)"
  shows "keeps (calls_all P) (reconcileRBAC (auditR r) sb status)"
proof (cases "sp_AccessProfile (sb_spec sb) = []")
  case True
  have "keeps (calls_all P) (gcRBAC (auditR r) sb None)"
    by (rule gcRBAC_calls) (rule assms)
  then show ?thesis
    using True unfolding reconcileRBAC_def by (auto intro!: keeps_rules)
next
  case False
  have refuse: "keeps (calls_all P) (refuseRBAC (auditR r) sb status reason message)" for reason message
    by (rule refuseRBAC_calls) (rule assms)
  have denied: "always (\<lambda>g. case g of Inl _ \<Rightarrow> True
         | Inr profile \<Rightarrow> sb_Namespace sb \<notin> set (aps_AllowedNamespaces (ap_spec profile)))
       (kc_Get (k_Profiles (sr_Client (auditR r))) ([], sp_AccessProfile (sb_spec sb)))"
    using assms(1) False by (simp add: reads_denied_def always_logged)
  show ?thesis
    using False unfolding reconcileRBAC_def
    by (simp del: auditR_sel audit_sel audit_kind_sel, intro keeps_bind_always [OF denied])
      (auto simp: assms refuse intro!: keeps_rules split: sum.splits)
qed

lemma denied_result:
  assumes "sp_AccessProfile (sb_spec sb) = [] \<or> reads_denied r sb"
  shows "always (\<lambda>(res, s). case res of Inl _ \<Rightarrow> s = status
    | Inr rb \<Rightarrow> rbr_ServiceAccount rb = [] \<and> ss_ServiceAccountName s = [] \<and>
        (rbr_Ready rb \<longleftrightarrow> sp_AccessProfile (sb_spec sb) = [])) (reconcileRBAC r sb status)"
proof (cases "sp_AccessProfile (sb_spec sb) = []")
  case True
  then show ?thesis
    unfolding reconcileRBAC_def by (auto intro!: always_rules)
next
  case False
  then have denied: "always (\<lambda>g. case g of Inl _ \<Rightarrow> True
         | Inr profile \<Rightarrow> sb_Namespace sb \<notin> set (aps_AllowedNamespaces (ap_spec profile)))
       (kc_Get (k_Profiles (sr_Client r)) ([], sp_AccessProfile (sb_spec sb)))"
    using assms by (simp add: reads_denied_def)
  show ?thesis
    using False unfolding reconcileRBAC_def
    by (simp, intro always_bind [OF denied])
      (auto simp: refuseRBAC_def noRbac_def intro!: always_rules split: sum.splits)
qed

section \<open>Phases\<close>

text \<open>
  The phase changes a reconcile may make: to any working phase, but to Resuming
  only from a suspended or suspending sandbox.
\<close>

definition phase_step :: "SandboxPhase \<Rightarrow> SandboxPhase \<Rightarrow> bool" where
  "phase_step p q \<longleftrightarrow> q = p \<or>
     q \<in> {SandboxPhasePending, SandboxPhaseProvisioning, SandboxPhaseRunning, SandboxPhaseSuspending, SandboxPhaseSuspended} \<or>
     (q = SandboxPhaseResuming \<and> p \<in> {SandboxPhaseSuspended, SandboxPhaseSuspending})"

text \<open>
  The status invariant: a suspended or suspending sandbox publishes no address,
  and a running one has an idle clock.
\<close>

definition status_inv :: "SandboxStatus \<Rightarrow> bool" where
  "status_inv s \<longleftrightarrow>
     (ss_Phase s \<in> {SandboxPhaseSuspended, SandboxPhaseSuspending} \<longrightarrow> ss_PodIP s = []) \<and>
     (ss_Phase s = SandboxPhaseRunning \<longrightarrow> ss_LastActivityTime s \<noteq> None)"

definition good_step :: "SandboxStatus \<Rightarrow> SandboxStatus \<Rightarrow> bool" where
  "good_step a b \<longleftrightarrow> (status_inv a \<longrightarrow> status_inv b) \<and> phase_step (ss_Phase a) (ss_Phase b)"

text \<open>The fields that the child reconcilers leave alone unless they end the reconcile.\<close>

definition same_pod :: "SandboxStatus \<Rightarrow> SandboxStatus \<Rightarrow> bool" where
  "same_pod a b \<longleftrightarrow> ss_Phase b = ss_Phase a \<and> ss_PodIP b = ss_PodIP a \<and> ss_PodName b = ss_PodName a \<and>
     ss_LastActivityTime b = ss_LastActivityTime a \<and> ss_TemplateHash b = ss_TemplateHash a"

lemma good_step_same: "same_pod a b \<Longrightarrow> good_step b c \<Longrightarrow> good_step a c"
  by (auto simp: good_step_def same_pod_def status_inv_def)

lemma good_step_refl: "same_pod a b \<Longrightarrow> good_step a b"
  by (auto simp: good_step_def same_pod_def status_inv_def phase_step_def)

lemma same_pod_refl [simp]: "same_pod a a"
  by (simp add: same_pod_def)

lemma reconcileHome_status:
  "always (\<lambda>(res, s). (case res of Inr (Some _) \<Rightarrow> ss_Phase s = SandboxPhasePending | _ \<Rightarrow> same_pod status s))
     (reconcileHome r sb status)"
  unfolding reconcileHome_def homeReady_def homePending_def
  by (auto intro!: always_rules simp: same_pod_def Let_def)

lemma reconcileRBAC_status: "always (\<lambda>(res, s). same_pod status s) (reconcileRBAC r sb status)"
  unfolding reconcileRBAC_def refuseRBAC_def grantRBAC_def by (auto intro!: always_rules simp: same_pod_def)

lemma suspend_status:
  "always (\<lambda>(res, s). good_step status s \<and> ss_PodIP s = [] \<and>
     (\<forall>x. res = Inr x \<longrightarrow> ss_Phase s \<in> {SandboxPhaseSuspended, SandboxPhaseSuspending})) (suspend r sb status)"
  unfolding suspend_def Let_def
  by (auto intro!: always_rules simp: good_step_def status_inv_def phase_step_def)

lemma markReady_status:
  "always (\<lambda>s. ss_Phase s = SandboxPhaseRunning \<and> ss_PodIP s = pst_PodIP (pod_status pod) \<and>
     ss_PodName s = ss_PodName status \<and> ss_TemplateHash s = ss_TemplateHash status \<and>
     (status_inv status \<longrightarrow> ss_LastActivityTime s \<noteq> None) \<and>
     (ss_LastActivityTime status \<noteq> None \<longrightarrow> ss_LastActivityTime s = ss_LastActivityTime status))
     (markReady r sb pod status)"
  unfolding markReady_def Let_def
  by (auto intro!: always_rules simp: status_inv_def)

lemma markWaiting_status:
  "ss_Phase (markWaiting r sb pod status) =
     (if ss_Phase status = SandboxPhaseResuming then SandboxPhaseResuming else SandboxPhaseProvisioning)"
  "ss_PodIP (markWaiting r sb pod status) = []" "ss_PodName (markWaiting r sb pod status) = ss_PodName status"
  "ss_TemplateHash (markWaiting r sb pod status) = ss_TemplateHash status"
  "ss_LastActivityTime (markWaiting r sb pod status) = ss_LastActivityTime status"
  by (simp_all add: markWaiting_def Let_def)

lemma markDrift_same: "same_pod s (markDrift r sb h s)"
  by (simp add: markDrift_def same_pod_def)

lemma BuildPod_name [simp]: "om_Name (pod_meta (BuildPod sb tpl opts)) = PodName (sb_Name sb)"
  by (simp add: BuildPod_def Let_def)

lemma createPod_status:
  "always (\<lambda>(res, s). case res of Inl _ \<Rightarrow> s = status
     | Inr x \<Rightarrow> x = noRequeue \<and> ss_PodName s = PodName (sb_Name sb) \<and> ss_TemplateHash s = h \<and>
         ss_PodIP s = ss_PodIP status \<and> ss_LastActivityTime s = ss_LastActivityTime status \<and>
         ss_Phase s = (if ss_Phase status \<in> {SandboxPhaseSuspended, SandboxPhaseSuspending, SandboxPhaseResuming}
           then SandboxPhaseResuming else SandboxPhaseProvisioning))
     (createPod r sb tpl h sa status)"
  unfolding createPod_def Let_def by (auto intro!: always_rules)

lemma replaceDeadPod_status:
  "always (\<lambda>(res, s). case res of Inl _ \<Rightarrow> s = status
     | Inr x \<Rightarrow> x = \<lparr>RequeueAfter = 10 * Second\<rparr> \<and> ss_Phase s = SandboxPhaseProvisioning \<and> ss_PodIP s = [] \<and>
         ss_PodName s = ss_PodName status \<and> ss_TemplateHash s = ss_TemplateHash status)
     (replaceDeadPod r sb pod status)"
  unfolding replaceDeadPod_def Let_def by (auto intro!: always_rules)

text \<open>The status \<open>run\<close> leaves behind, by what it read of the pod.\<close>

definition run_outcome ::
  "Sandbox \<Rightarrow> string \<Rightarrow> SandboxStatus \<Rightarrow> Pod res \<Rightarrow> Result res \<Rightarrow> SandboxStatus \<Rightarrow> bool" where
  "run_outcome sb h status got res s \<longleftrightarrow>
     (case got of
        Inl e \<Rightarrow>
          (case res of Inl _ \<Rightarrow> s = status
           | Inr x \<Rightarrow> IsNotFound e \<and> x = noRequeue \<and> ss_PodName s = PodName (sb_Name sb) \<and> ss_TemplateHash s = h \<and>
               ss_PodIP s = ss_PodIP status \<and>
               ss_Phase s = (if ss_Phase status \<in> {SandboxPhaseSuspended, SandboxPhaseSuspending, SandboxPhaseResuming}
                 then SandboxPhaseResuming else SandboxPhaseProvisioning))
      | Inr pod \<Rightarrow>
          ss_PodName s = om_Name (pod_meta pod) \<and> ss_TemplateHash s = ss_TemplateHash status \<and>
          (if \<not> pod_alive pod then
             (case res of Inl _ \<Rightarrow> ss_Phase s = ss_Phase status \<and> ss_PodIP s = ss_PodIP status \<and>
                ss_LastActivityTime s = ss_LastActivityTime status
              | Inr x \<Rightarrow> RequeueAfter x = 10 * Second \<and> ss_Phase s = SandboxPhaseProvisioning \<and> ss_PodIP s = [])
           else res = Inr noRequeue \<and>
             (if podReady pod then ss_Phase s = SandboxPhaseRunning \<and> ss_PodIP s = pst_PodIP (pod_status pod) \<and>
                (status_inv status \<longrightarrow> ss_LastActivityTime s \<noteq> None)
              else ss_PodIP s = [] \<and> ss_Phase s = (if ss_Phase status = SandboxPhaseResuming
                then SandboxPhaseResuming else SandboxPhaseProvisioning))))"

lemma status_inv_PodName [simp]: "status_inv (s\<lparr>ss_PodName := n\<rparr>) = status_inv s"
  by (simp add: status_inv_def)

lemma alwaysE: "always Q m \<Longrightarrow> Q (fst (run_state m w))"
  by (simp add: always_def)

lemma run_by_pod:
  assumes "fst (run_state (kc_Get (k_Pods (sr_Client r)) (sb_Namespace sb, PodName (sb_Name sb))) w) = got"
    "fst (run_state (run r sb tpl h sa status) w) = (res, s)"
  shows "run_outcome sb h status got res s"
proof (cases got)
  case (Inl e)
  then show ?thesis
    using assms alwaysE [OF createPod_status [of status sb h r tpl sa],
        of "snd (run_state (kc_Get (k_Pods (sr_Client r)) (sb_Namespace sb, PodName (sb_Name sb))) w)"]
    by (auto simp: run_def split_beta run_outcome_def split: if_splits sum.splits)
next
  case (Inr pod)
  let ?w = "snd (run_state (kc_Get (k_Pods (sr_Client r)) (sb_Namespace sb, PodName (sb_Name sb))) w)"
  let ?s1 = "status\<lparr>ss_PodName := om_Name (pod_meta pod)\<rparr>"
  show ?thesis
  proof (cases "pod_alive pod")
    case True
    then show ?thesis
      using Inr assms alwaysE [OF markReady_status [of pod ?s1 r sb], of ?w]
        markDrift_same [of _ r sb h]
      by (auto simp: run_def split_beta run_outcome_def pod_alive_def Let_def same_pod_def markWaiting_status
          split: if_splits)
  next
    case False
    then show ?thesis
      using Inr assms alwaysE [OF replaceDeadPod_status [of ?s1 r sb pod], of ?w]
      by (auto simp: run_def split_beta run_outcome_def pod_alive_def Let_def split: if_splits sum.splits)
  qed
qed

lemma run_status: "always (\<lambda>(res, s). good_step status s) (run r sb tpl h sa status)"
proof -
  have "good_step status (snd (fst (run_state (run r sb tpl h sa status) w)))" for w
  proof -
    obtain res s where rs: "fst (run_state (run r sb tpl h sa status) w) = (res, s)" by fastforce
    let ?got = "fst (run_state (kc_Get (k_Pods (sr_Client r)) (sb_Namespace sb, PodName (sb_Name sb))) w)"
    have "run_outcome sb h status ?got res s" by (rule run_by_pod [OF refl rs])
    then show ?thesis
      by (auto simp: rs run_outcome_def good_step_def status_inv_def phase_step_def split: sum.splits if_splits)
  qed
  then show ?thesis by (simp add: always_def split_beta)
qed

lemma requeue_status: "always (\<lambda>(res, s). s = status) (requeueAtIdleDeadline r active timeout result status)"
  unfolding requeueAtIdleDeadline_def by (auto intro!: always_rules)

lemma desiredStateMachine_status: "always (\<lambda>(res, s). good_step status s) (desiredStateMachine r sb tpl sa status)"
proof -
  let ?s = "\<lambda>n. status\<lparr>ss_ActiveSessions := n\<rparr>"
  have count: "good_step (?s n) s \<Longrightarrow> good_step status s" for n s
    by (auto simp: good_step_def status_inv_def)
  have susp: "always (\<lambda>(res, s). good_step status s) (suspend r sb (?s n))"
    "always (\<lambda>(res, s). good_step status s) (suspend r sb status)" for n
    by (rule always_mono [OF suspend_status], auto intro: count)+
  have run: "always (\<lambda>(res, s). good_step status s) (run r sb tpl h sa (?s n))" for h n
    by (rule always_mono [OF run_status]) (auto intro: count)
  have requeue: "good_step status s \<Longrightarrow> always (\<lambda>(res, s). good_step status s) (requeueAtIdleDeadline r a t x s)" for s a t x
    by (rule always_mono [OF requeue_status]) auto
  show ?thesis
    unfolding desiredStateMachine_def Let_def
    by (auto intro!: always_rules susp always_bind [OF run] requeue good_step_refl split: sum.splits)
qed

lemma reconcileSandbox_status: "always (\<lambda>(res, s). good_step status s) (reconcileSandbox r sb status)"
proof -
  have pending: "ss_Phase s = SandboxPhasePending \<Longrightarrow> good_step status s" for s
    by (simp add: good_step_def status_inv_def phase_step_def)
  have machine: "same_pod status s \<Longrightarrow> always (\<lambda>(res, s). good_step status s) (desiredStateMachine r sb tpl sa s)" for s tpl sa
    by (rule always_mono [OF desiredStateMachine_status]) (auto intro: good_step_same)
  have trans: "same_pod status s \<Longrightarrow> same_pod s s' \<Longrightarrow> same_pod status s'" for s s'
    by (simp add: same_pod_def)
  have two: "same_pod status s \<Longrightarrow> same_pod s s' \<Longrightarrow> good_step status s'" for s s'
    by (rule good_step_refl [OF trans])
  show ?thesis
    unfolding reconcileSandbox_def
    by (auto intro!: always_rules always_bind [OF reconcileHome_status] always_bind [OF reconcileRBAC_status]
        machine intro: trans two pending good_step_refl split: sum.splits option.splits)
qed

text \<open>
  The histories of a sandbox status: it starts empty, every reconcile may change
  it (with any specification, server and answers), the session controller moves
  the idle clock, and deletion marks it Terminating.
\<close>

inductive status_run :: "'w SandboxReconciler \<Rightarrow> SandboxStatus \<Rightarrow> bool" for r where
  fresh: "ss_Phase s = SandboxPhaseOther [] \<Longrightarrow> status_run r s"
| reconcile: "status_run r s \<Longrightarrow>
    fst (run_state (reconcileSandbox r sb (s\<lparr>ss_ObservedGeneration := g\<rparr>)) w) = (res, s') \<Longrightarrow> status_run r s'"
| bump: "status_run r s \<Longrightarrow> status_run r (s\<lparr>ss_LastActivityTime := Some t\<rparr>)"
| terminate: "status_run r s \<Longrightarrow> status_run r (s\<lparr>ss_Phase := SandboxPhaseTerminating\<rparr>)"

lemma status_run_inv:
  assumes "status_run r s"
  shows "status_inv s \<and> ss_Phase s \<noteq> SandboxPhaseFailed"
  using assms
proof induction
  case (reconcile s sb g w res s')
  have "good_step (s\<lparr>ss_ObservedGeneration := g\<rparr>) s'"
    using alwaysE [OF reconcileSandbox_status [of "s\<lparr>ss_ObservedGeneration := g\<rparr>" r sb], of w] reconcile.hyps by simp
  then show ?case
    using reconcile.IH by (auto simp: good_step_def phase_step_def status_inv_def)
qed (auto simp: status_inv_def)

section \<open>The idle deadline\<close>

definition lists_idle :: "'w SandboxReconciler \<Rightarrow> Sandbox \<Rightarrow> bool" where
  "lists_idle r sb \<longleftrightarrow> always (\<lambda>l. case l of Inl _ \<Rightarrow> True | Inr items \<Rightarrow> \<not> (\<exists>s \<in> set items. activeFor sb s))
     (kc_List (k_Sessions (sr_Client r)) [InNamespace (sb_Namespace sb)])"

lemma run_running:
  assumes "status_inv status"
  shows "always (\<lambda>(res, s). \<forall>x. res = Inr x \<and> ss_Phase s = SandboxPhaseRunning \<longrightarrow>
    x = noRequeue \<and> ss_LastActivityTime s \<noteq> None) (run r sb tpl h sa status)"
proof -
  have "x = noRequeue \<and> ss_LastActivityTime s \<noteq> None"
    if "fst (run_state (run r sb tpl h sa status) w) = (Inr x, s)" "ss_Phase s = SandboxPhaseRunning" for w x s
    using run_by_pod [OF refl that(1)] that(2) assms
    by (auto simp: run_outcome_def split: sum.splits if_splits)
  then show ?thesis by (auto simp: always_def split_beta) (metis prod.collapse)+
qed

lemma activeSessionCount_zero:
  assumes "lists_idle r sb"
  shows "always (\<lambda>n. case n of Inl _ \<Rightarrow> True | Inr k \<Rightarrow> k = 0) (activeSessionCount r sb)"
  unfolding activeSessionCount_def
  by (rule always_bind [OF assms [unfolded lists_idle_def]])
    (auto intro!: always_rules simp: filter_empty_conv split: sum.splits)

definition wakes_again :: "Result res \<times> SandboxStatus \<Rightarrow> bool" where
  "wakes_again = (\<lambda>(res, s). \<forall>x. res = Inr x \<and> ss_Phase s = SandboxPhaseRunning \<longrightarrow> Second \<le> RequeueAfter x)"

lemma wakes_again_err [simp]: "wakes_again (Inl e, s)"
  by (simp add: wakes_again_def)

lemma desiredStateMachine_wakes:
  assumes "status_inv status" "lists_idle r sb" "sp_IdleTimeout (sb_spec sb) = Some d" "0 < d"
  shows "always wakes_again (desiredStateMachine r sb tpl sa status)"
proof -
  have idle: "effectiveIdleTimeout sb tpl = d" using assms(3) by (simp add: effectiveIdleTimeout_def)
  have susp: "always wakes_again (suspend r sb s)" for s
    by (rule always_mono [OF suspend_status]) (auto simp: wakes_again_def)
  have inv: "status_inv (status\<lparr>ss_ActiveSessions := n\<rparr>)" for n
    using assms(1) by (simp add: status_inv_def)
  have requeue: "always wakes_again (requeueAtIdleDeadline r 0 d x s)"
    if "ss_Phase s = SandboxPhaseRunning \<longrightarrow> x = noRequeue \<and> ss_LastActivityTime s \<noteq> None" for x s
    using that assms(4) unfolding requeueAtIdleDeadline_def
    by (auto intro!: always_rules simp: wakes_again_def noRequeue_def)
  show ?thesis
    unfolding desiredStateMachine_def Let_def idle
    by (intro always_if susp always_bind [OF activeSessionCount_zero [OF assms(2)]])
      (auto intro!: always_rules susp always_bind [OF run_running [OF inv]] requeue split: sum.splits)
qed

lemma reconcileSandbox_wakes:
  assumes "status_inv status" "lists_idle r sb" "sp_IdleTimeout (sb_spec sb) = Some d" "0 < d"
  shows "always wakes_again (reconcileSandbox r sb status)"
proof -
  have pending: "ss_Phase s = SandboxPhasePending \<Longrightarrow> wakes_again (x, s)" for x s
    by (simp add: wakes_again_def)
  have machine: "always wakes_again (desiredStateMachine r sb tpl sa s')"
    if "same_pod status s" "same_pod s s'" for s s' tpl sa
    using that assms(1) by (intro desiredStateMachine_wakes [OF _ assms(2-4)]) (simp add: same_pod_def status_inv_def)
  show ?thesis
    unfolding reconcileSandbox_def
    by (auto intro!: always_rules always_bind [OF reconcileHome_status] always_bind [OF reconcileRBAC_status]
        machine intro: pending split: sum.splits option.splits)
qed

section \<open>Properties\<close>

text \<open>Servers for the witnesses: one whose pod runs and whose sandbox is used, one without sessions.\<close>

definition runningPod :: Pod where
  "runningPod = (BuildPod sampleSandbox sampleTemplate
       \<lparr>opt_AgentImage = ''agent'', opt_PriorityClassName = [], opt_ServiceAccountName = []\<rparr>)\<lparr>pod_status :=
     \<lparr>pst_Phase = PodRunning, pst_Conditions = [\<lparr>pc_Type = ''Ready'', pc_Status = ConditionTrue, pc_Message = []\<rparr>],
      pst_PodIP = ''10.0.0.7''\<rparr>\<rparr>"

definition fixedReconciler :: "SandboxSession list \<Rightarrow> memory SandboxReconciler" where
  "fixedReconciler sessions = sampleReconciler\<lparr>sr_Client := memKube\<lparr>
     k_Pods := (k_Pods memKube)\<lparr>kc_Get := (\<lambda>_. ret (Inr runningPod))\<rparr>,
     k_Sessions := (k_Sessions memKube)\<lparr>kc_List := (\<lambda>_. ret (Inr sessions))\<rparr>\<rparr>\<rparr>"




definition deniedSandbox :: Sandbox where
  "deniedSandbox = sampleSandbox\<lparr>sb_spec := (sb_spec sampleSandbox)\<lparr>sp_AccessProfile := ''admin''\<rparr>\<rparr>"

definition denyingReconciler :: "memory SandboxReconciler" where
  "denyingReconciler = sampleReconciler\<lparr>sr_Client := memKube\<lparr>
     k_Profiles := (k_Profiles memKube)\<lparr>kc_Get := (\<lambda>_. ret (Inr (sampleProfile\<lparr>ap_spec :=
       (ap_spec sampleProfile)\<lparr>aps_AllowedNamespaces := [''other'']\<rparr>\<rparr>)))\<rparr>\<rparr>\<rparr>"




text \<open>
  C12. In every history of a sandbox, whatever the server answers: a suspended or
  suspending sandbox publishes no pod address, so the gateway cannot dial a
  terminating pod; a running one has an idle clock; and the phase is never Failed.
\<close>

theorem status_history_invariant:
  assumes "status_run r s"
  shows "(ss_Phase s \<in> {SandboxPhaseSuspended, SandboxPhaseSuspending} \<longrightarrow> ss_PodIP s = []) \<and>
    (ss_Phase s = SandboxPhaseRunning \<longrightarrow> ss_LastActivityTime s \<noteq> None) \<and> ss_Phase s \<noteq> SandboxPhaseFailed"
  using status_run_inv [OF assms] by (simp add: status_inv_def)

theorem status_history_invariant_witness:
  "\<exists>s. status_run sampleReconciler s \<and> ss_Phase s = SandboxPhaseProvisioning \<and> ss_Phase s \<noteq> SandboxPhaseFailed"
proof -
  obtain res s where rs: "fst (run_state (reconcileSandbox sampleReconciler sampleSandbox
      (sampleStatus\<lparr>ss_ObservedGeneration := 1\<rparr>)) sampleMemory) = (res, s)" by fastforce
  have "status_run sampleReconciler s"
    by (rule status_run.reconcile [OF status_run.fresh rs]) (simp add: sampleStatus_def)
  moreover have "ss_Phase (snd (fst (run_state (reconcileSandbox sampleReconciler sampleSandbox
      (sampleStatus\<lparr>ss_ObservedGeneration := 1\<rparr>)) sampleMemory))) = SandboxPhaseProvisioning"
    by code_simp
  ultimately show ?thesis
    using status_history_invariant [of sampleReconciler s] rs by auto
qed



definition idleSandbox :: Sandbox where
  "idleSandbox = sampleSandbox\<lparr>sb_spec := (sb_spec sampleSandbox)\<lparr>sp_IdleTimeout := Some Hour\<rparr>\<rparr>"


text \<open>
  Asking for a sandbox that has been idle for too long suspends it again, unless
  it has a session: the idle clock is not reset by the change of the desired state.
\<close>

lemma idle_resume_suspends:
  assumes "sp_DesiredState (sb_spec sb) = DesiredStateRunning" "run_state (activeSessionCount r sb) w = (Inr 0, w1)"
    "ss_LastActivityTime status = Some t" "0 < effectiveIdleTimeout sb tpl"
    "run_state (sr_wall r) w1 = (now, w2)" "effectiveIdleTimeout sb tpl < time_Sub now t"
  shows "run_state (desiredStateMachine r sb tpl sa status) w = run_state (suspend r sb (status\<lparr>ss_ActiveSessions := 0\<rparr>)) w2"
  using assms by (simp add: desiredStateMachine_def idleExpired_def int32_def Let_def)

end
