(* ===== verification/Session_Controller.thy ===== *)
theory Session_Controller
  imports Sample_Objects
begin

text \<open>
  \<open>internal/controller/sandboxsession_controller.go\<close>: the reconciler
  that reaps stale sessions, garbage-collects closed ones and propagates the
  end of a session into the idle clock of its sandbox.  Durations are signed
  64-bit numbers, so the stale deadline is computed with wrap-around.
\<close>

section \<open>sandboxsession_controller.go\<close>

definition defaultHeartbeatInterval :: Duration where "defaultHeartbeatInterval = 60 * Second"
definition staleHeartbeatFactor :: int where "staleHeartbeatFactor = 3"
definition closedSessionRetention :: Duration where "closedSessionRetention = 168 * Hour"

record 'w SandboxSessionReconciler =
  ssr_Client :: "'w kube"
  ssr_Now :: "('w, Time) state option"

definition ssr_now :: "'w SandboxSessionReconciler \<Rightarrow> ('w, Time) state" where
  "ssr_now r = (case ssr_Now r of Some f \<Rightarrow> f | None \<Rightarrow> k_Now (ssr_Client r))"

definition lastSeen :: "SandboxSession \<Rightarrow> Time" where
  "lastSeen session =
     (case st_LastActivityTime (ses_status session) of
        Some t \<Rightarrow> t
      | None \<Rightarrow> (case st_StartTime (ses_status session) of
                   Some t \<Rightarrow> t
                 | None \<Rightarrow> om_CreationTimestamp (ses_meta session)))"

text \<open>The interval and deadline \<open>reconcileActive\<close> computes first.\<close>

definition sessionInterval :: "SandboxSession \<Rightarrow> Duration" where
  "sessionInterval session =
     (case sx_HeartbeatInterval (ses_spec session) of
        Some d \<Rightarrow> if d > 0 then d else defaultHeartbeatInterval
      | None \<Rightarrow> defaultHeartbeatInterval)"

definition staleDeadline :: "SandboxSession \<Rightarrow> Duration" where
  "staleDeadline session = wrap64 (staleHeartbeatFactor * sessionInterval session)"

text \<open>The status a stale session is closed with.\<close>

definition closeStale :: "SandboxSession \<Rightarrow> SandboxSession" where
  "closeStale session = session\<lparr>ses_status := (ses_status session)\<lparr>
     st_State := SessionStateClosed,
     st_EndTime := Some (lastSeen session),
     st_ExitReason := ExitReasonStaleHeartbeat\<rparr>\<rparr>"

definition reconcileActive ::
  "'w SandboxSessionReconciler \<Rightarrow> SandboxSession \<Rightarrow> ('w, Result res) state" where
  "reconcileActive r session =
     (let deadline = staleDeadline session; seen = lastSeen session
      in if IsZero (Some seen) then ret (Inr \<lparr>RequeueAfter = deadline\<rparr>)
         else do {
           now \<leftarrow> ssr_now r;
           let elapsed = time_Sub now seen;
           if elapsed \<le> deadline then ret (Inr \<lparr>RequeueAfter = wrap64 (deadline - elapsed)\<rparr>)
           else do {
             err \<leftarrow> kc_StatusUpdate (k_Sessions (ssr_Client r)) (closeStale session);
             (case ignore IsNotFound err of
                Inl e \<Rightarrow> ret (Inl e)
              | Inr _ \<Rightarrow> ret (Inr noRequeue))
           }
         })"

definition bumpSandboxActivity ::
  "'w SandboxSessionReconciler \<Rightarrow> SandboxSession \<Rightarrow> ('w, unit res) state" where
  "bumpSandboxActivity r session = do {
     got \<leftarrow> kc_Get (k_Sandboxes (ssr_Client r)) (om_Namespace (ses_meta session), sx_SandboxName (ses_spec session));
     (case got of
        Inl e \<Rightarrow> if IsNotFound e then ret (Inr ()) else ret (Inl e)
      | Inr sb \<Rightarrow>
          (case (ss_LastActivityTime (sb_status sb), st_EndTime (ses_status session)) of
             (Some _, None) \<Rightarrow> ret (Inl (OtherErr ''nil pointer dereference''))
           | (Some activity, Some endTime) \<Rightarrow>
               if \<not> activity < endTime then ret (Inr ())
               else do {
                 err \<leftarrow> kc_StatusPatch (k_Sandboxes (ssr_Client r))
                   (sb\<lparr>sb_status := (sb_status sb)\<lparr>ss_LastActivityTime := Some endTime\<rparr>\<rparr>) sb;
                 ret (ignore IsNotFound err)
               }
           | (None, endTime) \<Rightarrow> do {
               err \<leftarrow> kc_StatusPatch (k_Sandboxes (ssr_Client r))
                 (sb\<lparr>sb_status := (sb_status sb)\<lparr>ss_LastActivityTime := endTime\<rparr>\<rparr>) sb;
               ret (ignore IsNotFound err)
             }))
   }"

definition reconcileClosed ::
  "'w SandboxSessionReconciler \<Rightarrow> SandboxSession \<Rightarrow> ('w, Result res) state" where
  "reconcileClosed r session =
     (case st_EndTime (ses_status session) of
        None \<Rightarrow> ret (Inr noRequeue)
      | Some endTime \<Rightarrow> do {
          bumped \<leftarrow> bumpSandboxActivity r session;
          (case bumped of
             Inl e \<Rightarrow> ret (Inl e)
           | Inr _ \<Rightarrow> do {
               now \<leftarrow> ssr_now r;
               let age = time_Sub now endTime;
               if age \<ge> closedSessionRetention then do {
                 err \<leftarrow> kc_Delete (k_Sessions (ssr_Client r)) (key_of (ses_meta session));
                 (case ignore IsNotFound err of
                    Inl e \<Rightarrow> ret (Inl e)
                  | Inr _ \<Rightarrow> ret (Inr noRequeue))
               }
               else ret (Inr \<lparr>RequeueAfter = wrap64 (closedSessionRetention - age)\<rparr>)
             })
        })"

definition reconcileSession ::
  "'w SandboxSessionReconciler \<Rightarrow> NamespacedName \<Rightarrow> ('w, Result res) state" where
  "reconcileSession r req = do {
     got \<leftarrow> kc_Get (k_Sessions (ssr_Client r)) req;
     (case got of
        Inl e \<Rightarrow> (case ignore IsNotFound (Inl e :: unit res) of
                    Inl e' \<Rightarrow> ret (Inl e') | Inr _ \<Rightarrow> ret (Inr noRequeue))
      | Inr session \<Rightarrow>
          (case st_State (ses_status session) of
             SessionStateActive \<Rightarrow> reconcileActive r session
           | SessionStateClosed \<Rightarrow> reconcileClosed r session
           | _ \<Rightarrow> ret (Inr noRequeue)))
   }"

end
