(* ===== verification/Profile_Controller.thy ===== *)
theory Profile_Controller
  imports Sandbox_Rbac Kube_Server "HOL-Library.AList"
begin

text \<open>
  \<open>internal/controller/accessprofile_controller.go\<close>: the reconciler
  that maintains the shared Role a profile grants into each of its namespaces.
  Go iterates over a map in an unspecified order, so the order is a parameter of
  the reconciler.
\<close>

section \<open>accessprofile_controller.go\<close>

record 'w AccessProfileReconciler =
  apr_Client :: "'w kube"
  apr_Lib :: klib
  apr_Order :: "string list \<Rightarrow> string list"

text \<open>\<open>slices.Sort\<close> on strings.\<close>

primrec insertString :: "string \<Rightarrow> string list \<Rightarrow> string list" where
  "insertString x [] = [x]"
| "insertString x (y # ys) = (if string_less y x then y # insertString x ys else x # y # ys)"

definition sortStrings :: "string list \<Rightarrow> string list" where
  "sortStrings xs = foldr insertString xs []"

text \<open>The rules of a profile per namespace, built up grant by grant.\<close>

definition appendRules ::
  "PolicyRule list \<Rightarrow> string \<Rightarrow> (string \<times> PolicyRule list) list \<Rightarrow> (string \<times> PolicyRule list) list" where
  "appendRules rules ns m = AList.update ns ((case map_of m ns of None \<Rightarrow> [] | Some rs \<Rightarrow> rs) @ rules) m"

definition rulesByNS :: "AccessProfile \<Rightarrow> (string \<times> PolicyRule list) list" where
  "rulesByNS profile = fold (\<lambda>grant. fold (appendRules (gr_Rules grant)) (gr_Namespaces grant))
     (aps_Grants (ap_spec profile)) []"

definition namespaceExists :: "'w AccessProfileReconciler \<Rightarrow> string \<Rightarrow> ('w, bool res) state" where
  "namespaceExists r name = do {
     got \<leftarrow> kc_Get (k_Namespaces (apr_Client r)) ([], name);
     (case got of
        Inl e \<Rightarrow> if IsNotFound e then ret (Inr False) else ret (Inl e)
      | Inr _ \<Rightarrow> ret (Inr True))
   }"

definition profileRole :: "AccessProfile \<Rightarrow> string \<Rightarrow> PolicyRule list \<Rightarrow> Role" where
  "profileRole profile ns rules = \<lparr>
     role_meta = emptyMeta\<lparr>om_Name := profileRoleName (om_Name (ap_meta profile)), om_Namespace := ns,
       om_Labels := [(LabelProfile, om_Name (ap_meta profile)), (''app.kubernetes.io/managed-by'', ManagedByValue)]\<rparr>,
     role_Rules = rules\<rparr>"

definition applyRole ::
  "'w AccessProfileReconciler \<Rightarrow> AccessProfile \<Rightarrow> string \<Rightarrow> PolicyRule list \<Rightarrow> ('w, unit res) state" where
  "applyRole r profile ns rules =
     (let desired = profileRole profile ns rules in do {
        got \<leftarrow> kc_Get (k_Roles (apr_Client r)) (ns, om_Name (role_meta desired));
        (case got of
           Inl e \<Rightarrow>
             if IsNotFound e then do {
               err \<leftarrow> kc_Create (k_Roles (apr_Client r)) desired;
               ret (ignore IsAlreadyExists err)
             }
             else ret (Inl e)
         | Inr existing \<Rightarrow>
             if \<not> equality_Rules (apr_Lib r) (role_Rules existing) (role_Rules desired) then do {
               err \<leftarrow> kc_Update (k_Roles (apr_Client r)) (existing\<lparr>
                 role_Rules := role_Rules desired,
                 role_meta := (if om_Labels (role_meta existing) = []
                   then (role_meta existing)\<lparr>om_Labels := om_Labels (role_meta desired)\<rparr> else role_meta existing)\<rparr>);
               (case err of Inl e \<Rightarrow> ret (Inl e) | Inr _ \<Rightarrow> ret (Inr ()))
             }
             else ret (Inr ()))
      })"

text \<open>The loop of \<open>syncRoles\<close> with its accumulators \<open>missing\<close> and \<open>applied\<close>.\<close>

primrec syncEach ::
  "'w AccessProfileReconciler \<Rightarrow> AccessProfile \<Rightarrow> (string \<times> PolicyRule list) list \<Rightarrow>
   string list \<times> string list \<Rightarrow> ('w, (string list \<times> string list) res) state" where
  "syncEach r profile [] acc = ret (Inr acc)"
| "syncEach r profile (nr # rest) acc = do {
     exists \<leftarrow> namespaceExists r (fst nr);
     (case exists of
        Inl e \<Rightarrow> ret (Inl e)
      | Inr ok \<Rightarrow>
          if \<not> ok then syncEach r profile rest (fst acc @ [fst nr], snd acc)
          else do {
            err \<leftarrow> applyRole r profile (fst nr) (snd nr);
            (case err of
               Inl e \<Rightarrow> ret (Inl e)
             | Inr _ \<Rightarrow> syncEach r profile rest (fst acc, fst nr # snd acc))
          })
   }"

text \<open>The entries of the map in the order of iteration.\<close>

definition iterate :: "'w AccessProfileReconciler \<Rightarrow> (string \<times> PolicyRule list) list \<Rightarrow> (string \<times> PolicyRule list) list" where
  "iterate r m = map (\<lambda>ns. (ns, the (map_of m ns))) (apr_Order r (map fst m))"

definition gcRole :: "'w AccessProfileReconciler \<Rightarrow> string list \<Rightarrow> Role \<Rightarrow> ('w, unit res) state" where
  "gcRole r applied role =
     (if om_Namespace (role_meta role) \<in> set applied then ret (Inr ())
      else do {
        err \<leftarrow> kc_Delete (k_Roles (apr_Client r)) (key_of (role_meta role));
        ret (ignore IsNotFound err)
      })"

definition syncRoles :: "'w AccessProfileReconciler \<Rightarrow> AccessProfile \<Rightarrow> ('w, string list res) state" where
  "syncRoles r profile = do {
     synced \<leftarrow> syncEach r profile (iterate r (rulesByNS profile)) ([], []);
     (case synced of
        Inl e \<Rightarrow> ret (Inl e)
      | Inr acc \<Rightarrow> do {
          roles \<leftarrow> kc_List (k_Roles (apr_Client r)) [MatchingLabels LabelProfile (om_Name (ap_meta profile))];
          (case roles of
             Inl e \<Rightarrow> ret (Inl e)
           | Inr items \<Rightarrow> do {
               gc \<leftarrow> for_each (gcRole r (snd acc)) items;
               (case gc of
                  Inl e \<Rightarrow> ret (Inl e)
                | Inr _ \<Rightarrow> ret (Inr (sortStrings (fst acc))))
             })
        })
   }"

text \<open>The annotation that makes the sandbox controller look again; errors are only logged.\<close>

definition nudged :: "string \<Rightarrow> Sandbox \<Rightarrow> Sandbox" where
  "nudged profile sb = sb\<lparr>sb_meta := (sb_meta sb)\<lparr>
     om_Annotations := AList.update ''kubepark.dev/profile-generation''
       (show_int (om_Generation (sb_meta sb)) @ ''-'' @ profile) (om_Annotations (sb_meta sb))\<rparr>\<rparr>"

definition nudge :: "'w AccessProfileReconciler \<Rightarrow> string \<Rightarrow> Sandbox \<Rightarrow> ('w, unit res) state" where
  "nudge r profile sb = do {
     err \<leftarrow> kc_Patch (k_Sandboxes (apr_Client r)) (nudged profile sb) sb;
     ret (Inr ())
   }"

definition requeueSandboxes :: "'w AccessProfileReconciler \<Rightarrow> string \<Rightarrow> ('w, unit res) state" where
  "requeueSandboxes r profile = do {
     got \<leftarrow> kc_List (k_Sandboxes (apr_Client r)) [MatchingFields indexSandboxAccessProfile profile];
     (case got of
        Inl e \<Rightarrow> ret (Inr ())
      | Inr items \<Rightarrow> for_each (nudge r profile) items)
   }"

definition finalizeProfile :: "'w AccessProfileReconciler \<Rightarrow> AccessProfile \<Rightarrow> ('w, Result res) state" where
  "finalizeProfile r profile =
     (if \<not> ContainsFinalizer (apr_Lib r) (ap_meta profile) AccessProfileFinalizer then ret (Inr noRequeue)
      else do {
        roles \<leftarrow> kc_List (k_Roles (apr_Client r)) [MatchingLabels LabelProfile (om_Name (ap_meta profile))];
        (case roles of
           Inl e \<Rightarrow> ret (Inl e)
         | Inr items \<Rightarrow> do {
             gc \<leftarrow> for_each (gcRole r []) items;
             (case gc of
                Inl e \<Rightarrow> ret (Inl e)
              | Inr _ \<Rightarrow> do {
                  nudges \<leftarrow> requeueSandboxes r (om_Name (ap_meta profile));
                  upd \<leftarrow> kc_Update (k_Profiles (apr_Client r))
                    (profile\<lparr>ap_meta := RemoveFinalizer (apr_Lib r) (ap_meta profile) AccessProfileFinalizer\<rparr>);
                  (case upd of Inl e \<Rightarrow> ret (Inl e) | Inr _ \<Rightarrow> ret (Inr noRequeue))
                })
           })
      })"

definition validCondition :: "AccessProfile \<Rightarrow> string list \<Rightarrow> Condition" where
  "validCondition profile missing =
     (if missing = [] then
        \<lparr>cd_Type = ConditionValid, cd_Status = ConditionTrue, cd_Reason = ReasonValid,
         cd_Message = ''all grant namespaces exist'', cd_ObservedGeneration = om_Generation (ap_meta profile)\<rparr>
      else
        \<lparr>cd_Type = ConditionValid, cd_Status = ConditionFalse, cd_Reason = ReasonMissingNamespace,
         cd_Message = ''missing namespaces: '' @ Join missing '', '' @ '' (other grants applied)'',
         cd_ObservedGeneration = om_Generation (ap_meta profile)\<rparr>)"

definition profileStatus :: "'w AccessProfileReconciler \<Rightarrow> AccessProfile \<Rightarrow> string list \<Rightarrow> AccessProfile" where
  "profileStatus r profile missing = profile\<lparr>ap_status := (ap_status profile)\<lparr>
     apst_ObservedGeneration := om_Generation (ap_meta profile),
     apst_Conditions := SetStatusCondition (apr_Lib r) (apst_Conditions (ap_status profile)) (validCondition profile missing)\<rparr>\<rparr>"

definition reconcileProfile :: "'w AccessProfileReconciler \<Rightarrow> NamespacedName \<Rightarrow> ('w, Result res) state" where
  "reconcileProfile r req = do {
     got \<leftarrow> kc_Get (k_Profiles (apr_Client r)) req;
     (case got of
        Inl e \<Rightarrow> if IsNotFound e then ret (Inr noRequeue) else ret (Inl e)
      | Inr profile0 \<Rightarrow>
          if deleting (ap_meta profile0) then finalizeProfile r profile0
          else do {
            guarded \<leftarrow>
              (if \<not> ContainsFinalizer (apr_Lib r) (ap_meta profile0) AccessProfileFinalizer
               then kc_Update (k_Profiles (apr_Client r))
                 (profile0\<lparr>ap_meta := AddFinalizer (apr_Lib r) (ap_meta profile0) AccessProfileFinalizer\<rparr>)
               else ret (Inr profile0));
            (case guarded of
               Inl e \<Rightarrow> ret (Inl e)
             | Inr profile \<Rightarrow> do {
                 synced \<leftarrow> syncRoles r profile;
                 (case synced of
                    Inl e \<Rightarrow> ret (Inl e)
                  | Inr missing \<Rightarrow> do {
                      nudges \<leftarrow> requeueSandboxes r (om_Name (ap_meta profile));
                      err \<leftarrow> kc_StatusUpdate (k_Profiles (apr_Client r)) (profileStatus r profile missing);
                      (case ignore IsNotFound err of Inl e \<Rightarrow> ret (Inl e) | Inr _ \<Rightarrow> ret (Inr noRequeue))
                    })
               })
          })
   }"

definition profilesForNamespace :: "'w AccessProfileReconciler \<Rightarrow> string \<Rightarrow> ('w, NamespacedName list) state" where
  "profilesForNamespace r ns = do {
     got \<leftarrow> kc_List (k_Profiles (apr_Client r)) [];
     ret (case got of
       Inl e \<Rightarrow> []
     | Inr items \<Rightarrow> map (\<lambda>p. ([], om_Name (ap_meta p)))
         (filter (\<lambda>p. ns \<in> set (grantNamespaces p)) items))
   }"

end
