(* ===== verification/Fault_Reports.thy ===== *)
theory Fault_Reports
  imports Sandbox_Safety Session_Controller Profile_Controller
begin

text \<open>
  How the reconcilers fail.  A fault is an answer of the API server that is
  neither "not found" nor "already exists": the two a reconciler may expect.
  The reconcilers are run on audited clients, and a run is followed up to its
  first fault: \<open>reports F L B m\<close> says that after a
  fault in \<open>F\<close> the handler \<open>m\<close> makes at most one more call, one in
  \<open>L\<close>, and ends in a result in \<open>B\<close>.
\<close>

named_theorems reports_rules \<open>rules that follow a handler up to its first fault\<close>

section \<open>Faults in a record of calls\<close>

definition unexpected :: "err \<Rightarrow> bool" where
  "unexpected e \<longleftrightarrow> \<not> IsNotFound e \<and> \<not> IsAlreadyExists e"

definition fault :: "Call \<Rightarrow> bool" where
  "fault c = (case call_err c of None \<Rightarrow> False | Some e \<Rightarrow> unexpected e)"

definition clean :: "(Call \<Rightarrow> bool) \<Rightarrow> 'w audited \<Rightarrow> bool" where
  "clean F = calls_all (\<lambda>c. \<not> F c)"

text \<open>What has happened since the first fault: at most one call, one of \<open>L\<close>.\<close>

definition stopped :: "(Call \<Rightarrow> bool) \<Rightarrow> (Call \<Rightarrow> bool) \<Rightarrow> 'w audited \<Rightarrow> bool" where
  "stopped F L = (\<lambda>(w, l). length (tl (dropWhile (\<lambda>c. \<not> F c) l)) \<le> 1 \<and> list_all L (tl (dropWhile (\<lambda>c. \<not> F c) l)))"

text \<open>A run that fails at its first fault, and ends with an error.\<close>

definition fail_fast :: "(Call \<Rightarrow> bool) \<Rightarrow> (Call \<Rightarrow> bool) \<Rightarrow> ('w audited, 'a res) state \<Rightarrow> 'w \<Rightarrow> bool" where
  "fail_fast F L m w =
     (case run_state m (w, []) of (r, s) \<Rightarrow> if isl r then stopped F L s else clean F s)"

definition reports :: "(Call \<Rightarrow> bool) \<Rightarrow> (Call \<Rightarrow> bool) \<Rightarrow> ('a \<Rightarrow> bool) \<Rightarrow> ('w audited, 'a) state \<Rightarrow> bool" where
  "reports F L B m \<longleftrightarrow> triple (clean F) m (\<lambda>r w. if B r then stopped F L w else clean F w)"

text \<open>A handler that returns at once, with a result in \<open>B\<close>.\<close>

definition ends :: "('a \<Rightarrow> bool) \<Rightarrow> ('w, 'a) state \<Rightarrow> bool" where
  "ends B m \<longleftrightarrow> (\<exists>b. m = ret b \<and> B b)"

lemma ends_ret [simp]: "B b \<Longrightarrow> ends B (ret b)"
  by (auto simp: ends_def)

lemma dropWhile_clean: "list_all (\<lambda>c. \<not> F c) l \<Longrightarrow> dropWhile (\<lambda>c. \<not> F c) (l @ k) = dropWhile (\<lambda>c. \<not> F c) k"
  by (induction l) auto

lemma clean_stopped: "clean F w \<Longrightarrow> stopped F L w"
  using dropWhile_clean [of F "snd w" "[]"] by (simp add: clean_def stopped_def calls_all_def split_beta del: dropWhile_eq_Nil_conv)

lemma clean_snoc: "clean F (w, l) \<Longrightarrow> stopped F L (w', l @ [c])"
  by (simp add: clean_def stopped_def calls_all_def dropWhile_clean)

lemma reports_fail_fast: "reports F L isl m \<Longrightarrow> fail_fast F L m w"
proof -
  assume "reports F L isl m"
  moreover have "clean F (w, [])" by (simp add: clean_def calls_all_def)
  ultimately show ?thesis by (auto simp: reports_def triple_def fail_fast_def split_beta)
qed

lemma stopped_snoc:
  assumes "stopped F (\<lambda>_. False) (w, l)" "L c"
  shows "stopped F L (w', l @ [c])"
proof (cases "dropWhile (\<lambda>c. \<not> F c) l")
  case Nil
  then have "list_all (\<lambda>c. \<not> F c) l" by (simp add: list_all_iff)
  then show ?thesis by (simp add: stopped_def dropWhile_clean)
next
  case (Cons f post)
  then have "dropWhile (\<lambda>c. \<not> F c) (l @ [c]) = f # post @ [c]" by (induction l) (auto split: if_splits)
  with Cons assms show ?thesis by (cases post) (simp_all add: stopped_def)
qed

lemma stopped_weaken: "stopped F (\<lambda>_. False) w \<Longrightarrow> stopped F L w"
  by (cases w, cases "tl (dropWhile (\<lambda>c. \<not> F c) (snd w))") (auto simp: stopped_def)

lemma reports_ret [reports_rules]: "reports F L B (ret x)"
  by (auto simp: reports_def intro!: triple_ret clean_stopped)

lemma reports_bind:
  assumes m: "reports F L A m" and go: "\<And>a. \<not> A a \<Longrightarrow> reports F L B (f a)" and stop: "\<And>a. A a \<Longrightarrow> ends B (f a)"
  shows "reports F L B (State_Monad.bind m f)"
  unfolding reports_def
proof (rule triple_bind [OF m [unfolded reports_def]])
  fix a
  show "triple (\<lambda>w. if A a then stopped F L w else clean F w) (f a) (\<lambda>r w. if B r then stopped F L w else clean F w)"
  proof (cases "A a")
    case True
    from stop [OF True] show ?thesis by (auto simp: ends_def True intro!: triple_ret)
  qed (use go [of a] in \<open>simp add: reports_def\<close>)
qed

lemma reports_logged:
  fixes m :: "('w, 'a res) state"
  assumes "\<And>a. F (k a) \<Longrightarrow> fault (k a)" "\<And>a. call_err (k a) = a"
  shows "reports F L (\<lambda>r. case r of Inl e \<Rightarrow> unexpected e | Inr _ \<Rightarrow> False) (logged k m)"
proof -
  have ok: "\<not> F (k (err_of r))" if "\<not> (case r of Inl e \<Rightarrow> unexpected e | Inr _ \<Rightarrow> False)" for r :: "'a res"
    using that assms(1) [of "err_of r"] assms(2) [of "err_of r"] by (auto simp: fault_def err_of_def split: sum.splits option.splits)
  show ?thesis
    unfolding reports_def triple_def logged_def
    by (auto simp: split_beta clean_snoc) (auto simp: clean_def calls_all_def ok)
qed

text \<open>The shapes a handler is made of: a call, a handler that returns a status as well, and steps without calls.\<close>

lemma reports_call [reports_rules]:
  assumes "\<And>a. F (k a) \<Longrightarrow> fault (k a)" "\<And>a. call_err (k a) = a"
    "\<And>e. IsNotFound e \<or> IsAlreadyExists e \<Longrightarrow> reports F L B (f (Inl e))" "\<And>v. reports F L B (f (Inr v))"
    "\<And>e. \<not> IsNotFound e \<Longrightarrow> \<not> IsAlreadyExists e \<Longrightarrow> ends B (f (Inl e))"
  shows "reports F L B (State_Monad.bind (logged k m) f)"
proof (rule reports_bind [OF reports_logged])
  fix a
  show "reports F L B (f a)" if "\<not> (case a of Inl e \<Rightarrow> unexpected e | Inr _ \<Rightarrow> False)"
    using that assms(3,4) by (auto simp: unexpected_def split: sum.splits)
  show "ends B (f a)" if "case a of Inl e \<Rightarrow> unexpected e | Inr _ \<Rightarrow> False"
    using that assms(5) by (auto simp: unexpected_def split: sum.splits)
qed (fact assms)+

lemma reports_then:
  assumes "reports F L isl m" "\<And>v. reports F L B (f (Inr v))" "\<And>e. ends B (f (Inl e))"
  shows "reports F L B (State_Monad.bind m f)"
proof (rule reports_bind [OF assms(1)])
  show "reports F L B (f a)" if "\<not> isl a" for a using that assms(2) by (cases a) simp_all
  show "ends B (f a)" if "isl a" for a using that assms(3) by (cases a) simp_all
qed

lemma reports_then_status:
  assumes "reports F L (\<lambda>x. isl (fst x)) m" "\<And>v s. reports F L B (f (Inr v, s))" "\<And>e s. ends B (f (Inl e, s))"
  shows "reports F L B (State_Monad.bind m f)"
proof (rule reports_bind [OF assms(1)])
  show "reports F L B (f a)" if "\<not> isl (fst a)" for a using that assms(2) by (cases a; cases "fst a") simp_all
  show "ends B (f a)" if "isl (fst a)" for a using that assms(3) by (cases a; cases "fst a") simp_all
qed

lemma reports_weaken: "reports F L B m \<Longrightarrow> (\<And>r. B r \<Longrightarrow> B' r) \<Longrightarrow> reports F L B' m"
  unfolding reports_def by (erule triple_weaken) (auto intro: clean_stopped split: if_splits)

lemma reports_logged_res [reports_rules]:
  "(\<And>a. F (k a) \<Longrightarrow> fault (k a)) \<Longrightarrow> (\<And>a. call_err (k a) = a) \<Longrightarrow> reports F L isl (logged k m)"
  by (rule reports_weaken [OF reports_logged]) (auto split: sum.splits)

lemma reports_quiet: "keeps (clean F) m \<Longrightarrow> (\<And>a. reports F L B (f a)) \<Longrightarrow> reports F L B (State_Monad.bind m f)"
  by (rule reports_bind [where A = "\<lambda>_. False"]) (auto simp: reports_def triple_def keeps_def)

lemma reports_keeps: "keeps (clean F) m \<Longrightarrow> reports F L B m"
  by (auto simp: reports_def triple_def keeps_def intro: clean_stopped)

lemma reports_split [reports_rules]:
  "(b \<Longrightarrow> reports F L B m) \<Longrightarrow> (\<not> b \<Longrightarrow> reports F L B n) \<Longrightarrow> reports F L B (if b then m else n)"
  "(\<And>e. r = Inl e \<Longrightarrow> reports F L B (f e)) \<Longrightarrow> (\<And>v. r = Inr v \<Longrightarrow> reports F L B (g v)) \<Longrightarrow> reports F L B (case_sum f g r)"
  "(p = None \<Longrightarrow> reports F L B m) \<Longrightarrow> (\<And>v. p = Some v \<Longrightarrow> reports F L B (h v)) \<Longrightarrow> reports F L B (case_option m h p)"
  "(\<And>a b. q = (a, b) \<Longrightarrow> reports F L B (k a b)) \<Longrightarrow> reports F L B (case_prod k q)"
  "reports F L B (l x) \<Longrightarrow> reports F L B (Let x l)"
  by (simp, simp split: sum.split, simp split: option.split, simp split: prod.split, simp)

lemma reports_for_each [reports_rules]:
  "(\<And>x. x \<in> set xs \<Longrightarrow> reports F L isl (f x)) \<Longrightarrow> reports F L isl (for_each f xs)"
  by (induction xs) (auto intro!: reports_ret reports_then)

lemma ignore_simps [simp]:
  "ignore p (Inr x) = Inr ()" "ignore p (Inl e) = (if p e then Inr () else Inl e)"
  by (simp_all add: ignore_def)

text \<open>The clock and the SSH library record nothing.\<close>

lemma quiet_wall: "keeps (clean F) (sr_wall (auditR r))" "keeps (clean F) (sr_now (auditR r))"
  unfolding clean_def by (intro keeps_rules)+

lemma quiet_unlogged: "keeps (clean F) (unlogged m)"
  unfolding clean_def by (rule keeps_unlogged)

section \<open>The sandbox reconciler\<close>

text \<open>
  \<open>F\<close> is fixed to the faults of all calls; the one call made after a fault is
  that of \<open>patchStatus\<close>.
\<close>

lemma gcRBAC_reports: "reports fault L isl (gcRBAC (auditR r) sb keep)"
  unfolding gcRBAC_def gcBinding_def by (auto intro!: reports_rules)

lemma ensureOwned_reports: "reports fault L isl (ensureOwned (auditR r) sb obj)"
  unfolding ensureOwned_def by (auto intro!: reports_rules)

lemma applyRoleBinding_reports: "reports fault L isl (applyRoleBinding (auditR r) desired)"
  unfolding applyRoleBinding_def by (auto intro!: reports_rules)

lemma refuseRBAC_reports: "reports fault L (\<lambda>x. isl (fst x)) (refuseRBAC (auditR r) sb status reason message)"
  unfolding refuseRBAC_def by (auto intro!: reports_ret reports_then [OF gcRBAC_reports])

lemma grantRBAC_reports: "reports fault L (\<lambda>x. isl (fst x)) (grantRBAC (auditR r) sb profile status)"
  unfolding grantRBAC_def
  by (auto intro!: reports_ret reports_for_each applyRoleBinding_reports
      reports_then [OF ensureOwned_reports] reports_then [OF gcRBAC_reports] reports_then [where m = "for_each f xs" for f xs])

lemma reconcileRBAC_reports: "reports fault L (\<lambda>x. isl (fst x)) (reconcileRBAC (auditR r) sb status)"
  unfolding reconcileRBAC_def
  by (auto intro!: reports_rules refuseRBAC_reports grantRBAC_reports reports_then [OF gcRBAC_reports])

lemma claimConflict_reports: "reports fault L isl (claimConflict (auditR r) sb claim)"
  unfolding claimConflict_def by (auto intro!: reports_rules)

lemma reconcileHome_reports: "reports fault L (\<lambda>x. isl (fst x)) (reconcileHome (auditR r) sb status)"
  unfolding reconcileHome_def
  by (auto simp: Let_def intro!: reports_rules reports_then [OF claimConflict_reports])

lemma ssh_reports:
  "reports F L B (GenerateKeyPair (audit_ssh S) comment)"
  "reports F L B' (SignHostCert (audit_ssh S) ca pub principals d now)"
  by (rule reports_keeps, unfold clean_def, rule GenerateKeyPair_calls, rule reports_keeps, unfold clean_def, rule SignHostCert_calls)

lemma EnsureCASecret_reports: "reports fault L isl (EnsureCASecret (audit_ssh S) (audit c) ns)"
  unfolding EnsureCASecret_def
  by (auto intro!: reports_rules reports_then [OF ssh_reports(1)] reports_quiet [OF quiet_unlogged])

lemma reconcileHostKey_reports: "reports fault L isl (reconcileHostKey (auditR r) sb)"
  unfolding reconcileHostKey_def
  by (auto intro!: reports_rules reports_then [OF EnsureCASecret_reports] reports_then [OF ssh_reports(1)]
      reports_then [OF ssh_reports(2)] reports_quiet [OF quiet_wall(1)] simp: Let_def)

lemma apiServerEndpoints_reports: "reports fault L isl (apiServerEndpoints (auditR r))"
  unfolding apiServerEndpoints_def by (auto intro!: reports_rules)

lemma reconcileNetworkPolicy_reports: "reports fault L isl (reconcileNetworkPolicy (auditR r) sb tpl)"
  unfolding reconcileNetworkPolicy_def
  by (auto intro!: reports_rules reports_then [OF apiServerEndpoints_reports] simp: Let_def)

lemma suspend_reports: "reports fault L (\<lambda>x. isl (fst x)) (suspend (auditR r) sb status)"
  unfolding suspend_def by (auto intro!: reports_rules simp: Let_def)

lemma createPod_reports: "reports fault L (\<lambda>x. isl (fst x)) (createPod (auditR r) sb tpl h sa status)"
  unfolding createPod_def by (auto intro!: reports_rules simp: Let_def)

lemma replaceDeadPod_reports: "reports fault L (\<lambda>x. isl (fst x)) (replaceDeadPod (auditR r) sb pod status)"
  unfolding replaceDeadPod_def by (auto intro!: reports_rules simp: Let_def)

lemma run_reports: "reports fault L (\<lambda>x. isl (fst x)) (run (auditR r) sb tpl h sa status)"
proof -
  have mark: "keeps (clean fault) (if b then markReady (auditR r) sb pod s else ret t)" for b pod s t
    unfolding clean_def by (intro keeps_rules markReady_calls)
  show ?thesis
    unfolding run_def
    by (auto intro!: reports_rules createPod_reports replaceDeadPod_reports reports_quiet [OF mark] simp: Let_def)
qed

lemma activeSessionCount_reports: "reports fault L isl (activeSessionCount (auditR r) sb)"
  unfolding activeSessionCount_def by (auto intro!: reports_rules)

lemma requeueAtIdleDeadline_reports: "reports fault L B (requeueAtIdleDeadline (auditR r) active timeout result status)"
  by (rule reports_keeps, unfold clean_def, rule requeue_calls)

lemma desiredStateMachine_reports: "reports fault L (\<lambda>x. isl (fst x)) (desiredStateMachine (auditR r) sb tpl sa status)"
proof -
  have idle: "keeps (clean fault) (if b then idleExpired (auditR r) t timeout else ret False)" for b t timeout
    unfolding clean_def by (intro keeps_rules idleExpired_calls)
  show ?thesis
    unfolding desiredStateMachine_def
    by (auto intro!: reports_ret reports_split suspend_reports requeueAtIdleDeadline_reports reports_then [OF activeSessionCount_reports]
        reports_then_status [OF run_reports] reports_quiet [OF idle] simp: Let_def)
qed

lemma reconcileSandbox_reports: "reports fault L (\<lambda>x. isl (fst x)) (reconcileSandbox (auditR r) sb status)"
  unfolding reconcileSandbox_def
  by (auto intro!: reports_rules desiredStateMachine_reports reports_then_status [OF reconcileHome_reports]
      reports_then [OF reconcileHostKey_reports] reports_then [OF reconcileNetworkPolicy_reports]
      reports_then_status [OF reconcileRBAC_reports] split: option.split)

lemma closeSessions_reports: "reports fault L isl (closeSessions (auditR r) sb)"
  unfolding closeSessions_def closeOne_def by (auto intro!: reports_rules reports_quiet [OF quiet_wall(1)])

lemma applyHomeRetainPolicy_reports: "reports fault L isl (applyHomeRetainPolicy (auditR r) sb)"
  unfolding applyHomeRetainPolicy_def by (auto intro!: reports_rules)

lemma deleteChildren_reports: "reports fault L isl (deleteChildren (auditR r) sb)"
  unfolding deleteChildren_def by (auto intro!: reports_rules)

lemma markTerminating_reports: "reports fault L isl (markTerminating (auditR r) sb)"
  unfolding markTerminating_def by (auto intro!: reports_rules simp: Let_def)

lemma finalize_reports: "reports fault L isl (finalize (auditR r) sb)"
  unfolding finalize_def
  by (auto intro!: reports_rules reports_then [OF markTerminating_reports] reports_then [OF deleteChildren_reports]
      reports_then [OF gcRBAC_reports] reports_then [OF closeSessions_reports] reports_then [OF applyHomeRetainPolicy_reports])

text \<open>Writing the status is the one call that follows a fault.\<close>

definition statusWrite :: "Call \<Rightarrow> bool" where
  "statusWrite c \<longleftrightarrow> call_verb c = VStatusUpdate \<and> call_kind c = KSandbox"

lemma patchStatus_after:
  assumes "reports fault (\<lambda>_. False) (\<lambda>x. isl (fst x)) m"
  shows "reports fault statusWrite isl (do {
    (result, status) \<leftarrow> m;
    updErr \<leftarrow> patchStatus (auditR r) sb status;
    (case (result, updErr) of (Inr _, Inl e) \<Rightarrow> ret (Inl e) | _ \<Rightarrow> ret result) })"
  unfolding reports_def
proof (rule triple_bind [OF assms [unfolded reports_def]])
  fix a :: "'a res \<times> SandboxStatus"
  obtain result status where a: "a = (result, status)" by (cases a)
  let ?tail = "do {
    updErr \<leftarrow> patchStatus (auditR r) sb status;
    (case (result, updErr) of (Inr _, Inl e) \<Rightarrow> ret (Inl e) | _ \<Rightarrow> ret result) }"
  have "triple (\<lambda>w. if isl result then stopped fault (\<lambda>_. False) w else clean fault w) ?tail
    (\<lambda>r w. if isl r then stopped fault statusWrite w else clean fault w)"
  proof (cases result)
    case (Inl e)
    have one: "triple (stopped fault (\<lambda>_. False)) (logged (Call VStatusUpdate KSandbox k) u) (\<lambda>_. stopped fault statusWrite)" for k u
      by (auto simp: triple_def logged_def split_beta statusWrite_def intro!: stopped_snoc)
    have "triple (stopped fault (\<lambda>_. False)) (patchStatus (auditR r) sb status) (\<lambda>_. stopped fault statusWrite)"
      unfolding patchStatus_def
      by (auto intro!: triple_ret triple_bind [OF one] stopped_weaken)
    then show ?thesis by (auto simp: Inl intro!: triple_bind triple_ret)
  next
    case (Inr v)
    have "reports fault statusWrite isl ?tail"
      unfolding Inr patchStatus_def by (auto intro!: reports_rules)
    then show ?thesis by (simp add: reports_def Inr)
  qed
  then show "triple (\<lambda>w. if isl (fst a) then stopped fault (\<lambda>_. False) w else clean fault w)
    (case a of (result, status) \<Rightarrow> do {
      updErr \<leftarrow> patchStatus (auditR r) sb status;
      (case (result, updErr) of (Inr _, Inl e) \<Rightarrow> ret (Inl e) | _ \<Rightarrow> ret result) })
    (\<lambda>r w. if isl r then stopped fault statusWrite w else clean fault w)"
    by (simp add: a)
qed

lemma Reconcile_reports: "reports fault statusWrite isl (Reconcile (auditR r) req)"
proof -
  have guarded: "reports fault statusWrite isl (if b then logged (Call VUpdate KSandbox k) m else ret x)" for b k m and x :: "Sandbox res"
    by (auto intro!: reports_rules)
  show ?thesis
    unfolding Reconcile_def
    by (auto intro!: reports_rules finalize_reports reports_then [OF guarded] patchStatus_after [OF reconcileSandbox_reports, simplified])
qed

section \<open>The session reconciler\<close>

definition auditSessions :: "'w SandboxSessionReconciler \<Rightarrow> 'w audited SandboxSessionReconciler" where
  "auditSessions r = \<lparr>ssr_Client = audit (ssr_Client r), ssr_Now = map_option unlogged (ssr_Now r)\<rparr>"

lemma auditSessions_sel [simp]: "ssr_Client (auditSessions r) = audit (ssr_Client r)"
  by (simp add: auditSessions_def)

lemma quiet_ssr_now: "keeps (clean F) (ssr_now (auditSessions r))"
  by (auto simp: ssr_now_def auditSessions_def quiet_unlogged split: option.split)

lemma reconcileActive_reports: "reports fault L isl (reconcileActive (auditSessions r) session)"
  unfolding reconcileActive_def by (auto intro!: reports_rules reports_quiet [OF quiet_ssr_now] simp: Let_def)

lemma bumpSandboxActivity_reports: "reports fault L isl (bumpSandboxActivity (auditSessions r) session)"
  unfolding bumpSandboxActivity_def by (auto intro!: reports_rules split: option.split)

lemma reconcileClosed_reports: "reports fault L isl (reconcileClosed (auditSessions r) session)"
  unfolding reconcileClosed_def
  by (auto intro!: reports_rules reports_then [OF bumpSandboxActivity_reports] reports_quiet [OF quiet_ssr_now] simp: Let_def)

lemma reconcileSession_reports: "reports fault L isl (reconcileSession (auditSessions r) req)"
  unfolding reconcileSession_def
  by (auto intro!: reports_rules reconcileActive_reports reconcileClosed_reports split: SessionState.split)

section \<open>The access profile reconciler\<close>

text \<open>Nudging the sandboxes of a profile is best effort: only its faults are let pass.\<close>

definition profileFault :: "Call \<Rightarrow> bool" where
  "profileFault c \<longleftrightarrow> fault c \<and> call_kind c \<noteq> KSandbox"

definition auditProfiles :: "'w AccessProfileReconciler \<Rightarrow> 'w audited AccessProfileReconciler" where
  "auditProfiles r = \<lparr>apr_Client = audit (apr_Client r), apr_Lib = apr_Lib r, apr_Order = apr_Order r\<rparr>"

lemma auditProfiles_sel [simp]: "apr_Client (auditProfiles r) = audit (apr_Client r)" "apr_Lib (auditProfiles r) = apr_Lib r"
  by (simp_all add: auditProfiles_def)

lemma profileFault_fault: "profileFault (Call v k n a) \<Longrightarrow> fault (Call v k n a)"
  by (simp add: profileFault_def)

lemma namespaceExists_reports: "reports profileFault L isl (namespaceExists (auditProfiles r) name)"
  unfolding namespaceExists_def by (auto intro!: reports_rules profileFault_fault)

lemma applyRole_reports: "reports profileFault L isl (applyRole (auditProfiles r) profile ns rules)"
  unfolding applyRole_def by (auto intro!: reports_rules profileFault_fault simp: Let_def)

lemma syncEach_reports: "reports profileFault L isl (syncEach (auditProfiles r) profile nrs acc)"
  by (induction nrs arbitrary: acc)
    (auto intro!: reports_ret reports_split reports_then [OF namespaceExists_reports] reports_then [OF applyRole_reports])

lemma gcRole_reports: "reports profileFault L isl (gcRole (auditProfiles r) applied role)"
  unfolding gcRole_def by (auto intro!: reports_rules profileFault_fault)

lemma syncRoles_reports: "reports profileFault L isl (syncRoles (auditProfiles r) profile)"
  unfolding syncRoles_def
  by (auto intro!: reports_then [OF syncEach_reports] reports_then [OF reports_for_each [OF gcRole_reports]] reports_rules profileFault_fault)

lemma quiet_nudges: "keeps (clean profileFault) (requeueSandboxes (auditProfiles r) profile)"
  unfolding requeueSandboxes_def nudge_def clean_def
  by (auto intro!: keeps_rules simp: profileFault_def)

lemma finalizeProfile_reports: "reports profileFault L isl (finalizeProfile (auditProfiles r) profile)"
  unfolding finalizeProfile_def
  by (auto intro!: reports_then [OF reports_for_each [OF gcRole_reports]] reports_quiet [OF quiet_nudges] reports_rules profileFault_fault)

lemma reconcileProfile_reports: "reports profileFault L isl (reconcileProfile (auditProfiles r) req)"
proof -
  have guarded: "reports profileFault L isl (if b then logged (Call VUpdate KAccessProfile k) m else ret x)" for b k m and x :: "AccessProfile res"
    by (auto intro!: reports_rules profileFault_fault)
  show ?thesis
    unfolding reconcileProfile_def
    by (auto intro!: reports_rules profileFault_fault finalizeProfile_reports reports_then [OF guarded]
        reports_then [OF syncRoles_reports] reports_quiet [OF quiet_nudges])
qed

section \<open>Properties\<close>

text \<open>
  C6. The reconcilers fail fast and never swallow a fault.  Whatever the API
  server answers, from its first unexpected error on a reconcile makes no further
  call, and it returns an error, so that it is tried again.  Two exceptions are
  deliberate: a sandbox reconcile still writes the status it has computed, and a
  profile reconcile goes on when nudging the sandboxes of the profile fails.
\<close>

theorem reconcilers_fail_fast:
  "fail_fast fault statusWrite (Reconcile (auditR r) req) w \<and>
   fail_fast fault (\<lambda>_. False) (reconcileSession (auditSessions s) req) w \<and>
   fail_fast profileFault (\<lambda>_. False) (reconcileProfile (auditProfiles p) req) w"
  by (intro conjI reports_fail_fast Reconcile_reports reconcileSession_reports reconcileProfile_reports)

end
