(* ===== verification/Session_Life.thy ===== *)
theory Session_Life
  imports Kube_Server
begin

text \<open>
  The life of a session as an abstract machine, and what it means for a
  component to follow it: in every outcome of a handler, each session of the
  cluster has moved along the machine.  The components prove this of their
  handlers.
\<close>

declare split_paired_All [simp del] split_paired_Ex [simp del]

section \<open>Handlers that respect an order on clusters\<close>

text \<open>
  \<open>obeys R view m\<close>: whatever the outcome of \<open>m\<close>, the cluster
  afterwards is related to the cluster before it.  For a preorder this is closed
  under everything handlers are made of.
\<close>

definition obeys :: "(cluster \<Rightarrow> cluster \<Rightarrow> bool) \<Rightarrow> ('w \<Rightarrow> cluster) \<Rightarrow> ('w, 'a) state \<Rightarrow> bool" where
  "obeys R view m \<longleftrightarrow> (\<forall>v0. vtriple view (\<lambda>v. v = v0) m (\<lambda>_ v. R v0 v))"

text \<open>Calls that leave the whole cluster as it is.\<close>

definition quiet :: "('w \<Rightarrow> cluster) \<Rightarrow> ('w, 'a) state \<Rightarrow> bool" where
  "quiet view m \<longleftrightarrow> (\<forall>v0. vtriple view (\<lambda>v. v = v0) m (\<lambda>_ v. v = v0))"

lemma quiet_keeps: "quiet view m \<Longrightarrow> vtriple view p m (\<lambda>_. p)"
  unfolding quiet_def by (rule vtriple_frozen [where Q = "\<lambda>v0 _ v. v = v0"]) auto

locale cluster_order =
  fixes R :: "cluster \<Rightarrow> cluster \<Rightarrow> bool"
  assumes reflexive: "R v v" and transitive: "R u v \<Longrightarrow> R v w \<Longrightarrow> R u w"
begin

lemma ret: "obeys R view (ret x)"
  unfolding obeys_def by (intro allI vtriple_ret) (simp add: reflexive)

lemma bind:
  assumes "obeys R view m" "\<And>a. obeys R view (f a)"
  shows "obeys R view (State_Monad.bind m f)"
  unfolding obeys_def
proof
  fix v0 :: cluster
  show "vtriple view (\<lambda>v. v = v0) (State_Monad.bind m f) (\<lambda>_ v. R v0 v)"
  proof (rule vtriple_bind)
    show "vtriple view (\<lambda>v. v = v0) m (\<lambda>_ v. R v0 v)" using assms(1) by (simp add: obeys_def)
    show "vtriple view (\<lambda>v. R v0 v) (f a) (\<lambda>_ v. R v0 v)" for a
      by (rule vtriple_frozen [OF spec [OF assms(2) [unfolded obeys_def]]]) (rule transitive)
  qed
qed

lemma cases:
  "obeys R view m \<Longrightarrow> obeys R view n \<Longrightarrow> obeys R view (if b then m else n)"
  "(\<And>e. obeys R view (f e)) \<Longrightarrow> (\<And>x. obeys R view (g x)) \<Longrightarrow> obeys R view (case r of Inl e \<Rightarrow> f e | Inr x \<Rightarrow> g x)"
  "obeys R view m \<Longrightarrow> (\<And>x. obeys R view (h x)) \<Longrightarrow> obeys R view (case o' of None \<Rightarrow> m | Some x \<Rightarrow> h x)"
  "(\<And>a b. obeys R view (k a b)) \<Longrightarrow> obeys R view (case p of (a, b) \<Rightarrow> k a b)"
  "obeys R view m \<Longrightarrow> (\<And>y ys. obeys R view (l y ys)) \<Longrightarrow> obeys R view (case xs of [] \<Rightarrow> m | y # ys \<Rightarrow> l y ys)"
  by (simp_all split: sum.split option.split prod.split list.split)

lemma loop: "(\<And>x. obeys R view (f x)) \<Longrightarrow> obeys R view (for_each f xs)"
  by (induction xs) (auto intro!: ret bind cases)

lemmas rules = ret bind cases loop

lemma quiet_obeys: "quiet view m \<Longrightarrow> obeys R view m"
  unfolding obeys_def
proof
  fix v0 :: cluster
  assume "quiet view m"
  then have "vtriple view (\<lambda>v. v = v0) m (\<lambda>_ v. v = v0)" by (simp add: quiet_def)
  then show "vtriple view (\<lambda>v. v = v0) m (\<lambda>_ v. R v0 v)" by (rule vtriple_conseq) (simp_all add: reflexive)
qed

lemma dest: "obeys R view m \<Longrightarrow> run_state m w = (a, w') \<Longrightarrow> R (view w) (view w')"
  unfolding obeys_def by (drule spec, erule vtripleD) (auto intro: refl)

end

section \<open>The abstract machine\<close>

datatype life =
    Missing
  | Created
  | Live "Time option"
  | Ended "Time option" "Time option" string

text \<open>
  A session is created, opened once, closed once with an end time and a reason
  (possibly before it was opened), and removed only after it was closed.
\<close>

inductive life_step :: "life \<Rightarrow> life \<Rightarrow> bool" where
  create: "life_step Missing Created"
| opened: "life_step Created (Live start)"
| close: "life_step (Live start) (Ended start end reason)"
| abandon: "life_step Created (Ended start end reason)"
| expire: "life_step (Ended start end reason) Missing"

inductive_cases life_step_EndedE: "life_step (Ended start end reason) y"
inductive_cases life_step_LiveE: "life_step (Live start) y"

abbreviation life_path :: "life \<Rightarrow> life \<Rightarrow> bool" where
  "life_path \<equiv> life_step\<^sup>*\<^sup>*"

definition life_of_status :: "SandboxSessionStatus \<Rightarrow> life" where
  "life_of_status st = (case st_State st of
     SessionStateActive \<Rightarrow> Live (st_StartTime st)
   | SessionStateClosed \<Rightarrow> Ended (st_StartTime st) (st_EndTime st) (st_ExitReason st)
   | SessionStateOther _ \<Rightarrow> Created)"

definition life_of :: "SandboxSession option \<Rightarrow> life" where
  "life_of s = (case s of None \<Rightarrow> Missing | Some x \<Rightarrow> life_of_status (ses_status x))"

lemma life_of_simps [simp]:
  "life_of None = Missing" "life_of (Some s) = life_of_status (ses_status s)"
  "life_of_status emptySessionStatus = Created"
  by (simp_all add: life_of_def life_of_status_def emptySessionStatus_def)

text \<open>A session that ended keeps its end time and reason until it is removed.\<close>

lemma ended_path: "life_path (Ended start end reason) y \<Longrightarrow> y = Ended start end reason \<or> life_path Missing y"
  by (induction rule: rtranclp_induct) (auto elim: life_step_EndedE intro: rtranclp.rtrancl_into_rtrancl)

section \<open>Components that follow the machine\<close>

definition sessions_evolve :: "(NamespacedName \<rightharpoonup> SandboxSession) \<Rightarrow> (NamespacedName \<rightharpoonup> SandboxSession) \<Rightarrow> bool" where
  "sessions_evolve m m' \<longleftrightarrow> (\<forall>n. life_path (life_of (m n)) (life_of (m' n)))"

lemma sessions_evolve_refl [simp]: "sessions_evolve m m"
  by (simp add: sessions_evolve_def)

lemma sessions_evolve_trans: "sessions_evolve m m' \<Longrightarrow> sessions_evolve m' m'' \<Longrightarrow> sessions_evolve m m''"
  unfolding sessions_evolve_def by (meson rtranclp_trans)

lemma sessions_evolve_upd:
  "life_path (life_of (m k)) (life_of x) \<Longrightarrow> sessions_evolve m (m(k := x))"
  by (simp add: sessions_evolve_def)

abbreviation evolves :: "('w \<Rightarrow> cluster) \<Rightarrow> ('w, 'a) state \<Rightarrow> bool" where
  "evolves view m \<equiv> obeys (\<lambda>v v'. sessions_evolve (cl_Sessions v) (cl_Sessions v')) view m"

lemmas evolves_def = obeys_def [where R = "\<lambda>v v'. sessions_evolve (cl_Sessions v) (cl_Sessions v')"]

interpretation lives: cluster_order "\<lambda>v v'. sessions_evolve (cl_Sessions v) (cl_Sessions v')"
  by unfold_locales (auto intro: sessions_evolve_trans)

named_theorems evolves_rules

declare lives.rules [evolves_rules]

lemmas evolves_ret = lives.ret
lemmas evolvesD = lives.dest
lemmas evolves_quiet = lives.quiet_obeys

text \<open>A call that does not look at the sessions.\<close>

lemma evolves_frame:
  assumes "\<And>m. vtriple view (\<lambda>v. cl_Sessions v = m) x (\<lambda>_ v. cl_Sessions v = m)"
  shows "evolves view x"
  unfolding evolves_def
proof
  fix v0 :: cluster
  show "vtriple view (\<lambda>v. v = v0) x (\<lambda>_ v. sessions_evolve (cl_Sessions v0) (cl_Sessions v))"
    by (rule vtriple_conseq [OF assms [of "cl_Sessions v0"]]) simp_all
qed

context kube_server
begin

lemma evolves_calls [evolves_rules]:
  "evolves view (kc_Get (k_Sandboxes c) n)" "evolves view (kc_List (k_Sandboxes c) opts)" "evolves view (kc_Update (k_Sandboxes c) sb)"
  "evolves view (kc_StatusUpdate (k_Sandboxes c) sb)" "evolves view (kc_StatusPatch (k_Sandboxes c) sb sb')"
  "evolves view (kc_Patch (k_Sandboxes c) sb sb')"
  "evolves view (kc_Get (k_Profiles c) n)" "evolves view (kc_List (k_Profiles c) opts)" "evolves view (kc_Update (k_Profiles c) ap)"
  "evolves view (kc_StatusUpdate (k_Profiles c) ap)"
  "evolves view (kc_Get (k_Pods c) n)" "evolves view (kc_Create (k_Pods c) pod)" "evolves view (kc_Delete (k_Pods c) n)"
  "evolves view (kc_Get (k_PVCs c) n)" "evolves view (kc_Create (k_PVCs c) pvc)" "evolves view (kc_Update (k_PVCs c) pvc)"
  "evolves view (kc_Delete (k_PVCs c) n)"
  "evolves view (kc_Get (k_Secrets c) n)" "evolves view (kc_Create (k_Secrets c) sec)" "evolves view (kc_Delete (k_Secrets c) n)"
  "evolves view (kc_Get (k_NetPols c) n)" "evolves view (kc_Create (k_NetPols c) np)" "evolves view (kc_Update (k_NetPols c) np)"
  "evolves view (kc_Delete (k_NetPols c) n)"
  "evolves view (kc_Create (k_ServiceAccounts c) sa)" "evolves view (kc_Delete (k_ServiceAccounts c) n)"
  "evolves view (kc_Get (k_RoleBindings c) n)" "evolves view (kc_List (k_RoleBindings c) opts)" "evolves view (kc_Create (k_RoleBindings c) rb)"
  "evolves view (kc_Update (k_RoleBindings c) rb)" "evolves view (kc_Delete (k_RoleBindings c) n)"
  "evolves view (kc_Get (k_Roles c) n)" "evolves view (kc_List (k_Roles c) opts)" "evolves view (kc_Create (k_Roles c) role)"
  "evolves view (kc_Update (k_Roles c) role)" "evolves view (kc_Delete (k_Roles c) n)"
  "evolves view (kc_Get (k_Namespaces c) n)"
  by (rule evolves_frame, rule sandboxes.frame profiles.frame pods.frame pvcs.frame secrets.frame netpols.frame
      serviceaccounts.frame rolebindings.frame roles.frame namespaces.frame, simp)+

lemma evolves_reads [evolves_rules]:
  "evolves view (kc_Get (k_Sessions c) n)" "evolves view (kc_List (k_Sessions c) opts)" "evolves view (k_Now c)"
  by (rule evolves_quiet, unfold quiet_def, intro allI, rule vtriple_conseq [OF sessions.get] vtriple_conseq [OF sessions.list] vtriple_conseq [OF now_law],
      assumption, simp)+

end

end
