(* ===== verification/Gateway_Store.thy ===== *)
theory Gateway_Store
  imports Session_Life
begin

text \<open>
  \<open>internal/gateway/store.go\<close>: the gateway's view of sandboxes and
  sessions.  The interface \<open>Store\<close> is the locale
  \<open>session_store\<close>, the contract the gateway relies on; a store over a
  lawful API server keeps it.
\<close>

declare split_paired_All [simp del] split_paired_Ex [simp del]

section \<open>store.go\<close>

text \<open>
  \<open>SetDesiredRunning\<close> writes through its pointer, so it also returns
  the sandbox its caller sees afterwards.
\<close>

record 'w Store =
  sto_GetSandbox :: "string \<Rightarrow> string \<Rightarrow> ('w, Sandbox res) state"
  sto_SetDesiredRunning :: "Sandbox \<Rightarrow> ('w, unit res \<times> Sandbox) state"
  sto_CreateSession :: "SandboxSession \<Rightarrow> ('w, unit res) state"
  sto_Heartbeat :: "string \<Rightarrow> string \<Rightarrow> ('w, unit res) state"
  sto_CloseSession :: "string \<Rightarrow> string \<Rightarrow> string \<Rightarrow> ('w, unit res) state"

definition GetSandbox :: "'w kube \<Rightarrow> string \<Rightarrow> string \<Rightarrow> ('w, Sandbox res) state" where
  "GetSandbox c namespace name = kc_Get (k_Sandboxes c) (namespace, name)"

definition wake :: "Sandbox \<Rightarrow> Sandbox" where
  "wake sb = sb\<lparr>sb_spec := (sb_spec sb)\<lparr>sp_DesiredState := DesiredStateRunning\<rparr>\<rparr>"

definition SetDesiredRunning :: "'w kube \<Rightarrow> Sandbox \<Rightarrow> ('w, unit res \<times> Sandbox) state" where
  "SetDesiredRunning c sb =
     (if sp_DesiredState (sb_spec sb) = DesiredStateRunning then ret (Inr (), sb)
      else do {
        patched \<leftarrow> kc_Patch (k_Sandboxes c) (wake sb) sb;
        (case patched of
           Inl e \<Rightarrow> ret (Inl e, wake sb)
         | Inr sb' \<Rightarrow> ret (Inr (), sb'))
      })"

definition openedSession :: "Time \<Rightarrow> SandboxSession \<Rightarrow> SandboxSession" where
  "openedSession now session = session\<lparr>ses_status := (ses_status session)\<lparr>
     st_State := SessionStateActive, st_StartTime := Some now, st_LastActivityTime := Some now\<rparr>\<rparr>"

definition CreateSession :: "'w kube \<Rightarrow> SandboxSession \<Rightarrow> ('w, unit res) state" where
  "CreateSession c session0 = do {
     created \<leftarrow> kc_Create (k_Sessions c) session0;
     (case created of
        Inl e \<Rightarrow> ret (Inl e)
      | Inr session \<Rightarrow> do {
          now \<leftarrow> k_Now c;
          err \<leftarrow> kc_StatusUpdate (k_Sessions c) (openedSession now session);
          (case err of Inl e \<Rightarrow> ret (Inl e) | Inr _ \<Rightarrow> ret (Inr ()))
        })
   }"

definition beat :: "Time \<Rightarrow> SandboxSession \<Rightarrow> SandboxSession" where
  "beat now session = session\<lparr>ses_status := (ses_status session)\<lparr>st_LastActivityTime := Some now\<rparr>\<rparr>"

definition Heartbeat :: "'w kube \<Rightarrow> string \<Rightarrow> string \<Rightarrow> ('w, unit res) state" where
  "Heartbeat c namespace name = do {
     got \<leftarrow> kc_Get (k_Sessions c) (namespace, name);
     (case got of
        Inl e \<Rightarrow> ret (Inl e)
      | Inr session \<Rightarrow>
          if st_State (ses_status session) \<noteq> SessionStateActive then ret (Inr ())
          else do {
            now \<leftarrow> k_Now c;
            err \<leftarrow> kc_StatusUpdate (k_Sessions c) (beat now session);
            (case err of Inl e \<Rightarrow> ret (Inl e) | Inr _ \<Rightarrow> ret (Inr ()))
          })
   }"

definition closedSession :: "Time \<Rightarrow> string \<Rightarrow> SandboxSession \<Rightarrow> SandboxSession" where
  "closedSession now reason session = session\<lparr>ses_status := (ses_status session)\<lparr>
     st_State := SessionStateClosed, st_EndTime := Some now, st_ExitReason := reason\<rparr>\<rparr>"

definition CloseSession :: "'w kube \<Rightarrow> string \<Rightarrow> string \<Rightarrow> string \<Rightarrow> ('w, unit res) state" where
  "CloseSession c namespace name reason = do {
     got \<leftarrow> kc_Get (k_Sessions c) (namespace, name);
     (case got of
        Inl e \<Rightarrow> ret (Inl e)
      | Inr session \<Rightarrow>
          if st_State (ses_status session) = SessionStateClosed then ret (Inr ())
          else do {
            now \<leftarrow> k_Now c;
            err \<leftarrow> kc_StatusUpdate (k_Sessions c) (closedSession now reason session);
            (case err of Inl e \<Rightarrow> ret (Inl e) | Inr _ \<Rightarrow> ret (Inr ()))
          })
   }"

definition NewStore :: "'w kube \<Rightarrow> 'w Store" where
  "NewStore c = \<lparr>
     sto_GetSandbox = GetSandbox c,
     sto_SetDesiredRunning = SetDesiredRunning c,
     sto_CreateSession = CreateSession c,
     sto_Heartbeat = Heartbeat c,
     sto_CloseSession = CloseSession c\<rparr>"

definition ErrNoRoute :: "string \<Rightarrow> err" where
  "ErrNoRoute reason = OtherErr (''no route: '' @ reason)"

section \<open>The contract of a store\<close>

text \<open>A sandbox before and after it was woken: only the desired state and the resource's bookkeeping differ.\<close>

definition woken :: "Sandbox \<Rightarrow> Sandbox \<Rightarrow> bool" where
  "woken sb sb' \<longleftrightarrow> sb_spec sb' = (sb_spec sb)\<lparr>sp_DesiredState := DesiredStateRunning\<rparr> \<and> sb_status sb' = sb_status sb \<and>
     key_of (sb_meta sb') = key_of (sb_meta sb) \<and> server_meta (sb_meta sb') = server_meta (sb_meta sb) \<and>
     om_Finalizers (sb_meta sb') = om_Finalizers (sb_meta sb)"

text \<open>
  At most one sandbox is woken.  A server removes an object under deletion that
  has no finalizer left with any write.
\<close>

definition wakes :: "NamespacedName \<Rightarrow> (NamespacedName \<rightharpoonup> Sandbox) \<Rightarrow> (NamespacedName \<rightharpoonup> Sandbox) \<Rightarrow> bool" where
  "wakes k m m' \<longleftrightarrow> (\<forall>n. n \<noteq> k \<longrightarrow> m' n = m n) \<and>
     (m' k = m k \<or>
      (\<exists>sb sb'. m k = Some sb \<and> woken sb sb' \<and>
         m' k = (if deleting (sb_meta sb) \<and> om_Finalizers (sb_meta sb) = [] then None else Some sb')))"

lemma wakes_refl [simp]: "wakes k m m"
  by (simp add: wakes_def)

text \<open>What the record of an open session says.\<close>

definition records :: "SandboxSession \<Rightarrow> Time \<Rightarrow> SandboxSession \<Rightarrow> bool" where
  "records session t s \<longleftrightarrow> ses_spec s = ses_spec session \<and> user_meta (ses_meta s) = user_meta (ses_meta session) \<and>
     st_State (ses_status s) = SessionStateActive \<and> st_StartTime (ses_status s) = Some t \<and>
     st_LastActivityTime (ses_status s) = Some t \<and> st_EndTime (ses_status s) = None"

locale session_store =
  fixes view :: "'w \<Rightarrow> cluster" and st :: "'w Store"
  assumes get_sandbox: "vtriple view (\<lambda>v. v = v0) (sto_GetSandbox st ns n) (\<lambda>r v. v = v0 \<and>
      (case r of Inr sb \<Rightarrow> cl_Sandboxes v0 (ns, n) = Some sb \<and> key_of (sb_meta sb) = (ns, n)
       | Inl e \<Rightarrow> IsNotFound e \<longrightarrow> cl_Sandboxes v0 (ns, n) = None))"
    and set_running: "vtriple view (\<lambda>v. v = v0) (sto_SetDesiredRunning st sb) (\<lambda>r v.
      key_of (sb_meta (snd r)) = key_of (sb_meta sb) \<and>
      (\<exists>m. v = v0\<lparr>cl_Sandboxes := m\<rparr> \<and> wakes (key_of (sb_meta sb)) (cl_Sandboxes v0) m))"
    and set_running_ok: "vtriple view (\<lambda>v. cl_Sandboxes v (key_of (sb_meta sb)) = Some sb) (sto_SetDesiredRunning st sb) (\<lambda>r v.
      case fst r of Inl _ \<Rightarrow> True | Inr _ \<Rightarrow> (\<forall>sb'. cl_Sandboxes v (key_of (sb_meta sb)) = Some sb' \<longrightarrow>
        sp_DesiredState (sb_spec sb') = DesiredStateRunning))"
    and create_session: "succeeds view (\<lambda>v. v = v0) (sto_CreateSession st session) (\<lambda>_ v. \<exists>s t.
      records session t s \<and> cl_Sessions v0 (key_of (ses_meta session)) = None \<and>
      v = v0\<lparr>cl_Sessions := (cl_Sessions v0)(key_of (ses_meta session) \<mapsto> s)\<rparr>)"
    and create_session_frame: "vtriple view (\<lambda>v. v = v0) (sto_CreateSession st session) (\<lambda>_ v. \<exists>m. v = v0\<lparr>cl_Sessions := m\<rparr>)"
    and heartbeat: "vtriple view (\<lambda>v. v = v0) (sto_Heartbeat st ns n) (\<lambda>_ v. \<exists>m. v = v0\<lparr>cl_Sessions := m\<rparr>)"
    and close_session: "succeeds view (\<lambda>v. v = v0) (sto_CloseSession st ns n reason) (\<lambda>_ v. \<exists>m s.
      v = v0\<lparr>cl_Sessions := m\<rparr> \<and> m (ns, n) = Some s \<and> st_State (ses_status s) = SessionStateClosed)"
    and close_session_frame: "vtriple view (\<lambda>v. v = v0) (sto_CloseSession st ns n reason) (\<lambda>_ v. \<exists>m. v = v0\<lparr>cl_Sessions := m\<rparr>)"
    and sessions_follow: "evolves view (sto_CreateSession st session)" "evolves view (sto_Heartbeat st ns n)"
      "evolves view (sto_CloseSession st ns n reason)"

section \<open>A store over the API server\<close>

lemma assign_Sessions: "cl_Sessions_update (\<lambda>m. m(k := x)) v = v\<lparr>cl_Sessions := (cl_Sessions v)(k := x)\<rparr>"
  by (cases v) simp

lemma assign_Sandboxes: "cl_Sandboxes_update (\<lambda>m. m(k := x)) v = v\<lparr>cl_Sandboxes := (cl_Sandboxes v)(k := x)\<rparr>"
  by (cases v) simp

lemma wake_simps [simp]: "sb_meta (wake sb) = sb_meta sb" "sb_spec (wake sb) = (sb_spec sb)\<lparr>sp_DesiredState := DesiredStateRunning\<rparr>"
  by (simp_all add: wake_def)

lemma session_simps [simp]:
  "ses_meta (openedSession t s) = ses_meta s" "ses_meta (beat t s) = ses_meta s" "ses_meta (closedSession t reason s) = ses_meta s"
  by (simp_all add: openedSession_def beat_def closedSession_def)

lemma woke_none: "\<exists>m. v = v\<lparr>cl_Sandboxes := m\<rparr> \<and> wakes k (cl_Sandboxes v) m"
  by (rule exI [of _ "cl_Sandboxes v"]) simp

context kube_server
begin

text \<open>The patch of the desired state alone.\<close>

lemma wake_patch:
  assumes "sp_DesiredState (sb_spec sb) \<noteq> DesiredStateRunning"
  shows "vtriple view (\<lambda>v. v = v0) (kc_Patch (k_Sandboxes c) (wake sb) sb) (\<lambda>r v. case r of
      Inl _ \<Rightarrow> v = v0
    | Inr y \<Rightarrow> \<exists>x0. cl_Sandboxes v0 (key_of (sb_meta sb)) = Some x0 \<and> woken x0 y \<and> key_of (sb_meta y) = key_of (sb_meta sb) \<and>
        v = v0\<lparr>cl_Sandboxes := (cl_Sandboxes v0)(key_of (sb_meta sb) :=
          if deleting (sb_meta x0) \<and> om_Finalizers (sb_meta x0) = [] then None else Some y)\<rparr>)"
proof (rule vtriple_frozen_view, rule vtriple_conj, rule sandboxes.patch, rule sandbox_patch_law [where d = DesiredStateRunning, folded wake_def], goal_cases)
  case (1 w r v)
  show ?case
  proof (cases r)
    case (Inr y)
    note post = 1(2) [unfolded Inr 1(1) sum.case wake_simps]
    then obtain x0 where x0: "cl_Sandboxes v0 (key_of (sb_meta sb)) = Some x0" "sb_status y = sb_status x0"
        "om_Finalizers (sb_meta y) = om_Finalizers (sb_meta x0)" "key_of (sb_meta y) = key_of (sb_meta sb)"
        "server_meta (sb_meta y) = server_meta (sb_meta x0)"
        "v = cl_Sandboxes_update (\<lambda>m. m(key_of (sb_meta sb) := if deleting (sb_meta y) \<and> om_Finalizers (sb_meta y) = [] then None else Some y)) v0"
      by (elim conjE exE) (rule that, simp_all)
    then have spec: "sb_spec y = (sb_spec x0)\<lparr>sp_DesiredState := DesiredStateRunning\<rparr>" using conjunct2 [OF post] assms by simp
    have del: "deleting (sb_meta y) = deleting (sb_meta x0)" using x0(5) by (simp add: server_meta_def deleting_def)
    have "key_of (sb_meta x0) = key_of (sb_meta sb)" using sandboxes.keyed [of w] x0(1) 1(1) by simp
    then have "woken x0 y" using x0(2-5) spec by (simp add: woken_def)
    then show ?thesis
      unfolding Inr sum.case x0(6) assign_Sandboxes using x0(1,3,4) del by auto
  next
    case (Inl e)
    show ?thesis using 1(2) unfolding Inl sum.case 1(1) by simp
  qed
qed

lemma SetDesiredRunning_wakes:
  "vtriple view (\<lambda>v. v = v0) (SetDesiredRunning c sb) (\<lambda>r v. key_of (sb_meta (snd r)) = key_of (sb_meta sb) \<and>
    (\<exists>m. v = v0\<lparr>cl_Sandboxes := m\<rparr> \<and> wakes (key_of (sb_meta sb)) (cl_Sandboxes v0) m) \<and>
    (cl_Sandboxes v0 (key_of (sb_meta sb)) = Some sb \<longrightarrow> is_ok (fst r) \<longrightarrow>
      (\<forall>sb'. cl_Sandboxes v (key_of (sb_meta sb)) = Some sb' \<longrightarrow> sp_DesiredState (sb_spec sb') = DesiredStateRunning)))"
  (is "vtriple view _ _ ?q")
proof (cases "sp_DesiredState (sb_spec sb) = DesiredStateRunning")
  case True
  then show ?thesis
    unfolding SetDesiredRunning_def if_P [OF True] by (intro vtriple_ret) (simp add: woke_none)
next
  case False
  show ?thesis
    unfolding SetDesiredRunning_def if_not_P [OF False]
  proof (rule vtriple_bind [OF wake_patch [OF False]], goal_cases)
    case (1 r)
    show ?case
    proof (cases r)
      case (Inl e)
      show ?thesis
        unfolding Inl sum.case by (rule vtriple_ret) (simp add: woke_none is_ok_def)
    next
      case (Inr y)
      show ?thesis
        unfolding Inr sum.case
      proof (rule vtriple_ret, elim exE conjE, intro conjI impI allI, goal_cases)
        case (2 v x0)
        then show ?case unfolding 2(4) by (intro exI conjI refl) (auto simp: wakes_def)
      qed (auto simp: woken_def split: if_splits)
    qed
  qed
qed

lemma CreateSession_records:
  "vtriple view (\<lambda>v. v = v0) (CreateSession c session) (\<lambda>r v. case r of
     Inr _ \<Rightarrow> \<exists>s t. records session t s \<and> cl_Sessions v0 (key_of (ses_meta session)) = None \<and>
       v = v0\<lparr>cl_Sessions := (cl_Sessions v0)(key_of (ses_meta session) \<mapsto> s)\<rparr>
   | Inl _ \<Rightarrow> v = v0 \<or> (\<exists>s. ses_status s = emptySessionStatus \<and> cl_Sessions v0 (key_of (ses_meta session)) = None \<and>
       v = v0\<lparr>cl_Sessions := (cl_Sessions v0)(key_of (ses_meta session) \<mapsto> s)\<rparr>))"
  (is "vtriple view _ _ ?q")
  unfolding CreateSession_def
proof (rule vtriple_bind)
  let ?k = "key_of (ses_meta session)"
  let ?new = "\<lambda>s v. cl_Sessions v0 ?k = None \<and> ses_spec s = ses_spec session \<and> user_meta (ses_meta s) = user_meta (ses_meta session) \<and>
    ses_status s = emptySessionStatus \<and> v = v0\<lparr>cl_Sessions := (cl_Sessions v0)(?k \<mapsto> s)\<rparr>"
  have fresh: "vtriple view (\<lambda>v. v = v0) (kc_Create (k_Sessions c) session)
      (\<lambda>r v. case r of Inl _ \<Rightarrow> True | Inr s' \<Rightarrow> ses_status s' = emptySessionStatus)"
    by (rule vtriple_conseq [OF session_status_law]) simp_all
  show "vtriple view (\<lambda>v. v = v0) (kc_Create (k_Sessions c) session) (\<lambda>r v. case r of Inl _ \<Rightarrow> v = v0 | Inr s \<Rightarrow> ?new s v)"
    by (rule vtriple_conseq [OF vtriple_conj [OF sessions.create fresh]]) (auto simp: assign_Sessions split: sum.splits)
  show "vtriple view (\<lambda>v. case r of Inl _ \<Rightarrow> v = v0 | Inr s \<Rightarrow> ?new s v)
     (case r of Inl e \<Rightarrow> ret (Inl e)
      | Inr session \<Rightarrow> do {
          now \<leftarrow> k_Now c;
          err \<leftarrow> kc_StatusUpdate (k_Sessions c) (openedSession now session);
          (case err of Inl e \<Rightarrow> ret (Inl e) | Inr _ \<Rightarrow> ret (Inr ()))
        }) ?q" for r
  proof (cases r)
    case (Inr s)
    have now: "vtriple view (?new s) (k_Now c) (\<lambda>_. ?new s)" by (rule vtriple_frozen [OF now_law]) simp
    have upd: "vtriple view (?new s) (kc_StatusUpdate (k_Sessions c) (openedSession t s)) (\<lambda>r v. case r of
        Inl _ \<Rightarrow> ?new s v | Inr _ \<Rightarrow> ?q (Inr ()) v)" for t
    proof (rule sessions.status_update_rule, goal_cases)
      case (1 v x0 y)
      then have key: "key_of (ses_meta s) = ?k" by (simp add: user_meta_def)
      then have "records session t y" using 1 by (auto simp: records_def openedSession_def emptySessionStatus_def)
      then show ?case using 1 key by (auto simp: assign_Sessions)
    qed simp
    show ?thesis
      unfolding Inr sum.case
      by (rule vtriple_bind [OF now], rule vtriple_bind [OF upd]) (auto intro!: vtriple_ret split: sum.split)
  qed (auto intro: vtriple_ret)
qed

text \<open>Reading a session and writing its status back: what the write does is known of the session that was read.\<close>

lemma rewrite_session:
  assumes "\<And>t s. key_of (ses_meta (f t s)) = key_of (ses_meta s)"
    "\<And>t s s'. cl_Sessions v0 k = Some s \<Longrightarrow> go s \<Longrightarrow> ses_status s' = ses_status (f t s) \<Longrightarrow>
      q (Inr ()) (v0\<lparr>cl_Sessions := (cl_Sessions v0)(k \<mapsto> s')\<rparr>)"
    "\<And>e. q (Inl e) v0" "\<And>s. cl_Sessions v0 k = Some s \<Longrightarrow> \<not> go s \<Longrightarrow> q (Inr ()) v0"
  shows "vtriple view (\<lambda>v. v = v0) (do {
     got \<leftarrow> kc_Get (k_Sessions c) k;
     (case got of
        Inl e \<Rightarrow> ret (Inl e)
      | Inr s \<Rightarrow>
          if \<not> go s then ret (Inr ())
          else do {
            now \<leftarrow> k_Now c;
            err \<leftarrow> kc_StatusUpdate (k_Sessions c) (f now s);
            (case err of Inl e \<Rightarrow> ret (Inl e) | Inr _ \<Rightarrow> ret (Inr ()))
          }) }) q"
proof (rule vtriple_bind)
  let ?s = "\<lambda>s. cl_Sessions v0 k = Some s \<and> key_of (ses_meta s) = k"
  show "vtriple view (\<lambda>v. v = v0) (kc_Get (k_Sessions c) k) (\<lambda>r v. v = v0 \<and> (case r of Inl _ \<Rightarrow> True | Inr s \<Rightarrow> ?s s))"
    by (rule sessions.get_rule) auto
  have now: "vtriple view (\<lambda>v. v = v0) (k_Now c) (\<lambda>_ v. v = v0)" by (rule now_law)
  have upd: "vtriple view (\<lambda>v. v = v0) (kc_StatusUpdate (k_Sessions c) (f t s)) (\<lambda>r v. case r of
      Inl _ \<Rightarrow> v = v0 | Inr _ \<Rightarrow> q (Inr ()) v)" if "?s s" "go s" for t s
    by (rule sessions.status_update_rule) (use that assms(2) [of s] in \<open>auto simp: assign_Sessions assms(1)\<close>)
  show "vtriple view (\<lambda>v. v = v0 \<and> (case r of Inl _ \<Rightarrow> True | Inr s \<Rightarrow> ?s s))
      (case r of
        Inl e \<Rightarrow> ret (Inl e)
      | Inr s \<Rightarrow>
          if \<not> go s then ret (Inr ())
          else do {
            now \<leftarrow> k_Now c;
            err \<leftarrow> kc_StatusUpdate (k_Sessions c) (f now s);
            (case err of Inl e \<Rightarrow> ret (Inl e) | Inr _ \<Rightarrow> ret (Inr ()))
          }) q" for r
  proof (cases r)
    case (Inr s)
    show ?thesis
      unfolding Inr sum.case
    proof (rule vtriple_pre, goal_cases)
      case 1
      show ?case
        by (rule vtriple_if, rule vtriple_ret, use 1 assms(4) in simp, rule vtriple_bind [OF now], rule vtriple_bind [OF upd])
          (use 1 in \<open>auto intro!: vtriple_ret assms(3) split: sum.split\<close>)
    qed
  qed (auto intro: vtriple_ret assms(3))
qed

lemma Heartbeat_rewrite: "Heartbeat c ns n = do {
     got \<leftarrow> kc_Get (k_Sessions c) (ns, n);
     (case got of
        Inl e \<Rightarrow> ret (Inl e)
      | Inr s \<Rightarrow>
          if \<not> st_State (ses_status s) = SessionStateActive then ret (Inr ())
          else do {
            now \<leftarrow> k_Now c;
            err \<leftarrow> kc_StatusUpdate (k_Sessions c) (beat now s);
            (case err of Inl e \<Rightarrow> ret (Inl e) | Inr _ \<Rightarrow> ret (Inr ()))
          }) }"
  by (simp add: Heartbeat_def)

lemma CloseSession_rewrite: "CloseSession c ns n reason = do {
     got \<leftarrow> kc_Get (k_Sessions c) (ns, n);
     (case got of
        Inl e \<Rightarrow> ret (Inl e)
      | Inr s \<Rightarrow>
          if \<not> st_State (ses_status s) \<noteq> SessionStateClosed then ret (Inr ())
          else do {
            now \<leftarrow> k_Now c;
            err \<leftarrow> kc_StatusUpdate (k_Sessions c) (closedSession now reason s);
            (case err of Inl e \<Rightarrow> ret (Inl e) | Inr _ \<Rightarrow> ret (Inr ()))
          }) }"
  by (simp add: CloseSession_def cong: sum.case_cong)

lemma frame_none: "\<exists>m. v = v\<lparr>cl_Sessions := m\<rparr>"
  by (rule exI [of _ "cl_Sessions v"]) simp

lemma Heartbeat_frame: "vtriple view (\<lambda>v. v = v0) (Heartbeat c ns n) (\<lambda>_ v. \<exists>m. v = v0\<lparr>cl_Sessions := m\<rparr>)"
  unfolding Heartbeat_rewrite by (rule rewrite_session) (simp, intro exI, rule refl, (rule frame_none)+)

lemma CloseSession_frame: "vtriple view (\<lambda>v. v = v0) (CloseSession c ns n reason) (\<lambda>_ v. \<exists>m. v = v0\<lparr>cl_Sessions := m\<rparr>)"
  unfolding CloseSession_rewrite by (rule rewrite_session) (simp, intro exI, rule refl, (rule frame_none)+)

lemma CloseSession_closes:
  "succeeds view (\<lambda>v. v = v0) (CloseSession c ns n reason) (\<lambda>_ v. \<exists>m s.
      v = v0\<lparr>cl_Sessions := m\<rparr> \<and> m (ns, n) = Some s \<and> st_State (ses_status s) = SessionStateClosed)"
  unfolding CloseSession_rewrite succeeds_def
proof (rule rewrite_session, goal_cases)
  case (2 t s s')
  then show ?case
    unfolding sum.case
    by (intro exI [of _ "(cl_Sessions v0)((ns, n) \<mapsto> s')"] exI [of _ s']) (simp add: closedSession_def)
next
  case (4 s)
  then show ?case
    unfolding sum.case by (intro exI [of _ "cl_Sessions v0"] exI [of _ s]) simp
qed simp_all

lemma life_status_simps:
  "life_of_status (ses_status (beat t s)) = life_of_status (ses_status s)"
  "st_State (ses_status s) \<noteq> SessionStateClosed \<Longrightarrow> life_path (life_of_status (ses_status s)) (life_of_status (ses_status (closedSession t reason s)))"
  by (auto simp: life_of_status_def beat_def closedSession_def split: SessionState.splits intro: life_step.close life_step.abandon)

lemma Store_evolves:
  "evolves view (CreateSession c session)" "evolves view (Heartbeat c ns n)" "evolves view (CloseSession c ns n reason)"
proof -
  show "evolves view (Heartbeat c ns n)"
    unfolding evolves_def Heartbeat_rewrite
    by (intro allI, rule rewrite_session) (auto intro!: sessions_evolve_upd simp: life_status_simps)
  show "evolves view (CloseSession c ns n reason)"
    unfolding evolves_def CloseSession_rewrite
    by (intro allI, rule rewrite_session) (auto intro!: sessions_evolve_upd simp: life_status_simps)
  have born: "life_path Missing (Live t)" for t
    by (rule converse_rtranclp_into_rtranclp [of life_step, OF life_step.create]) (auto intro: life_step.opened)
  have new: "sessions_evolve m (m(k \<mapsto> s))" if "m k = None" "life_of_status (ses_status s) = Created \<or> (\<exists>t. life_of_status (ses_status s) = Live t)" for m k s
    using that born r_into_rtranclp [of life_step, OF life_step.create] by (intro sessions_evolve_upd) auto
  have live: "records session t s \<Longrightarrow> \<exists>t. life_of_status (ses_status s) = Live t" for t s
    by (simp add: records_def life_of_status_def)
  show "evolves view (CreateSession c session)"
    unfolding evolves_def
  proof
    fix v0 :: cluster
    show "vtriple view (\<lambda>v. v = v0) (CreateSession c session) (\<lambda>_ v. sessions_evolve (cl_Sessions v0) (cl_Sessions v))"
    proof (rule vtriple_conseq [OF CreateSession_records], assumption, goal_cases)
      case (1 r v)
      then show ?case using new live by (cases r) (fastforce)+
    qed
  qed
qed

end

sublocale kube_server \<subseteq> store: session_store view "NewStore c"
proof (unfold_locales, unfold NewStore_def Store.simps)
  fix v0 :: cluster and ns n reason :: string and sb :: Sandbox and session :: SandboxSession
  let ?k = "key_of (ses_meta session)"
  show "vtriple view (\<lambda>v. v = v0) (GetSandbox c ns n) (\<lambda>r v. v = v0 \<and>
      (case r of Inr sb \<Rightarrow> cl_Sandboxes v0 (ns, n) = Some sb \<and> key_of (sb_meta sb) = (ns, n)
       | Inl e \<Rightarrow> IsNotFound e \<longrightarrow> cl_Sandboxes v0 (ns, n) = None))"
    unfolding GetSandbox_def by (rule sandboxes.get_rule) auto
  show "vtriple view (\<lambda>v. v = v0) (SetDesiredRunning c sb) (\<lambda>r v. key_of (sb_meta (snd r)) = key_of (sb_meta sb) \<and>
      (\<exists>m. v = v0\<lparr>cl_Sandboxes := m\<rparr> \<and> wakes (key_of (sb_meta sb)) (cl_Sandboxes v0) m))"
    by (rule vtriple_conseq [OF SetDesiredRunning_wakes]) (assumption, elim conjE, intro conjI)
  show "vtriple view (\<lambda>v. cl_Sandboxes v (key_of (sb_meta sb)) = Some sb) (SetDesiredRunning c sb) (\<lambda>r v.
      case fst r of Inl _ \<Rightarrow> True | Inr _ \<Rightarrow> (\<forall>sb'. cl_Sandboxes v (key_of (sb_meta sb)) = Some sb' \<longrightarrow>
        sp_DesiredState (sb_spec sb') = DesiredStateRunning))"
    by (rule vtriple_frozen [OF SetDesiredRunning_wakes]) (simp add: is_ok_def split: sum.split)
  show "succeeds view (\<lambda>v. v = v0) (CreateSession c session) (\<lambda>_ v. \<exists>s t. records session t s \<and> cl_Sessions v0 ?k = None \<and>
      v = v0\<lparr>cl_Sessions := (cl_Sessions v0)(?k \<mapsto> s)\<rparr>)"
    unfolding succeeds_def by (rule vtriple_conseq [OF CreateSession_records]) (simp_all split: sum.splits)
  show "vtriple view (\<lambda>v. v = v0) (CreateSession c session) (\<lambda>_ v. \<exists>m. v = v0\<lparr>cl_Sessions := m\<rparr>)"
    by (rule vtriple_conseq [OF CreateSession_records], assumption) (use frame_none in \<open>auto split: sum.splits\<close>)
qed (rule Heartbeat_frame CloseSession_closes CloseSession_frame Store_evolves)+

context kube_server
begin

lemmas store_laws = store.session_store_axioms

end

end
