(* ===== verification/Routing.thy ===== *)
theory Routing
  imports Podspec
begin

text \<open>
  The two host parsers of the gateway: \<open>internal/gateway/routing.go\<close>
  for SSH destinations and \<open>internal/gateway/httproute.go\<close> for
  HTTP hosts.
\<close>

section \<open>routing.go\<close>

record SSHTarget =
  sst_Sandbox :: string
  sst_Namespace :: string

definition ParseSSHTarget :: "string \<Rightarrow> string \<Rightarrow> SSHTarget res" where
  "ParseSSHTarget host0 defaultNamespace =
     (let host = TrimSpace host0
      in if host = [] then Inl (OtherErr ''empty ssh target'')
         else (case Cut host ''.'' of (sandbox, namespace, found) \<Rightarrow>
           if \<not> found then
             (if defaultNamespace = []
              then Inl (OtherErr (''target '' @ quote host @ '' has no namespace and no default is set''))
              else Inr \<lparr>sst_Sandbox = sandbox, sst_Namespace = defaultNamespace\<rparr>)
           else if sandbox = [] \<or> namespace = []
             then Inl (OtherErr (''invalid ssh target '' @ quote host))
           else Inr \<lparr>sst_Sandbox = sandbox, sst_Namespace = namespace\<rparr>))"

section \<open>httproute.go\<close>

record HTTPTarget =
  ht_Port :: string
  ht_Sandbox :: string
  ht_Namespace :: string

definition maxLabelLen :: nat where "maxLabelLen = 63"

text \<open>The host after lower-casing and without a port, as the parser first computes it.\<close>

definition normalizeHost :: "string \<Rightarrow> string" where
  "normalizeHost host0 =
     (let host = ToLower (TrimSpace host0)
      in case Cut host '':'' of (h, _, ok) \<Rightarrow> if ok then h else host)"

definition routeLabel :: "HTTPTarget \<Rightarrow> string" where
  "routeLabel t = ht_Port t @ ''--'' @ ht_Sandbox t @ ''--'' @ ht_Namespace t"

text \<open>The second half of the parser: from the routing label to the target.\<close>

definition parseLabel :: "string \<Rightarrow> HTTPTarget res" where
  "parseLabel label =
     (if length label > maxLabelLen
      then Inl (OtherErr (''routing label '' @ quote label @ '' exceeds 63 characters''))
      else (case Cut label ''--'' of (port, rest, ok) \<Rightarrow>
        if \<not> ok then Inl (OtherErr (''host label '' @ quote label @ '' missing separators''))
        else (case Cut rest ''--'' of (sandbox, namespace, ok) \<Rightarrow>
          if \<not> ok then Inl (OtherErr (''host label '' @ quote label @ '' missing namespace''))
          else if port = [] \<or> sandbox = [] \<or> namespace = []
            then Inl (OtherErr (''host label '' @ quote label @ '' has an empty component''))
          else
            (let target = \<lparr>ht_Port = port, ht_Sandbox = sandbox, ht_Namespace = namespace\<rparr>
             in if routeLabel target \<noteq> label
                then Inl (OtherErr (''host label '' @ quote label @ '' is ambiguous''))
                else Inr target))))"

definition ParseHTTPHost :: "string \<Rightarrow> string \<Rightarrow> HTTPTarget res" where
  "ParseHTTPHost host0 baseDomain =
     (let host = normalizeHost host0
      in if baseDomain \<noteq> [] then
           (let suffix' = ''.'' @ TrimPrefix baseDomain ''.''
            in if \<not> HasSuffix host suffix'
               then Inl (OtherErr (''host '' @ quote host @ '' is not under base domain '' @ quote baseDomain))
               else parseLabel (TrimSuffix host suffix'))
         else (case Cut host ''.'' of (h, _, ok) \<Rightarrow> parseLabel (if ok then h else host)))"

text \<open>The host a client uses for an exposed port, and the names DNS allows in it.\<close>

definition routeHost :: "HTTPTarget \<Rightarrow> string \<Rightarrow> string" where
  "routeHost t baseDomain = routeLabel t @ ''.'' @ TrimPrefix baseDomain ''.''"

definition dns_label :: "string \<Rightarrow> bool" where
  "dns_label s \<longleftrightarrow> s \<noteq> [] \<and> hd s \<noteq> CHR ''-'' \<and> last s \<noteq> CHR ''-'' \<and>
     list_all (\<lambda>c. c = CHR ''-'' \<or> is_lower_digit c) s"

definition dns_domain :: "string \<Rightarrow> bool" where
  "dns_domain s \<longleftrightarrow> s \<noteq> [] \<and> list_all (\<lambda>c. c = CHR ''-'' \<or> c = CHR ''.'' \<or> is_lower_digit c) s"

text \<open>A target whose label reads back: non-empty parts, no separator before its place.\<close>

definition readable :: "HTTPTarget \<Rightarrow> bool" where
  "readable t \<longleftrightarrow> ht_Port t \<noteq> [] \<and> ht_Sandbox t \<noteq> [] \<and> ht_Namespace t \<noteq> [] \<and>
     \<not> sublist ''--'' (ht_Port t @ ''-'') \<and> \<not> sublist ''--'' (ht_Sandbox t @ ''-'')"

section \<open>Characterisation of the parsers\<close>

lemma parseLabel_iff:
  "parseLabel label = Inr t \<longleftrightarrow> length label \<le> maxLabelLen \<and> label = routeLabel t \<and> readable t"
proof
  assume L: "parseLabel label = Inr t"
  obtain port rest ok where c1: "Cut label ''--'' = (port, rest, ok)" by (cases "Cut label ''--''")
  obtain sandbox ns ok' where c2: "Cut rest ''--'' = (sandbox, ns, ok')" by (cases "Cut rest ''--''")
  from L c1 c2 have ok: "ok" "ok'" and t: "t = \<lparr>ht_Port = port, ht_Sandbox = sandbox, ht_Namespace = ns\<rparr>"
    and rest: "length label \<le> maxLabelLen" "port \<noteq> []" "sandbox \<noteq> []" "ns \<noteq> []" "label = routeLabel t"
    by (auto simp: parseLabel_def Let_def split: if_splits)
  from ok c1 have "\<not> sublist ''--'' (port @ ''-'')" using Cut_first [of label "''--''" port rest] by simp
  moreover from ok c2 have "\<not> sublist ''--'' (sandbox @ ''-'')"
    using Cut_first [of rest "''--''" sandbox ns] by simp
  ultimately show "length label \<le> maxLabelLen \<and> label = routeLabel t \<and> readable t"
    using rest by (simp add: t readable_def)
next
  assume R: "length label \<le> maxLabelLen \<and> label = routeLabel t \<and> readable t"
  then have "Cut label ''--'' = (ht_Port t, ht_Sandbox t @ ''--'' @ ht_Namespace t, True)"
    by (simp add: Cut_iff routeLabel_def readable_def)
  moreover from R have "Cut (ht_Sandbox t @ ''--'' @ ht_Namespace t) ''--'' = (ht_Sandbox t, ht_Namespace t, True)"
    by (subst Cut_iff) (simp_all add: readable_def)
  ultimately show "parseLabel label = Inr t"
    using R by (cases t) (auto simp: parseLabel_def Let_def readable_def)
qed

lemma ParseHTTPHost_base:
  assumes "baseDomain \<noteq> []"
  shows "ParseHTTPHost host baseDomain = Inr t \<longleftrightarrow>
    normalizeHost host = routeHost t baseDomain \<and> length (routeLabel t) \<le> maxLabelLen \<and> readable t"
proof -
  let ?s = "''.'' @ TrimPrefix baseDomain ''.''"
  have "HasSuffix (normalizeHost host) ?s \<and> parseLabel (TrimSuffix (normalizeHost host) ?s) = Inr t \<longleftrightarrow>
    normalizeHost host = routeLabel t @ ?s \<and> length (routeLabel t) \<le> maxLabelLen \<and> readable t"
    by (auto simp: parseLabel_iff HasSuffix_def TrimSuffix_def suffix_def)
  then show ?thesis
    using assms by (auto simp: ParseHTTPHost_def Let_def routeHost_def)
qed

lemma sublist_single [simp]: "sublist [x] s \<longleftrightarrow> x \<in> set s"
  by (induction s) (auto simp: sublist_Cons_right)

lemma sublist_pair_snoc:
  "sublist [x, y] (s @ [z]) \<longleftrightarrow> sublist [x, y] s \<or> (s \<noteq> [] \<and> last s = x \<and> z = y)"
  by (induction s) (auto simp: sublist_Cons_right prefix_Cons)

lemma first_split:
  "x \<notin> set a \<Longrightarrow> x \<notin> set a' \<Longrightarrow> a @ x # b = a' @ x # b' \<longleftrightarrow> a = a' \<and> b = b'"
proof (induction a arbitrary: a')
  case Nil
  then show ?case by (cases a') auto
next
  case (Cons c a)
  then show ?case by (cases a') auto
qed

lemma dns_char:
  assumes "c = CHR ''-'' \<or> c = CHR ''.'' \<or> is_lower_digit c"
  shows "lower_char c = c" "\<not> is_space c" "c \<noteq> CHR '':''"
  using assms by (auto simp: is_lower_digit_def lower_char_def is_space_def Let_def)


lemma normalizeHost_id:
  assumes h: "dns_domain h" and r: "list_all (\<lambda>c. \<not> is_space c) rest"
  shows "normalizeHost (h @ '':'' @ rest) = h"
proof -
  have chars: "c = CHR ''-'' \<or> c = CHR ''.'' \<or> is_lower_digit c" if "c \<in> set h" for c
    using h that by (simp add: dns_domain_def list_all_iff)
  have "h \<noteq> []" using h by (simp add: dns_domain_def)
  have "TrimSpace (h @ '':'' @ rest) = h @ '':'' @ rest"
    using \<open>h \<noteq> []\<close> dns_char(2) [OF chars [OF hd_in_set]] r
    by (intro TrimSpace_id) (auto simp: list_all_iff is_space_def)
  moreover have "ToLower h = h"
    using dns_char(1) [OF chars] by (simp add: ToLower_def map_idI)
  ultimately have "ToLower (TrimSpace (h @ '':'' @ rest)) = h @ '':'' @ ToLower rest"
    by (simp add: ToLower_def lower_char_def)
  moreover have "Cut (h @ '':'' @ ToLower rest) '':'' = (h, ToLower rest, True)"
    using dns_char(3) [OF chars] by (subst Cut_iff) auto
  ultimately show ?thesis by (simp add: normalizeHost_def Let_def)
qed

lemma no_separator:
  assumes "\<not> Contains s ''--''" "last s \<noteq> CHR ''-''"
  shows "\<not> sublist ''--'' (s @ ''-'')"
  using assms by (simp add: Contains_iff sublist_pair_snoc)

lemma exposed_port_target:
  assumes "validSandbox sb" "dns_label (sb_Name sb)" "dns_label (sb_Namespace sb)"
    "p \<in> set (sp_ExposedPorts (sb_spec sb))"
  defines "t \<equiv> \<lparr>ht_Port = xp_Name p, ht_Sandbox = sb_Name sb, ht_Namespace = sb_Namespace sb\<rparr>"
  shows "readable t" "length (routeLabel t) \<le> 49 + length (sb_Namespace sb)"
    "list_all (\<lambda>c. c = CHR ''-'' \<or> is_lower_digit c) (routeLabel t)"
proof -
  have p: "validExposedPort p"
    using assms(1,4) by (simp add: validSandbox_def validSandboxSpec_def list_all_iff)
  then have "last (xp_Name p) \<noteq> CHR ''-''"
    by (auto simp: validExposedPort_def port_name_pattern_def is_lower_digit_def Let_def)
  then show "readable t"
    using p assms(1-3) no_separator [of "xp_Name p"] no_separator [of "sb_Name sb"]
    by (simp add: t_def readable_def validExposedPort_def port_name_pattern_def validSandbox_def dns_label_def)
  show "length (routeLabel t) \<le> 49 + length (sb_Namespace sb)"
    using p assms(1) by (simp add: t_def routeLabel_def validExposedPort_def validSandbox_def)
  show "list_all (\<lambda>c. c = CHR ''-'' \<or> is_lower_digit c) (routeLabel t)"
    using p assms(2,3) by (simp add: t_def routeLabel_def validExposedPort_def port_name_pattern_def dns_label_def)
qed

section \<open>Properties\<close>

text \<open>
  C7. With a base domain configured, \<open>ParseHTTPHost\<close> accepts exactly the hosts
  \<open>port--sandbox--namespace.base\<close> (case folded and without a port) whose label fits
  63 characters and whose port and sandbox do not blur the first two separators;
  so every accepted host names exactly one target, a namespace may contain the
  separator, and the re-serialisation check never rejects anything.
\<close>

theorem ParseHTTPHost_iff:
  assumes "baseDomain \<noteq> []"
  shows "ParseHTTPHost host baseDomain = Inr t \<longleftrightarrow>
    normalizeHost host = routeHost t baseDomain \<and> length (routeLabel t) \<le> maxLabelLen \<and> readable t"
  by (rule ParseHTTPHost_base [OF assms])

theorem ParseHTTPHost_iff_witness:
  "ParseHTTPHost ''web--dev--a--b.kp.io:443'' ''kp.io'' =
     Inr \<lparr>ht_Port = ''web'', ht_Sandbox = ''dev'', ht_Namespace = ''a--b''\<rparr>"
  by (subst ParseHTTPHost_iff)
    (simp_all add: normalizeHost_def routeHost_def routeLabel_def readable_def maxLabelLen_def TrimSpace_def
      ToLower_def lower_char_def is_space_def TrimPrefix_def HasPrefix_def Let_def sublist_Cons_right)

text \<open>
  C19. Every exposed port of an admitted sandbox is reachable: when the sandbox and
  its namespace are DNS labels and the namespace has at most 14 characters, the
  host composed of the port, sandbox and namespace under the base domain parses
  back to exactly that triple, with any port suffix in the Host header.
\<close>

theorem ParseHTTPHost_roundtrip:
  assumes "validSandbox sb" "dns_label (sb_Name sb)" "dns_label (sb_Namespace sb)"
    "length (sb_Namespace sb) \<le> 14" "p \<in> set (sp_ExposedPorts (sb_spec sb))"
    "dns_domain baseDomain" "list_all (\<lambda>c. \<not> is_space c) number"
    "t = \<lparr>ht_Port = xp_Name p, ht_Sandbox = sb_Name sb, ht_Namespace = sb_Namespace sb\<rparr>"
  shows "ParseHTTPHost (routeHost t baseDomain @ '':'' @ number) baseDomain = Inr t"
proof -
  note t = exposed_port_target [OF assms(1-3,5), folded assms(8)]
  have "dns_domain (routeHost t baseDomain)"
    using t(3) assms(6)
    by (auto simp: dns_domain_def routeHost_def list_all_iff TrimPrefix_def dest: in_set_dropD)
  from normalizeHost_id [OF this assms(7)] show ?thesis
    using t(1,2) assms(4,6) by (subst ParseHTTPHost_base) (auto simp: dns_domain_def maxLabelLen_def)
qed

theorem ParseHTTPHost_roundtrip_witness:
  "ParseHTTPHost ''web--dev--team.kp.io:8443'' ''kp.io'' =
     Inr \<lparr>ht_Port = ''web'', ht_Sandbox = ''dev'', ht_Namespace = ''team''\<rparr>"
  using ParseHTTPHost_roundtrip [OF sampleSandbox_valid, of samplePort "''kp.io''" "''8443''"]
  by (simp add: sample_defs dns_label_def dns_domain_def is_lower_digit_def is_space_def routeHost_def
      routeLabel_def TrimPrefix_def HasPrefix_def)

text \<open>
  A sandbox whose name has no dot is reached over SSH by exactly two
  destinations: the principal its host certificate is issued for, and its bare
  name when the gateway's default namespace is its own.
\<close>

lemma ParseSSHTarget_reaches:
  assumes "sb_Name sb \<noteq> []" "sb_Namespace sb \<noteq> []" "CHR ''.'' \<notin> set (sb_Name sb)"
  shows "ParseSSHTarget host dflt = Inr \<lparr>sst_Sandbox = sb_Name sb, sst_Namespace = sb_Namespace sb\<rparr> \<longleftrightarrow>
    TrimSpace host \<in> set (FQDNPrincipals sb) \<or> (TrimSpace host = sb_Name sb \<and> dflt = sb_Namespace sb)"
proof -
  obtain a b ok where c: "Cut (TrimSpace host) ''.'' = (a, b, ok)" by (cases "Cut (TrimSpace host) ''.''")
  show ?thesis
  proof (cases ok)
    case True
    with c have "TrimSpace host = a @ ''.'' @ b" "CHR ''.'' \<notin> set a" by (auto simp: Cut_iff)
    then have "TrimSpace host \<noteq> sb_Name sb" using assms(3) by (metis append_Cons in_set_conv_decomp)
    moreover from \<open>TrimSpace host = a @ ''.'' @ b\<close> \<open>CHR ''.'' \<notin> set a\<close> have
      "TrimSpace host \<in> set (FQDNPrincipals sb) \<longleftrightarrow> a = sb_Name sb \<and> b = sb_Namespace sb"
      using assms(3) by (auto simp: FQDNPrincipals_def first_split)
    ultimately show ?thesis
      using c True assms \<open>TrimSpace host = a @ ''.'' @ b\<close> by (auto simp: ParseSSHTarget_def Let_def)
  next
    case False
    with c have "a = TrimSpace host" "CHR ''.'' \<notin> set (TrimSpace host)"
      by (auto simp: Cut_missing_iff)
    with c False assms show ?thesis
      by (auto simp: ParseSSHTarget_def Let_def FQDNPrincipals_def)
  qed
qed

text \<open>
  A base domain with a letter in upper case routes no host: the host is turned to
  lower case before the comparison and the base domain is not.
\<close>

lemma lower_char_idem: "lower_char (lower_char c) = lower_char c"
  by (simp add: lower_char_def Let_def)

lemma upper_base_domain_unroutable:
  assumes "c \<in> set baseDomain" "lower_char c \<noteq> c"
  shows "\<exists>e. ParseHTTPHost host baseDomain = Inl e"
proof -
  have low: "lower_char x = x" if "x \<in> set (normalizeHost host)" for x
  proof -
    obtain a b ok where cut: "Cut (ToLower (TrimSpace host)) '':'' = (a, b, ok)" by (cases "Cut (ToLower (TrimSpace host)) '':''")
    then have "set (normalizeHost host) \<subseteq> set (ToLower (TrimSpace host))"
      using Cut_found [of "ToLower (TrimSpace host)" "'':''" a b] by (cases ok) (auto simp: normalizeHost_def Let_def)
    with that show ?thesis by (auto simp: ToLower_def lower_char_idem)
  qed
  have "c \<noteq> CHR ''.''" using assms(2) by (auto simp: lower_char_def)
  then have "c \<in> set (''.'' @ TrimPrefix baseDomain ''.'')"
    using assms(1) by (cases baseDomain) (auto simp: TrimPrefix_def HasPrefix_def)
  then have "\<not> HasSuffix (normalizeHost host) (''.'' @ TrimPrefix baseDomain ''.'')"
    using low assms(2) by (auto simp: HasSuffix_def suffix_def)
  then show ?thesis using assms(1) by (auto simp: ParseHTTPHost_def Let_def)
qed

end
