(* ===== verification/Gateway_Ssh.thy ===== *)
theory Gateway_Ssh
  imports Gateway_Store Routing Ssh_CA
begin

text \<open>
  The SSH half of the gateway: \<open>dialer.go\<close>, \<open>signer.go\<close> and
  \<open>sshjump.go\<close> of \<open>internal/gateway\<close>.  The SSH transport
  is a parameter: a channel has the operations \<open>Reject\<close> and
  \<open>Accept\<close>, the bytes copied between two connections and the waits on
  the connection's context are computations of the outside world, during which
  other components (and the heartbeat of the session itself) may act.
\<close>

section \<open>dialer.go\<close>

text \<open>\<open>net.JoinHostPort\<close>.\<close>

definition JoinHostPort :: "string \<Rightarrow> string \<Rightarrow> string" where
  "JoinHostPort host port =
     (if CHR '':'' \<in> set host then ''['' @ host @ '']:'' @ port else host @ '':'' @ port)"

record ('w, 'conn) Dialer =
  dl_DialSandbox :: "Sandbox \<Rightarrow> ('w, 'conn res) state"

definition DialSandbox ::
  "(string \<Rightarrow> string \<Rightarrow> ('w, 'conn res) state) \<Rightarrow> Sandbox \<Rightarrow> ('w, 'conn res) state" where
  "DialSandbox dial sb =
     (if ss_PodIP (sb_status sb) = [] then ret (Inl (ErrNoRoute ''sandbox has no pod IP yet''))
      else let addr = JoinHostPort (ss_PodIP (sb_status sb)) (show_int AgentPort) in do {
        conn \<leftarrow> dial ''tcp'' addr;
        (case conn of
           Inl e \<Rightarrow> ret (Inl (Wrapped (''dial sandbox agent '' @ addr) e))
         | Inr c \<Rightarrow> ret (Inr c))
      })"

definition NewDirectDialer :: "(string \<Rightarrow> string \<Rightarrow> ('w, 'conn res) state) \<Rightarrow> ('w, 'conn) Dialer" where
  "NewDirectDialer dial = \<lparr>dl_DialSandbox = DialSandbox dial\<rparr>"

section \<open>signer.go\<close>

record 'w CertSigner =
  sg_ca :: Signer
  sg_ttl :: Duration
  sg_now :: "('w, Time) state"

definition NewSigner :: "'w sshlib \<Rightarrow> ('w, Time) state \<Rightarrow> bytes \<Rightarrow> Duration \<Rightarrow> 'w CertSigner res" where
  "NewSigner S timeNow userCAPrivPEM ttl =
     (case ParseSigner S userCAPrivPEM of
        Inl e \<Rightarrow> Inl (Wrapped ''parse user CA'' e)
      | Inr ca \<Rightarrow> Inr \<lparr>sg_ca = ca, sg_ttl = (if ttl \<le> 0 then 8 * Hour else ttl), sg_now = timeNow\<rparr>)"

definition Sign :: "'w sshlib \<Rightarrow> 'w CertSigner \<Rightarrow> bytes \<Rightarrow> string \<Rightarrow> ('w, bytes res) state" where
  "Sign S s pubAuthorized prin =
     (case ParsePublicKey S pubAuthorized of
        Inl e \<Rightarrow> ret (Inl (Wrapped ''parse public key'' e))
      | Inr pub \<Rightarrow> do {
          now \<leftarrow> sg_now s;
          cert \<leftarrow> SignUserCert S (sg_ca s) pub prin (sg_ttl s) now;
          (case cert of
             Inl e \<Rightarrow> ret (Inl e)
           | Inr c \<Rightarrow> ret (Inr (sl_MarshalAuthorizedKey S (CertKey c))))
        })"

section \<open>sshjump.go\<close>

definition defaultWakeTimeout :: Duration where "defaultWakeTimeout = 180 * Second"
definition wakePollInterval :: Duration where "wakePollInterval = 2 * Second"

record ('w, 'conn) SSHConfig =
  cfg_Addr :: string
  cfg_HostKeyPEM :: bytes
  cfg_UserCAAuthorized :: bytes
  cfg_DefaultNamespace :: string
  cfg_WakeTimeout :: Duration
  cfg_Now :: "('w, Time) state option"
  cfg_Store :: "'w Store option"
  cfg_Dialer :: "('w, 'conn) Dialer option"

text \<open>
  The values of the connection's context the handlers use, and the handler's
  view of its configuration once the defaults are filled in.
\<close>

record SSHContext =
  ctx_Principal :: "string option"
  ctx_CertSerial :: "string option"
  ctx_RemoteAddr :: string

record ('w, 'conn) jumpHandler =
  jh_DefaultNamespace :: string
  jh_WakeTimeout :: Duration
  jh_Now :: "('w, Time) state"
  jh_Store :: "'w Store"
  jh_Dialer :: "('w, 'conn) Dialer"

definition publicKeyHandler ::
  "'w sshlib \<Rightarrow> ('w, Time) state \<Rightarrow> PublicKey \<Rightarrow> SSHContext \<Rightarrow> PublicKey \<Rightarrow> ('w, bool \<times> SSHContext) state" where
  "publicKeyHandler S timeNow userCA ctx key =
     (case key of
        RawKey _ \<Rightarrow> ret (False, ctx)
      | CertKey cert \<Rightarrow>
          (case cert_ValidPrincipals cert of
             [] \<Rightarrow> ret (False, ctx)
           | prin # _ \<Rightarrow> do {
               now \<leftarrow> timeNow;
               (case CheckUserCert S (Some cert) (Some userCA) prin now of
                  Inl _ \<Rightarrow> ret (False, ctx)
                | Inr _ \<Rightarrow> ret (True, ctx\<lparr>ctx_Principal := Some prin, ctx_CertSerial := Some (show_int (cert_Serial cert))\<rparr>))
             }))"

record localForwardChannelData =
  lf_DestAddr :: string
  lf_DestPort :: int
  lf_OriginAddr :: string
  lf_OriginPort :: int

datatype RejectionReason = Prohibited | ConnectionFailed | UnknownChannelType | ResourceShortage

record ('w, 'chan) NewChannel =
  nc_ExtraData :: bytes
  nc_Reject :: "RejectionReason \<Rightarrow> string \<Rightarrow> ('w, unit) state"
  nc_Accept :: "('w, 'chan res) state"

text \<open>The text of an error, as \<open>Error()\<close> gives it.\<close>

fun error_string :: "err \<Rightarrow> string" where
  "error_string (NotFound s) = s"
| "error_string (AlreadyExists s) = s"
| "error_string (OtherErr s) = s"
| "error_string (Wrapped s e) = s @ '': '' @ error_string e"

text \<open>
  The runtime around a connection.  \<open>rt_Wait d\<close> is the
  \<open>select\<close> over \<open>ctx.Done()\<close> and \<open>time.After(d)\<close>: an
  error when the context ended first.  \<open>rt_CopyFirst\<close> runs the two
  copies of \<open>bridge\<close> until the first of them ends.
\<close>

record ('w, 'conn, 'chan) ssh_runtime =
  rt_Unmarshal :: "bytes \<Rightarrow> localForwardChannelData res"
  rt_Wait :: "Duration \<Rightarrow> ('w, unit res) state"
  rt_Read :: "nat \<Rightarrow> ('w, bytes res) state"
  rt_CopyFirst :: "'chan \<Rightarrow> 'conn \<Rightarrow> ('w, unit) state"
  rt_CloseChan :: "'chan \<Rightarrow> ('w, unit) state"
  rt_CloseConn :: "'conn \<Rightarrow> ('w, unit) state"

definition authorize :: "('w, 'conn) jumpHandler \<Rightarrow> SSHTarget \<Rightarrow> string \<Rightarrow> ('w, Sandbox res) state" where
  "authorize h target prin =
     (if prin = [] then ret (Inl (OtherErr ''no principal''))
      else do {
        got \<leftarrow> sto_GetSandbox (jh_Store h) (sst_Namespace target) (sst_Sandbox target);
        (case got of
           Inl e \<Rightarrow> ret (Inl (Wrapped ''sandbox lookup'' e))
         | Inr sb \<Rightarrow>
             if own_Name (sp_Owner (sb_spec sb)) \<noteq> prin
             then ret (Inl (OtherErr (''principal '' @ quote prin @ '' is not the owner of sandbox '' @
               sst_Namespace target @ ''/'' @ sst_Sandbox target)))
             else ret (Inr sb))
      })"

text \<open>
  The polling loop of \<open>wakeAndWait\<close>.  The loop is bounded by the clock and
  not by its own counter, so it takes fuel; \<open>None\<close> is a loop that has not
  ended yet.
\<close>

fun wakeLoop ::
  "nat \<Rightarrow> ('w, 'conn, 'chan) ssh_runtime \<Rightarrow> ('w, 'conn) jumpHandler \<Rightarrow> Sandbox \<Rightarrow> Time \<Rightarrow> ('w, Sandbox res option) state" where
  "wakeLoop 0 rt h sb deadline = ret None"
| "wakeLoop (Suc fuel) rt h sb deadline = do {
     fresh \<leftarrow> sto_GetSandbox (jh_Store h) (sb_Namespace sb) (sb_Name sb);
     (if (case fresh of Inl _ \<Rightarrow> False | Inr f \<Rightarrow> ss_PodIP (sb_status f) \<noteq> []) then ret (Some fresh)
      else do {
        now \<leftarrow> jh_Now h;
        if now > deadline
        then ret (Some (Inl (OtherErr (''timed out waiting for sandbox '' @ sb_Name sb @ '' to become ready''))))
        else do {
          waited \<leftarrow> rt_Wait rt wakePollInterval;
          (case waited of
             Inl e \<Rightarrow> ret (Some (Inl e))
           | Inr _ \<Rightarrow> wakeLoop fuel rt h sb deadline)
        }
      })
   }"

definition wakeAndWait ::
  "nat \<Rightarrow> ('w, 'conn, 'chan) ssh_runtime \<Rightarrow> ('w, 'conn) jumpHandler \<Rightarrow> Sandbox \<Rightarrow> ('w, Sandbox res option) state" where
  "wakeAndWait fuel rt h sb =
     (if ss_PodIP (sb_status sb) \<noteq> [] \<and> sp_DesiredState (sb_spec sb) = DesiredStateRunning then ret (Some (Inr sb))
      else do {
        resumed \<leftarrow> sto_SetDesiredRunning (jh_Store h) sb;
        (case fst resumed of
           Inl e \<Rightarrow> ret (Some (Inl (Wrapped ''resume sandbox'' e)))
         | Inr _ \<Rightarrow> do {
             now \<leftarrow> jh_Now h;
             wakeLoop fuel rt h (snd resumed) (now + jh_WakeTimeout h)
           })
      })"

text \<open>The gateway reads only the override of the idle timeout.\<close>

definition gw_effectiveIdleTimeout :: "Sandbox \<Rightarrow> Duration" where
  "gw_effectiveIdleTimeout sb = (case sp_IdleTimeout (sb_spec sb) of Some d \<Rightarrow> d | None \<Rightarrow> 0)"

definition heartbeatInterval :: "Duration \<Rightarrow> Duration" where
  "heartbeatInterval idleTimeout =
     (let floor = 60 * Second; quarter = quot64 idleTimeout 4
      in if quarter > floor then quarter else floor)"

definition randomSuffix :: "('w, 'conn, 'chan) ssh_runtime \<Rightarrow> ('w, string) state" where
  "randomSuffix rt = do {
     b \<leftarrow> rt_Read rt 5;
     ret (case b of Inl _ \<Rightarrow> ''000000000a'' | Inr bs \<Rightarrow> hex_EncodeToString bs)
   }"

definition newSession :: "Sandbox \<Rightarrow> string \<Rightarrow> string \<Rightarrow> string \<Rightarrow> string \<Rightarrow> SandboxSession" where
  "newSession sb name prin clientAddr certSerial = \<lparr>
     ses_meta = emptyMeta\<lparr>om_Namespace := sb_Namespace sb, om_Name := name\<rparr>,
     ses_spec = \<lparr>sx_SandboxName = sb_Name sb, sx_User = prin, sx_ClientAddr = clientAddr, sx_Kind = SessionKindSSH,
       sx_CertSerial = certSerial, sx_HeartbeatInterval = Some (heartbeatInterval (gw_effectiveIdleTimeout sb))\<rparr>,
     ses_status = emptySessionStatus\<rparr>"

text \<open>The closer \<open>openSession\<close> returns: of nothing, or of a session, once.\<close>

record Closer =
  cr_Namespace :: string
  cr_Name :: string
  cr_Closed :: bool

definition openSession ::
  "('w, 'conn, 'chan) ssh_runtime \<Rightarrow> ('w, 'conn) jumpHandler \<Rightarrow> Sandbox \<Rightarrow> string \<Rightarrow> string \<Rightarrow> string \<Rightarrow>
   ('w, string \<times> Closer option) state" where
  "openSession rt h sb prin clientAddr certSerial = do {
     sfx \<leftarrow> randomSuffix rt;
     let name = sb_Name sb @ ''-'' @ sfx;
     err \<leftarrow> sto_CreateSession (jh_Store h) (newSession sb name prin clientAddr certSerial);
     (case err of
        Inl _ \<Rightarrow> ret ([], None)
      | Inr _ \<Rightarrow> ret (name, Some \<lparr>cr_Namespace = sb_Namespace sb, cr_Name = name, cr_Closed = False\<rparr>))
   }"

definition closeSession :: "('w, 'conn) jumpHandler \<Rightarrow> Closer option \<Rightarrow> string \<Rightarrow> ('w, Closer option) state" where
  "closeSession h closer reason =
     (case closer of
        None \<Rightarrow> ret None
      | Some k \<Rightarrow>
          if cr_Closed k then ret (Some k)
          else do {
            err \<leftarrow> sto_CloseSession (jh_Store h) (cr_Namespace k) (cr_Name k) reason;
            ret (Some (k\<lparr>cr_Closed := True\<rparr>))
          })"

text \<open>The heartbeat goroutine: a beat per tick until it is stopped.\<close>

datatype HeartbeatEvent = Tick | Stop

fun heartbeatLoop :: "('w, 'conn) jumpHandler \<Rightarrow> string \<Rightarrow> string \<Rightarrow> HeartbeatEvent list \<Rightarrow> ('w, unit) state" where
  "heartbeatLoop h ns name [] = ret ()"
| "heartbeatLoop h ns name (Stop # _) = ret ()"
| "heartbeatLoop h ns name (Tick # rest) = do {
     err \<leftarrow> sto_Heartbeat (jh_Store h) ns name;
     heartbeatLoop h ns name rest
   }"

definition bridge :: "('w, 'conn, 'chan) ssh_runtime \<Rightarrow> 'chan \<Rightarrow> 'conn \<Rightarrow> ('w, unit) state" where
  "bridge rt a b = do {
     copied \<leftarrow> rt_CopyFirst rt a b;
     closedA \<leftarrow> rt_CloseChan rt a;
     rt_CloseConn rt b
   }"

text \<open>
  The part of \<open>handleDirectTCPIP\<close> after the session was opened, without
  its deferred close.  The result is \<open>None\<close> when the wake loop ran out of
  fuel.
\<close>

definition serveChannel ::
  "nat \<Rightarrow> ('w, 'conn, 'chan) ssh_runtime \<Rightarrow> ('w, 'conn) jumpHandler \<Rightarrow> ('w, 'chan) NewChannel \<Rightarrow> Sandbox \<Rightarrow> ('w, unit option) state" where
  "serveChannel fuel rt h ch sb0 = do {
     woke \<leftarrow> wakeAndWait fuel rt h sb0;
     (case woke of
        None \<Rightarrow> ret None
      | Some (Inl _) \<Rightarrow> do { u \<leftarrow> nc_Reject ch ConnectionFailed ''sandbox did not become ready''; ret (Some ()) }
      | Some (Inr sb) \<Rightarrow> do {
          dialed \<leftarrow> dl_DialSandbox (jh_Dialer h) sb;
          (case dialed of
             Inl _ \<Rightarrow> do { u \<leftarrow> nc_Reject ch ConnectionFailed ''cannot reach sandbox''; ret (Some ()) }
           | Inr upstream \<Rightarrow> do {
               accepted \<leftarrow> nc_Accept ch;
               (case accepted of
                  Inl _ \<Rightarrow> do { u \<leftarrow> rt_CloseConn rt upstream; ret (Some ()) }
                | Inr c \<Rightarrow> do {
                    u \<leftarrow> bridge rt c upstream;
                    v \<leftarrow> rt_CloseConn rt upstream;
                    ret (Some ())
                  })
             })
        })
   }"

definition handleDirectTCPIP ::
  "nat \<Rightarrow> ('w, 'conn, 'chan) ssh_runtime \<Rightarrow> ('w, 'conn) jumpHandler \<Rightarrow> ('w, 'chan) NewChannel \<Rightarrow> SSHContext \<Rightarrow> ('w, unit option) state" where
  "handleDirectTCPIP fuel rt h ch ctx =
     (case rt_Unmarshal rt (nc_ExtraData ch) of
        Inl _ \<Rightarrow> do { u \<leftarrow> nc_Reject ch ConnectionFailed ''invalid direct-tcpip payload''; ret (Some ()) }
      | Inr payload \<Rightarrow>
          (let prin = (case ctx_Principal ctx of None \<Rightarrow> [] | Some p \<Rightarrow> p) in
           (case ParseSSHTarget (lf_DestAddr payload) (jh_DefaultNamespace h) of
              Inl e \<Rightarrow> do { u \<leftarrow> nc_Reject ch ConnectionFailed (error_string e); ret (Some ()) }
            | Inr target \<Rightarrow> do {
                allowed \<leftarrow> authorize h target prin;
                (case allowed of
                   Inl _ \<Rightarrow> do { u \<leftarrow> nc_Reject ch Prohibited ''not authorized for this sandbox''; ret (Some ()) }
                 | Inr sb \<Rightarrow> do {
                     opened \<leftarrow> openSession rt h sb prin (ctx_RemoteAddr ctx)
                       (case ctx_CertSerial ctx of None \<Rightarrow> [] | Some s \<Rightarrow> s);
                     served \<leftarrow> serveChannel fuel rt h ch sb;
                     (case served of
                        None \<Rightarrow> ret None
                      | Some _ \<Rightarrow> do {
                          closer \<leftarrow> closeSession h (snd opened) ExitReasonDisconnected;
                          ret (Some ())
                        })
                   })
              })))"

record ('w, 'conn, 'chan) SSHServer =
  srv_Addr :: string
  srv_HostSigners :: "Signer list"
  srv_PublicKeyHandler :: "SSHContext \<Rightarrow> PublicKey \<Rightarrow> ('w, bool \<times> SSHContext) state"
  srv_ChannelHandlers :: "(string \<times> (('w, 'chan) NewChannel \<Rightarrow> SSHContext \<Rightarrow> ('w, unit option) state)) list"

definition NewSSHServer ::
  "'w sshlib \<Rightarrow> ('w, Time) state \<Rightarrow> nat \<Rightarrow> ('w, 'conn, 'chan) ssh_runtime \<Rightarrow> ('w, 'conn) SSHConfig \<Rightarrow>
   ('w, 'conn, 'chan) SSHServer res" where
  "NewSSHServer S timeNow fuel rt cfg =
     (case (cfg_Store cfg, cfg_Dialer cfg) of
        (Some store, Some dialer) \<Rightarrow>
          (let now = (case cfg_Now cfg of None \<Rightarrow> timeNow | Some f \<Rightarrow> f);
               timeout = (if cfg_WakeTimeout cfg = 0 then defaultWakeTimeout else cfg_WakeTimeout cfg)
           in case sl_ParsePrivateKey S (cfg_HostKeyPEM cfg) of
                Inl e \<Rightarrow> Inl (Wrapped ''parse gateway host key'' e)
              | Inr hostSigner \<Rightarrow>
                  (case ParsePublicKey S (cfg_UserCAAuthorized cfg) of
                     Inl e \<Rightarrow> Inl (Wrapped ''parse user CA'' e)
                   | Inr userCA \<Rightarrow>
                       (let h = \<lparr>jh_DefaultNamespace = cfg_DefaultNamespace cfg, jh_WakeTimeout = timeout,
                              jh_Now = now, jh_Store = store, jh_Dialer = dialer\<rparr>
                        in Inr \<lparr>srv_Addr = cfg_Addr cfg, srv_HostSigners = [hostSigner],
                             srv_PublicKeyHandler = publicKeyHandler S now userCA,
                             srv_ChannelHandlers = [(''direct-tcpip'', handleDirectTCPIP fuel rt h)]\<rparr>)))
      | _ \<Rightarrow> Inl (OtherErr ''gateway requires a store and a dialer''))"

end
