(* ===== verification/Gateway_Http.thy ===== *)
theory Gateway_Http
  imports Gateway_Ssh
begin

text \<open>
  The HTTP half of the gateway: \<open>httpproxy.go\<close>, \<open>cookieauth.go\<close>
  and \<open>signhttp.go\<close> of \<open>internal/gateway\<close>.  The OIDC provider and
  the OAuth client are parameters, and so are HMAC-SHA256, the JSON codec and the
  URL parser of the standard library; base64 is defined.
\<close>

section \<open>Base64\<close>

text \<open>
  \<open>base64.RawURLEncoding\<close>: the URL alphabet without padding.  Decoding
  skips line breaks and ignores the bits of the last digit that do not fill a
  byte.
\<close>

definition b64_alphabet :: string where
  "b64_alphabet = ''ABCDEFGHIJKLMNOPQRSTUVWXYZabcdefghijklmnopqrstuvwxyz0123456789-_''"

definition b64_digit :: "nat \<Rightarrow> char" where
  "b64_digit n = b64_alphabet ! n"

definition b64_value :: "char \<Rightarrow> nat option" where
  "b64_value c = find (\<lambda>n. b64_alphabet ! n = c) [0..<64]"

fun b64_digits :: "nat list \<Rightarrow> nat list" where
  "b64_digits [] = []"
| "b64_digits [a] = [a div 4, (a mod 4) * 16]"
| "b64_digits [a, b] = [a div 4, (a mod 4) * 16 + b div 16, (b mod 16) * 4]"
| "b64_digits (a # b # c # rest) =
     (a div 4) # ((a mod 4) * 16 + b div 16) # ((b mod 16) * 4 + c div 64) # (c mod 64) # b64_digits rest"

fun b64_bytes :: "nat list \<Rightarrow> nat list option" where
  "b64_bytes [] = Some []"
| "b64_bytes [x] = None"
| "b64_bytes [x, y] = Some [x * 4 + y div 16]"
| "b64_bytes [x, y, z] = Some [x * 4 + y div 16, (y mod 16) * 16 + z div 4]"
| "b64_bytes (x # y # z # u # rest) =
     (case b64_bytes rest of
        None \<Rightarrow> None
      | Some bs \<Rightarrow> Some ((x * 4 + y div 16) # ((y mod 16) * 16 + z div 4) # ((z mod 4) * 64 + u) # bs))"

definition b64_EncodeToString :: "bytes \<Rightarrow> string" where
  "b64_EncodeToString bs = map b64_digit (b64_digits (map of_char bs))"

definition b64_DecodeString :: "string \<Rightarrow> bytes option" where
  "b64_DecodeString s =
     (let ds = map b64_value (filter (\<lambda>c. c \<noteq> CHR 0x0A \<and> c \<noteq> CHR 0x0D) s)
      in if None \<in> set ds then None
         else map_option (map char_of) (b64_bytes (map the ds)))"

section \<open>Requests and responses\<close>

record HTTPRequest =
  rq_Method :: string
  rq_Host :: string
  rq_Path :: string
  rq_URL :: string
  rq_Query :: "string \<Rightarrow> string"
  rq_Cookie :: "string \<Rightarrow> string option"
  rq_Body :: bytes

record HTTPCookie =
  ck_Name :: string
  ck_Value :: string
  ck_Path :: string
  ck_HttpOnly :: bool
  ck_Secure :: bool
  ck_MaxAge :: int

record configResponse =
  cr_Issuer :: string
  cr_ClientID :: string
  cr_PrincipalClaim :: string
  cr_BaseDomain :: string
  cr_GatewaySSHAddr :: string

record signRequest =
  sr_PublicKey :: string
  sr_IDToken :: string

record signResponse =
  sp_Certificate :: bytes
  sp_Principal :: string

text \<open>What a handler writes: an error page, a redirect with a cookie, a JSON body, or what the upstream answers.\<close>

datatype HTTPResponse =
    ErrorPage string int
  | RedirectTo "HTTPCookie list" string
  | ConfigBody configResponse
  | SignBody signResponse
  | ProxyTo string

section \<open>OIDC\<close>

text \<open>The claims of a verified ID token, as far as the sources look at them.\<close>

datatype Claim = ClaimString string | ClaimList "Claim list" | ClaimOther

record IDToken =
  it_Claims :: "(string \<times> Claim) list res"

definition defaultPrincipalClaim :: string where "defaultPrincipalClaim = ''email''"

definition identityFromToken :: "IDToken \<Rightarrow> string \<Rightarrow> string \<times> string list" where
  "identityFromToken idToken claim =
     (case it_Claims idToken of
        Inl _ \<Rightarrow> ([], [])
      | Inr raw \<Rightarrow>
          ((case map_of raw claim of Some (ClaimString p) \<Rightarrow> p | _ \<Rightarrow> []),
           (case map_of raw ''groups'' of
              Some (ClaimList gs) \<Rightarrow> List.map_filter (\<lambda>g. case g of ClaimString s \<Rightarrow> Some s | _ \<Rightarrow> None) gs
            | _ \<Rightarrow> [])))"

definition principalFromClaims :: "IDToken \<Rightarrow> string \<Rightarrow> string res" where
  "principalFromClaims idToken claim =
     (case it_Claims idToken of
        Inl e \<Rightarrow> Inl (Wrapped ''parse claims'' e)
      | Inr claims \<Rightarrow>
          (case map_of claims claim of
             Some (ClaimString value) \<Rightarrow>
               if value = [] then Inl (OtherErr (''claim '' @ quote claim @ '' missing or not a string'')) else Inr value
           | _ \<Rightarrow> Inl (OtherErr (''claim '' @ quote claim @ '' missing or not a string''))))"

section \<open>cookieauth.go\<close>

definition sessionCookie :: string where "sessionCookie = ''kubepark_session''"
definition stateCookie :: string where "stateCookie = ''kubepark_oidc_state''"
definition oidcCallbackPath :: string where "oidcCallbackPath = ''/kubepark/oidc/callback''"

record sessionClaims =
  scl_Principal :: string
  scl_Groups :: "string list"
  scl_Expiry :: int

text \<open>The functions of libraries the authenticator calls.\<close>

record 'w weblib =
  wl_HMAC :: "bytes \<Rightarrow> bytes \<Rightarrow> bytes"
  wl_Marshal :: "sessionClaims \<Rightarrow> bytes"
  wl_Unmarshal :: "bytes \<Rightarrow> sessionClaims option"
  wl_DecodeSign :: "bytes \<Rightarrow> signRequest res"
  wl_ParseURL :: "string \<Rightarrow> string res"
  wl_Random :: "nat \<Rightarrow> ('w, bytes) state"
  wl_Now :: "('w, Time) state"

record 'w CookieAuthenticator =
  ca_AuthCodeURL :: "string \<Rightarrow> string"
  ca_Exchange :: "string \<Rightarrow> ('w, string option res) state"
  ca_Verify :: "string \<Rightarrow> ('w, IDToken res) state"
  ca_claim :: string
  ca_hmacKey :: bytes
  ca_ttl :: Duration
  ca_secure :: bool

text \<open>The provider and OAuth client a cookie authenticator is built on.\<close>

record oauthConfig =
  oa_ClientID :: string
  oa_ClientSecret :: string
  oa_RedirectURL :: string
  oa_Scopes :: "string list"

record 'w oidcProvider =
  pv_AuthCodeURL :: "oauthConfig \<Rightarrow> string \<Rightarrow> string"
  pv_Exchange :: "oauthConfig \<Rightarrow> string \<Rightarrow> ('w, string option res) state"
  pv_Verify :: "string \<Rightarrow> string \<Rightarrow> ('w, IDToken res) state"

definition NewCookieAuthenticator ::
  "(string \<Rightarrow> ('w, 'w oidcProvider res) state) \<Rightarrow> string \<Rightarrow> string \<Rightarrow> string \<Rightarrow> string \<Rightarrow> string \<Rightarrow> bytes \<Rightarrow> Duration \<Rightarrow> bool \<Rightarrow>
   ('w, 'w CookieAuthenticator res) state" where
  "NewCookieAuthenticator newProvider issuer clientID clientSecret redirectBase claim hmacKey ttl secure = do {
     provider \<leftarrow> newProvider issuer;
     (case provider of
        Inl e \<Rightarrow> ret (Inl (Wrapped ''discover OIDC provider'' e))
      | Inr p \<Rightarrow>
          (let oauth = \<lparr>oa_ClientID = clientID, oa_ClientSecret = clientSecret,
                 oa_RedirectURL = TrimSuffix redirectBase ''/'' @ oidcCallbackPath,
                 oa_Scopes = [''openid'', ''email'', ''profile'', ''groups'']\<rparr>
           in ret (Inr \<lparr>ca_AuthCodeURL = pv_AuthCodeURL p oauth, ca_Exchange = pv_Exchange p oauth,
                ca_Verify = pv_Verify p clientID, ca_claim = (if claim = [] then defaultPrincipalClaim else claim),
                ca_hmacKey = hmacKey, ca_ttl = ttl, ca_secure = secure\<rparr>)))
   }"

definition randomString :: "'w weblib \<Rightarrow> ('w, string) state" where
  "randomString L = do { b \<leftarrow> wl_Random L 16; ret (b64_EncodeToString b) }"

definition signCookie :: "'w weblib \<Rightarrow> 'w CookieAuthenticator \<Rightarrow> sessionClaims \<Rightarrow> string" where
  "signCookie L a claims =
     (let b = b64_EncodeToString (wl_Marshal L claims);
          sig = b64_EncodeToString (wl_HMAC L (ca_hmacKey a) b)
      in b @ ''.'' @ sig)"

definition verifyCookie :: "'w weblib \<Rightarrow> 'w CookieAuthenticator \<Rightarrow> string \<Rightarrow> sessionClaims option" where
  "verifyCookie L a value =
     (case Cut value ''.'' of (b, sig, ok) \<Rightarrow>
        if \<not> ok then None
        else (let want = b64_EncodeToString (wl_HMAC L (ca_hmacKey a) b)
              in if sig \<noteq> want then None
                 else (case b64_DecodeString b of
                         None \<Rightarrow> None
                       | Some payload \<Rightarrow> wl_Unmarshal L payload)))"

definition Identify :: "'w weblib \<Rightarrow> 'w CookieAuthenticator \<Rightarrow> HTTPRequest \<Rightarrow> ('w, (string \<times> string list) option) state" where
  "Identify L a r =
     (case rq_Cookie r sessionCookie of
        None \<Rightarrow> ret None
      | Some cookie \<Rightarrow>
          (case verifyCookie L a cookie of
             None \<Rightarrow> ret None
           | Some claims \<Rightarrow> do {
               now \<leftarrow> wl_Now L;
               ret (if Unix now > scl_Expiry claims then None else Some (scl_Principal claims, scl_Groups claims))
             }))"

definition StartLogin :: "'w weblib \<Rightarrow> 'w CookieAuthenticator \<Rightarrow> HTTPRequest \<Rightarrow> ('w, HTTPResponse) state" where
  "StartLogin L a r = do {
     state \<leftarrow> randomString L;
     ret (RedirectTo [\<lparr>ck_Name = stateCookie, ck_Value = state @ ''|'' @ rq_URL r, ck_Path = ''/'', ck_HttpOnly = True,
       ck_Secure = ca_secure a, ck_MaxAge = 600\<rparr>] (ca_AuthCodeURL a state))
   }"

text \<open>\<open>int(d.Seconds())\<close> truncates the duration to whole seconds.\<close>

definition durationSeconds :: "Duration \<Rightarrow> int" where
  "durationSeconds d = quot64 d Second"

definition Callback :: "'w weblib \<Rightarrow> 'w CookieAuthenticator \<Rightarrow> HTTPRequest \<Rightarrow> ('w, HTTPResponse) state" where
  "Callback L a r =
     (case rq_Cookie r stateCookie of
        None \<Rightarrow> ret (ErrorPage ''missing state'' 400)
      | Some stateRaw \<Rightarrow>
          (case Cut stateRaw ''|'' of (state, returnTo, _) \<Rightarrow>
             if state \<noteq> rq_Query r ''state'' then ret (ErrorPage ''state mismatch'' 400)
             else do {
               token \<leftarrow> ca_Exchange a (rq_Query r ''code'');
               (case token of
                  Inl _ \<Rightarrow> ret (ErrorPage ''token exchange failed'' 502)
                | Inr None \<Rightarrow> ret (ErrorPage ''no id_token'' 502)
                | Inr (Some rawID) \<Rightarrow> do {
                    verified \<leftarrow> ca_Verify a rawID;
                    (case verified of
                       Inl _ \<Rightarrow> ret (ErrorPage ''invalid id_token'' 401)
                     | Inr idToken \<Rightarrow>
                         (case identityFromToken idToken (ca_claim a) of (prin, groups) \<Rightarrow>
                            if prin = [] then ret (ErrorPage ''no principal claim'' 400)
                            else do {
                              now \<leftarrow> wl_Now L;
                              let cookieValue = signCookie L a \<lparr>scl_Principal = prin, scl_Groups = groups,
                                scl_Expiry = Unix (now + ca_ttl a)\<rparr>;
                              ret (RedirectTo [\<lparr>ck_Name = sessionCookie, ck_Value = cookieValue, ck_Path = ''/'', ck_HttpOnly = True,
                                ck_Secure = ca_secure a, ck_MaxAge = durationSeconds (ca_ttl a)\<rparr>]
                                (if returnTo = [] then ''/'' else returnTo))
                            }))
                  })
             }))"

definition IsCallback :: "HTTPRequest \<Rightarrow> bool" where
  "IsCallback r = (rq_Path r = oidcCallbackPath)"

section \<open>httpproxy.go\<close>

text \<open>The one implementation of \<open>Authenticator\<close> is the cookie authenticator.\<close>

record 'w HTTPProxyConfig =
  hp_BaseDomain :: string
  hp_Store :: "'w Store"
  hp_Auth :: "'w CookieAuthenticator option"
  hp_DialAddr :: "(Sandbox \<Rightarrow> int \<Rightarrow> string) option"

definition defaultDialAddr :: "Sandbox \<Rightarrow> int \<Rightarrow> string" where
  "defaultDialAddr sb port = ''http://'' @ ss_PodIP (sb_status sb) @ '':'' @ show_int port"

definition NewHTTPProxy :: "'w HTTPProxyConfig \<Rightarrow> 'w HTTPProxyConfig" where
  "NewHTTPProxy cfg = (case hp_DialAddr cfg of None \<Rightarrow> cfg\<lparr>hp_DialAddr := Some defaultDialAddr\<rparr> | Some _ \<Rightarrow> cfg)"

definition findExposedPort :: "Sandbox \<Rightarrow> string \<Rightarrow> ExposedPort option" where
  "findExposedPort sb name = find (\<lambda>p. xp_Name p = name) (sp_ExposedPorts (sb_spec sb))"

definition authorizedForPort :: "Sandbox \<Rightarrow> ExposedPort \<Rightarrow> string \<Rightarrow> string list \<Rightarrow> bool" where
  "authorizedForPort sb port prin groups =
     (if prin = own_Name (sp_Owner (sb_spec sb)) then True
      else if prin \<in> set (xp_AllowedUsers port) then True
      else list_ex (\<lambda>g. g \<in> set (xp_AllowedGroups port)) groups)"

text \<open>The tail of \<open>ServeHTTP\<close>, once the request is authorized.\<close>

definition proxyRequest :: "'w weblib \<Rightarrow> 'w HTTPProxyConfig \<Rightarrow> Sandbox \<Rightarrow> ExposedPort \<Rightarrow> HTTPResponse" where
  "proxyRequest L cfg sb port =
     (if ss_PodIP (sb_status sb) = [] then ErrorPage ''sandbox is suspended'' 503
      else (case wl_ParseURL L ((case hp_DialAddr cfg of Some f \<Rightarrow> f | None \<Rightarrow> defaultDialAddr) sb (xp_Port port)) of
              Inl _ \<Rightarrow> ErrorPage ''bad upstream'' 500
            | Inr upstream \<Rightarrow> ProxyTo upstream))"

definition routeHTTP :: "'w weblib \<Rightarrow> 'w HTTPProxyConfig \<Rightarrow> HTTPRequest \<Rightarrow> ('w, HTTPResponse) state" where
  "routeHTTP L cfg r =
     (case ParseHTTPHost (rq_Host r) (hp_BaseDomain cfg) of
        Inl _ \<Rightarrow> ret (ErrorPage ''unknown route'' 404)
      | Inr target \<Rightarrow> do {
          got \<leftarrow> sto_GetSandbox (hp_Store cfg) (ht_Namespace target) (ht_Sandbox target);
          (case got of
             Inl _ \<Rightarrow> ret (ErrorPage ''sandbox not found'' 404)
           | Inr sb \<Rightarrow>
               (case findExposedPort sb (ht_Port target) of
                  None \<Rightarrow> ret (ErrorPage ''port not exposed'' 404)
                | Some port \<Rightarrow>
                    if xp_Auth port = AuthModeOIDC then
                      (case hp_Auth cfg of
                         None \<Rightarrow> ret (ErrorPage ''OIDC is not configured on this gateway'' 503)
                       | Some auth \<Rightarrow> do {
                           who \<leftarrow> Identify L auth r;
                           (case who of
                              None \<Rightarrow> StartLogin L auth r
                            | Some (prin, groups) \<Rightarrow>
                                if \<not> authorizedForPort sb port prin groups then ret (ErrorPage ''forbidden'' 403)
                                else ret (proxyRequest L cfg sb port))
                         })
                    else ret (proxyRequest L cfg sb port)))
        })"

definition ServeHTTP :: "'w weblib \<Rightarrow> 'w HTTPProxyConfig \<Rightarrow> HTTPRequest \<Rightarrow> ('w, HTTPResponse) state" where
  "ServeHTTP L cfg r =
     (case hp_Auth cfg of
        Some ca \<Rightarrow> if IsCallback r then Callback L ca r else routeHTTP L cfg r
      | None \<Rightarrow> routeHTTP L cfg r)"

section \<open>signhttp.go\<close>

record OIDCConfig =
  oc_Issuer :: string
  oc_ClientID :: string
  oc_PrincipalClaim :: string
  oc_BaseDomain :: string
  oc_GatewaySSHAddr :: string

record 'w SignServer =
  sv_signer :: "'w CertSigner"
  sv_oidc :: OIDCConfig
  sv_Verify :: "(string \<Rightarrow> ('w, IDToken res) state) option"

text \<open>The argument \<open>newVerifier\<close> is the discovery of the provider and its verifier.\<close>

definition NewSignServer ::
  "(string \<Rightarrow> string \<Rightarrow> ('w, (string \<Rightarrow> ('w, IDToken res) state) res) state) \<Rightarrow> 'w CertSigner \<Rightarrow> OIDCConfig \<Rightarrow>
   ('w, 'w SignServer res) state" where
  "NewSignServer newVerifier signer cfg0 =
     (let cfg = (if oc_PrincipalClaim cfg0 = [] then cfg0\<lparr>oc_PrincipalClaim := defaultPrincipalClaim\<rparr> else cfg0)
      in if oc_Issuer cfg \<noteq> [] then do {
           verifier \<leftarrow> newVerifier (oc_Issuer cfg) (oc_ClientID cfg);
           (case verifier of
              Inl e \<Rightarrow> ret (Inl (Wrapped ''discover OIDC provider'' e))
            | Inr v \<Rightarrow> ret (Inr \<lparr>sv_signer = signer, sv_oidc = cfg, sv_Verify = Some v\<rparr>))
         }
         else ret (Inr \<lparr>sv_signer = signer, sv_oidc = cfg, sv_Verify = None\<rparr>))"

definition handleConfig :: "'w SignServer \<Rightarrow> HTTPResponse" where
  "handleConfig s = ConfigBody \<lparr>cr_Issuer = oc_Issuer (sv_oidc s), cr_ClientID = oc_ClientID (sv_oidc s),
     cr_PrincipalClaim = oc_PrincipalClaim (sv_oidc s), cr_BaseDomain = oc_BaseDomain (sv_oidc s),
     cr_GatewaySSHAddr = oc_GatewaySSHAddr (sv_oidc s)\<rparr>"

definition handleSign :: "'w sshlib \<Rightarrow> 'w weblib \<Rightarrow> 'w SignServer \<Rightarrow> HTTPRequest \<Rightarrow> ('w, HTTPResponse) state" where
  "handleSign S L s r =
     (if rq_Method r \<noteq> ''POST'' then ret (ErrorPage ''method not allowed'' 405)
      else (case sv_Verify s of
              None \<Rightarrow> ret (ErrorPage ''OIDC is not configured on this gateway'' 503)
            | Some verify \<Rightarrow>
                (case wl_DecodeSign L (rq_Body r) of
                   Inl _ \<Rightarrow> ret (ErrorPage ''invalid request body'' 400)
                 | Inr req \<Rightarrow> do {
                     verified \<leftarrow> verify (sr_IDToken req);
                     (case verified of
                        Inl _ \<Rightarrow> ret (ErrorPage ''invalid ID token'' 401)
                      | Inr idToken \<Rightarrow>
                          (case principalFromClaims idToken (oc_PrincipalClaim (sv_oidc s)) of
                             Inl e \<Rightarrow> ret (ErrorPage (error_string e) 400)
                           | Inr prin \<Rightarrow> do {
                               cert \<leftarrow> Sign S (sv_signer s) (sr_PublicKey req) prin;
                               (case cert of
                                  Inl _ \<Rightarrow> ret (ErrorPage ''signing failed'' 500)
                                | Inr c \<Rightarrow> ret (SignBody \<lparr>sp_Certificate = c, sp_Principal = prin\<rparr>))
                             }))
                   })))"

text \<open>The multiplexer: the two endpoints, and nothing else.\<close>

definition signHandler :: "'w sshlib \<Rightarrow> 'w weblib \<Rightarrow> 'w SignServer \<Rightarrow> HTTPRequest \<Rightarrow> ('w, HTTPResponse) state" where
  "signHandler S L s r =
     (if rq_Path r = ''/v1/config'' then ret (handleConfig s)
      else if rq_Path r = ''/v1/sign'' then handleSign S L s r
      else ret (ErrorPage ''404 page not found'' 404))"

end
