(* ===== verification/Gateway_Main.thy ===== *)
theory Gateway_Main
  imports Gateway_Http
begin

text \<open>
  \<open>cmd/gateway.go\<close>: what the gateway process is assembled from.  The
  manager and its clients, the discovery of the OIDC provider and the listeners
  are parameters; the key material comes from Secrets of the cluster.
\<close>

section \<open>Options\<close>

record gatewayOptions =
  gwo_sshAddr :: string
  gwo_httpAddr :: string
  gwo_defaultNamespace :: string
  gwo_oidcIssuer :: string
  gwo_oidcClientID :: string
  gwo_oidcClientSecret :: string
  gwo_principalClaim :: string
  gwo_baseDomain :: string
  gwo_certTTL :: Duration

text \<open>The defaults of the flags; the client secret comes from the environment.\<close>

definition newGatewayCommand :: "(string \<Rightarrow> string) \<Rightarrow> gatewayOptions" where
  "newGatewayCommand getenv = \<lparr>gwo_sshAddr = '':2222'', gwo_httpAddr = '':8080'', gwo_defaultNamespace = [], gwo_oidcIssuer = [],
     gwo_oidcClientID = [], gwo_oidcClientSecret = getenv ''OIDC_CLIENT_SECRET'', gwo_principalClaim = ''email'',
     gwo_baseDomain = [], gwo_certTTL = 8 * Hour\<rparr>"

section \<open>The host key\<close>

definition gatewayHostKeyName :: string where "gatewayHostKeyName = ''kubepark-gateway-hostkey''"

definition gatewayHostKeySecret :: "string \<Rightarrow> KeyPair \<Rightarrow> Secret" where
  "gatewayHostKeySecret namespace kp = \<lparr>
     sec_meta = emptyMeta\<lparr>om_Name := gatewayHostKeyName, om_Namespace := namespace\<rparr>,
     sec_Data = [(''ssh_host_ed25519_key'', PrivatePEM kp), (''ssh_host_ed25519_key.pub'', PublicAuthorized kp)]\<rparr>"

definition gatewayHostKey :: "'w sshlib \<Rightarrow> 'w kube \<Rightarrow> string \<Rightarrow> ('w, bytes res) state" where
  "gatewayHostKey S c namespace = do {
     got \<leftarrow> kc_Get (k_Secrets c) (namespace, gatewayHostKeyName);
     (case got of
        Inr secret \<Rightarrow> ret (Inr (map_get (sec_Data secret) ''ssh_host_ed25519_key''))
      | Inl e \<Rightarrow>
          if \<not> IsNotFound e then ret (Inl e)
          else do {
            kp \<leftarrow> GenerateKeyPair S ''kubepark-gateway'';
            (case kp of
               Inl e \<Rightarrow> ret (Inl e)
             | Inr kp \<Rightarrow> do {
                 created \<leftarrow> kc_Create (k_Secrets c) (gatewayHostKeySecret namespace kp);
                 (case created of
                    Inr _ \<Rightarrow> ret (Inr (PrivatePEM kp))
                  | Inl err \<Rightarrow>
                      if IsAlreadyExists err then do {
                        existing \<leftarrow> kc_Get (k_Secrets c) (namespace, gatewayHostKeyName);
                        (case existing of
                           Inr existing \<Rightarrow> ret (Inr (map_get (sec_Data existing) ''ssh_host_ed25519_key''))
                         | Inl _ \<Rightarrow> ret (Inl err))
                      }
                      else ret (Inl err))
               })
          })
   }"

section \<open>The HTTP plane\<close>

text \<open>
  \<open>newProvider\<close> is the discovery of the OIDC provider; its verifier for a
  client is what the sign server and the cookie authenticator use.
\<close>

definition signVerifier :: "(string \<Rightarrow> ('w, 'w oidcProvider res) state) \<Rightarrow> string \<Rightarrow> string \<Rightarrow>
    ('w, (string \<Rightarrow> ('w, IDToken res) state) res) state" where
  "signVerifier newProvider issuer clientID = do {
     provider \<leftarrow> newProvider issuer;
     (case provider of Inl e \<Rightarrow> ret (Inl e) | Inr p \<Rightarrow> ret (Inr (pv_Verify p clientID)))
   }"

text \<open>The two parts that need an issuer: the sign server, and the cookie authenticator if there is a base domain.\<close>

definition buildOIDC ::
  "'w sshlib \<Rightarrow> 'w weblib \<Rightarrow> (string \<Rightarrow> ('w, 'w oidcProvider res) state) \<Rightarrow> gatewayOptions \<Rightarrow> Secret \<Rightarrow>
   ('w, ('w SignServer option \<times> 'w CookieAuthenticator option) res) state" where
  "buildOIDC S L newProvider opts ca =
     (if gwo_oidcIssuer opts = [] then ret (Inr (None, None))
      else (case NewSigner S (wl_Now L) (map_get (sec_Data ca) KeyUserCAPrivate) (gwo_certTTL opts) of
         Inl e \<Rightarrow> ret (Inl e)
       | Inr signer \<Rightarrow> do {
           server \<leftarrow> NewSignServer (signVerifier newProvider) signer \<lparr>oc_Issuer = gwo_oidcIssuer opts, oc_ClientID = gwo_oidcClientID opts,
             oc_PrincipalClaim = gwo_principalClaim opts, oc_BaseDomain = gwo_baseDomain opts, oc_GatewaySSHAddr = gwo_sshAddr opts\<rparr>;
           (case server of
              Inl e \<Rightarrow> ret (Inl e)
            | Inr server \<Rightarrow>
                if gwo_baseDomain opts = [] then ret (Inr (Some server, None))
                else do {
                  auth \<leftarrow> NewCookieAuthenticator newProvider (gwo_oidcIssuer opts) (gwo_oidcClientID opts) (gwo_oidcClientSecret opts)
                    (''https://'' @ gwo_baseDomain opts) (gwo_principalClaim opts) (map_get (sec_Data ca) KeyCookieHMAC)
                    (gwo_certTTL opts) True;
                  (case auth of
                     Inl e \<Rightarrow> ret (Inl e)
                   | Inr auth \<Rightarrow> ret (Inr (Some server, Some auth)))
                })
         }))"

definition dispatchHTTP ::
  "'w sshlib \<Rightarrow> 'w weblib \<Rightarrow> 'w SignServer option \<Rightarrow> 'w HTTPProxyConfig option \<Rightarrow> HTTPRequest \<Rightarrow> ('w, HTTPResponse) state" where
  "dispatchHTTP S L sign proxy r =
     (case sign of
        Some server \<Rightarrow>
          if rq_Path r = ''/v1/sign'' \<or> rq_Path r = ''/v1/config'' then signHandler S L server r
          else (case proxy of Some cfg \<Rightarrow> ServeHTTP L cfg r | None \<Rightarrow> ret (ErrorPage ''404 page not found'' 404))
      | None \<Rightarrow> (case proxy of Some cfg \<Rightarrow> ServeHTTP L cfg r | None \<Rightarrow> ret (ErrorPage ''404 page not found'' 404)))"

definition buildHTTPHandler ::
  "'w sshlib \<Rightarrow> 'w weblib \<Rightarrow> (string \<Rightarrow> ('w, 'w oidcProvider res) state) \<Rightarrow> gatewayOptions \<Rightarrow> Secret \<Rightarrow> 'w kube \<Rightarrow>
   ('w, (HTTPRequest \<Rightarrow> ('w, HTTPResponse) state) option res) state" where
  "buildHTTPHandler S L newProvider opts ca c = do {
     oidc \<leftarrow> buildOIDC S L newProvider opts ca;
     (case oidc of
        Inl e \<Rightarrow> ret (Inl e)
      | Inr (sign, auth) \<Rightarrow>
          (let proxy = (if gwo_baseDomain opts = [] then None
             else Some (NewHTTPProxy \<lparr>hp_BaseDomain = gwo_baseDomain opts, hp_Store = NewStore c, hp_Auth = auth, hp_DialAddr = None\<rparr>))
           in if Option.is_none sign \<and> Option.is_none proxy then ret (Inr None)
              else ret (Inr (Some (dispatchHTTP S L sign proxy)))))
   }"

section \<open>The process\<close>

text \<open>
  What the manager is given to run (\<open>sshRunnable\<close> and
  \<open>httpRunnable\<close>), and what the process has handed over once it is set up.
\<close>

datatype ('w, 'conn, 'chan) runnable =
    sshRunnable "('w, 'conn, 'chan) SSHServer"
  | httpRunnable string "HTTPRequest \<Rightarrow> ('w, HTTPResponse) state"

record ('w, 'conn, 'chan) gatewayProcess =
  gp_SSH :: "('w, 'conn, 'chan) SSHServer"
  gp_HTTP :: "(string \<times> (HTTPRequest \<Rightarrow> ('w, HTTPResponse) state)) option"

text \<open>
  The surroundings of the process: the manager with its cached client, a direct
  client, the dialer of the \<open>net\<close> package, the runtime of a connection and
  the discovery of an OIDC provider.
\<close>

record ('w, 'conn, 'chan) gatewayHost =
  gh_NewManager :: "('w, 'w kube res) state"
  gh_NewClient :: "('w, 'w kube res) state"
  gh_Add :: "('w, 'conn, 'chan) runnable \<Rightarrow> ('w, unit res) state"
  gh_Start :: "('w, unit res) state"
  gh_PodNamespace :: string
  gh_Dial :: "string \<Rightarrow> string \<Rightarrow> ('w, 'conn res) state"
  gh_Runtime :: "('w, 'conn, 'chan) ssh_runtime"
  gh_NewProvider :: "string \<Rightarrow> ('w, 'w oidcProvider res) state"
  gh_Fuel :: nat

definition gatewaySSHConfig :: "('w, 'conn, 'chan) gatewayHost \<Rightarrow> gatewayOptions \<Rightarrow> bytes \<Rightarrow> Secret \<Rightarrow> 'w kube \<Rightarrow> ('w, 'conn) SSHConfig" where
  "gatewaySSHConfig host opts hostKey ca c = \<lparr>cfg_Addr = gwo_sshAddr opts, cfg_HostKeyPEM = hostKey,
     cfg_UserCAAuthorized = map_get (sec_Data ca) KeyUserCAPublic, cfg_DefaultNamespace = gwo_defaultNamespace opts,
     cfg_WakeTimeout = 0, cfg_Now = None, cfg_Store = Some (NewStore c), cfg_Dialer = Some (NewDirectDialer (gh_Dial host))\<rparr>"

definition addServers ::
  "'w sshlib \<Rightarrow> 'w weblib \<Rightarrow> ('w, 'conn, 'chan) gatewayHost \<Rightarrow> gatewayOptions \<Rightarrow> 'w kube \<Rightarrow> Secret \<Rightarrow>
   ('w, 'conn, 'chan) SSHServer \<Rightarrow> ('w, ('w, 'conn, 'chan) gatewayProcess res) state" where
  "addServers S L host opts c ca server = do {
     added \<leftarrow> gh_Add host (sshRunnable server);
     (case added of
        Inl e \<Rightarrow> ret (Inl e)
      | Inr _ \<Rightarrow> do {
          handler \<leftarrow> buildHTTPHandler S L (gh_NewProvider host) opts ca c;
          (case handler of
             Inl e \<Rightarrow> ret (Inl e)
           | Inr None \<Rightarrow> ret (Inr \<lparr>gp_SSH = server, gp_HTTP = None\<rparr>)
           | Inr (Some f) \<Rightarrow> do {
               added \<leftarrow> gh_Add host (httpRunnable (gwo_httpAddr opts) f);
               (case added of
                  Inl e \<Rightarrow> ret (Inl e)
                | Inr _ \<Rightarrow> ret (Inr \<lparr>gp_SSH = server, gp_HTTP = Some (gwo_httpAddr opts, f)\<rparr>))
             })
        })
   }"

definition setupGateway ::
  "'w sshlib \<Rightarrow> 'w weblib \<Rightarrow> ('w, 'conn, 'chan) gatewayHost \<Rightarrow> gatewayOptions \<Rightarrow> ('w, ('w, 'conn, 'chan) gatewayProcess res) state" where
  "setupGateway S L host opts = do {
     mgr \<leftarrow> gh_NewManager host;
     (case mgr of
        Inl e \<Rightarrow> ret (Inl (Wrapped ''build manager'' e))
      | Inr c \<Rightarrow> do {
          client \<leftarrow> gh_NewClient host;
          (case client of
             Inl e \<Rightarrow> ret (Inl e)
           | Inr direct \<Rightarrow> do {
               ca \<leftarrow> EnsureCASecret S direct (OperatorNamespace (gh_PodNamespace host));
               (case ca of
                  Inl e \<Rightarrow> ret (Inl (Wrapped ''load CA secret'' e))
                | Inr ca \<Rightarrow> do {
                    hostKey \<leftarrow> gatewayHostKey S direct (OperatorNamespace (gh_PodNamespace host));
                    (case hostKey of
                       Inl e \<Rightarrow> ret (Inl e)
                     | Inr hostKey \<Rightarrow>
                         (case NewSSHServer S (wl_Now L) (gh_Fuel host) (gh_Runtime host) (gatewaySSHConfig host opts hostKey ca c) of
                            Inl e \<Rightarrow> ret (Inl e)
                          | Inr server \<Rightarrow> addServers S L host opts c ca server))
                  })
             })
        })
   }"

definition runGateway ::
  "'w sshlib \<Rightarrow> 'w weblib \<Rightarrow> ('w, 'conn, 'chan) gatewayHost \<Rightarrow> gatewayOptions \<Rightarrow> ('w, unit res) state" where
  "runGateway S L host opts = do {
     process \<leftarrow> setupGateway S L host opts;
     (case process of
        Inl e \<Rightarrow> ret (Inl e)
      | Inr _ \<Rightarrow> gh_Start host)
   }"

text \<open>How the two servers of the process end: being closed is not an error.\<close>

definition startSSH :: "('w, unit res) state \<Rightarrow> ('w, unit res) state" where
  "startSSH listenAndServe = do {
     err \<leftarrow> listenAndServe;
     (case err of
        Inl e \<Rightarrow> if error_string e \<noteq> ''ssh: Server closed'' then ret (Inl e) else ret (Inr ())
      | Inr _ \<Rightarrow> ret (Inr ()))
   }"

definition ErrServerClosed :: err where "ErrServerClosed = OtherErr ''http: Server closed''"

definition startHTTP :: "('w, unit res) state \<Rightarrow> ('w, unit res) state" where
  "startHTTP listenAndServe = do {
     err \<leftarrow> listenAndServe;
     (case err of
        Inl e \<Rightarrow> if e \<noteq> ErrServerClosed then ret (Inl e) else ret (Inr ())
      | Inr _ \<Rightarrow> ret (Inr ()))
   }"

end
