(* ===== verification/Session_Server.thy ===== *)
theory Session_Server
  imports Session_Controller Session_Life Kube_Memory
begin

text \<open>
  The session controller against a lawful server: what one reconcile of an
  active and of a closed session does to the cluster, and that a closed session
  stays closed.
\<close>

declare split_paired_All [simp del] split_paired_Ex [simp del]

section \<open>The clock\<close>

text \<open>The reconciler's clock reads \<open>t\<close>, and reading it changes nothing.\<close>

definition clock_at :: "('w \<Rightarrow> cluster) \<Rightarrow> 'w SandboxSessionReconciler \<Rightarrow> Time \<Rightarrow> bool" where
  "clock_at view r t \<longleftrightarrow> (\<forall>v0. vtriple view (\<lambda>v. v = v0) (ssr_now r) (\<lambda>n v. v = v0 \<and> n = t))"

lemma clock_succeeds:
  assumes "clock_at view r t" "succeeds view (\<lambda>v. v = v0) (f t) q"
  shows "succeeds view (\<lambda>v. v = v0) (State_Monad.bind (ssr_now r) f) q"
  using assms unfolding clock_at_def succeeds_def
  by (auto intro!: vtriple_bind vtriple_pre)

lemma time_Sub_exact:
  assumes "u \<le> t" "d < maxDuration"
  shows "time_Sub t u \<le> d \<longleftrightarrow> t - u \<le> d" "time_Sub t u \<le> d \<Longrightarrow> time_Sub t u = t - u"
  using assms by (auto simp: time_Sub_def minDuration_def maxDuration_def)

section \<open>Active sessions\<close>

definition stale :: "Time \<Rightarrow> SandboxSession \<Rightarrow> bool" where
  "stale t s \<longleftrightarrow> lastSeen s \<noteq> zeroTime \<and> staleHeartbeatFactor * sessionInterval s < t - lastSeen s"

text \<open>A session after it was reaped.\<close>

definition reaped :: "SandboxSession \<Rightarrow> SandboxSession \<Rightarrow> bool" where
  "reaped s s' \<longleftrightarrow> ses_spec s' = ses_spec s \<and> user_meta (ses_meta s') = user_meta (ses_meta s) \<and>
     ses_status s' = (ses_status s)\<lparr>st_State := SessionStateClosed, st_EndTime := Some (lastSeen s),
       st_ExitReason := ExitReasonStaleHeartbeat\<rparr>"

lemma sessionInterval_pos: "0 < sessionInterval s"
  by (simp add: sessionInterval_def defaultHeartbeatInterval_def split: option.split)

lemma staleDeadline_exact:
  assumes "staleHeartbeatFactor * sessionInterval s < maxDuration"
  shows "staleDeadline s = staleHeartbeatFactor * sessionInterval s"
  unfolding staleDeadline_def
  by (rule wrap64_id) (use assms sessionInterval_pos [of s] in \<open>simp_all add: minDuration_def staleHeartbeatFactor_def\<close>)

text \<open>How long a fresh session is left alone.\<close>

definition freshFor :: "Time \<Rightarrow> SandboxSession \<Rightarrow> Duration" where
  "freshFor t s = (if lastSeen s = zeroTime then staleHeartbeatFactor * sessionInterval s
     else staleHeartbeatFactor * sessionInterval s - (t - lastSeen s))"

definition active_outcome :: "Time \<Rightarrow> NamespacedName \<Rightarrow> SandboxSession \<Rightarrow> Result \<Rightarrow> cluster \<Rightarrow> cluster \<Rightarrow> bool" where
  "active_outcome t req s res v v' \<longleftrightarrow>
     (if stale t s then \<exists>s'. reaped s s' \<and> v' = v\<lparr>cl_Sessions := (cl_Sessions v)(req \<mapsto> s')\<rparr>
      else v' = v \<and> RequeueAfter res = freshFor t s)"

context kube_server
begin

lemma closeStale_reaps:
  assumes "cl_Sessions v0 (key_of (ses_meta s)) = Some s"
  shows "succeeds view (\<lambda>v. v = v0) (do {
      err \<leftarrow> kc_StatusUpdate (k_Sessions c) (closeStale s);
      (case ignore IsNotFound err of Inl e \<Rightarrow> ret (Inl e) | Inr _ \<Rightarrow> ret (Inr noRequeue)) })
    (\<lambda>_ v. \<exists>s'. reaped s s' \<and> v = v0\<lparr>cl_Sessions := (cl_Sessions v0)(key_of (ses_meta s) \<mapsto> s')\<rparr>)"
  (is "succeeds view _ _ (\<lambda>_. ?q)")
  unfolding succeeds_def
proof (rule vtriple_bind)
  show "vtriple view (\<lambda>v. v = v0) (kc_StatusUpdate (k_Sessions c) (closeStale s))
      (\<lambda>r v. case r of Inl e \<Rightarrow> \<not> IsNotFound e | Inr _ \<Rightarrow> ?q v)"
  proof (rule sessions.status_update_rule, goal_cases)
    case (1 v x0 y)
    have key: "key_of (ses_meta (closeStale s)) = key_of (ses_meta s)" by (simp add: closeStale_def)
    have "cl_Sessions_update (\<lambda>m. m(k \<mapsto> y)) v0 = v0\<lparr>cl_Sessions := (cl_Sessions v0)(k \<mapsto> y)\<rparr>" for k
      by (cases v0) simp
    moreover have "reaped s y" using 1 assms unfolding key by (simp add: reaped_def closeStale_def)
    ultimately show ?case using 1(1) key by auto
  qed (use assms in \<open>auto simp: closeStale_def\<close>)
qed (auto intro!: vtriple_ret simp: ignore_def split: sum.splits)

lemma reconcileActive_outcome:
  assumes "ssr_Client r = c" "clock_at view r t" "cl_Sessions v0 (key_of (ses_meta s)) = Some s"
    "lastSeen s \<le> t" "staleHeartbeatFactor * sessionInterval s < maxDuration"
  shows "succeeds view (\<lambda>v. v = v0) (reconcileActive r s) (\<lambda>res v. active_outcome t (key_of (ses_meta s)) s res v0 v)"
proof (cases "lastSeen s = zeroTime")
  case True
  then show ?thesis
    by (auto simp: reconcileActive_def Let_def IsZero_def staleDeadline_exact [OF assms(5)] active_outcome_def stale_def freshFor_def
        intro!: succeeds_ret)
next
  case False
  have requeue: "wrap64 (d - e) = d - e" if "0 \<le> e" "e \<le> d" "d < maxDuration" for d e
    using that by (intro wrap64_id) (auto simp: minDuration_def)
  note sub = time_Sub_exact [OF assms(4,5)]
  show ?thesis
    unfolding reconcileActive_def Let_def IsZero_def option.case if_not_P [OF False] assms(1) staleDeadline_exact [OF assms(5)]
    by (rule clock_succeeds [OF assms(2)], rule succeeds_if)
      (auto simp: active_outcome_def stale_def freshFor_def False sub requeue assms(4,5)
        intro!: succeeds_ret succeeds_conseq [OF closeStale_reaps [OF assms(3)]])
qed

end

section \<open>Closed sessions\<close>

definition sandbox_of :: "SandboxSession \<Rightarrow> NamespacedName" where
  "sandbox_of s = (om_Namespace (ses_meta s), sx_SandboxName (ses_spec s))"

text \<open>The idle clock after a session ended at \<open>e\<close>: it only moves forward.\<close>

definition later :: "Time option \<Rightarrow> Time \<Rightarrow> Time" where
  "later old e = (case old of None \<Rightarrow> e | Some t \<Rightarrow> max t e)"

definition bumped :: "NamespacedName \<Rightarrow> Time \<Rightarrow> (NamespacedName \<rightharpoonup> Sandbox) \<Rightarrow> (NamespacedName \<rightharpoonup> Sandbox) \<Rightarrow> bool" where
  "bumped k e m m' \<longleftrightarrow> (\<forall>n. n \<noteq> k \<longrightarrow> m' n = m n) \<and>
     (case m k of
        None \<Rightarrow> m' k = None
      | Some sb \<Rightarrow> \<exists>sb'. m' k = Some sb' \<and> sb_spec sb' = sb_spec sb \<and> user_meta (sb_meta sb') = user_meta (sb_meta sb) \<and>
          sb_status sb' = (sb_status sb)\<lparr>ss_LastActivityTime := Some (later (ss_LastActivityTime (sb_status sb)) e)\<rparr>)"

definition closed_outcome :: "Time \<Rightarrow> NamespacedName \<Rightarrow> SandboxSession \<Rightarrow> Time \<Rightarrow> Result \<Rightarrow> cluster \<Rightarrow> cluster \<Rightarrow> bool" where
  "closed_outcome t req s e res v v' \<longleftrightarrow> (\<exists>sbs ss. v' = v\<lparr>cl_Sandboxes := sbs, cl_Sessions := ss\<rparr> \<and>
     bumped (sandbox_of s) e (cl_Sandboxes v) sbs \<and>
     (if closedSessionRetention \<le> t - e then retired ses_meta {req} (cl_Sessions v) ss
      else ss = cl_Sessions v \<and> RequeueAfter res = closedSessionRetention - (t - e)))"

lemma closed_outcome_old:
  "closedSessionRetention \<le> t - e \<Longrightarrow> bumped (sandbox_of s) e (cl_Sandboxes v) sbs \<Longrightarrow> retired ses_meta {req} (cl_Sessions v) ss \<Longrightarrow>
   closed_outcome t req s e res v (v\<lparr>cl_Sandboxes := sbs, cl_Sessions := ss\<rparr>)"
  by (auto simp: closed_outcome_def)

lemma closed_outcome_recent:
  "\<not> closedSessionRetention \<le> t - e \<Longrightarrow> bumped (sandbox_of s) e (cl_Sandboxes v) sbs \<Longrightarrow>
   RequeueAfter res = closedSessionRetention - (t - e) \<Longrightarrow> closed_outcome t req s e res v (v\<lparr>cl_Sandboxes := sbs\<rparr>)"
  by (auto simp: closed_outcome_def intro: exI [of _ "cl_Sessions v"])

lemma bind_ignore_ret:
  "State_Monad.bind m (\<lambda>d. case ignore P d of Inl e \<Rightarrow> ret (Inl e) | Inr x \<Rightarrow> g x) =
   State_Monad.bind (State_Monad.bind m (\<lambda>d. ret (ignore P d))) (\<lambda>r. case r of Inl e \<Rightarrow> ret (Inl e) | Inr x \<Rightarrow> g x)"
  by simp

lemma assign_Sandboxes_at:
  "cl_Sandboxes_update (\<lambda>m. m(k \<mapsto> y)) v = v\<lparr>cl_Sandboxes := (cl_Sandboxes v)(k \<mapsto> y)\<rparr>"
  by (cases v) simp

context kube_server
begin

lemma bump_patch:
  assumes "cl_Sandboxes v0 (sandbox_of s) = Some sb" "key_of (sb_meta sb) = sandbox_of s"
    "later (ss_LastActivityTime (sb_status sb)) e = e"
  shows "succeeds view (\<lambda>v. v = v0) (do {
      err \<leftarrow> kc_StatusPatch (k_Sandboxes c) (sb\<lparr>sb_status := (sb_status sb)\<lparr>ss_LastActivityTime := Some e\<rparr>\<rparr>) sb;
      ret (ignore IsNotFound err) })
    (\<lambda>_ v. \<exists>m. v = v0\<lparr>cl_Sandboxes := m\<rparr> \<and> bumped (sandbox_of s) e (cl_Sandboxes v0) m)"
proof (rule sandboxes.status_patch_rule, goal_cases)
  case (1 v y)
  then have "bumped (sandbox_of s) e (cl_Sandboxes v0) ((cl_Sandboxes v0)(sandbox_of s \<mapsto> y))"
    using assms by (auto simp: bumped_def)
  then show ?case using 1(1) assms(2) by (auto simp: assign_Sandboxes_at)
qed (use assms in simp)

lemma bumpSandboxActivity_bumps:
  assumes "ssr_Client r = c" "st_EndTime (ses_status s) = Some e"
  shows "succeeds view (\<lambda>v. v = v0) (bumpSandboxActivity r s)
    (\<lambda>_ v. \<exists>m. v = v0\<lparr>cl_Sandboxes := m\<rparr> \<and> bumped (sandbox_of s) e (cl_Sandboxes v0) m)"
  (is "succeeds view _ _ (\<lambda>_. ?q)")
  unfolding bumpSandboxActivity_def assms sandbox_of_def [symmetric]
proof (rule succeeds_case)
  let ?m0 = "cl_Sandboxes v0"
  show "vtriple view (\<lambda>v. v = v0) (kc_Get (k_Sandboxes c) (sandbox_of s)) (\<lambda>g v. v = v0 \<and>
      (case g of Inr x \<Rightarrow> ?m0 (sandbox_of s) = Some x \<and> key_of (sb_meta x) = sandbox_of s
       | Inl e \<Rightarrow> IsNotFound e \<longrightarrow> ?m0 (sandbox_of s) = None))"
    by (rule sandboxes.get_rule) auto
  have keep: "?q v0" if "bumped (sandbox_of s) e ?m0 ?m0" using that by (intro exI [of _ ?m0]) simp
  have absent: "?m0 (sandbox_of s) = None \<Longrightarrow> bumped (sandbox_of s) e ?m0 ?m0" by (simp add: bumped_def)
  show "succeeds view (\<lambda>v. v = v0 \<and> (case Inl err of Inr x \<Rightarrow> ?m0 (sandbox_of s) = Some x \<and> key_of (sb_meta x) = sandbox_of s
       | Inl e \<Rightarrow> IsNotFound e \<longrightarrow> ?m0 (sandbox_of s) = None)) (if IsNotFound err then ret (Inr ()) else ret (Inl err)) (\<lambda>_. ?q)" for err
    by (rule succeeds_pre) (use keep absent in \<open>auto intro: succeeds_ret succeeds_err\<close>)
  fix sb
  have "bumped (sandbox_of s) e ?m0 ?m0" if "?m0 (sandbox_of s) = Some sb" "ss_LastActivityTime (sb_status sb) = Some a" "\<not> a < e" for a
    using that by (auto simp: bumped_def later_def intro!: exI [of _ sb])
  then show "succeeds view (\<lambda>v. v = v0 \<and> (case Inr sb of Inr x \<Rightarrow> ?m0 (sandbox_of s) = Some x \<and> key_of (sb_meta x) = sandbox_of s
       | Inl e \<Rightarrow> IsNotFound e \<longrightarrow> ?m0 (sandbox_of s) = None))
      (case (ss_LastActivityTime (sb_status sb), Some e) of
         (Some _, None) \<Rightarrow> ret (Inl (OtherErr ''nil pointer dereference''))
       | (Some activity, Some endTime) \<Rightarrow>
           if \<not> activity < endTime then ret (Inr ())
           else do {
             err \<leftarrow> kc_StatusPatch (k_Sandboxes c) (sb\<lparr>sb_status := (sb_status sb)\<lparr>ss_LastActivityTime := Some endTime\<rparr>\<rparr>) sb;
             ret (ignore IsNotFound err)
           }
       | (None, endTime) \<Rightarrow> do {
           err \<leftarrow> kc_StatusPatch (k_Sandboxes c) (sb\<lparr>sb_status := (sb_status sb)\<lparr>ss_LastActivityTime := endTime\<rparr>\<rparr>) sb;
           ret (ignore IsNotFound err)
         }) (\<lambda>_. ?q)"
    by (intro succeeds_pre) (use keep bump_patch [of v0 s sb e] in \<open>auto intro!: succeeds_ret simp: later_def split: option.splits\<close>)
qed

lemma reconcileClosed_outcome:
  assumes "ssr_Client r = c" "clock_at view r t" "st_EndTime (ses_status s) = Some e" "e \<le> t"
  shows "succeeds view (\<lambda>v. v = v0) (reconcileClosed r s) (\<lambda>res v. closed_outcome t (key_of (ses_meta s)) s e res v0 v)"
proof -
  have ret: "closedSessionRetention \<le> maxDuration" "closedSessionRetention - 1 < maxDuration" "0 \<le> closedSessionRetention"
    by (simp_all add: closedSessionRetention_def maxDuration_def)
  have age: "closedSessionRetention \<le> time_Sub t e \<longleftrightarrow> closedSessionRetention \<le> t - e"
    "\<not> closedSessionRetention \<le> t - e \<Longrightarrow> wrap64 (closedSessionRetention - time_Sub t e) = closedSessionRetention - (t - e)"
    using time_Sub_exact [OF assms(4) ret(2)] assms(4) ret by (auto intro!: wrap64_id simp: minDuration_def)
  have old: "succeeds view (\<lambda>v. v = v1) (do {
      err \<leftarrow> kc_Delete (k_Sessions c) (key_of (ses_meta s));
      (case ignore IsNotFound err of Inl e \<Rightarrow> ret (Inl e) | Inr _ \<Rightarrow> ret (Inr noRequeue)) })
    (\<lambda>_ v. \<exists>ss. v = v1\<lparr>cl_Sessions := ss\<rparr> \<and> retired ses_meta {key_of (ses_meta s)} (cl_Sessions v1) ss)" for v1
    unfolding bind_ignore_ret by (rule succeeds_then [OF sessions.delete_one]) (auto intro: succeeds_ret)
  have step: "succeeds view (\<lambda>v. v = v0\<lparr>cl_Sandboxes := m\<rparr>) (do {
        now \<leftarrow> ssr_now r;
        let age = time_Sub now e;
        if age \<ge> closedSessionRetention then do {
          err \<leftarrow> kc_Delete (k_Sessions c) (key_of (ses_meta s));
          (case ignore IsNotFound err of Inl e \<Rightarrow> ret (Inl e) | Inr _ \<Rightarrow> ret (Inr noRequeue)) }
        else ret (Inr \<lparr>RequeueAfter = wrap64 (closedSessionRetention - age)\<rparr>) })
      (\<lambda>res v. closed_outcome t (key_of (ses_meta s)) s e res v0 v)"
    if m: "bumped (sandbox_of s) e (cl_Sandboxes v0) m" for m
    by (rule clock_succeeds [OF assms(2)], unfold Let_def, rule succeeds_if)
      (auto simp: age intro!: succeeds_ret succeeds_conseq [OF old] closed_outcome_old closed_outcome_recent m)
  show ?thesis
    unfolding reconcileClosed_def assms(1,3) option.case
    by (rule succeeds_then [OF bumpSandboxActivity_bumps [OF assms(1,3)]], intro succeeds_ex succeeds_pre step)
qed

lemma reconcileSession_reads:
  assumes "ssr_Client r = c" "cl_Sessions v0 req = Some s" "key_of (ses_meta s) = req \<Longrightarrow> succeeds view (\<lambda>v. v = v0)
    (case st_State (ses_status s) of SessionStateActive \<Rightarrow> reconcileActive r s | SessionStateClosed \<Rightarrow> reconcileClosed r s
     | _ \<Rightarrow> ret (Inr noRequeue)) q"
  shows "succeeds view (\<lambda>v. v = v0) (reconcileSession r req) q"
  unfolding reconcileSession_def assms(1)
proof (rule succeeds_case)
  show "vtriple view (\<lambda>v. v = v0) (kc_Get (k_Sessions c) req) (\<lambda>g v. v = v0 \<and>
      (case g of Inl e \<Rightarrow> \<not> IsNotFound e | Inr x \<Rightarrow> x = s \<and> key_of (ses_meta s) = req))"
    by (rule sessions.get_rule) (use assms(2) in auto)
qed (rule succeeds_pre; use assms(3) in \<open>auto simp: ignore_def intro: succeeds_err\<close>)+

text \<open>In every outcome the session controller follows the session machine.\<close>

lemma status_update_evolves:
  assumes "m (key_of (ses_meta s)) = Some s0" "life_path (life_of_status (ses_status s0)) (life_of_status (ses_status s))"
  shows "vtriple view (\<lambda>v. cl_Sessions v = m) (kc_StatusUpdate (k_Sessions c) s) (\<lambda>_ v. sessions_evolve m (cl_Sessions v))"
  by (rule sessions.status_update_rule) (use assms in \<open>auto intro!: sessions_evolve_upd\<close>)

lemma delete_evolves:
  assumes "m n = Some s" "st_State (ses_status s) = SessionStateClosed"
  shows "vtriple view (\<lambda>v. cl_Sessions v = m) (kc_Delete (k_Sessions c) n) (\<lambda>_ v. sessions_evolve m (cl_Sessions v))"
proof (rule vtriple_frozen [OF sessions.delete], goal_cases)
  case (1 v1 r v)
  have "life_path (life_of (Some s)) Missing" using assms(2) by (auto simp: life_of_status_def intro: life_step.expire)
  then show ?case
    using 1 assms(1) by (auto simp: same_def split: sum.splits intro!: sessions_evolve_upd)
qed

lemma reconcileActive_evolves:
  assumes "ssr_Client r = c" "quiet view (ssr_now r)" "m (key_of (ses_meta s)) = Some s"
    "st_State (ses_status s) = SessionStateActive"
  shows "vtriple view (\<lambda>v. cl_Sessions v = m) (reconcileActive r s) (\<lambda>_ v. sessions_evolve m (cl_Sessions v))"
proof -
  have "life_path (life_of_status (ses_status s)) (life_of_status (ses_status (closeStale s)))"
    using assms(4) by (auto simp: life_of_status_def closeStale_def intro: life_step.close)
  then have "vtriple view (\<lambda>v. cl_Sessions v = m) (kc_StatusUpdate (k_Sessions c) (closeStale s))
      (\<lambda>_ v. sessions_evolve m (cl_Sessions v))"
    using assms(3) by (intro status_update_evolves) (auto simp: closeStale_def)
  then show ?thesis
    unfolding reconcileActive_def Let_def assms(1)
    by (auto intro!: vtriple_if vtriple_ret vtriple_bind [OF quiet_keeps [OF assms(2)]] elim!: vtriple_bind split: sum.split)
qed

lemma bumpSandboxActivity_sessions:
  assumes "ssr_Client r = c"
  shows "vtriple view (\<lambda>v. cl_Sessions v = m) (bumpSandboxActivity r s) (\<lambda>_ v. cl_Sessions v = m)"
  unfolding bumpSandboxActivity_def assms
  by (auto intro!: vtriple_bind [OF sandboxes.frame(1)] vtriple_bind [OF sandboxes.frame(8)] vtriple_ret split: sum.split option.split)

lemma reconcileClosed_evolves:
  assumes "ssr_Client r = c" "quiet view (ssr_now r)" "m (key_of (ses_meta s)) = Some s"
    "st_State (ses_status s) = SessionStateClosed"
  shows "vtriple view (\<lambda>v. cl_Sessions v = m) (reconcileClosed r s) (\<lambda>_ v. sessions_evolve m (cl_Sessions v))"
  unfolding reconcileClosed_def Let_def assms(1)
  by (auto intro!: vtriple_if vtriple_ret vtriple_bind [OF bumpSandboxActivity_sessions [OF assms(1)]]
      vtriple_bind [OF quiet_keeps [OF assms(2)]] vtriple_bind [OF delete_evolves [of m, OF assms(3,4)]] split: sum.split option.split)

lemma reconcileSession_evolves:
  assumes "ssr_Client r = c" "quiet view (ssr_now r)"
  shows "evolves view (reconcileSession r req)"
  unfolding evolves_def reconcileSession_def assms(1)
proof
  fix v0 :: cluster
  let ?m = "cl_Sessions v0"
  have get: "vtriple view (\<lambda>v. v = v0) (kc_Get (k_Sessions c) req) (\<lambda>g v. cl_Sessions v = ?m \<and>
      (case g of Inl e \<Rightarrow> True | Inr s \<Rightarrow> ?m (key_of (ses_meta s)) = Some s))"
    by (rule sessions.get_rule) auto
  show "vtriple view (\<lambda>v. v = v0) (do {
       got \<leftarrow> kc_Get (k_Sessions c) req;
       (case got of
          Inl e \<Rightarrow> (case ignore IsNotFound (Inl e :: unit res) of Inl e' \<Rightarrow> ret (Inl e') | Inr _ \<Rightarrow> ret (Inr noRequeue))
        | Inr session \<Rightarrow>
            (case st_State (ses_status session) of
               SessionStateActive \<Rightarrow> reconcileActive r session
             | SessionStateClosed \<Rightarrow> reconcileClosed r session
             | _ \<Rightarrow> ret (Inr noRequeue))) }) (\<lambda>_ v. sessions_evolve ?m (cl_Sessions v))"
    by (rule vtriple_bind [OF get], rule vtriple_pre)
      (auto intro!: vtriple_ret reconcileActive_evolves reconcileClosed_evolves assms simp: ignore_def
        split: sum.splits SessionState.splits)
qed

end

section \<open>Properties\<close>

text \<open>
  C21. Stale sessions are reaped and live ones are not: reconciling an active
  session whose three heartbeat intervals fit a duration closes it, with its last
  sign of life as end time and the stale reason, exactly when more than three
  intervals have passed since then; otherwise the cluster is unchanged and the
  session is looked at again when they have.
\<close>

theorem active_session_reaped_iff:
  assumes "kube_server view (ssr_Client r)" "clock_at view r t" "cl_Sessions (view w) req = Some s"
    "st_State (ses_status s) = SessionStateActive" "lastSeen s \<le> t" "staleHeartbeatFactor * sessionInterval s < maxDuration"
    "run_state (reconcileSession r req) w = (Inr res, w')"
  shows "if stale t s then \<exists>s'. reaped s s' \<and> view w' = (view w)\<lparr>cl_Sessions := (cl_Sessions (view w))(req \<mapsto> s')\<rparr>
    else view w' = view w \<and> RequeueAfter res = freshFor t s"
proof -
  have "succeeds view (\<lambda>v. v = view w) (reconcileSession r req) (\<lambda>res v. active_outcome t req s res (view w) v)"
    by (rule kube_server.reconcileSession_reads [OF assms(1) refl assms(3)])
      (use kube_server.reconcileActive_outcome [OF assms(1) refl assms(2) _ assms(5,6)] assms(3,4) in auto)
  from succeedsD [OF this assms(7) refl] show ?thesis by (simp add: active_outcome_def)
qed

text \<open>A reconciler on the in-memory server and sessions of the sample sandbox.\<close>

definition sampleSessionReconciler :: "memory SandboxSessionReconciler" where
  "sampleSessionReconciler = \<lparr>ssr_Client = memKube, ssr_Now = None\<rparr>"

lemma sampleSession_clock: "clock_at memView (sampleSessionReconciler\<lparr>ssr_Now := Some (ret t)\<rparr>) t"
  by (simp add: clock_at_def ssr_now_def vtriple_ret)

lemma sampleSession_stored: "cl_Sessions (memView sampleMemory) (''team'', ''dev-1'') = Some sampleSession"
  by (simp add: memView_def sampleMemory_def lookup_def key_of_def sample_defs)

lemma sampleSession_simps:
  "st_State (ses_status sampleSession) = SessionStateActive" "lastSeen sampleSession = 2000 * Second"
  "sessionInterval sampleSession = Minute"
  by (simp_all add: sampleSession_def lastSeen_def sessionInterval_def)

theorem active_session_reaped_iff_witness:
  "\<exists>s'. reaped sampleSession s' \<and>
     memView (snd (run_state (reconcileSession (sampleSessionReconciler\<lparr>ssr_Now := Some (ret (5000 * Second))\<rparr>) (''team'', ''dev-1'')) sampleMemory)) =
       (memView sampleMemory)\<lparr>cl_Sessions := (cl_Sessions (memView sampleMemory))((''team'', ''dev-1'') \<mapsto> s')\<rparr>"
proof -
  let ?r = "sampleSessionReconciler\<lparr>ssr_Now := Some (ret (5000 * Second))\<rparr>"
  have "is_ok (fst (run_state (reconcileSession ?r (''team'', ''dev-1'')) sampleMemory))" by code_simp
  then obtain res w' where run: "run_state (reconcileSession ?r (''team'', ''dev-1'')) sampleMemory = (Inr res, w')"
    by (auto dest!: result_split)
  have "stale (5000 * Second) sampleSession"
    by (simp add: stale_def sampleSession_simps staleHeartbeatFactor_def zeroTime_def)
  then show ?thesis
    unfolding run snd_conv
    using active_session_reaped_iff [OF _ sampleSession_clock sampleSession_stored _ _ _ run]
    by (auto simp: sampleSessionReconciler_def memKube.kube_server_axioms sampleSession_simps staleHeartbeatFactor_def
        maxDuration_def)
qed

text \<open>
  C23. A closed session moves its sandbox's idle clock to its end time, never
  backwards, and changes nothing else of any sandbox; it is deleted once seven
  days have passed since it ended, and until then it is left alone and looked at
  again at exactly that time.
\<close>

theorem closed_session_collected:
  assumes "kube_server view (ssr_Client r)" "clock_at view r t" "cl_Sessions (view w) req = Some s"
    "st_State (ses_status s) = SessionStateClosed" "st_EndTime (ses_status s) = Some e" "e \<le> t"
    "run_state (reconcileSession r req) w = (Inr res, w')"
  shows "closed_outcome t req s e res (view w) (view w')"
proof -
  have "succeeds view (\<lambda>v. v = view w) (reconcileSession r req) (\<lambda>res v. closed_outcome t req s e res (view w) v)"
    by (rule kube_server.reconcileSession_reads [OF assms(1) refl assms(3)])
      (use kube_server.reconcileClosed_outcome [OF assms(1) refl assms(2,5,6)] assms(4) in auto)
  from succeedsD [OF this assms(7) refl] show ?thesis .
qed

definition endedSession :: SandboxSession where
  "endedSession = sampleSession\<lparr>ses_status := (ses_status sampleSession)\<lparr>
     st_State := SessionStateClosed, st_EndTime := Some (4000 * Second), st_ExitReason := ExitReasonDisconnected\<rparr>\<rparr>"

definition endedMemory :: memory where
  "endedMemory = sampleMemory\<lparr>mem_Sessions := [endedSession]\<rparr>"

theorem closed_session_collected_witness:
  "\<exists>sb. cl_Sandboxes (memView (snd (run_state (reconcileSession (sampleSessionReconciler\<lparr>ssr_Now := Some (ret (5000 * Second))\<rparr>)
       (''team'', ''dev-1'')) endedMemory))) (''team'', ''dev'') = Some sb \<and>
     ss_LastActivityTime (sb_status sb) = Some (4000 * Second)"
proof -
  let ?r = "sampleSessionReconciler\<lparr>ssr_Now := Some (ret (5000 * Second))\<rparr>"
  have "is_ok (fst (run_state (reconcileSession ?r (''team'', ''dev-1'')) endedMemory))" by code_simp
  then obtain res w' where run: "run_state (reconcileSession ?r (''team'', ''dev-1'')) endedMemory = (Inr res, w')"
    by (auto dest!: result_split)
  have stored: "cl_Sessions (memView endedMemory) (''team'', ''dev-1'') = Some endedSession"
    "cl_Sandboxes (memView endedMemory) (''team'', ''dev'') = Some sampleSandbox"
    by (simp_all add: memView_def endedMemory_def sampleMemory_def endedSession_def lookup_def key_of_def sample_defs)
  have "sandbox_of endedSession = (''team'', ''dev'')" "ss_LastActivityTime (sb_status sampleSandbox) = None"
    by (simp_all add: sandbox_of_def endedSession_def sample_defs)
  moreover have "closed_outcome (5000 * Second) (''team'', ''dev-1'') endedSession (4000 * Second) res (memView endedMemory) (memView w')"
    by (rule closed_session_collected [OF _ sampleSession_clock stored(1) _ _ _ run])
      (simp_all add: sampleSessionReconciler_def memKube.kube_server_axioms endedSession_def)
  ultimately show ?thesis
    unfolding run snd_conv using stored(2) by (auto simp: closed_outcome_def bumped_def later_def)
qed

end
