(* ===== verification/Gateway_Server.thy ===== *)
theory Gateway_Server
  imports Gateway_Ssh Session_Server
begin

text \<open>
  The SSH gateway against a lawful store: who is let through to which sandbox,
  that waking a sandbox always ends, and that the session record of a connection
  outlives its heartbeats.
\<close>

declare split_paired_All [simp del] split_paired_Ex [simp del]

section \<open>Authorization\<close>

context session_store
begin

lemma authorize_checks:
  assumes "jh_Store h = st"
  shows "vtriple view (\<lambda>v. v = v0) (authorize h t p) (\<lambda>r v. v = v0 \<and> (case r of
      Inl _ \<Rightarrow> True
    | Inr sb \<Rightarrow> p \<noteq> [] \<and> cl_Sandboxes v0 (sst_Namespace t, sst_Sandbox t) = Some sb \<and>
        key_of (sb_meta sb) = (sst_Namespace t, sst_Sandbox t) \<and> own_Name (sp_Owner (sb_spec sb)) = p))"
  unfolding authorize_def assms
  by (rule vtriple_if, rule vtriple_ret, simp, rule vtriple_bind [OF get_sandbox])
    (auto intro!: vtriple_ret split: sum.split)

lemma denied:
  assumes "jh_Store h = st" "\<not> (\<exists>sb. cl_Sandboxes (view w) (sst_Namespace t, sst_Sandbox t) = Some sb \<and> own_Name (sp_Owner (sb_spec sb)) = p) \<or> p = []"
  shows "\<exists>e w'. run_state (authorize h t p) w = (Inl e, w') \<and> view w' = view w"
proof -
  obtain r w' where run: "run_state (authorize h t p) w = (r, w')" by fastforce
  from vtripleD [OF authorize_checks [OF assms(1)] run refl] show ?thesis
    using assms(2) run by (cases r) auto
qed

end

lemma handle_denied:
  assumes "rt_Unmarshal rt (nc_ExtraData ch) = Inr payload" "ParseSSHTarget (lf_DestAddr payload) (jh_DefaultNamespace h) = Inr t"
    "run_state (authorize h t (case ctx_Principal ctx of None \<Rightarrow> [] | Some p \<Rightarrow> p)) w = (Inl e, w')"
  shows "run_state (handleDirectTCPIP fuel rt h ch ctx) w =
    run_state (do { u \<leftarrow> nc_Reject ch Prohibited ''not authorized for this sandbox''; ret (Some ()) }) w'"
  using assms by (simp add: handleDirectTCPIP_def Let_def)

section \<open>Waking a sandbox\<close>

text \<open>Time passes: the clock never runs backwards and a wait of \<open>d\<close> takes at least \<open>d\<close>.\<close>

definition steady :: "('w \<Rightarrow> Time) \<Rightarrow> ('w, 'conn, 'chan) ssh_runtime \<Rightarrow> ('w, 'conn) jumpHandler \<Rightarrow> bool" where
  "steady clk rt h \<longleftrightarrow>
     (\<forall>w t w'. run_state (jh_Now h) w = (t, w') \<longrightarrow> clk w \<le> t \<and> t \<le> clk w') \<and>
     (\<forall>d w w'. run_state (rt_Wait rt d) w = (Inr (), w') \<longrightarrow> clk w + d \<le> clk w') \<and>
     (\<forall>ns n w r w'. run_state (sto_GetSandbox (jh_Store h) ns n) w = (r, w') \<longrightarrow> clk w \<le> clk w')"

lemma wakeLoop_ends:
  assumes "steady clk rt h" "deadline < clk w + int n * wakePollInterval"
  shows "fst (run_state (wakeLoop (Suc n) rt h sb deadline) w) \<noteq> None"
  using assms(2)
proof (induction n arbitrary: w)
  case 0
  obtain f w1 where get: "run_state (sto_GetSandbox (jh_Store h) (sb_Namespace sb) (sb_Name sb)) w = (f, w1)" by fastforce
  obtain t w2 where now: "run_state (jh_Now h) w1 = (t, w2)" by fastforce
  have "deadline < t" using 0 assms(1) get now unfolding steady_def by fastforce
  then show ?case using get now by simp
next
  case (Suc n)
  obtain f w1 where get: "run_state (sto_GetSandbox (jh_Store h) (sb_Namespace sb) (sb_Name sb)) w = (f, w1)" by fastforce
  obtain t w2 where now: "run_state (jh_Now h) w1 = (t, w2)" by fastforce
  obtain r w3 where wait: "run_state (rt_Wait rt wakePollInterval) w2 = (r, w3)" by fastforce
  show ?case
  proof (cases r)
    case (Inr u)
    have "clk w + wakePollInterval \<le> clk w3"
      using assms(1) get now wait Inr unfolding steady_def by fastforce
    then have "deadline < clk w3 + int n * wakePollInterval" using Suc.prems by (simp add: algebra_simps)
    from Suc.IH [OF this] show ?thesis using get now wait Inr by simp
  qed (use get now wait in simp)
qed

definition wakeFuel :: "('w, 'conn) jumpHandler \<Rightarrow> nat" where
  "wakeFuel h = nat (jh_WakeTimeout h div wakePollInterval) + 2"

lemma wakeLoop_more:
  "fst (run_state (wakeLoop n rt h sb deadline) w) \<noteq> None \<Longrightarrow> n \<le> m \<Longrightarrow>
   run_state (wakeLoop m rt h sb deadline) w = run_state (wakeLoop n rt h sb deadline) w"
proof (induction n arbitrary: m w)
  case (Suc n)
  then obtain k where m: "m = Suc k" "n \<le> k" by (cases m) auto
  show ?case
    using Suc.prems(1) Suc.IH [OF _ m(2)] unfolding m(1) by (auto split: prod.splits sum.splits if_splits)
qed simp

lemma wakeAndWait_ends:
  assumes "steady clk rt h" "wakeFuel h \<le> fuel"
  shows "fst (run_state (wakeAndWait fuel rt h sb) w) \<noteq> None"
proof -
  define n where "n = nat (jh_WakeTimeout h div wakePollInterval) + 1"
  have pos: "0 < wakePollInterval" by (simp add: wakePollInterval_def)
  have n: "jh_WakeTimeout h < int n * wakePollInterval"
  proof -
    have "jh_WakeTimeout h < (jh_WakeTimeout h div wakePollInterval + 1) * wakePollInterval"
      by (simp add: wakePollInterval_def)
    also have "\<dots> \<le> int n * wakePollInterval" using pos by (simp add: n_def)
    finally show ?thesis .
  qed
  have loop: "fst (run_state (wakeLoop fuel rt h x (t + jh_WakeTimeout h)) w') \<noteq> None"
    if "run_state (jh_Now h) w0 = (t, w')" for x t w0 w'
  proof -
    have "t \<le> clk w'" using assms(1) that unfolding steady_def by fastforce
    then have ends: "fst (run_state (wakeLoop (Suc n) rt h x (t + jh_WakeTimeout h)) w') \<noteq> None"
      using n by (intro wakeLoop_ends [OF assms(1)]) simp
    have "Suc n \<le> fuel" using assms(2) by (simp add: wakeFuel_def n_def)
    with wakeLoop_more [OF ends] ends show ?thesis by simp
  qed
  then show ?thesis
    by (auto simp: wakeAndWait_def split: prod.splits sum.splits)
qed

lemma serveChannel_ends:
  assumes "steady clk rt h" "wakeFuel h \<le> fuel"
  shows "fst (run_state (serveChannel fuel rt h ch sb) w) = Some ()"
  using wakeAndWait_ends [OF assms, of sb w]
  by (auto simp: serveChannel_def split: prod.splits option.splits sum.splits)

lemma handle_ends:
  assumes "steady clk rt h" "wakeFuel h \<le> fuel"
  shows "fst (run_state (handleDirectTCPIP fuel rt h ch ctx) w) = Some ()"
proof -
  have serve: "\<And>sb w r w'. run_state (serveChannel fuel rt h ch sb) w = (r, w') \<Longrightarrow> r = Some ()"
    using serveChannel_ends [OF assms] by (metis fst_conv)
  show ?thesis
    by (auto simp: handleDirectTCPIP_def Let_def split: prod.splits option.splits sum.splits dest!: serve)
qed

text \<open>What waking a sandbox returns: the stored sandbox of that name, with an address.\<close>

context session_store
begin

lemma wakeLoop_ready:
  assumes "jh_Store h = st"
  shows "vtriple view p (wakeLoop fuel rt h sb deadline) (\<lambda>r v. case r of Some (Inr f) \<Rightarrow>
      ss_PodIP (sb_status f) \<noteq> [] \<and> cl_Sandboxes v (key_of (sb_meta sb)) = Some f | _ \<Rightarrow> True)"
proof (induction fuel arbitrary: p)
  case (Suc fuel)
  have k: "key_of (sb_meta sb) = (sb_Namespace sb, sb_Name sb)" by (simp add: key_of_def)
  have get: "vtriple view p (sto_GetSandbox st (sb_Namespace sb) (sb_Name sb)) (\<lambda>r v. case r of Inl _ \<Rightarrow> True | Inr f \<Rightarrow>
      cl_Sandboxes v (sb_Namespace sb, sb_Name sb) = Some f)"
    by (rule vtriple_frozen [OF get_sandbox]) (auto split: sum.splits)
  have any: "vtriple view q (jh_Now h) (\<lambda>_ _. True)" "vtriple view q (rt_Wait rt d) (\<lambda>_ _. True)" for q d
    by (simp_all add: vtriple_def triple_def)
  show ?case
    unfolding wakeLoop.simps assms k
    by (rule vtriple_bind [OF get], rule vtriple_if, rule vtriple_ret, simp split: sum.splits,
        rule vtriple_bind [OF any(1)], rule vtriple_if, rule vtriple_ret, simp, rule vtriple_bind [OF any(2)])
      (use Suc.IH [unfolded k] in \<open>auto intro!: vtriple_ret split: sum.split\<close>)
qed (simp add: vtriple_ret)

lemma wakeAndWait_ready:
  assumes "jh_Store h = st"
  shows "vtriple view (\<lambda>v. cl_Sandboxes v (key_of (sb_meta sb)) = Some sb) (wakeAndWait fuel rt h sb) (\<lambda>r v. case r of Some (Inr f) \<Rightarrow>
      ss_PodIP (sb_status f) \<noteq> [] \<and> cl_Sandboxes v (key_of (sb_meta sb)) = Some f | _ \<Rightarrow> True)"
proof -
  have any: "vtriple view q (jh_Now h) (\<lambda>_ _. True)" for q by (simp add: vtriple_def triple_def)
  have set: "vtriple view p (sto_SetDesiredRunning st sb) (\<lambda>r v. True \<and> key_of (sb_meta (snd r)) = key_of (sb_meta sb))" for p
    by (rule vtriple_frozen [OF set_running]) simp
  show ?thesis
    unfolding wakeAndWait_def assms
  proof (rule vtriple_if, rule vtriple_ret, simp, rule vtriple_bind [OF set], rule vtriple_pre, goal_cases)
    case (1 a)
    show ?case
      by (cases "fst a") (auto intro!: vtriple_ret vtriple_bind [OF any] wakeLoop_ready [OF assms, where sb = "snd a", unfolded 1(2)])
  qed
qed

end

section \<open>Sessions\<close>

lemma heartbeatInterval_eq: "heartbeatInterval d = max (60 * Second) (quot64 d 4)"
  by (auto simp: heartbeatInterval_def Let_def)

lemma heartbeatInterval_range:
  assumes "d \<le> maxDuration"
  shows "60 * Second \<le> heartbeatInterval d" "staleHeartbeatFactor * heartbeatInterval d < maxDuration"
proof -
  have "quot64 d 4 \<le> 2 ^ 61"
    using assms by (cases "d \<ge> 0") (auto simp: quot64_def maxDuration_def sgn_if)
  then show "60 * Second \<le> heartbeatInterval d" "staleHeartbeatFactor * heartbeatInterval d < maxDuration"
    by (auto simp: heartbeatInterval_eq staleHeartbeatFactor_def maxDuration_def)
qed

lemma newSession_simps [simp]:
  "key_of (ses_meta (newSession sb name p a ser)) = (sb_Namespace sb, name)"
  "sx_HeartbeatInterval (ses_spec (newSession sb name p a ser)) = Some (heartbeatInterval (gw_effectiveIdleTimeout sb))"
  by (simp_all add: newSession_def key_of_def)

lemma recorded_session:
  assumes "records (newSession sb name p a ser) t s" "gw_effectiveIdleTimeout sb \<le> maxDuration"
  shows "lastSeen s = t" "sessionInterval s = heartbeatInterval (gw_effectiveIdleTimeout sb)"
    "staleHeartbeatFactor * sessionInterval s < maxDuration" "staleDeadline s = staleHeartbeatFactor * heartbeatInterval (gw_effectiveIdleTimeout sb)"
proof -
  show "lastSeen s = t" using assms(1) by (simp add: records_def lastSeen_def)
  show i: "sessionInterval s = heartbeatInterval (gw_effectiveIdleTimeout sb)"
    using assms(1) heartbeatInterval_range(1) [OF assms(2)] by (simp add: records_def sessionInterval_def)
  then show small: "staleHeartbeatFactor * sessionInterval s < maxDuration" using heartbeatInterval_range(2) [OF assms(2)] by simp
  show "staleDeadline s = staleHeartbeatFactor * heartbeatInterval (gw_effectiveIdleTimeout sb)"
    using staleDeadline_exact [OF small] i by simp
qed

context session_store
begin

lemma openSession_records:
  assumes "jh_Store h = st" "\<And>n. quiet view (rt_Read rt n)"
  shows "vtriple view (\<lambda>v. v = v0) (openSession rt h sb p a ser) (\<lambda>r v. case snd r of
      None \<Rightarrow> \<exists>m. v = v0\<lparr>cl_Sessions := m\<rparr>
    | Some k \<Rightarrow> cr_Namespace k = sb_Namespace sb \<and> cr_Name k = fst r \<and> (\<exists>s t. records (newSession sb (fst r) p a ser) t s \<and>
        v = v0\<lparr>cl_Sessions := (cl_Sessions v0)((sb_Namespace sb, fst r) \<mapsto> s)\<rparr>))"
proof -
  have sfx: "vtriple view (\<lambda>v. v = v0) (randomSuffix rt) (\<lambda>_ v. v = v0)"
    unfolding randomSuffix_def by (rule vtriple_bind [OF quiet_keeps [OF assms(2)]]) (rule vtriple_ret)
  have create: "vtriple view (\<lambda>v. v = v0) (sto_CreateSession st session) (\<lambda>r v. (\<exists>m. v = v0\<lparr>cl_Sessions := m\<rparr>) \<and>
      (case r of Inl _ \<Rightarrow> True | Inr _ \<Rightarrow> \<exists>s t. records session t s \<and> cl_Sessions v0 (key_of (ses_meta session)) = None \<and>
        v = v0\<lparr>cl_Sessions := (cl_Sessions v0)(key_of (ses_meta session) \<mapsto> s)\<rparr>))" for session
    by (rule vtriple_conj [OF create_session_frame create_session [unfolded succeeds_def]])
  show ?thesis
    unfolding openSession_def Let_def assms(1)
  proof (rule vtriple_bind [OF sfx], rule vtriple_bind [OF create], goal_cases)
    case (1 x b)
    show ?case
    proof (cases b)
      case (Inr u)
      show ?thesis unfolding Inr sum.case by (rule vtriple_ret) (simp, blast)
    qed (simp add: vtriple_ret)
  qed
qed

end

section \<open>Properties\<close>

text \<open>
  C27. Only the owner gets through.  A connection to a sandbox that does not
  exist or whose owner is not the principal of the connection (a connection
  without principal has none) is rejected as prohibited before anything else
  happens: the cluster is unchanged, no session is recorded, nothing is woken,
  dialled or accepted, and the rejection is all that is left of the handler.
\<close>

theorem ssh_rejects_non_owner:
  assumes "kube_server view c" "jh_Store h = NewStore c"
    "rt_Unmarshal rt (nc_ExtraData ch) = Inr payload" "ParseSSHTarget (lf_DestAddr payload) (jh_DefaultNamespace h) = Inr t"
    "\<forall>sb. cl_Sandboxes (view w) (sst_Namespace t, sst_Sandbox t) = Some sb \<longrightarrow>
      ctx_Principal ctx \<noteq> Some (own_Name (sp_Owner (sb_spec sb))) \<or> own_Name (sp_Owner (sb_spec sb)) = []"
  shows "\<exists>w'. view w' = view w \<and> run_state (handleDirectTCPIP fuel rt h ch ctx) w =
    run_state (do { u \<leftarrow> nc_Reject ch Prohibited ''not authorized for this sandbox''; ret (Some ()) }) w'"
proof -
  let ?p = "case ctx_Principal ctx of None \<Rightarrow> [] | Some p \<Rightarrow> p"
  have "\<exists>e w'. run_state (authorize h t ?p) w = (Inl e, w') \<and> view w' = view w"
    by (rule session_store.denied [OF kube_server.store_laws [OF assms(1)] assms(2)]) (use assms(5) in \<open>auto split: option.splits\<close>)
  then obtain e w' where "run_state (authorize h t ?p) w = (Inl e, w')" "view w' = view w" by auto
  then show ?thesis using handle_denied [OF assms(3,4)] by (intro exI [of _ w']) simp
qed

text \<open>A runtime on the in-memory server, where waiting moves the clock.\<close>

definition sampleRuntime :: "(memory, unit, unit) ssh_runtime" where
  "sampleRuntime = \<lparr>
     rt_Unmarshal = (\<lambda>b. Inr \<lparr>lf_DestAddr = b, lf_DestPort = 22, lf_OriginAddr = [], lf_OriginPort = 0\<rparr>),
     rt_Wait = (\<lambda>d. State (\<lambda>s. (Inr (), s\<lparr>mem_Clock := mem_Clock s + d\<rparr>))),
     rt_Read = (\<lambda>n. ret (Inr (replicate n CHR ''r''))),
     rt_CopyFirst = (\<lambda>_ _. ret ()), rt_CloseChan = (\<lambda>_. ret ()), rt_CloseConn = (\<lambda>_. ret ())\<rparr>"

definition sampleJump :: "(memory, unit) jumpHandler" where
  "sampleJump = \<lparr>jh_DefaultNamespace = ''team'', jh_WakeTimeout = 5 * Second, jh_Now = k_Now memKube,
     jh_Store = NewStore memKube, jh_Dialer = NewDirectDialer (\<lambda>_ _. ret (Inr ()))\<rparr>"

definition sampleChannel :: "string \<Rightarrow> (memory, unit) NewChannel" where
  "sampleChannel dest = \<lparr>nc_ExtraData = dest, nc_Reject = (\<lambda>_ _. ret ()), nc_Accept = ret (Inr ())\<rparr>"

definition sampleContext :: "string \<Rightarrow> SSHContext" where
  "sampleContext prin = \<lparr>ctx_Principal = Some prin, ctx_CertSerial = Some ''7'', ctx_RemoteAddr = ''198.51.100.7:4022''\<rparr>"

theorem ssh_rejects_non_owner_witness:
  "memView (snd (run_state (handleDirectTCPIP 10 sampleRuntime sampleJump (sampleChannel ''dev'') (sampleContext ''mallory'')) sampleMemory)) =
     memView sampleMemory"
proof -
  have target: "ParseSSHTarget ''dev'' ''team'' = Inr \<lparr>sst_Sandbox = ''dev'', sst_Namespace = ''team''\<rparr>" by code_simp
  have "\<exists>w'. memView w' = memView sampleMemory \<and>
      run_state (handleDirectTCPIP 10 sampleRuntime sampleJump (sampleChannel ''dev'') (sampleContext ''mallory'')) sampleMemory =
      run_state (do { u \<leftarrow> nc_Reject (sampleChannel ''dev'') Prohibited ''not authorized for this sandbox''; ret (Some ()) }) w'"
    by (rule ssh_rejects_non_owner [where t = "\<lparr>sst_Sandbox = ''dev'', sst_Namespace = ''team''\<rparr>"
          and payload = "\<lparr>lf_DestAddr = ''dev'', lf_DestPort = 22, lf_OriginAddr = [], lf_OriginPort = 0\<rparr>", OF memKube.kube_server_axioms])
      (auto simp: sampleJump_def sampleRuntime_def sampleChannel_def target sampleContext_def memView_def
        sampleMemory_def emptyMemory_def lookup_def sample_defs)
  then show ?thesis by (auto simp: sampleChannel_def)
qed

text \<open>
  C28. A connection never waits for ever.  When the clock does not run backwards
  and a wait takes at least as long as it was asked to, waking a sandbox ends
  after at most the wake timeout over the poll interval, plus two, polls,
  whatever the store answers and whether or not the sandbox ever becomes ready;
  so does the handler around it.
\<close>

theorem ssh_wake_terminates:
  assumes "steady clk rt h" "wakeFuel h \<le> fuel"
  shows "(\<exists>r. fst (run_state (wakeAndWait fuel rt h sb) w) = Some r) \<and> fst (run_state (handleDirectTCPIP fuel rt h ch ctx) w) = Some ()"
  using wakeAndWait_ends [OF assms] handle_ends [OF assms] by blast

lemma sampleRuntime_steady: "steady mem_Clock sampleRuntime sampleJump"
  by (auto simp: steady_def sampleRuntime_def sampleJump_def memKube_def NewStore_def GetSandbox_def memKind_def Let_def)

theorem ssh_wake_terminates_witness:
  "fst (run_state (handleDirectTCPIP 4 sampleRuntime sampleJump (sampleChannel ''dev.team'') (sampleContext ''alice'')) sampleMemory) = Some ()"
  using ssh_wake_terminates [OF sampleRuntime_steady, of 4] by (simp add: wakeFuel_def sampleJump_def wakePollInterval_def)

text \<open>
  What waking a sandbox hands to the dialer: against a lawful server, for a
  sandbox as it is stored, a successful wake returns the sandbox that is stored
  under that name when it ends, and it has a pod address.
\<close>

lemma ssh_wake_ready:
  assumes "kube_server view c" "jh_Store h = NewStore c" "cl_Sandboxes (view w) (key_of (sb_meta sb)) = Some sb"
    "run_state (wakeAndWait fuel rt h sb) w = (Some (Inr f), w')"
  shows "ss_PodIP (sb_status f) \<noteq> [] \<and> cl_Sandboxes (view w') (key_of (sb_meta sb)) = Some f"
  using vtripleD [OF session_store.wakeAndWait_ready [OF kube_server.store_laws [OF assms(1)] assms(2)] assms(4,3)] by simp

text \<open>
  C29. The heartbeat interval the gateway puts on a session is the larger of a
  minute and a quarter of the idle timeout, for every idle timeout a duration can
  hold, and the reaper's deadline of three intervals is computed without overflow.
\<close>

theorem heartbeatInterval_bounds:
  assumes "gw_effectiveIdleTimeout sb \<le> maxDuration" "ses_spec s = ses_spec (newSession sb name p a ser)"
  shows "heartbeatInterval (gw_effectiveIdleTimeout sb) = max (60 * Second) (quot64 (gw_effectiveIdleTimeout sb) 4) \<and>
    60 * Second \<le> sessionInterval s \<and> staleDeadline s = staleHeartbeatFactor * sessionInterval s \<and> staleDeadline s \<le> maxDuration"
proof -
  note range = heartbeatInterval_range [OF assms(1)]
  have i: "sessionInterval s = heartbeatInterval (gw_effectiveIdleTimeout sb)"
    using range(1) assms(2) by (simp add: sessionInterval_def)
  then show ?thesis using range staleDeadline_exact [of s] heartbeatInterval_eq by auto
qed

theorem heartbeatInterval_bounds_witness:
  "heartbeatInterval maxDuration = 2305843009213693951 \<and>
   staleDeadline (newSession (sampleSandbox\<lparr>sb_spec := (sb_spec sampleSandbox)\<lparr>sp_IdleTimeout := Some maxDuration\<rparr>\<rparr>) ''dev-1'' ''alice'' [] []) \<le> maxDuration"
  using heartbeatInterval_bounds [of "sampleSandbox\<lparr>sb_spec := (sb_spec sampleSandbox)\<lparr>sp_IdleTimeout := Some maxDuration\<rparr>\<rparr>"
      "newSession (sampleSandbox\<lparr>sb_spec := (sb_spec sampleSandbox)\<lparr>sp_IdleTimeout := Some maxDuration\<rparr>\<rparr>) ''dev-1'' ''alice'' [] []"
      "''dev-1''" "''alice''" "[]" "[]"]
  by (simp add: gw_effectiveIdleTimeout_def maxDuration_def quot64_def)

text \<open>
  C30. A connection and the reaper agree.  A session the gateway has just
  recorded is stored as active under the name it returns, for this user and
  sandbox; reconciling it while at most three heartbeat intervals have passed
  since then changes nothing, so a gateway that beats once per interval is never
  reaped, and later it closes the session.
\<close>

theorem ssh_session_survives:
  assumes "kube_server view c" "jh_Store h = NewStore c" "ssr_Client r = c" "\<forall>n. quiet view (rt_Read rt n)"
    "gw_effectiveIdleTimeout sb \<le> maxDuration" "run_state (openSession rt h sb p a ser) w = ((name, Some k), w1)"
    "clock_at view r t" "run_state (reconcileSession r (sb_Namespace sb, name)) w1 = (Inr res, w2)"
  shows "\<exists>s t0. cl_Sessions (view w1) (sb_Namespace sb, name) = Some s \<and> records (newSession sb name p a ser) t0 s \<and>
    (t0 \<noteq> zeroTime \<and> t0 \<le> t \<longrightarrow>
      (if t \<le> t0 + staleHeartbeatFactor * heartbeatInterval (gw_effectiveIdleTimeout sb) then view w2 = view w1
       else \<exists>s'. reaped s s' \<and> view w2 = (view w1)\<lparr>cl_Sessions := (cl_Sessions (view w1))((sb_Namespace sb, name) \<mapsto> s')\<rparr>))"
proof -
  let ?k = "(sb_Namespace sb, name)"
  have rd: "\<And>n. quiet view (rt_Read rt n)" using assms(4) by simp
  from vtripleD [OF session_store.openSession_records [OF kube_server.store_laws [OF assms(1)] assms(2) rd] assms(6) refl]
  obtain s t0 where s: "records (newSession sb name p a ser) t0 s" and v1: "view w1 = (view w)\<lparr>cl_Sessions := (cl_Sessions (view w))(?k \<mapsto> s)\<rparr>"
    by auto
  then have stored: "cl_Sessions (view w1) ?k = Some s" by simp
  note rec = recorded_session [OF s assms(5)]
  have "active_outcome t ?k s res (view w1) (view w2)" if "t0 \<le> t"
  proof -
    have "succeeds view (\<lambda>v. v = view w1) (reconcileSession r ?k) (\<lambda>res v. active_outcome t ?k s res (view w1) v)"
      by (rule kube_server.reconcileSession_reads [OF assms(1,3) stored])
        (use kube_server.reconcileActive_outcome [OF assms(1,3,7) _ _ rec(3)] stored rec(1) that s in \<open>auto simp: records_def\<close>)
    from succeedsD [OF this assms(8) refl] show ?thesis .
  qed
  then show ?thesis
    using s stored rec(1,2) by (intro exI [of _ s] exI [of _ t0]) (auto simp: active_outcome_def stale_def)
qed

theorem ssh_session_survives_witness:
  "\<exists>w1 k s. run_state (openSession sampleRuntime sampleJump sampleSandbox ''alice'' [] ''7'') emptyMemory = ((''dev-7272727272'', Some k), w1) \<and>
     cl_Sessions (memView w1) (''team'', ''dev-7272727272'') = Some s \<and> sx_User (ses_spec s) = ''alice''"
proof -
  let ?m = "openSession sampleRuntime sampleJump sampleSandbox ''alice'' [] ''7''"
  let ?r = "sampleSessionReconciler\<lparr>ssr_Now := Some (ret (5060 * Second))\<rparr>"
  have "fst (fst (run_state ?m emptyMemory)) = ''dev-7272727272'' \<and> snd (fst (run_state ?m emptyMemory)) \<noteq> None" by code_simp
  then obtain k w1 where run: "run_state ?m emptyMemory = ((''dev-7272727272'', Some k), w1)"
    by (cases "run_state ?m emptyMemory") auto
  have ns: "sb_Namespace sampleSandbox = ''team''" by (simp add: sample_defs)
  have "is_ok (fst (run_state (reconcileSession ?r (''team'', ''dev-7272727272'')) (snd (run_state ?m emptyMemory))))" by code_simp
  then obtain res w2 where rec: "run_state (reconcileSession ?r (sb_Namespace sampleSandbox, ''dev-7272727272'')) w1 = (Inr res, w2)"
    unfolding run snd_conv ns by (auto dest!: result_split)
  have "\<exists>s t0. cl_Sessions (memView w1) (sb_Namespace sampleSandbox, ''dev-7272727272'') = Some s \<and>
      records (newSession sampleSandbox ''dev-7272727272'' ''alice'' [] ''7'') t0 s"
    using ssh_session_survives [OF memKube.kube_server_axioms _ _ _ _ run _ rec, of "5060 * Second"] sampleSession_clock
    by (auto simp: sampleJump_def sampleRuntime_def sampleSessionReconciler_def quiet_def vtriple_ret gw_effectiveIdleTimeout_def sample_defs maxDuration_def)
  then show ?thesis using run by (auto simp: ns records_def newSession_def)
qed

text \<open>
  C31. Certificates are the only way in.  The gateway accepts a key exactly when
  it is a user certificate of the user CA, valid now, for its first principal;
  then the connection carries that principal and the serial, and otherwise it
  carries nothing new.
\<close>

theorem publicKeyHandler_iff:
  assumes "ssh_library S" "run_state timeNow w = (now, w1)"
    "fst (run_state (publicKeyHandler S timeNow userCA ctx key) w) = (ok, ctx')"
  shows "(ok \<longleftrightarrow> (\<exists>c p ps. key = CertKey c \<and> cert_ValidPrincipals c = p # ps \<and> cert_CertType c = UserCert \<and>
      keysEqual S (cert_SignatureKey c) (Some userCA) \<and> in_window c now \<and> critical_ok c \<and> sl_Verify S c)) \<and>
    (\<forall>c p ps. ok \<and> key = CertKey c \<and> cert_ValidPrincipals c = p # ps \<longrightarrow>
      ctx' = ctx\<lparr>ctx_Principal := Some p, ctx_CertSerial := Some (show_int (cert_Serial c))\<rparr>) \<and> (\<not> ok \<longrightarrow> ctx' = ctx)"
proof (cases "\<exists>c p ps. key = CertKey c \<and> cert_ValidPrincipals c = p # ps")
  case False
  then show ?thesis using assms(3) by (auto simp: publicKeyHandler_def split: PublicKey.splits list.splits)
next
  case True
  then obtain c p ps where c: "key = CertKey c" "cert_ValidPrincipals c = p # ps" by auto
  show ?thesis
    using assms(2,3) ssh_library.check_user_cert [OF assms(1), of "Some c" "Some userCA" p now] c
    by (cases "CheckUserCert S (Some c) (Some userCA) p now") (auto simp: publicKeyHandler_def)
qed

theorem publicKeyHandler_iff_witness:
  "fst (run_state (publicKeyHandler refSsh (k_Now memKube) (RawKey ''ca'') \<lparr>ctx_Principal = None, ctx_CertSerial = None, ctx_RemoteAddr = []\<rparr>
      (CertKey sampleCert)) (emptyMemory\<lparr>mem_Clock := 1000 * Second\<rparr>)) =
     (True, \<lparr>ctx_Principal = Some ''alice'', ctx_CertSerial = Some ''7'', ctx_RemoteAddr = []\<rparr>)"
proof -
  let ?w = "emptyMemory\<lparr>mem_Clock := 1000 * Second\<rparr>" and ?ctx = "\<lparr>ctx_Principal = None, ctx_CertSerial = None, ctx_RemoteAddr = []\<rparr>"
  obtain ok ctx' where run: "fst (run_state (publicKeyHandler refSsh (k_Now memKube) (RawKey ''ca'') ?ctx (CertKey sampleCert)) ?w) = (ok, ctx')"
    by fastforce
  have now: "run_state (k_Now memKube) ?w = (1000 * Second, ?w)" by (simp add: memKube_def)
  have seven: "show_int 7 = ''7''" by code_simp
  have cert: "cert_CertType sampleCert = UserCert" "keysEqual (refSsh :: memory sshlib) (cert_SignatureKey sampleCert) (Some (RawKey ''ca''))"
    "in_window sampleCert (1000 * Second)" "critical_ok sampleCert" "sl_Verify (refSsh :: memory sshlib) sampleCert" "cert_ValidPrincipals sampleCert = [''alice'']"
    "cert_Serial sampleCert = 7"
    by (simp_all add: sampleCert_def keysEqual_def in_window_def Unix_def critical_ok_def refVerify_def)
  show ?thesis
    using publicKeyHandler_iff [OF refSsh.ssh_library_axioms now run] cert seven run by simp
qed

end
