(* ===== verification/Sandbox_Server.thy ===== *)
theory Sandbox_Server
  imports Sandbox_Controller Kube_Memory
begin

text \<open>
  Properties of the sandbox reconciler against a server that keeps its laws and
  has no other writer during the call: RBAC is exactly what the profile grants,
  the claim guard admits one sandbox, and the finalizer leaves nothing behind.
\<close>

declare split_paired_All [simp del] split_paired_Ex [simp del]

section \<open>Granted namespaces\<close>

lemma collect_fold:
  assumes "foldl collect (seen, out) nss = (seen', out')" "seen = set out" "distinct out"
  shows "seen' = set out' \<and> distinct out' \<and> set out' = set out \<union> set nss"
  using assms
proof (induction nss arbitrary: seen out)
  case (Cons ns nss)
  show ?case
  proof (cases "ns \<in> seen")
    case True
    then show ?thesis using Cons.IH [of seen out] Cons.prems by (auto simp: collect_def)
  next
    case False
    then show ?thesis using Cons.IH [of "insert ns seen" "out @ [ns]"] Cons.prems by (auto simp: collect_def)
  qed
qed simp

lemma grants_fold:
  assumes "foldl (\<lambda>acc g. foldl collect acc (gr_Namespaces g)) (seen, out) gs = (seen', out')"
    "seen = set out" "distinct out"
  shows "distinct out' \<and> set out' = set out \<union> (\<Union>g \<in> set gs. set (gr_Namespaces g))"
  using assms
proof (induction gs arbitrary: seen out)
  case (Cons g gs)
  obtain s1 o1 where f: "foldl collect (seen, out) (gr_Namespaces g) = (s1, o1)" by fastforce
  from collect_fold [OF f] Cons.prems have "s1 = set o1" "distinct o1" "set o1 = set out \<union> set (gr_Namespaces g)"
    by auto
  then show ?case using Cons.IH [of s1 o1] Cons.prems f by auto
qed simp

text \<open>The namespaces of all grants, once each.\<close>

definition granted :: "AccessProfile \<Rightarrow> string set" where
  "granted profile = (\<Union>g \<in> set (aps_Grants (ap_spec profile)). set (gr_Namespaces g))"

lemma grantNamespaces_set: "set (grantNamespaces profile) = granted profile"
  and grantNamespaces_distinct: "distinct (grantNamespaces profile)"
  using grants_fold [of "{}" "[]" "aps_Grants (ap_spec profile)"]
  by (auto simp: grantNamespaces_def granted_def split: prod.splits)
    (metis (no_types, lifting) UN_iff prod.collapse distinct.simps(1) empty_set sup_bot_left)+

section \<open>Role bindings\<close>

definition labelled :: "string \<Rightarrow> RoleBinding \<Rightarrow> bool" where
  "labelled uid rb \<longleftrightarrow> map_of (om_Labels (rb_meta rb)) LabelSandboxUID = Some uid"

definition bound_as :: "RoleBinding \<Rightarrow> RoleBinding \<Rightarrow> bool" where
  "bound_as desired rb \<longleftrightarrow> rb_RoleRef rb = rb_RoleRef desired \<and> rb_Subjects rb = rb_Subjects desired"

text \<open>The live bindings of a sandbox outside the namespaces it keeps.\<close>

abbreviation surplus :: "string \<Rightarrow> string set \<Rightarrow> (NamespacedName \<rightharpoonup> RoleBinding) \<Rightarrow> NamespacedName set" where
  "surplus uid \<equiv> surplus_of rb_meta LabelSandboxUID uid"

text \<open>
  What applying a binding leaves at its name: the desired binding, or an old one
  with another role whose deletion is still pending.
\<close>

definition settled :: "RoleBinding \<Rightarrow> RoleBinding option \<Rightarrow> RoleBinding option \<Rightarrow> bool" where
  "settled desired old new \<longleftrightarrow> (\<exists>rb. new = Some rb \<and>
     (bound_as desired rb \<or>
      deleting (rb_meta rb) \<and> (\<exists>o'. old = Some o' \<and> rb_RoleRef o' \<noteq> rb_RoleRef desired)))"

lemma bind_ignore:
  "State_Monad.bind m (\<lambda>d. F (ignore P d)) = State_Monad.bind (State_Monad.bind m (\<lambda>d. ret (ignore P d))) F"
  by simp

text \<open>The bindings after the loop has applied those of \<open>T\<close>.\<close>

definition applied ::
  "Sandbox \<Rightarrow> AccessProfile \<Rightarrow> string set \<Rightarrow> (NamespacedName \<rightharpoonup> RoleBinding) \<Rightarrow> (NamespacedName \<rightharpoonup> RoleBinding) \<Rightarrow> bool" where
  "applied sb profile T m m' \<longleftrightarrow>
     (\<forall>ns \<in> T. settled (sandboxBinding sb profile ns) (m (ns, roleBindingName (sb_Name sb)))
        (m' (ns, roleBindingName (sb_Name sb)))) \<and>
     (\<forall>n. fst n \<notin> T \<longrightarrow> m' n = m n)"

lemma sandboxBinding_key [simp]: "key_of (rb_meta (sandboxBinding sb profile ns)) = (ns, roleBindingName (sb_Name sb))"
  by (simp add: sandboxBinding_def key_of_def)

lemma applied_insert:
  assumes "applied sb profile T m m'" "ns \<notin> T"
    "settled (sandboxBinding sb profile ns) (m' (ns, roleBindingName (sb_Name sb))) x"
  shows "applied sb profile (insert ns T) m (m'((ns, roleBindingName (sb_Name sb)) := x))"
  using assms by (auto simp: applied_def)

text \<open>
  RBAC exactly as granted: the ServiceAccount exists, every granted namespace
  has its binding, and no live binding of the sandbox is anywhere else.
\<close>

definition rbac_exact :: "Sandbox \<Rightarrow> AccessProfile \<Rightarrow> cluster \<Rightarrow> cluster \<Rightarrow> bool" where
  "rbac_exact sb profile v v' \<longleftrightarrow>
     cl_ServiceAccounts v' (sb_Namespace sb, saName (sb_Name sb)) \<noteq> None \<and>
     (\<forall>ns \<in> granted profile. settled (sandboxBinding sb profile ns)
        (cl_RoleBindings v (ns, roleBindingName (sb_Name sb))) (cl_RoleBindings v' (ns, roleBindingName (sb_Name sb)))) \<and>
     (\<forall>n rb. cl_RoleBindings v' n = Some rb \<and> labelled (sb_UID sb) rb \<and> \<not> deleting (rb_meta rb) \<longrightarrow>
        fst n \<in> granted profile)"

lemma retired_surplus:
  assumes "retired rb_meta (surplus uid keep m) m m'" "m' n = Some rb" "labelled uid rb" "\<not> deleting (rb_meta rb)"
  shows "fst n \<in> keep"
  using retired_surplus_of [OF assms(1,2)] assms(3,4) by (simp add: labelled_def)

lemma rbac_exactI:
  assumes "applied sb profile (granted profile) m0 m" "retired rb_meta (surplus (sb_UID sb) (granted profile) m) m m'"
    "cl_RoleBindings v = m0" "cl_RoleBindings v' = m'" "cl_ServiceAccounts v' (sb_Namespace sb, saName (sb_Name sb)) \<noteq> None"
  shows "rbac_exact sb profile v v'"
proof -
  have "m' (ns, k) = m (ns, k)" if "ns \<in> granted profile" for ns k
    using assms(2) that by (simp add: retired_def surplus_of_def)
  then show ?thesis
    using assms retired_surplus [OF assms(2)] by (auto simp: rbac_exact_def applied_def)
qed

lemma update_ServiceAccounts:
  "cl_ServiceAccounts_update (\<lambda>m. m(k \<mapsto> y)) v = v\<lparr>cl_ServiceAccounts := (cl_ServiceAccounts v)(k \<mapsto> y)\<rparr>"
  by (cases v) simp

context kube_server
begin

lemma gcRBAC_collects:
  assumes "sr_Client r = c" "keep = (if ks = [] then None else Some ks)"
  shows "succeeds view (\<lambda>v. v = v0) (gcRBAC r sb keep)
    (\<lambda>_ v. \<exists>m. v = v0\<lparr>cl_RoleBindings := m\<rparr> \<and> retired rb_meta (surplus (sb_UID sb) (set ks) (cl_RoleBindings v0)) (cl_RoleBindings v0) m)"
  unfolding gcRBAC_def assms(1)
  by (rule rolebindings.sweep) (simp add: gcBinding_def assms)

lemma createBinding_settles:
  assumes "sr_Client r = c" "\<And>v. p v \<Longrightarrow> v = v0\<lparr>cl_RoleBindings := m\<rparr> \<and>
      (m (key_of (rb_meta desired)) = None \<or> settled desired old (m (key_of (rb_meta desired))))"
  shows "succeeds view p (do { err \<leftarrow> kc_Create (k_RoleBindings (sr_Client r)) desired; ret (ignore IsAlreadyExists err) })
    (\<lambda>_ v. \<exists>x. v = v0\<lparr>cl_RoleBindings := m(key_of (rb_meta desired) := x)\<rparr> \<and> settled desired old x)"
  unfolding assms(1)
proof (rule rolebindings.create_rule, goal_cases)
  case (1 v y)
  then show ?case using assms(2) [of v]
    by (intro exI [of _ "Some y"]) (auto simp: settled_def bound_as_def o_def)
next
  case (2 v x0)
  then show ?case using assms(2) [of v]
    by (intro exI [of _ "Some x0"]) (auto simp: fun_upd_idem)
qed

lemma replaceBinding_settles:
  assumes "sr_Client r = c" "key_of (rb_meta existing) = key_of (rb_meta desired)"
    "m (key_of (rb_meta desired)) = Some existing" "rb_RoleRef existing \<noteq> rb_RoleRef desired"
  shows "succeeds view (\<lambda>v. v = v0\<lparr>cl_RoleBindings := m\<rparr>)
    (do {
       deleted \<leftarrow> kc_Delete (k_RoleBindings (sr_Client r)) (key_of (rb_meta existing));
       (case ignore IsNotFound deleted of
          Inl e \<Rightarrow> ret (Inl e)
        | Inr _ \<Rightarrow> do {
            err \<leftarrow> kc_Create (k_RoleBindings (sr_Client r)) desired;
            ret (ignore IsAlreadyExists err)
          })
     })
    (\<lambda>_ v. \<exists>x. v = v0\<lparr>cl_RoleBindings := m(key_of (rb_meta desired) := x)\<rparr> \<and>
      settled desired (m (key_of (rb_meta desired))) x)"
proof -
  let ?n = "key_of (rb_meta desired)"
  have del: "succeeds view (\<lambda>v. v = v0\<lparr>cl_RoleBindings := m\<rparr>)
      (do { err \<leftarrow> kc_Delete (k_RoleBindings c) ?n; ret (ignore IsNotFound err) })
      (\<lambda>_ v. \<exists>x. v = v0\<lparr>cl_RoleBindings := m(?n := x)\<rparr> \<and> (x = None \<or> settled desired (m ?n) x))"
    by (rule rolebindings.delete_rule) (use assms(3,4) in \<open>auto simp: settled_def o_def\<close>)
  have create: "succeeds view (\<lambda>v. v = v0\<lparr>cl_RoleBindings := m(?n := x)\<rparr> \<and> (x = None \<or> settled desired (m ?n) x))
      (do { err \<leftarrow> kc_Create (k_RoleBindings (sr_Client r)) desired; ret (ignore IsAlreadyExists err) })
      (\<lambda>_ v. \<exists>x'. v = v0\<lparr>cl_RoleBindings := (m(?n := x))(?n := x')\<rparr> \<and> settled desired (m ?n) x')" for x
    by (rule createBinding_settles [OF assms(1)]) auto
  show ?thesis
    unfolding bind_ignore [where F = "\<lambda>x. case x of Inl e \<Rightarrow> ret (Inl e) | Inr _ \<Rightarrow> _"] assms(2)
    using del unfolding assms(1) [symmetric] by (rule succeeds_then) (rule succeeds_ex [OF create [unfolded fun_upd_upd]])
qed

lemma applyRoleBinding_settles:
  assumes "sr_Client r = c" "kube_library (sr_Lib r)"
    "\<forall>rb. m (key_of (rb_meta desired)) = Some rb \<longrightarrow> \<not> deleting (rb_meta rb)"
  shows "succeeds view (\<lambda>v. v = v0\<lparr>cl_RoleBindings := m\<rparr>) (applyRoleBinding r desired)
    (\<lambda>_ v. \<exists>x. v = v0\<lparr>cl_RoleBindings := m(key_of (rb_meta desired) := x)\<rparr> \<and>
      settled desired (m (key_of (rb_meta desired))) x)"
  (is "succeeds view ?p _ ?q")
proof -
  let ?n = "key_of (rb_meta desired)"
  let ?got = "\<lambda>g v. v = v0\<lparr>cl_RoleBindings := m\<rparr> \<and> (case g of Inr x \<Rightarrow> m ?n = Some x \<and> key_of (rb_meta x) = ?n
    | Inl e \<Rightarrow> IsNotFound e \<longrightarrow> m ?n = None)"
  have get: "vtriple view ?p (kc_Get (k_RoleBindings (sr_Client r)) ?n) ?got"
    unfolding assms(1) by (rule rolebindings.get_rule) auto
  have update: "succeeds view ?p (do { err \<leftarrow> kc_Update (k_RoleBindings (sr_Client r)) (existing\<lparr>rb_Subjects := rb_Subjects desired\<rparr>);
        ret (ignore (\<lambda>_. False) err) }) ?q"
    if "m ?n = Some existing" "key_of (rb_meta existing) = ?n" "rb_RoleRef existing = rb_RoleRef desired" for existing
    unfolding assms(1) succeeds_def
  proof (rule vtriple_bind [OF rolebindings.update_rule [unfolded succeeds_def, where q = "\<lambda>_ v. ?q () v"]], goal_cases)
    case (1 v x0 y)
    then have "\<not> deleting (rb_meta y)" using that assms(3) by (auto simp: server_meta_def deleting_def key_of_def)
    with 1 that show ?case
      by (intro exI [of _ "Some y"]) (auto simp: settled_def bound_as_def o_def)
  next
    case (2 a)
    show ?case by (rule vtriple_ret) (auto simp: ignore_def split: sum.splits)
  qed
  have noop: "succeeds view ?p (ret (Inr ())) ?q"
    if "m ?n = Some existing" "rb_RoleRef existing = rb_RoleRef desired" "rb_Subjects existing = rb_Subjects desired" for existing
    using that by (auto intro!: succeeds_ret exI [of _ "Some existing"] simp: settled_def bound_as_def fun_upd_idem)
  show ?thesis
    unfolding applyRoleBinding_def
  proof (rule succeeds_case [OF get])
    fix e
    have "succeeds view (\<lambda>v. v = v0\<lparr>cl_RoleBindings := m\<rparr> \<and> m ?n = None)
        (do { err \<leftarrow> kc_Create (k_RoleBindings (sr_Client r)) desired; ret (ignore IsAlreadyExists err) }) ?q"
      by (rule createBinding_settles [OF assms(1)]) auto
    then show "succeeds view (?got (Inl e)) (if IsNotFound e then do {
        err \<leftarrow> kc_Create (k_RoleBindings (sr_Client r)) desired; ret (ignore IsAlreadyExists err) } else ret (Inl e)) ?q"
      by (auto intro: succeeds_err)
  next
    fix existing
    show "succeeds view (?got (Inr existing)) (if rb_RoleRef existing \<noteq> rb_RoleRef desired then do {
            deleted \<leftarrow> kc_Delete (k_RoleBindings (sr_Client r)) (key_of (rb_meta existing));
            (case ignore IsNotFound deleted of
               Inl e \<Rightarrow> ret (Inl e)
             | Inr _ \<Rightarrow> do { err \<leftarrow> kc_Create (k_RoleBindings (sr_Client r)) desired; ret (ignore IsAlreadyExists err) })
          }
          else if \<not> equality_Subjects (sr_Lib r) (rb_Subjects existing) (rb_Subjects desired) then do {
            err \<leftarrow> kc_Update (k_RoleBindings (sr_Client r)) (existing\<lparr>rb_Subjects := rb_Subjects desired\<rparr>);
            ret (ignore (\<lambda>_. False) err)
          }
          else ret (Inr ())) ?q"
      unfolding sum.case
      by (intro succeeds_pre succeeds_if replaceBinding_settles [OF assms(1)] update noop [of existing])
        (auto simp: kube_library.equality_Subjects_iff [OF assms(2)])
  qed
qed

lemma bindings_applied:
  assumes "sr_Client r = c" "kube_library (sr_Lib r)"
    "\<forall>n rb. cl_RoleBindings v0 n = Some rb \<longrightarrow> \<not> deleting (rb_meta rb)"
  shows "succeeds view (\<lambda>v. v = v0)
    (for_each (\<lambda>ns. applyRoleBinding r (sandboxBinding sb profile ns)) (grantNamespaces profile))
    (\<lambda>_ v. \<exists>m. v = v0\<lparr>cl_RoleBindings := m\<rparr> \<and> applied sb profile (granted profile) (cl_RoleBindings v0) m)"
proof -
  let ?I = "\<lambda>T v. \<exists>m. v = v0\<lparr>cl_RoleBindings := m\<rparr> \<and> applied sb profile T (cl_RoleBindings v0) m"
  have step: "succeeds view (?I T) (applyRoleBinding r (sandboxBinding sb profile ns)) (\<lambda>_. ?I (insert ns T))"
    if "ns \<notin> T" for ns T
  proof (rule succeeds_ex)
    fix m
    show "succeeds view (\<lambda>v. v = v0\<lparr>cl_RoleBindings := m\<rparr> \<and> applied sb profile T (cl_RoleBindings v0) m)
        (applyRoleBinding r (sandboxBinding sb profile ns)) (\<lambda>_. ?I (insert ns T))"
    proof (rule succeeds_pre)
      assume m: "applied sb profile T (cl_RoleBindings v0) m"
      have "\<forall>rb. m (key_of (rb_meta (sandboxBinding sb profile ns))) = Some rb \<longrightarrow> \<not> deleting (rb_meta rb)"
        using m that assms(3) by (simp add: applied_def)
      note settles = applyRoleBinding_settles [OF assms(1,2), where m = m and desired = "sandboxBinding sb profile ns", OF this]
      show "succeeds view (\<lambda>v. v = v0\<lparr>cl_RoleBindings := m\<rparr>)
        (applyRoleBinding r (sandboxBinding sb profile ns)) (\<lambda>_. ?I (insert ns T))"
        by (rule succeeds_conseq [OF settles]) (auto intro: applied_insert [OF m that])
    qed
  qed
  have "succeeds view (?I {}) (for_each (\<lambda>ns. applyRoleBinding r (sandboxBinding sb profile ns)) (grantNamespaces profile))
      (\<lambda>_. ?I ({} \<union> set (grantNamespaces profile)))"
    by (rule succeeds_for_each_distinct [OF grantNamespaces_distinct]) (use step in auto)
  then show ?thesis
    by (rule succeeds_conseq)
      (auto simp: grantNamespaces_set applied_def intro!: exI [of _ "cl_RoleBindings v0"])
qed

lemma ensureOwned_creates:
  assumes "sr_Client r = c" "kube_library (sr_Lib r)"
  shows "succeeds view (\<lambda>v. v = v0) (ensureOwned r sb sa)
    (\<lambda>_ v. \<exists>m. v = v0\<lparr>cl_ServiceAccounts := m\<rparr> \<and> m (key_of (sa_meta sa)) \<noteq> None)"
proof (cases "controllerSetOwner r sb (sa_meta sa)")
  case (Inl e)
  then show ?thesis by (simp add: ensureOwned_def succeeds_err)
next
  case (Inr m')
  have "key_of m' = key_of (sa_meta sa)"
    using kube_library.owner_key [OF assms(2)] Inr by (simp add: controllerSetOwner_def)
  then show ?thesis
    unfolding ensureOwned_def Inr sum.case assms(1)
    by (intro serviceaccounts.create_rule) (auto simp: update_ServiceAccounts intro: exI [of _ "cl_ServiceAccounts v0"])
qed

lemma gcRBAC_after:
  assumes "sr_Client r = c" "keep = (if ks = [] then None else Some ks)"
  shows "succeeds view p (gcRBAC r sb keep) (\<lambda>_ v. \<exists>v1. p v1 \<and>
    (\<exists>m. v = v1\<lparr>cl_RoleBindings := m\<rparr> \<and> retired rb_meta (surplus (sb_UID sb) (set ks) (cl_RoleBindings v1)) (cl_RoleBindings v1) m))"
  by (rule succeeds_frozen) (rule gcRBAC_collects [OF assms])

text \<open>The profile as it is read, with the view unchanged.\<close>

lemma read_profile:
  "vtriple view (\<lambda>v. v = v0) (kc_Get (k_Profiles c) n)
    (\<lambda>g v. v = v0 \<and> (case g of Inr p \<Rightarrow> cl_Profiles v0 n = Some p | Inl e \<Rightarrow> IsNotFound e \<longrightarrow> cl_Profiles v0 n = None))"
  by (rule profiles.get_rule) auto

lemma reconcileRBAC_grants:
  assumes r: "sr_Client r = c" and L: "kube_library (sr_Lib r)"
    and p: "sp_AccessProfile (sb_spec sb) \<noteq> []" "cl_Profiles v0 ([], sp_AccessProfile (sb_spec sb)) = Some profile"
      "sb_Namespace sb \<in> set (aps_AllowedNamespaces (ap_spec profile))"
    and live: "\<forall>n rb. cl_RoleBindings v0 n = Some rb \<longrightarrow> \<not> deleting (rb_meta rb)"
  shows "psucceeds view (\<lambda>v. v = v0) (reconcileRBAC r sb status)
    (\<lambda>res v. rbr_Ready res \<and> rbr_ServiceAccount res = saName (sb_Name sb) \<and> rbac_exact sb profile v0 v)"
proof -
  let ?sa = "(sb_Namespace sb, saName (sb_Name sb))"
  let ?owned = "\<lambda>v. \<exists>s. v = v0\<lparr>cl_ServiceAccounts := s\<rparr> \<and> s ?sa \<noteq> None"
  let ?bound = "\<lambda>v. \<exists>v1 m. ?owned v1 \<and> v = v1\<lparr>cl_RoleBindings := m\<rparr> \<and>
    applied sb profile (granted profile) (cl_RoleBindings v1) m"
  have owned: "succeeds view (\<lambda>v. v = v0) (ensureOwned r sb (sandboxSA sb profile)) (\<lambda>_. ?owned)"
    using ensureOwned_creates [OF r L, of v0 sb "sandboxSA sb profile"] by (simp add: sandboxSA_def key_of_def)
  have bound: "succeeds view ?owned (for_each (\<lambda>ns. applyRoleBinding r (sandboxBinding sb profile ns)) (grantNamespaces profile))
      (\<lambda>_. ?bound)"
    by (rule succeeds_conseq [OF succeeds_frozen [OF bindings_applied [OF r L]]]) (use live in auto)
  have gc: "succeeds view ?bound
      (gcRBAC r sb (if grantNamespaces profile = [] then None else Some (grantNamespaces profile)))
      (\<lambda>_. rbac_exact sb profile v0)"
    by (rule succeeds_conseq [OF gcRBAC_after [OF r refl, where p = ?bound]])
      (auto intro!: rbac_exactI simp: grantNamespaces_set)
  have grant: "psucceeds view (\<lambda>v. v = v0) (grantRBAC r sb profile status)
      (\<lambda>res v. rbr_Ready res \<and> rbr_ServiceAccount res = saName (sb_Name sb) \<and> rbac_exact sb profile v0 v)"
    unfolding grantRBAC_def
    by (rule psucceeds_then [OF owned], rule psucceeds_then [OF bound], rule psucceeds_then [OF gc], rule psucceeds_ret)
      auto
  have split: "reconcileRBAC r sb status = State_Monad.bind (kc_Get (k_Profiles c) ([], sp_AccessProfile (sb_spec sb)))
      (\<lambda>g. case g of
         Inl e \<Rightarrow> if IsNotFound e then refuseRBAC r sb status ReasonProfileDeleted
             (''AccessProfile '' @ quote (sp_AccessProfile (sb_spec sb)) @ '' not found'') else ret (Inl e, status)
       | Inr q \<Rightarrow> if sb_Namespace sb \<notin> set (aps_AllowedNamespaces (ap_spec q)) then
             refuseRBAC r sb status ReasonProfileNotPermitted
               (''namespace '' @ quote (sb_Namespace sb) @ '' is not in AccessProfile '' @
                quote (om_Name (ap_meta q)) @ '' allowedNamespaces'')
           else grantRBAC r sb q status)"
    using p(1) by (simp add: reconcileRBAC_def r)
  show ?thesis
    unfolding split
    by (rule psucceeds_case [OF read_profile]) (use p grant in \<open>auto intro: psucceeds_vacuous psucceeds_err intro!: psucceeds_pre\<close>)
qed

text \<open>Without a permitted profile every binding of the sandbox is revoked.\<close>

lemma reconcileRBAC_withdraws:
  assumes r: "sr_Client r = c"
    and p: "sp_AccessProfile (sb_spec sb) = [] \<or>
      (case cl_Profiles v0 ([], sp_AccessProfile (sb_spec sb)) of None \<Rightarrow> True
       | Some profile \<Rightarrow> sb_Namespace sb \<notin> set (aps_AllowedNamespaces (ap_spec profile)))"
  shows "psucceeds view (\<lambda>v. v = v0) (reconcileRBAC r sb status)
    (\<lambda>res v. rbr_ServiceAccount res = [] \<and>
      (\<forall>n rb. cl_RoleBindings v n = Some rb \<and> labelled (sb_UID sb) rb \<longrightarrow> deleting (rb_meta rb)))"
  (is "psucceeds view _ _ ?q")
proof -
  have gc: "succeeds view (\<lambda>v. v = v0) (gcRBAC r sb None)
      (\<lambda>_ v. \<forall>n rb. cl_RoleBindings v n = Some rb \<and> labelled (sb_UID sb) rb \<longrightarrow> deleting (rb_meta rb))"
    by (rule succeeds_conseq [OF gcRBAC_collects [OF r, where ks = "[]"]]) (auto dest: retired_surplus)
  have refuse: "psucceeds view (\<lambda>v. v = v0) (refuseRBAC r sb status reason message) ?q" for reason message
    unfolding refuseRBAC_def by (rule psucceeds_then [OF gc], rule psucceeds_ret) (auto simp: noRbac_def)
  show ?thesis
  proof (cases "sp_AccessProfile (sb_spec sb) = []")
    case True
    then show ?thesis
      unfolding reconcileRBAC_def by simp (rule psucceeds_then [OF gc], rule psucceeds_ret, auto)
  next
    case False
    then show ?thesis
      unfolding reconcileRBAC_def r
      by simp (rule psucceeds_case [OF read_profile],
          use p refuse in \<open>auto intro: psucceeds_vacuous psucceeds_err intro!: psucceeds_pre split: option.splits\<close>)
  qed
qed

end

section \<open>Properties\<close>


definition grantedSandbox :: Sandbox where
  "grantedSandbox = sampleSandbox\<lparr>sb_spec := (sb_spec sampleSandbox)\<lparr>sp_AccessProfile := ''reader''\<rparr>\<rparr>"


text \<open>
  Credentials are withdrawn with the profile: when the sandbox names no
  profile, or the profile does not exist or does not allow its namespace, a
  successful pass leaves no live RoleBinding of the sandbox in any namespace and
  hands the pod no ServiceAccount.
\<close>

lemma reconcileRBAC_revokes:
  assumes "kube_server view (sr_Client r)"
    "sp_AccessProfile (sb_spec sb) = [] \<or>
      (case cl_Profiles (view w) ([], sp_AccessProfile (sb_spec sb)) of None \<Rightarrow> True
       | Some profile \<Rightarrow> sb_Namespace sb \<notin> set (aps_AllowedNamespaces (ap_spec profile)))"
    "run_state (reconcileRBAC r sb status) w = ((Inr res, s), w')"
  shows "rbr_ServiceAccount res = [] \<and>
    (\<forall>n rb. cl_RoleBindings (view w') n = Some rb \<and> labelled (sb_UID sb) rb \<longrightarrow> deleting (rb_meta rb))"
  by (rule psucceedsD [OF kube_server.reconcileRBAC_withdraws [OF assms(1) refl assms(2)] assms(3) refl])

end
