(* ===== verification/Sandbox_Finalize.thy ===== *)
theory Sandbox_Finalize
  imports Sandbox_Server
begin

text \<open>
  The finalizer against a lawful server: when it lets the sandbox go, nothing the
  sandbox owned is left, its sessions are closed, and its home volume was treated
  as the retain policy says; and no run, failed or not, touches another volume.
\<close>

declare split_paired_All [simp del] split_paired_Ex [simp del]

section \<open>What is left after finalizing\<close>

definition existing_claim :: "Sandbox \<Rightarrow> bool" where
  "existing_claim sb = (case sp_Home (sb_spec sb) of Some h \<Rightarrow> hs_ExistingClaim h \<noteq> [] | None \<Rightarrow> False)"

definition delete_policy :: "Sandbox \<Rightarrow> bool" where
  "delete_policy sb = (case sp_Home (sb_spec sb) of Some h \<Rightarrow> hs_RetainPolicy h = RetainPolicyDelete | None \<Rightarrow> False)"

definition home_key :: "Sandbox \<Rightarrow> NamespacedName" where
  "home_key sb = (sb_Namespace sb, PVCName (sb_Name sb))"

definition orphaned :: "PersistentVolumeClaim \<Rightarrow> bool" where
  "orphaned p \<longleftrightarrow> map_of (om_Labels (pvc_meta p)) LabelOrphanedHome = Some ''true''"

text \<open>The claims after the retain policy was applied.\<close>

definition home_retained :: "Sandbox \<Rightarrow> (NamespacedName \<rightharpoonup> PersistentVolumeClaim) \<Rightarrow>
    (NamespacedName \<rightharpoonup> PersistentVolumeClaim) \<Rightarrow> bool" where
  "home_retained sb m m' \<longleftrightarrow>
     (\<forall>n. n \<noteq> home_key sb \<longrightarrow> m' n = m n) \<and>
     (if existing_claim sb then m' (home_key sb) = m (home_key sb)
      else (case m (home_key sb) of
        None \<Rightarrow> m' (home_key sb) = None
      | Some pvc \<Rightarrow>
          if delete_policy sb then gone pvc_meta m' (home_key sb)
          else deleting (pvc_meta pvc) \<or> (\<exists>p. m' (home_key sb) = Some p \<and> orphaned p \<and> \<not> deleting (pvc_meta p))))"

text \<open>Claims no run may destroy: all of other sandboxes, and the own one unless it is generated and to be deleted.\<close>

definition homes_safe :: "Sandbox \<Rightarrow> (NamespacedName \<rightharpoonup> PersistentVolumeClaim) \<Rightarrow>
    (NamespacedName \<rightharpoonup> PersistentVolumeClaim) \<Rightarrow> bool" where
  "homes_safe sb m m' \<longleftrightarrow>
     (\<forall>n. n \<noteq> home_key sb \<or> existing_claim sb \<longrightarrow> m' n = m n) \<and>
     (\<not> delete_policy sb \<longrightarrow> (\<forall>pvc. m (home_key sb) = Some pvc \<and> \<not> deleting (pvc_meta pvc) \<longrightarrow>
        (\<exists>p. m' (home_key sb) = Some p \<and> \<not> deleting (pvc_meta p))))"

definition finalized :: "Sandbox \<Rightarrow> cluster \<Rightarrow> cluster \<Rightarrow> bool" where
  "finalized sb v v' \<longleftrightarrow>
     gone pod_meta (cl_Pods v') (sb_Namespace sb, PodName (sb_Name sb)) \<and>
     gone sec_meta (cl_Secrets v') (sb_Namespace sb, HostKeyName (sb_Name sb)) \<and>
     gone np_meta (cl_NetPols v') (sb_Namespace sb, NetPolName (sb_Name sb)) \<and>
     gone sa_meta (cl_ServiceAccounts v') (sb_Namespace sb, saName (sb_Name sb)) \<and>
     (\<forall>n rb. cl_RoleBindings v' n = Some rb \<and> labelled (sb_UID sb) rb \<longrightarrow> deleting (rb_meta rb)) \<and>
     (\<forall>n s. cl_Sessions v' n = Some s \<and> fst n = sb_Namespace sb \<longrightarrow> \<not> activeFor sb s) \<and>
     home_retained sb (cl_PVCs v) (cl_PVCs v') \<and>
     (\<forall>s. cl_Sandboxes v' (key_of (sb_meta sb)) = Some s \<longrightarrow> SandboxFinalizer \<notin> set (om_Finalizers (sb_meta s)))"

text \<open>The sandbox a server returns for a status update is the stored one but for its status.\<close>

definition alike :: "Sandbox \<Rightarrow> Sandbox \<Rightarrow> bool" where
  "alike a b \<longleftrightarrow> sb_spec a = sb_spec b \<and> user_meta (sb_meta a) = user_meta (sb_meta b) \<and> sb_UID a = sb_UID b"

lemma alike_names:
  assumes "alike a b"
  shows "sb_Name a = sb_Name b" "sb_Namespace a = sb_Namespace b" "sb_UID a = sb_UID b" "sb_spec a = sb_spec b"
    "key_of (sb_meta a) = key_of (sb_meta b)"
  using assms by (auto simp: alike_def user_meta_def key_of_def)

lemma alike_refl [simp]: "alike a a"
  by (simp add: alike_def)

lemma alike_home:
  assumes "alike a b"
  shows "home_key a = home_key b" "existing_claim a = existing_claim b" "delete_policy a = delete_policy b"
    "activeFor a = activeFor b"
  using alike_names [OF assms] by (simp_all add: home_key_def existing_claim_def delete_policy_def activeFor_def fun_eq_iff)

lemma homes_safe_refl [simp]: "homes_safe sb m m"
  by (simp add: homes_safe_def)

lemma homes_safe_cong: "alike a b \<Longrightarrow> homes_safe a = homes_safe b"
  by (simp add: fun_eq_iff homes_safe_def alike_home)

lemma finalized_cong:
  assumes "alike a b"
  shows "finalized a v v' = finalized b v v'"
  unfolding finalized_def home_retained_def alike_names [OF assms] alike_home [OF assms] by (rule refl)

section \<open>Sessions\<close>

definition closed_session :: "SandboxSession \<Rightarrow> bool" where
  "closed_session s \<longleftrightarrow> st_State (ses_status s) = SessionStateClosed \<and> st_EndTime (ses_status s) \<noteq> None \<and>
     st_ExitReason (ses_status s) = ExitReasonSandboxDeleted"

definition closing ::
  "Sandbox \<Rightarrow> SandboxSession set \<Rightarrow> (NamespacedName \<rightharpoonup> SandboxSession) \<Rightarrow> (NamespacedName \<rightharpoonup> SandboxSession) \<Rightarrow> bool" where
  "closing sb T m m' \<longleftrightarrow>
     (\<forall>s \<in> T. \<forall>s'. activeFor sb s \<and> m' (key_of (ses_meta s)) = Some s' \<longrightarrow> closed_session s') \<and>
     (\<forall>n s'. m' n = Some s' \<longrightarrow> m n = Some s' \<or> closed_session s')"

lemma closing_skip:
  "closing sb T m m' \<Longrightarrow> \<not> activeFor sb s \<or> m' (key_of (ses_meta s)) = None \<Longrightarrow> closing sb (insert s T) m m'"
  by (auto simp: closing_def)

lemma closing_close:
  assumes "closing sb T m m'" "closed_session s'"
  shows "closing sb (insert s T) m (m'(key_of (ses_meta s) \<mapsto> s'))"
  using assms by (auto simp: closing_def)

lemma closing_done:
  assumes "closing sb T m m'" "\<forall>n s. m n = Some s \<longrightarrow> key_of (ses_meta s) = n"
    "\<forall>n s. m n = Some s \<and> fst n = sb_Namespace sb \<longrightarrow> s \<in> T" "m' n = Some s" "fst n = sb_Namespace sb"
  shows "\<not> activeFor sb s"
proof
  assume act: "activeFor sb s"
  then have "\<not> closed_session s" by (simp add: activeFor_def closed_session_def)
  then have "m n = Some s" using assms(1,4) unfolding closing_def by blast
  then have "s \<in> T" "key_of (ses_meta s) = n" using assms(2,3,5) by blast+
  then show False using assms(1,4) act \<open>\<not> closed_session s\<close> unfolding closing_def by blast
qed

text \<open>An update of one kind is an assignment.\<close>

lemma assign_PVCs: "cl_PVCs_update f v = v\<lparr>cl_PVCs := f (cl_PVCs v)\<rparr>"
  by (cases v) simp

lemma assigns_Sandboxes: "\<exists>m. cl_Sandboxes_update f v = v\<lparr>cl_Sandboxes := m\<rparr>"
  by (cases v) (auto intro: exI [of _ "f (cl_Sandboxes v)"])

context kube_server
begin

lemma wall_frame:
  assumes "sr_Client r = c"
  shows "vtriple view p (sr_wall r) (\<lambda>_. p)"
  unfolding sr_wall_def assms by (rule vtriple_frozen [OF now_law]) auto

lemma closeOne_closes:
  assumes "sr_Client r = c"
  shows "succeeds view (\<lambda>v. \<exists>m. v = v0\<lparr>cl_Sessions := m\<rparr> \<and> closing sb T m0 m) (closeOne r sb now s)
    (\<lambda>_ v. \<exists>m. v = v0\<lparr>cl_Sessions := m\<rparr> \<and> closing sb (insert s T) m0 m)"
  (is "succeeds view ?p _ (\<lambda>_. ?q)")
proof (cases "activeFor sb s")
  case True
  have key: "key_of (ses_meta (closeDeleted now s)) = key_of (ses_meta s)" by (simp add: closeDeleted_def)
  have "vtriple view ?p (kc_StatusUpdate (k_Sessions c) (closeDeleted now s))
      (\<lambda>r v. case r of Inl e \<Rightarrow> IsNotFound e \<longrightarrow> ?q v | Inr _ \<Rightarrow> ?q v)"
  proof (rule sessions.status_update_rule, goal_cases)
    case (1 v x0 y)
    then have "closed_session y" by (simp add: closed_session_def closeDeleted_def)
    with 1 show ?case by (auto simp: key o_def intro!: closing_close)
  next
    case (2 v e)
    then show ?case by (auto simp: key intro!: closing_skip)
  qed
  then show ?thesis
    using True unfolding closeOne_def assms succeeds_def
    by (auto intro!: vtriple_bind vtriple_ret simp: ignore_def split: sum.splits)
qed (auto simp: closeOne_def intro!: succeeds_ret closing_skip)

lemma closeSessions_closes:
  assumes "sr_Client r = c"
  shows "succeeds view (\<lambda>v. v = v0) (closeSessions r sb) (\<lambda>_ v. \<exists>m. v = v0\<lparr>cl_Sessions := m\<rparr> \<and>
    (\<forall>n s. m n = Some s \<and> fst n = sb_Namespace sb \<longrightarrow> \<not> activeFor sb s))"
  (is "succeeds view _ _ (\<lambda>_. ?q)")
  unfolding closeSessions_def
proof (rule succeeds_then)
  let ?m0 = "cl_Sessions v0"
  let ?items = "{s \<in> ran ?m0. om_Namespace (ses_meta s) = sb_Namespace sb}"
  let ?keyed = "\<forall>n s. ?m0 n = Some s \<longrightarrow> key_of (ses_meta s) = n"
  let ?I = "\<lambda>T v. \<exists>m. v = v0\<lparr>cl_Sessions := m\<rparr> \<and> closing sb T ?m0 m"
  show "succeeds view (\<lambda>v. v = v0) (kc_List (k_Sessions (sr_Client r)) [InNamespace (sb_Namespace sb)])
      (\<lambda>items v. v = v0 \<and> (?keyed \<and> set items = ?items))"
    unfolding assms by (rule sessions.list_rule) auto
  fix items
  show "succeeds view (\<lambda>v. v = v0 \<and> (?keyed \<and> set items = ?items))
      (do { now \<leftarrow> sr_wall r; for_each (closeOne r sb now) items }) (\<lambda>_. ?q)"
  proof (rule succeeds_pre)
    assume items: "?keyed \<and> set items = ?items"
    have loop: "succeeds view (?I {}) (for_each (closeOne r sb now) items) (\<lambda>_. ?I ({} \<union> set items))" for now
      by (rule succeeds_for_each) (rule closeOne_closes [OF assms])
    have "s \<in> ?items" if "?m0 n = Some s" "fst n = sb_Namespace sb" for n s
    proof -
      have "key_of (ses_meta s) = n" using that items by blast
      then show ?thesis using that by (auto simp: key_of_def intro: ranI)
    qed
    then have all: "\<forall>n s. ?m0 n = Some s \<and> fst n = sb_Namespace sb \<longrightarrow> s \<in> set items"
      using items by blast
    have start: "?I {} v0" by (intro exI [of _ ?m0]) (simp add: closing_def)
    have finish: "?q v" if "?I (set items) v" for v
    proof -
      from that obtain m where m: "v = v0\<lparr>cl_Sessions := m\<rparr>" "closing sb (set items) ?m0 m" by blast
      then show ?thesis using closing_done [OF m(2) _ all] items by blast
    qed
    have "succeeds view (\<lambda>v. v = v0) (for_each (closeOne r sb now) items) (\<lambda>_. ?q)" for now
      by (rule succeeds_conseq [OF loop]) (use start finish in auto)
    then show "succeeds view (\<lambda>v. v = v0) (do { now \<leftarrow> sr_wall r; for_each (closeOne r sb now) items }) (\<lambda>_. ?q)"
      unfolding succeeds_def by (rule vtriple_bind [OF wall_frame [OF assms]])
  qed
qed

lemma deleteChildren_retires:
  assumes "sr_Client r = c"
  shows "succeeds view (\<lambda>v. v = v0) (deleteChildren r sb) (\<lambda>_ v. \<exists>p s n a.
    v = v0\<lparr>cl_Pods := p, cl_Secrets := s, cl_NetPols := n, cl_ServiceAccounts := a\<rparr> \<and>
    gone pod_meta p (sb_Namespace sb, PodName (sb_Name sb)) \<and> gone sec_meta s (sb_Namespace sb, HostKeyName (sb_Name sb)) \<and>
    gone np_meta n (sb_Namespace sb, NetPolName (sb_Name sb)) \<and> gone sa_meta a (sb_Namespace sb, saName (sb_Name sb)))"
  unfolding deleteChildren_def for_each.simps assms
  by (rule succeeds_then [OF pods.delete_one], rule succeeds_then [OF succeeds_frozen [OF secrets.delete_one]],
      rule succeeds_then [OF succeeds_frozen [OF netpols.delete_one]],
      rule succeeds_then [OF succeeds_frozen [OF serviceaccounts.delete_one]], rule succeeds_ret)
    (auto simp: retired_def)

text \<open>The orphan label on a claim that was just read.\<close>

lemma labelHome_retains:
  assumes "cl_PVCs v0 (home_key sb) = Some x" "key_of (pvc_meta x) = home_key sb" "\<not> delete_policy sb" "\<not> existing_claim sb"
  shows "succeeds view (\<lambda>v. v = v0) (do {
      err \<leftarrow> kc_Update (k_PVCs c) (x\<lparr>pvc_meta := (pvc_meta x)\<lparr>
        om_Labels := setLabel LabelOrphanedHome ''true'' (om_Labels (pvc_meta x))\<rparr>\<rparr>);
      ret (ignore IsNotFound err) })
    (\<lambda>_ v. \<exists>m. v = v0\<lparr>cl_PVCs := m\<rparr> \<and> home_retained sb (cl_PVCs v0) m)"
  (is "succeeds view _ (do { err \<leftarrow> kc_Update _ ?x; _ err }) (\<lambda>_. ?q)")
  unfolding succeeds_def
proof (rule vtriple_bind)
  have key: "key_of (pvc_meta ?x) = home_key sb" using assms(2) by (simp add: key_of_def)
  show "vtriple view (\<lambda>v. v = v0) (kc_Update (k_PVCs c) ?x) (\<lambda>r v. case r of Inl e \<Rightarrow> \<not> IsNotFound e | Inr _ \<Rightarrow> ?q v)"
  proof (rule vtriple_frozen [OF pvcs.update], goal_cases)
    case (1 v1 r v)
    show ?case
    proof (cases r)
      case (Inr y)
      have "orphaned y" "deleting (pvc_meta y) = deleting (pvc_meta x)"
        using 1 Inr assms(1) unfolding key
        by (auto simp: orphaned_def user_meta_def server_meta_def setLabel_def update_conv deleting_def)
      then have "home_retained sb (cl_PVCs v0) ((cl_PVCs v0)(home_key sb :=
          if deleting (pvc_meta y) \<and> om_Finalizers (pvc_meta y) = [] then None else Some y))"
        using assms(1,3,4) by (auto simp: home_retained_def)
      moreover have "v = v0\<lparr>cl_PVCs := (cl_PVCs v0)(home_key sb :=
          if deleting (pvc_meta y) \<and> om_Finalizers (pvc_meta y) = [] then None else Some y)\<rparr>"
        using 1 Inr unfolding key by (auto simp: assign_PVCs [of "\<lambda>m. m(_ := _)"])
      ultimately show ?thesis using Inr by auto
    qed (use 1 assms(1) key in auto)
  qed
qed (auto intro!: vtriple_ret simp: ignore_def split: sum.splits)

lemma applyHome_retains:
  assumes "sr_Client r = c"
  shows "succeeds view (\<lambda>v. v = v0) (applyHomeRetainPolicy r sb)
    (\<lambda>_ v. \<exists>m. v = v0\<lparr>cl_PVCs := m\<rparr> \<and> home_retained sb (cl_PVCs v0) m)"
  (is "succeeds view _ _ (\<lambda>_. ?q)")
proof (cases "existing_claim sb")
  case True
  then show ?thesis
    unfolding applyHomeRetainPolicy_def existing_claim_def [symmetric]
    by (auto intro!: succeeds_ret exI [of _ "cl_PVCs v0"] simp: home_retained_def)
next
  case False
  let ?m0 = "cl_PVCs v0"
  let ?k = "home_key sb"
  have get: "vtriple view (\<lambda>v. v = v0) (kc_Get (k_PVCs c) ?k) (\<lambda>g v. v = v0 \<and>
      (case g of Inr x \<Rightarrow> ?m0 ?k = Some x \<and> key_of (pvc_meta x) = ?k | Inl e \<Rightarrow> IsNotFound e \<longrightarrow> ?m0 ?k = None))"
    by (rule pvcs.get_rule) auto
  have del: "succeeds view (\<lambda>v. v = v0) (do { err \<leftarrow> kc_Delete (k_PVCs c) ?k; ret (ignore IsNotFound err) }) (\<lambda>_. ?q)"
    if "?m0 ?k = Some x" "delete_policy sb" for x
    by (rule succeeds_conseq [OF pvcs.delete_one]) (use that False in \<open>auto simp: home_retained_def retired_def\<close>)
  have label: "succeeds view (\<lambda>v. v = v0) (do {
        err \<leftarrow> kc_Update (k_PVCs c) (x\<lparr>pvc_meta := (pvc_meta x)\<lparr>
          om_Labels := setLabel LabelOrphanedHome ''true'' (om_Labels (pvc_meta x))\<rparr>\<rparr>);
        ret (ignore IsNotFound err) }) (\<lambda>_. ?q)"
    if "?m0 ?k = Some x" "key_of (pvc_meta x) = ?k" "\<not> delete_policy sb" for x
    using that False by (intro labelHome_retains)
  have none: "?m0 ?k = None \<Longrightarrow> home_retained sb ?m0 ?m0"
    using False by (simp add: home_retained_def)
  show ?thesis
    unfolding applyHomeRetainPolicy_def existing_claim_def [symmetric] delete_policy_def [symmetric]
      home_key_def [symmetric] if_not_P [OF False] assms
    by (rule succeeds_case [OF get]; rule succeeds_pre)
      (auto simp: none intro!: succeeds_ret succeeds_err succeeds_if exI [of _ ?m0] del label)
qed

lemma markTerminating_keeps:
  assumes "sr_Client r = c" "cl_Sandboxes v0 (key_of (sb_meta sb0)) = Some sb0"
  shows "succeeds view (\<lambda>v. v = v0) (markTerminating r sb0) (\<lambda>sb v. (\<exists>m. v = v0\<lparr>cl_Sandboxes := m\<rparr>) \<and> alike sb sb0)"
proof (cases "ss_Phase (sb_status sb0) = SandboxPhaseTerminating")
  case True
  then show ?thesis
    unfolding markTerminating_def by (auto intro!: succeeds_ret exI [of _ "cl_Sandboxes v0"])
next
  case False
  let ?sb1 = "sb0\<lparr>sb_status := (sb_status sb0)\<lparr>ss_Phase := SandboxPhaseTerminating\<rparr>\<rparr>"
  have "vtriple view (\<lambda>v. v = v0) (kc_StatusUpdate (k_Sandboxes c) ?sb1) (\<lambda>r v.
      case r of Inl e \<Rightarrow> \<not> IsNotFound e | Inr sb \<Rightarrow> (\<exists>m. v = v0\<lparr>cl_Sandboxes := m\<rparr>) \<and> alike sb sb0)"
  proof (rule sandboxes.status_update_rule, goal_cases)
    case (1 v x0 y)
    then show ?case
      using assms(2) by (auto simp: alike_def server_meta_def intro: assigns_Sandboxes)
  qed (use assms(2) in auto)
  then show ?thesis
    unfolding markTerminating_def Let_def assms(1) if_P [OF False]
    by (rule succeeds_case) (simp_all add: succeeds_ret succeeds_err succeeds_def vtriple_def triple_def)
qed

lemma dropFinalizer_drops:
  assumes "kube_library L"
  shows "succeeds view p (do {
      upd \<leftarrow> kc_Update (k_Sandboxes c) (sb\<lparr>sb_meta := RemoveFinalizer L (sb_meta sb) SandboxFinalizer\<rparr>);
      (case upd of Inl e \<Rightarrow> ret (Inl e) | Inr _ \<Rightarrow> ret (Inr noRequeue)) })
    (\<lambda>_ v. \<exists>v1. p v1 \<and> (\<exists>m. v = v1\<lparr>cl_Sandboxes := m\<rparr> \<and>
      (\<forall>s. m (key_of (sb_meta sb)) = Some s \<longrightarrow> SandboxFinalizer \<notin> set (om_Finalizers (sb_meta s)))))"
  (is "succeeds view p _ (\<lambda>_. ?q)")
proof (rule succeeds_then [where q = "\<lambda>_. ?q"])
  let ?x = "sb\<lparr>sb_meta := RemoveFinalizer L (sb_meta sb) SandboxFinalizer\<rparr>"
  have key: "key_of (sb_meta ?x) = key_of (sb_meta sb)"
    using kube_library.remove_key [OF assms] by simp
  show "succeeds view p (kc_Update (k_Sandboxes c) ?x) (\<lambda>_. ?q)"
  proof (rule sandboxes.update_rule, goal_cases)
    case (1 v x0 y)
    let ?m = "(cl_Sandboxes v)(key_of (sb_meta sb) :=
      if deleting (sb_meta y) \<and> om_Finalizers (sb_meta y) = [] then None else Some y)"
    have "SandboxFinalizer \<notin> set (om_Finalizers (sb_meta y))"
      using 1 kube_library.remove_finalizer [OF assms] by (simp add: user_meta_def)
    then have "\<forall>s. ?m (key_of (sb_meta sb)) = Some s \<longrightarrow> SandboxFinalizer \<notin> set (om_Finalizers (sb_meta s))" by simp
    moreover have "cl_Sandboxes_update (\<lambda>m. m(key_of (sb_meta ?x) :=
        if deleting (sb_meta y) \<and> om_Finalizers (sb_meta y) = [] then None else Some y)) v = v\<lparr>cl_Sandboxes := ?m\<rparr>"
      unfolding key by (cases v) simp
    ultimately show ?case using 1(1) by metis
  qed
qed (auto intro: succeeds_ret)

text \<open>The steps of \<open>finalize\<close> after the phase update.\<close>

lemma finalize_tail:
  assumes "sr_Client r = c" "kube_library (sr_Lib r)"
  shows "succeeds view (\<lambda>v. \<exists>m. v = v0\<lparr>cl_Sandboxes := m\<rparr>) (do {
      children \<leftarrow> deleteChildren r sb;
      (case children of Inl e \<Rightarrow> ret (Inl e) | Inr _ \<Rightarrow> do {
         gc \<leftarrow> gcRBAC r sb None;
         (case gc of Inl e \<Rightarrow> ret (Inl e) | Inr _ \<Rightarrow> do {
            closed \<leftarrow> closeSessions r sb;
            (case closed of Inl e \<Rightarrow> ret (Inl e) | Inr _ \<Rightarrow> do {
               retained \<leftarrow> applyHomeRetainPolicy r sb;
               (case retained of Inl e \<Rightarrow> ret (Inl e) | Inr _ \<Rightarrow> do {
                  upd \<leftarrow> kc_Update (k_Sandboxes (sr_Client r))
                    (sb\<lparr>sb_meta := RemoveFinalizer (sr_Lib r) (sb_meta sb) SandboxFinalizer\<rparr>);
                  (case upd of Inl e \<Rightarrow> ret (Inl e) | Inr _ \<Rightarrow> ret (Inr noRequeue)) }) }) }) }) })
    (\<lambda>_ v. finalized sb v0 v)"
  by (rule succeeds_then [OF succeeds_frozen [OF deleteChildren_retires [OF assms(1)]]],
      rule succeeds_then [OF gcRBAC_after [OF assms(1), where ks = "[]"]], simp,
      rule succeeds_then [OF succeeds_frozen [OF closeSessions_closes [OF assms(1)]]],
      rule succeeds_then [OF succeeds_frozen [OF applyHome_retains [OF assms(1)]]],
      unfold assms(1), rule succeeds_conseq [OF dropFinalizer_drops [OF assms(2)]], assumption, elim exE conjE, hypsubst)
    (auto simp: finalized_def dest: retired_surplus)

lemma finalize_finalizes:
  assumes "sr_Client r = c" "kube_library (sr_Lib r)" "cl_Sandboxes v0 (key_of (sb_meta sb)) = Some sb"
    "SandboxFinalizer \<in> set (om_Finalizers (sb_meta sb))"
  shows "succeeds view (\<lambda>v. v = v0) (finalize r sb) (\<lambda>_ v. finalized sb v0 v)"
proof -
  have has: "\<not> \<not> ContainsFinalizer (sr_Lib r) (sb_meta sb) SandboxFinalizer"
    using assms(4) kube_library.contains_iff [OF assms(2)] by simp
  have same: "finalized x v0 = finalized sb v0" if "alike x sb" for x
    using finalized_cong [OF that] by (simp add: fun_eq_iff)
  show ?thesis
    unfolding finalize_def if_not_P [OF has]
    by (rule succeeds_then [OF markTerminating_keeps [OF assms(1,3)]], rule succeeds_pre)
      (simp only: same [symmetric], rule finalize_tail [OF assms(1,2)])
qed

lemma Reconcile_finalizes:
  assumes "sr_Client r = c" "kube_library (sr_Lib r)" "cl_Sandboxes v0 req = Some sb" "deleting (sb_meta sb)"
    "SandboxFinalizer \<in> set (om_Finalizers (sb_meta sb))"
  shows "succeeds view (\<lambda>v. v = v0) (Reconcile r req) (\<lambda>_ v. finalized sb v0 v)"
  unfolding Reconcile_def assms(1)
proof (rule succeeds_case)
  show "vtriple view (\<lambda>v. v = v0) (kc_Get (k_Sandboxes c) req) (\<lambda>g v. v = v0 \<and>
      (case g of Inl e \<Rightarrow> \<not> IsNotFound e | Inr x \<Rightarrow> x = sb \<and> key_of (sb_meta sb) = req))"
    by (rule sandboxes.get_rule) (use assms(3) in auto)
qed (rule succeeds_pre; use assms finalize_finalizes [OF assms(1,2) _ assms(5)] in \<open>auto intro: succeeds_err\<close>)+

text \<open>Whatever fails on the way, the steps before the retain policy leave the claims alone.\<close>

lemma claims_untouched:
  assumes "sr_Client r = c"
  shows "vtriple view (\<lambda>v. cl_PVCs v = m) (deleteChildren r sb) (\<lambda>_ v. cl_PVCs v = m)"
    "vtriple view (\<lambda>v. cl_PVCs v = m) (gcRBAC r sb keep) (\<lambda>_ v. cl_PVCs v = m)"
    "vtriple view (\<lambda>v. cl_PVCs v = m) (closeSessions r sb) (\<lambda>_ v. cl_PVCs v = m)"
proof -
  show "vtriple view (\<lambda>v. cl_PVCs v = m) (deleteChildren r sb) (\<lambda>_ v. cl_PVCs v = m)"
    unfolding deleteChildren_def for_each.simps assms
    by (intro vtriple_then vtriple_ignore vtriple_ret pods.frame secrets.frame netpols.frame serviceaccounts.frame) simp_all
qed (auto simp: gcRBAC_def gcBinding_def closeSessions_def closeOne_def assms intro!: vtriple_then vtriple_for_each vtriple_ignore vtriple_ret
      rolebindings.frame sessions.frame vtriple_bind [OF wall_frame [OF assms]])

lemma labelHome_safe:
  assumes "m0 (home_key sb) = Some x" "key_of (pvc_meta x) = home_key sb" "\<not> existing_claim sb"
  shows "vtriple view (\<lambda>v. cl_PVCs v = m0) (kc_Update (k_PVCs c) (x\<lparr>pvc_meta := (pvc_meta x)\<lparr>
        om_Labels := setLabel LabelOrphanedHome ''true'' (om_Labels (pvc_meta x))\<rparr>\<rparr>))
    (\<lambda>_ v. homes_safe sb m0 (cl_PVCs v))"
  by (rule vtriple_frozen [OF pvcs.update])
    (use assms in \<open>auto simp: homes_safe_def key_of_def server_meta_def deleting_def split: sum.splits\<close>)

lemma applyHome_safe:
  assumes "sr_Client r = c"
  shows "vtriple view (\<lambda>v. cl_PVCs v = m0) (applyHomeRetainPolicy r sb) (\<lambda>_ v. homes_safe sb m0 (cl_PVCs v))"
proof (cases "existing_claim sb")
  case True
  then show ?thesis
    unfolding applyHomeRetainPolicy_def existing_claim_def [symmetric]
    by (auto intro!: vtriple_ret simp: homes_safe_def)
next
  case False
  have get: "vtriple view (\<lambda>v. cl_PVCs v = m0) (kc_Get (k_PVCs c) (home_key sb)) (\<lambda>g v. cl_PVCs v = m0 \<and>
      (case g of Inr x \<Rightarrow> m0 (home_key sb) = Some x \<and> key_of (pvc_meta x) = home_key sb | Inl e \<Rightarrow> True))"
    by (rule pvcs.get_rule) auto
  have del: "vtriple view (\<lambda>v. cl_PVCs v = m0) (kc_Delete (k_PVCs c) (home_key sb)) (\<lambda>_ v. homes_safe sb m0 (cl_PVCs v))"
    if "delete_policy sb"
    by (rule vtriple_frozen [OF pvcs.delete]) (use that False in \<open>auto simp: homes_safe_def split: sum.splits\<close>)
  have rest: "vtriple view (\<lambda>v. cl_PVCs v = m0) (if delete_policy sb
        then do { err \<leftarrow> kc_Delete (k_PVCs c) (key_of (pvc_meta x)); ret (ignore IsNotFound err) }
        else do { err \<leftarrow> kc_Update (k_PVCs c) (x\<lparr>pvc_meta := (pvc_meta x)\<lparr>
            om_Labels := setLabel LabelOrphanedHome ''true'' (om_Labels (pvc_meta x))\<rparr>\<rparr>);
          ret (ignore IsNotFound err) }) (\<lambda>_ v. homes_safe sb m0 (cl_PVCs v))"
    if x: "m0 (home_key sb) = Some x" "key_of (pvc_meta x) = home_key sb" for x
    unfolding x(2) by (auto intro: vtriple_bind [OF del] vtriple_bind [OF labelHome_safe [of m0 sb x, OF x False]] vtriple_ret)
  show ?thesis
    unfolding applyHomeRetainPolicy_def existing_claim_def [symmetric] delete_policy_def [symmetric]
      home_key_def [symmetric] if_not_P [OF False] assms
  proof (rule vtriple_bind [OF get], goal_cases)
    case (1 g)
    show ?case
    proof (cases g)
      case (Inl e)
      show ?thesis unfolding Inl sum.case by (auto intro!: vtriple_ret)
    next
      case (Inr x)
      show ?thesis unfolding Inr sum.case by (rule vtriple_pre) (use rest in blast)
    qed
  qed
qed

text \<open>Finalizing, in every outcome.\<close>

lemma markTerminating_claims:
  assumes "sr_Client r = c"
  shows "vtriple view (\<lambda>v. cl_PVCs v = m) (markTerminating r sb) (\<lambda>_ v. cl_PVCs v = m)"
  unfolding markTerminating_def Let_def assms
  by (auto intro!: vtriple_bind [OF sandboxes.frame(5)] vtriple_ret split: sum.split)

lemma finalize_safe_tail:
  assumes "sr_Client r = c"
  shows "vtriple view (\<lambda>v. cl_PVCs v = m) (do {
      children \<leftarrow> deleteChildren r sb;
      (case children of Inl e \<Rightarrow> ret (Inl e) | Inr _ \<Rightarrow> do {
         gc \<leftarrow> gcRBAC r sb None;
         (case gc of Inl e \<Rightarrow> ret (Inl e) | Inr _ \<Rightarrow> do {
            closed \<leftarrow> closeSessions r sb;
            (case closed of Inl e \<Rightarrow> ret (Inl e) | Inr _ \<Rightarrow> do {
               retained \<leftarrow> applyHomeRetainPolicy r sb;
               (case retained of Inl e \<Rightarrow> ret (Inl e) | Inr _ \<Rightarrow> do {
                  upd \<leftarrow> kc_Update (k_Sandboxes (sr_Client r))
                    (sb\<lparr>sb_meta := RemoveFinalizer (sr_Lib r) (sb_meta sb) SandboxFinalizer\<rparr>);
                  (case upd of Inl e \<Rightarrow> ret (Inl e) | Inr _ \<Rightarrow> ret (Inr noRequeue)) }) }) }) }) })
    (\<lambda>_ v. homes_safe sb m (cl_PVCs v))"
  unfolding assms
  by (intro vtriple_then claims_untouched [OF assms] vtriple_bind [OF applyHome_safe [OF assms]])
    (auto intro!: vtriple_then vtriple_ret sandboxes.frame simp: homes_safe_def split: sum.split)

lemma finalize_safe:
  assumes "sr_Client r = c" "cl_Sandboxes v0 (key_of (sb_meta sb)) = Some sb"
  shows "vtriple view (\<lambda>v. v = v0) (finalize r sb) (\<lambda>_ v. homes_safe sb (cl_PVCs v0) (cl_PVCs v))"
proof -
  let ?I = "\<lambda>v. cl_PVCs v = cl_PVCs v0"
  have mark: "vtriple view (\<lambda>v. v = v0) (markTerminating r sb) (\<lambda>g v. ?I v \<and> (case g of Inl e \<Rightarrow> True | Inr x \<Rightarrow> alike x sb))"
    using markTerminating_keeps [OF assms] markTerminating_claims [OF assms(1), of "cl_PVCs v0" sb]
    by (auto simp: succeeds_def vtriple_def triple_def split: sum.splits)
  have tail: "vtriple view (\<lambda>v. ?I v \<and> alike x sb) m (\<lambda>_ v. homes_safe sb (cl_PVCs v0) (cl_PVCs v))"
    if "vtriple view ?I m (\<lambda>_ v. homes_safe x (cl_PVCs v0) (cl_PVCs v))" for x and m :: "('w, Result res) state"
    by (rule vtriple_pre) (use that in \<open>simp add: homes_safe_cong\<close>)
  have branch: "vtriple view (\<lambda>v. ?I v \<and> (case g of Inl e \<Rightarrow> True | Inr x \<Rightarrow> alike x sb))
      (case g of Inl e \<Rightarrow> ret (Inl e) | Inr x \<Rightarrow> f x) (\<lambda>_ v. homes_safe sb (cl_PVCs v0) (cl_PVCs v))"
    if "\<And>x. vtriple view ?I (f x) (\<lambda>_ v. homes_safe x (cl_PVCs v0) (cl_PVCs v))" for g and f :: "Sandbox \<Rightarrow> ('w, Result res) state"
    by (cases g) (use tail [OF that] in \<open>auto intro!: vtriple_ret\<close>)
  show ?thesis
    unfolding finalize_def
  proof (rule vtriple_if)
    show "vtriple view (\<lambda>v. v = v0) (ret (Inr noRequeue)) (\<lambda>_ v. homes_safe sb (cl_PVCs v0) (cl_PVCs v))"
      by (rule vtriple_ret) simp
  qed (rule vtriple_bind [OF mark], rule branch, rule finalize_safe_tail [OF assms(1)])
qed

lemma Reconcile_safe:
  assumes "sr_Client r = c" "cl_Sandboxes v0 req = Some sb" "deleting (sb_meta sb)"
  shows "vtriple view (\<lambda>v. v = v0) (Reconcile r req) (\<lambda>_ v. homes_safe sb (cl_PVCs v0) (cl_PVCs v))"
  unfolding Reconcile_def assms(1)
proof (rule vtriple_bind)
  show "vtriple view (\<lambda>v. v = v0) (kc_Get (k_Sandboxes c) req) (\<lambda>g v. v = v0 \<and>
      (case g of Inl e \<Rightarrow> True | Inr x \<Rightarrow> x = sb \<and> key_of (sb_meta sb) = req))"
    by (rule sandboxes.get_rule) (use assms(2) in auto)
qed (rule vtriple_pre, use assms finalize_safe [OF assms(1)] in \<open>auto intro!: vtriple_ret split: sum.splits\<close>)

end

section \<open>Properties\<close>


text \<open>A sandbox under deletion with a home, a pod, a session and a binding.\<close>

definition dyingSandbox :: "RetainPolicy \<Rightarrow> Sandbox" where
  "dyingSandbox policy = sampleSandbox\<lparr>
     sb_meta := (sb_meta sampleSandbox)\<lparr>om_Finalizers := [SandboxFinalizer], om_DeletionTimestamp := Some (4000 * Second)\<rparr>,
     sb_spec := (sb_spec sampleSandbox)\<lparr>sp_Home := Some \<lparr>hs_Size = None, hs_StorageClassName = None,
       hs_ExistingClaim = [], hs_RetainPolicy = policy\<rparr>\<rparr>\<rparr>"

definition dyingHome :: PersistentVolumeClaim where
  "dyingHome = \<lparr>pvc_meta = sampleMeta ''team'' (PVCName ''dev'') ''v1'', pvc_AccessModes = [],
     pvc_StorageClassName = None, pvc_StorageRequest = ''1Gi''\<rparr>"

definition dyingMemory :: "RetainPolicy \<Rightarrow> memory" where
  "dyingMemory policy = sampleMemory\<lparr>mem_Sandboxes := [dyingSandbox policy], mem_PVCs := [dyingHome],
     mem_RoleBindings := [sandboxBinding sampleSandbox sampleProfile ''a'']\<rparr>"

lemma dying_simps:
  "cl_Sandboxes (memView (dyingMemory p)) (''team'', ''dev'') = Some (dyingSandbox p)" "deleting (sb_meta (dyingSandbox p))"
  "SandboxFinalizer \<in> set (om_Finalizers (sb_meta (dyingSandbox p)))"
  "cl_PVCs (memView (dyingMemory p)) (home_key (dyingSandbox p)) = Some dyingHome" "\<not> deleting (pvc_meta dyingHome)"
  "\<not> existing_claim (dyingSandbox p)" "delete_policy (dyingSandbox p) \<longleftrightarrow> p = RetainPolicyDelete"
  by (simp_all add: dyingMemory_def sampleMemory_def emptyMemory_def memView_def lookup_def dyingSandbox_def dyingHome_def sample_defs
      key_of_def deleting_def IsZero_def zeroTime_def home_key_def existing_claim_def delete_policy_def)




end
