(* ===== verification/Profile_Server.thy ===== *)
theory Profile_Server
  imports Profile_Controller Sandbox_Server
begin

text \<open>
  The access-profile controller against a lawful server: the Roles it leaves
  are exactly the union of the profile's grants per namespace, and none is left
  when the profile is deleted.
\<close>

declare split_paired_All [simp del] split_paired_Ex [simp del]

section \<open>The union of the grants\<close>

text \<open>The rules a profile grants in a namespace: those of every grant that names it, in order.\<close>

definition grantedRules :: "AccessProfile \<Rightarrow> string \<Rightarrow> PolicyRule list" where
  "grantedRules profile ns = concat (map (\<lambda>grant. concat (map (\<lambda>_. gr_Rules grant)
     (filter (\<lambda>n. n = ns) (gr_Namespaces grant)))) (aps_Grants (ap_spec profile)))"

definition lookupRules :: "(string \<times> PolicyRule list) list \<Rightarrow> string \<Rightarrow> PolicyRule list" where
  "lookupRules m ns = (case map_of m ns of None \<Rightarrow> [] | Some rs \<Rightarrow> rs)"

lemma lookupRules_Nil [simp]: "lookupRules [] ns = []"
  by (simp add: lookupRules_def)

lemma appendRules_simps:
  "lookupRules (appendRules rules k m) ns = lookupRules m ns @ (if ns = k then rules else [])"
  "fst ` set (appendRules rules k m) = insert k (fst ` set m)"
  "distinct (map fst m) \<Longrightarrow> distinct (map fst (appendRules rules k m))"
  by (auto simp: lookupRules_def appendRules_def update_conv dom_update distinct_update)

lemma appendRules_fold:
  "lookupRules (fold (appendRules rules) nss m) ns = lookupRules m ns @ concat (map (\<lambda>_. rules) (filter (\<lambda>n. n = ns) nss))"
  "fst ` set (fold (appendRules rules) nss m) = fst ` set m \<union> set nss"
  "distinct (map fst m) \<Longrightarrow> distinct (map fst (fold (appendRules rules) nss m))"
  by (induction nss arbitrary: m) (auto simp: appendRules_simps)

lemma grants_rules_fold:
  defines "add \<equiv> \<lambda>grant. fold (appendRules (gr_Rules grant)) (gr_Namespaces grant)"
  shows "lookupRules (fold add grants m) ns = lookupRules m ns @
      concat (map (\<lambda>grant. concat (map (\<lambda>_. gr_Rules grant) (filter (\<lambda>n. n = ns) (gr_Namespaces grant)))) grants)"
    "fst ` set (fold add grants m) = fst ` set m \<union> (\<Union>g \<in> set grants. set (gr_Namespaces g))"
    "distinct (map fst m) \<Longrightarrow> distinct (map fst (fold add grants m))"
  unfolding add_def by (induction grants arbitrary: m) (auto simp: appendRules_fold)

lemma rulesByNS_facts:
  "lookupRules (rulesByNS profile) ns = grantedRules profile ns" "fst ` set (rulesByNS profile) = granted profile"
  "distinct (map fst (rulesByNS profile))"
  by (simp_all add: rulesByNS_def grants_rules_fold grantedRules_def granted_def)

text \<open>The iteration order of a Go map: every key once.\<close>

definition orders :: "(string list \<Rightarrow> string list) \<Rightarrow> bool" where
  "orders f \<longleftrightarrow> (\<forall>xs. distinct xs \<longrightarrow> distinct (f xs) \<and> set (f xs) = set xs)"

lemma iterate_facts:
  assumes "orders (apr_Order r)"
  shows "distinct (map fst (iterate r (rulesByNS profile)))"
    "fst ` set (iterate r (rulesByNS profile)) = granted profile"
    "nr \<in> set (iterate r (rulesByNS profile)) \<Longrightarrow> snd nr = grantedRules profile (fst nr)"
proof -
  have o: "distinct (apr_Order r (map fst (rulesByNS profile)))" "set (apr_Order r (map fst (rulesByNS profile))) = granted profile"
    using assms rulesByNS_facts(2,3) [of profile] by (simp_all add: orders_def)
  then show "distinct (map fst (iterate r (rulesByNS profile)))" "fst ` set (iterate r (rulesByNS profile)) = granted profile"
    by (simp_all add: iterate_def comp_def image_image)
  assume "nr \<in> set (iterate r (rulesByNS profile))"
  then obtain ns where ns: "nr = (ns, the (map_of (rulesByNS profile) ns))" "ns \<in> granted profile"
    using o(2) by (auto simp: iterate_def)
  then obtain rs where "map_of (rulesByNS profile) ns = Some rs"
    using rulesByNS_facts(2) [of profile] by (metis map_of_eq_None_iff not_None_eq)
  then show "snd nr = grantedRules profile (fst nr)"
    using ns rulesByNS_facts(1) [of profile ns] by (simp add: lookupRules_def)
qed

section \<open>Roles\<close>

abbreviation roleKey :: "AccessProfile \<Rightarrow> string \<Rightarrow> NamespacedName" where
  "roleKey profile ns \<equiv> (ns, profileRoleName (om_Name (ap_meta profile)))"

definition live_roles :: "(NamespacedName \<rightharpoonup> Role) \<Rightarrow> bool" where
  "live_roles m \<longleftrightarrow> (\<forall>n role. m n = Some role \<longrightarrow> \<not> deleting (role_meta role))"

text \<open>The Roles after those of the namespaces \<open>T\<close> were applied.\<close>

definition roles_applied :: "AccessProfile \<Rightarrow> string set \<Rightarrow> (NamespacedName \<rightharpoonup> Role) \<Rightarrow> (NamespacedName \<rightharpoonup> Role) \<Rightarrow> bool" where
  "roles_applied profile T m m' \<longleftrightarrow> live_roles m' \<and>
     (\<forall>ns \<in> T. \<exists>role. m' (roleKey profile ns) = Some role \<and> role_Rules role = grantedRules profile ns) \<and>
     (\<forall>n. n \<notin> roleKey profile ` T \<longrightarrow> m' n = m n)"

lemma roles_applied_insert:
  assumes "roles_applied profile T m m'" "role_Rules role = grantedRules profile ns" "\<not> deleting (role_meta role)"
  shows "roles_applied profile (insert ns T) m (m'(roleKey profile ns \<mapsto> role))"
  using assms by (auto simp: roles_applied_def live_roles_def)

lemma roles_applied_same:
  assumes "roles_applied profile T m m'" "m' (roleKey profile ns) = Some role" "role_Rules role = grantedRules profile ns"
  shows "roles_applied profile (insert ns T) m m'"
  using assms by (auto simp: roles_applied_def)

definition ns_exists :: "cluster \<Rightarrow> string \<Rightarrow> bool" where
  "ns_exists v ns \<longleftrightarrow> cl_Namespaces v ([], ns) \<noteq> None"

text \<open>
  The Roles of a profile exactly as granted: every granted namespace that exists
  has a Role with the union of its rules, and no live Role of the profile is
  anywhere else.
\<close>

definition roles_exact :: "AccessProfile \<Rightarrow> cluster \<Rightarrow> (NamespacedName \<rightharpoonup> Role) \<Rightarrow> bool" where
  "roles_exact profile v m \<longleftrightarrow>
     (\<forall>ns \<in> granted profile. ns_exists v ns \<longrightarrow>
        (\<exists>role. m (roleKey profile ns) = Some role \<and> role_Rules role = grantedRules profile ns)) \<and>
     (\<forall>n role. m n = Some role \<and> map_of (om_Labels (role_meta role)) LabelProfile = Some (om_Name (ap_meta profile)) \<and>
        \<not> deleting (role_meta role) \<longrightarrow> fst n \<in> granted profile \<and> ns_exists v (fst n))"

lemma roles_exact_cong:
  assumes "ap_spec p = ap_spec q" "key_of (ap_meta p) = key_of (ap_meta q)"
  shows "granted p = granted q" "roles_exact p = roles_exact q"
  using assms by (simp_all add: granted_def grantedRules_def roles_exact_def fun_eq_iff key_of_def)

lemma roles_exact_ns: "cl_Namespaces v = cl_Namespaces v' \<Longrightarrow> roles_exact p v = roles_exact p v' \<and> ns_exists v = ns_exists v'"
  by (simp add: roles_exact_def ns_exists_def fun_eq_iff)

text \<open>The profile reports itself valid exactly when all its namespaces exist.\<close>

definition profile_reported :: "AccessProfile \<Rightarrow> cluster \<Rightarrow> (NamespacedName \<rightharpoonup> AccessProfile) \<Rightarrow> bool" where
  "profile_reported profile v m \<longleftrightarrow> (\<exists>p cnd. m (key_of (ap_meta profile)) = Some p \<and> ap_spec p = ap_spec profile \<and>
     condition_of (apst_Conditions (ap_status p)) ConditionValid = Some cnd \<and>
     (cd_Status cnd = ConditionTrue \<longleftrightarrow> (\<forall>ns \<in> granted profile. ns_exists v ns)))"

text \<open>The Roles of a profile by label, and the profile without its finalizer.\<close>

definition profileRoles :: "AccessProfile \<Rightarrow> (NamespacedName \<rightharpoonup> Role) \<Rightarrow> NamespacedName set" where
  "profileRoles profile m = {n. \<exists>role. m n = Some role \<and> map_of (om_Labels (role_meta role)) LabelProfile = Some (om_Name (ap_meta profile))}"

definition profile_released :: "AccessProfile \<Rightarrow> (NamespacedName \<rightharpoonup> AccessProfile) \<Rightarrow> bool" where
  "profile_released profile m \<longleftrightarrow> (case m (key_of (ap_meta profile)) of
     None \<Rightarrow> True | Some p \<Rightarrow> AccessProfileFinalizer \<notin> set (om_Finalizers (ap_meta p)))"

lemma validCondition_type: "cd_Type (validCondition p missing) = ConditionValid"
  by (simp add: validCondition_def)

lemma assign_Profiles: "\<exists>ps. cl_Profiles_update (\<lambda>m. m(k \<mapsto> y)) v = v\<lparr>cl_Profiles := ps\<rparr> \<and> ps k = Some y"
  by (rule exI [of _ "(cl_Profiles v)(k \<mapsto> y)"]) (cases v, simp)

lemma roles_exactI:
  assumes "roles_applied profile A (cl_Roles v) m" "A = {ns \<in> granted profile. ns_exists v ns}"
    "retired role_meta (surplus_of role_meta LabelProfile (om_Name (ap_meta profile)) A m) m m'"
  shows "roles_exact profile v m'"
proof -
  have "m' (roleKey profile ns) = m (roleKey profile ns)" if "ns \<in> A" for ns
    using assms(3) that by (simp add: retired_def surplus_of_def)
  then show ?thesis
    using assms(1,2) retired_surplus_of [OF assms(3)] unfolding roles_exact_def roles_applied_def by auto
qed

lemma set_sortStrings: "set (sortStrings xs) = set xs"
proof -
  have "set (insertString x ys) = insert x (set ys)" for x ys by (induction ys) auto
  then show ?thesis by (induction xs) (simp_all add: sortStrings_def)
qed

lemma bind_case_assoc:
  "State_Monad.bind (State_Monad.bind a (\<lambda>x. case x of Inl e \<Rightarrow> ret (Inl e) | Inr y \<Rightarrow> f y)) (\<lambda>r. case r of Inl e \<Rightarrow> ret (Inl e) | Inr y \<Rightarrow> g y) =
   State_Monad.bind a (\<lambda>x. case x of Inl e \<Rightarrow> ret (Inl e) | Inr y \<Rightarrow> State_Monad.bind (f y) (\<lambda>r. case r of Inl e \<Rightarrow> ret (Inl e) | Inr y \<Rightarrow> g y))"
  unfolding State_Monad.bind_assoc by (rule arg_cong [of _ _ "State_Monad.bind a"]) (auto simp: fun_eq_iff split: sum.split)

lemma assign_Roles: "cl_Roles_update f v = v\<lparr>cl_Roles := f (cl_Roles v)\<rparr>"
  by (cases v) simp

lemma profileRole_simps [simp]:
  "key_of (role_meta (profileRole profile ns rules)) = roleKey profile ns" "role_Rules (profileRole profile ns rules) = rules"
  "om_Name (role_meta (profileRole profile ns rules)) = profileRoleName (om_Name (ap_meta profile))"
  by (simp_all add: profileRole_def key_of_def)

context kube_server
begin

lemma getRole_reads:
  "vtriple view (\<lambda>v. v = v0\<lparr>cl_Roles := m\<rparr>) (kc_Get (k_Roles c) k) (\<lambda>g v. v = v0\<lparr>cl_Roles := m\<rparr> \<and>
    (case g of Inr x \<Rightarrow> m k = Some x \<and> key_of (role_meta x) = k | Inl e \<Rightarrow> IsNotFound e \<longrightarrow> m k = None))"
  by (rule roles.get_rule) auto

lemma createRole_applies:
  assumes "roles_applied profile T m0 m" "m (roleKey profile ns) = None"
  shows "succeeds view (\<lambda>v. v = v0\<lparr>cl_Roles := m\<rparr>) (do {
      err \<leftarrow> kc_Create (k_Roles c) (profileRole profile ns (grantedRules profile ns)); ret (ignore IsAlreadyExists err) })
    (\<lambda>_ v. \<exists>m. v = v0\<lparr>cl_Roles := m\<rparr> \<and> roles_applied profile (insert ns T) m0 m)"
proof (rule roles.create_rule, goal_cases)
  case (1 v y)
  then have "\<not> deleting (role_meta y)" by (simp add: deleting_def IsZero_def)
  then have "roles_applied profile (insert ns T) m0 (m(roleKey profile ns \<mapsto> y))"
    using 1 by (intro roles_applied_insert [OF assms(1)]) simp_all
  then show ?case using 1(1) by (auto simp: assign_Roles [of "\<lambda>m. m(_ \<mapsto> _)"])
qed (use assms in auto)

lemma updateRole_applies:
  assumes "roles_applied profile T m0 m" "m (roleKey profile ns) = Some old" "key_of (role_meta x) = roleKey profile ns"
    "role_Rules x = grantedRules profile ns"
  shows "succeeds view (\<lambda>v. v = v0\<lparr>cl_Roles := m\<rparr>) (kc_Update (k_Roles c) x)
    (\<lambda>_ v. \<exists>m. v = v0\<lparr>cl_Roles := m\<rparr> \<and> roles_applied profile (insert ns T) m0 m)"
proof (rule roles.update_rule, goal_cases)
  case (1 v x0 y)
  have "\<not> deleting (role_meta old)" using assms(1,2) by (auto simp: roles_applied_def live_roles_def)
  then have live: "\<not> deleting (role_meta y)"
    using 1 assms(2,3) by (simp add: server_meta_def deleting_def)
  then have "roles_applied profile (insert ns T) m0 (m(roleKey profile ns \<mapsto> y))"
    using 1 assms(4) by (intro roles_applied_insert [OF assms(1)]) simp_all
  then show ?case using 1(1) assms(3) live by (auto simp: assign_Roles [of "\<lambda>m. m(_ := _)"])
qed

lemma applyRole_applies:
  assumes "apr_Client r = c" "kube_library (apr_Lib r)" "roles_applied profile T m0 m"
  shows "succeeds view (\<lambda>v. v = v0\<lparr>cl_Roles := m\<rparr>) (applyRole r profile ns (grantedRules profile ns))
    (\<lambda>_ v. \<exists>m. v = v0\<lparr>cl_Roles := m\<rparr> \<and> roles_applied profile (insert ns T) m0 m)"
  unfolding applyRole_def Let_def profileRole_simps assms(1)
proof (rule succeeds_case [OF getRole_reads], goal_cases)
  case (1 e)
  show ?case
    by (rule succeeds_pre, rule succeeds_if) (use createRole_applies [OF assms(3)] succeeds_err in auto)
next
  case (2 x)
  have eq: "equality_Rules (apr_Lib r) a b \<longleftrightarrow> a = b" for a b by (rule kube_library.equality_Rules_iff [OF assms(2)])
  show ?case
    unfolding eq
    by (rule succeeds_pre, rule succeeds_if)
      (use roles_applied_same [OF assms(3)] in
        \<open>auto intro!: succeeds_ret succeeds_then [OF updateRole_applies [OF assms(3)]] simp: key_of_def\<close>)
qed

lemma namespaceExists_reads:
  assumes "apr_Client r = c"
  shows "succeeds view (\<lambda>v. v = v0) (namespaceExists r ns) (\<lambda>ok v. v = v0 \<and> ok = ns_exists v0 ns)"
proof -
  have get: "vtriple view (\<lambda>v. v = v0) (kc_Get (k_Namespaces c) ([], ns)) (\<lambda>g v. v = v0 \<and>
      (case g of Inr _ \<Rightarrow> ns_exists v0 ns | Inl e \<Rightarrow> IsNotFound e \<longrightarrow> \<not> ns_exists v0 ns))"
    by (rule namespaces.get_rule) (auto simp: ns_exists_def)
  show ?thesis
    unfolding namespaceExists_def assms
    by (rule succeeds_case [OF get]; rule succeeds_pre) (auto intro: succeeds_ret succeeds_err)
qed

lemma syncEach_applies:
  assumes "apr_Client r = c" "kube_library (apr_Lib r)" "\<forall>nr \<in> set nrs. snd nr = grantedRules profile (fst nr)"
  shows "succeeds view (\<lambda>v. \<exists>m. v = v0\<lparr>cl_Roles := m\<rparr> \<and> roles_applied profile T (cl_Roles v0) m) (syncEach r profile nrs acc)
    (\<lambda>acc' v. (\<exists>m. v = v0\<lparr>cl_Roles := m\<rparr> \<and> roles_applied profile (T \<union> {ns \<in> fst ` set nrs. ns_exists v0 ns}) (cl_Roles v0) m) \<and>
      set (fst acc') = set (fst acc) \<union> {ns \<in> fst ` set nrs. \<not> ns_exists v0 ns} \<and>
      set (snd acc') = set (snd acc) \<union> {ns \<in> fst ` set nrs. ns_exists v0 ns})"
  using assms(3)
proof (induction nrs arbitrary: acc T)
  case Nil
  then show ?case by (auto intro!: succeeds_ret)
next
  case (Cons nr nrs)
  have rules: "snd nr = grantedRules profile (fst nr)" and rest: "\<forall>nr \<in> set nrs. snd nr = grantedRules profile (fst nr)"
    using Cons.prems by simp_all
  have same: "ns_exists (v0\<lparr>cl_Roles := m\<rparr>) ns = ns_exists v0 ns" for m ns by (simp add: ns_exists_def)
  show ?case
    unfolding syncEach.simps rules
  proof (rule succeeds_ex, rule succeeds_pre, rule succeeds_then [OF namespaceExists_reads [OF assms(1)]], rule succeeds_pre, goal_cases)
    case (1 m ok)
    show ?case
    proof (cases ok)
      case True
      then have ex: "ns_exists v0 (fst nr)" using 1 same by simp
      then have eq: "insert (fst nr) T \<union> {ns \<in> fst ` set nrs. ns_exists v0 ns} = T \<union> {ns \<in> fst ` set (nr # nrs). ns_exists v0 ns}"
        "{ns \<in> fst ` set nrs. \<not> ns_exists v0 ns} = {ns \<in> fst ` set (nr # nrs). \<not> ns_exists v0 ns}" by auto
      show ?thesis
        using True by simp (rule succeeds_then [OF applyRole_applies [OF assms(1,2) 1(1)]],
          rule succeeds_conseq [OF Cons.IH [OF rest, of "insert (fst nr) T" "(fst acc, fst nr # snd acc)"]], use eq ex in auto)
    next
      case False
      then have no: "\<not> ns_exists v0 (fst nr)" using 1 same by simp
      then have eq: "{ns \<in> fst ` set nrs. ns_exists v0 ns} = {ns \<in> fst ` set (nr # nrs). ns_exists v0 ns}" by auto
      show ?thesis
        using False 1(1) by simp (rule succeeds_conseq [OF Cons.IH [OF rest, of T "(fst acc @ [fst nr], snd acc)"]], use eq no in auto)
    qed
  qed
qed

lemma syncRoles_exact:
  assumes "apr_Client r = c" "kube_library (apr_Lib r)" "orders (apr_Order r)" "live_roles (cl_Roles v0)"
  shows "succeeds view (\<lambda>v. v = v0) (syncRoles r profile) (\<lambda>missing v. (\<exists>m. v = v0\<lparr>cl_Roles := m\<rparr> \<and> roles_exact profile v0 m) \<and>
    set missing = {ns \<in> granted profile. \<not> ns_exists v0 ns})"
proof -
  let ?nrs = "iterate r (rulesByNS profile)"
  let ?A = "{ns \<in> granted profile. ns_exists v0 ns}"
  let ?label = "[MatchingLabels LabelProfile (om_Name (ap_meta profile))]"
  have each: "succeeds view (\<lambda>v. v = v0) (syncEach r profile ?nrs ([], []))
      (\<lambda>acc v. (\<exists>m. v = v0\<lparr>cl_Roles := m\<rparr> \<and> roles_applied profile ?A (cl_Roles v0) m) \<and>
        (set (fst acc) = {ns \<in> granted profile. \<not> ns_exists v0 ns} \<and> set (snd acc) = ?A))"
    by (rule succeeds_conseq [OF syncEach_applies [OF assms(1,2), of ?nrs profile v0 "{}" "([], [])"]])
      (use assms(4) iterate_facts [OF assms(3), where profile = profile] in
        \<open>auto simp: roles_applied_def intro!: exI [of _ "cl_Roles v0"]\<close>)
  have gc: "succeeds view (\<lambda>v. v = v0\<lparr>cl_Roles := m\<rparr>)
      (do { got \<leftarrow> kc_List (k_Roles c) ?label; (case got of Inl e \<Rightarrow> ret (Inl e) | Inr items \<Rightarrow> for_each (gcRole r (snd acc)) items) })
      (\<lambda>_ v. \<exists>m'. v = v0\<lparr>cl_Roles := m'\<rparr> \<and> roles_exact profile v0 m')"
    if "roles_applied profile ?A (cl_Roles v0) m" "set (snd acc) = ?A" for m and acc :: "string list \<times> string list"
  proof (rule succeeds_conseq [OF roles.sweep [where keep = "set (snd acc)"]])
    show "gcRole r (snd acc) x = (if om_Namespace (role_meta x) \<in> set (snd acc) then ret (Inr ())
        else do { err \<leftarrow> kc_Delete (k_Roles c) (key_of (role_meta x)); ret (ignore IsNotFound err) })" for x
      by (simp add: gcRole_def assms(1))
  qed (use that in \<open>auto intro!: roles_exactI\<close>)
  show ?thesis
    unfolding syncRoles_def assms(1)
    by (rule succeeds_then [OF each], rule succeeds_pre, rule succeeds_ex, rule succeeds_pre, subst bind_case_assoc [symmetric])
      (rule succeeds_then [OF gc], auto intro!: succeeds_ret simp: set_sortStrings)
qed

lemma requeueSandboxes_frame:
  assumes "apr_Client r = c" "\<And>f v. I (cl_Sandboxes_update f v) = I v"
  shows "vtriple view I (requeueSandboxes r name) (\<lambda>_. I)"
  unfolding requeueSandboxes_def nudge_def assms(1)
  by (rule vtriple_bind [OF sandboxes.frame(2) [of I, OF assms(2)]])
    (auto intro!: vtriple_ret vtriple_for_each vtriple_bind [OF sandboxes.frame(7) [of I, OF assms(2)]] split: sum.split)

lemma guard_profile:
  assumes "cl_Profiles v0 (key_of (ap_meta profile)) = Some profile" "\<not> deleting (ap_meta profile)" "kube_library L"
  shows "succeeds view (\<lambda>v. v = v0)
    (if \<not> ContainsFinalizer L (ap_meta profile) AccessProfileFinalizer
     then kc_Update (k_Profiles c) (profile\<lparr>ap_meta := AddFinalizer L (ap_meta profile) AccessProfileFinalizer\<rparr>)
     else ret (Inr profile))
    (\<lambda>p v. (\<exists>ps. v = v0\<lparr>cl_Profiles := ps\<rparr> \<and> ps (key_of (ap_meta profile)) = Some p) \<and>
      ap_spec p = ap_spec profile \<and> key_of (ap_meta p) = key_of (ap_meta profile))"
proof (rule succeeds_if)
  show "succeeds view (\<lambda>v. v = v0) (ret (Inr profile)) (\<lambda>p v. (\<exists>ps. v = v0\<lparr>cl_Profiles := ps\<rparr> \<and> ps (key_of (ap_meta profile)) = Some p) \<and>
      ap_spec p = ap_spec profile \<and> key_of (ap_meta p) = key_of (ap_meta profile))"
    using assms(1) by (auto intro!: succeeds_ret exI [of _ "cl_Profiles v0"])
  show "succeeds view (\<lambda>v. v = v0) (kc_Update (k_Profiles c) (profile\<lparr>ap_meta := AddFinalizer L (ap_meta profile) AccessProfileFinalizer\<rparr>))
      (\<lambda>p v. (\<exists>ps. v = v0\<lparr>cl_Profiles := ps\<rparr> \<and> ps (key_of (ap_meta profile)) = Some p) \<and>
        ap_spec p = ap_spec profile \<and> key_of (ap_meta p) = key_of (ap_meta profile))"
  proof (rule profiles.update_rule, goal_cases)
    case (1 v x0 y)
    note key = kube_library.add_key [OF assms(3)]
    from 1 have "\<not> deleting (ap_meta y)" using assms(1,2) key by (simp add: server_meta_def deleting_def)
    then show ?case using 1 key by (auto simp: user_meta_def intro: assign_Profiles)
  qed
qed

lemma reportProfile:
  assumes "kube_library (apr_Lib r)" "ps (key_of (ap_meta p)) = Some p" "set missing = {ns \<in> granted p. \<not> ns_exists v0 ns}"
  shows "succeeds view (\<lambda>v. cl_Roles v = m \<and> cl_Profiles v = ps) (do {
      err \<leftarrow> kc_StatusUpdate (k_Profiles c) (profileStatus r p missing);
      (case ignore IsNotFound err of Inl e \<Rightarrow> ret (Inl e) | Inr _ \<Rightarrow> ret (Inr noRequeue)) })
    (\<lambda>_ v. cl_Roles v = m \<and> profile_reported p v0 (cl_Profiles v))"
  (is "succeeds view ?p _ (\<lambda>_. ?q)")
  unfolding succeeds_def
proof (rule vtriple_bind)
  have key: "key_of (ap_meta (profileStatus r p missing)) = key_of (ap_meta p)" by (simp add: profileStatus_def)
  have cond: "condition_of (apst_Conditions (ap_status (profileStatus r p missing))) ConditionValid = Some (validCondition p missing)"
    using kube_library.set_condition_same [OF assms(1), of _ "validCondition p missing"]
    by (simp add: profileStatus_def validCondition_type)
  have valid: "cd_Status (validCondition p missing) = ConditionTrue \<longleftrightarrow> (\<forall>ns \<in> granted p. ns_exists v0 ns)"
    using assms(3) set_empty [of missing] by (auto simp: validCondition_def simp del: set_empty)
  show "vtriple view ?p (kc_StatusUpdate (k_Profiles c) (profileStatus r p missing)) (\<lambda>r v. case r of Inl e \<Rightarrow> \<not> IsNotFound e | Inr _ \<Rightarrow> ?q v)"
    by (rule profiles.status_update_rule) (use assms(2) cond valid key in \<open>auto simp: profile_reported_def\<close>)
qed (auto intro!: vtriple_ret simp: ignore_def split: sum.splits)

lemma finishProfile:
  assumes "apr_Client r = c" "kube_library (apr_Lib r)" "ap_spec p = ap_spec profile" "key_of (ap_meta p) = key_of (ap_meta profile)"
    "ps (key_of (ap_meta p)) = Some p" "roles_exact p v_sync m" "set missing = {ns \<in> granted p. \<not> ns_exists v_sync ns}"
    "cl_Namespaces v_sync = cl_Namespaces v0"
  shows "succeeds view (\<lambda>v. cl_Roles v = m \<and> cl_Profiles v = ps) (do {
      nudges \<leftarrow> requeueSandboxes r (om_Name (ap_meta p));
      err \<leftarrow> kc_StatusUpdate (k_Profiles c) (profileStatus r p missing);
      (case ignore IsNotFound err of Inl e \<Rightarrow> ret (Inl e) | Inr _ \<Rightarrow> ret (Inr noRequeue)) })
    (\<lambda>_ v. roles_exact profile v0 (cl_Roles v) \<and> profile_reported profile v0 (cl_Profiles v))"
  unfolding succeeds_def
proof (rule vtriple_bind)
  show "vtriple view (\<lambda>v. cl_Roles v = m \<and> cl_Profiles v = ps) (requeueSandboxes r (om_Name (ap_meta p)))
      (\<lambda>_ v. cl_Roles v = m \<and> cl_Profiles v = ps)"
    by (rule requeueSandboxes_frame [OF assms(1)]) simp
  note cong = roles_exact_cong [OF assms(3,4)] roles_exact_ns [OF assms(8)]
  have "profile_reported p v_sync = profile_reported profile v0"
    using assms(3,4) cong by (simp add: profile_reported_def fun_eq_iff)
  then show "vtriple view (\<lambda>v. cl_Roles v = m \<and> cl_Profiles v = ps) (do {
      err \<leftarrow> kc_StatusUpdate (k_Profiles c) (profileStatus r p missing);
      (case ignore IsNotFound err of Inl e \<Rightarrow> ret (Inl e) | Inr _ \<Rightarrow> ret (Inr noRequeue)) })
    (\<lambda>r v. case r of Inl _ \<Rightarrow> True | Inr _ \<Rightarrow> roles_exact profile v0 (cl_Roles v) \<and> profile_reported profile v0 (cl_Profiles v))"
    using reportProfile [where ps = ps and m = m, OF assms(2,5,7)] assms(6) cong unfolding succeeds_def
    by (auto elim!: vtriple_conseq split: sum.splits)
qed

lemma reconcileProfile_exact:
  assumes "apr_Client r = c" "kube_library (apr_Lib r)" "orders (apr_Order r)" "live_roles (cl_Roles v0)"
    "cl_Profiles v0 req = Some profile" "\<not> deleting (ap_meta profile)"
  shows "succeeds view (\<lambda>v. v = v0) (reconcileProfile r req)
    (\<lambda>_ v. roles_exact profile v0 (cl_Roles v) \<and> profile_reported profile v0 (cl_Profiles v))"
proof -
  let ?q = "\<lambda>v. roles_exact profile v0 (cl_Roles v) \<and> profile_reported profile v0 (cl_Profiles v)"
  have get: "vtriple view (\<lambda>v. v = v0) (kc_Get (k_Profiles c) req) (\<lambda>g v. v = v0 \<and>
      (case g of Inl e \<Rightarrow> \<not> IsNotFound e | Inr x \<Rightarrow> x = profile \<and> key_of (ap_meta profile) = req))"
    by (rule profiles.get_rule) (use assms(5) in auto)
  have sync: "succeeds view (\<lambda>v. v = v0\<lparr>cl_Profiles := ps\<rparr>) (do {
        synced \<leftarrow> syncRoles r p;
        (case synced of
           Inl e \<Rightarrow> ret (Inl e)
         | Inr missing \<Rightarrow> do {
             nudges \<leftarrow> requeueSandboxes r (om_Name (ap_meta p));
             err \<leftarrow> kc_StatusUpdate (k_Profiles c) (profileStatus r p missing);
             (case ignore IsNotFound err of Inl e \<Rightarrow> ret (Inl e) | Inr _ \<Rightarrow> ret (Inr noRequeue)) }) }) (\<lambda>_. ?q)"
    if p: "ap_spec p = ap_spec profile" "key_of (ap_meta p) = key_of (ap_meta profile)" "ps (key_of (ap_meta p)) = Some p" for p ps
  proof (rule succeeds_then [OF syncRoles_exact [OF assms(1-3)]], goal_cases)
    case 1
    show ?case using assms(4) by simp
  next
    case (2 missing)
    show ?case
    proof (rule succeeds_pre, rule succeeds_ex, rule succeeds_pre, goal_cases)
      case (1 m)
      show ?case
        by (rule succeeds_conseq [OF finishProfile [where m = m and ps = ps and v_sync = "v0\<lparr>cl_Profiles := ps\<rparr>", OF assms(1,2) p]]) (use 1 in simp_all)
    qed
  qed
  show ?thesis
    unfolding reconcileProfile_def assms(1)
  proof (rule succeeds_case [OF get], goal_cases)
    case (1 e)
    show ?case by (rule succeeds_pre) (simp add: succeeds_err)
  next
    case (2 x)
    show ?case
    proof (rule succeeds_pre, goal_cases)
      case 1
      then have x: "x = profile" "key_of (ap_meta profile) = req" by simp_all
      show ?case
        unfolding x if_not_P [OF assms(6)]
      proof (rule succeeds_then [OF guard_profile [OF _ assms(6,2)]], goal_cases)
        case 1
        then show ?case using assms(5) x by simp
      next
        case (2 p)
        show ?case
          by (rule succeeds_pre, rule succeeds_ex, rule succeeds_pre, rule sync) (use x in simp_all)
      qed
    qed
  qed
qed

lemma releaseProfile:
  assumes "kube_library L" "\<And>m. I (m :: cluster) \<Longrightarrow> \<forall>f. I (cl_Profiles_update f m)"
  shows "succeeds view I (do {
      upd \<leftarrow> kc_Update (k_Profiles c) (profile\<lparr>ap_meta := RemoveFinalizer L (ap_meta profile) AccessProfileFinalizer\<rparr>);
      (case upd of Inl e \<Rightarrow> ret (Inl e) | Inr _ \<Rightarrow> ret (Inr noRequeue)) })
    (\<lambda>_ v. I v \<and> profile_released profile (cl_Profiles v))"
proof (rule succeeds_then)
  let ?x = "profile\<lparr>ap_meta := RemoveFinalizer L (ap_meta profile) AccessProfileFinalizer\<rparr>"
  have key: "key_of (ap_meta ?x) = key_of (ap_meta profile)" using kube_library.remove_key [OF assms(1)] by simp
  show "succeeds view I (kc_Update (k_Profiles c) ?x) (\<lambda>_ v. I v \<and> profile_released profile (cl_Profiles v))"
  proof (rule profiles.update_rule, goal_cases)
    case (1 v x0 y)
    then have "AccessProfileFinalizer \<notin> set (om_Finalizers (ap_meta y))"
      using kube_library.remove_finalizer [OF assms(1)] by (simp add: user_meta_def)
    then show ?case using 1(1) assms(2) key by (auto simp: profile_released_def)
  qed
qed (rule succeeds_ret, simp)

lemma finalizeProfile_clears:
  assumes "apr_Client r = c" "kube_library (apr_Lib r)" "AccessProfileFinalizer \<in> set (om_Finalizers (ap_meta profile))"
  shows "succeeds view (\<lambda>v. v = v0) (finalizeProfile r profile)
    (\<lambda>_ v. retired role_meta (profileRoles profile (cl_Roles v0)) (cl_Roles v0) (cl_Roles v) \<and>
      profile_released profile (cl_Profiles v))"
proof -
  let ?I = "\<lambda>v. retired role_meta (profileRoles profile (cl_Roles v0)) (cl_Roles v0) (cl_Roles v)"
  let ?label = "[MatchingLabels LabelProfile (om_Name (ap_meta profile))]"
  have gc: "succeeds view (\<lambda>v. v = v0)
      (do { got \<leftarrow> kc_List (k_Roles c) ?label; (case got of Inl e \<Rightarrow> ret (Inl e) | Inr items \<Rightarrow> for_each (gcRole r []) items) })
      (\<lambda>_. ?I)"
  proof (rule succeeds_conseq [OF roles.sweep [where keep = "{}"]])
    show "gcRole r [] x = (if om_Namespace (role_meta x) \<in> {} then ret (Inr ())
        else do { err \<leftarrow> kc_Delete (k_Roles c) (key_of (role_meta x)); ret (ignore IsNotFound err) })" for x
      by (simp add: gcRole_def assms(1))
  qed (auto simp: profileRoles_def surplus_of_def)
  have rest: "succeeds view ?I (do {
      nudges \<leftarrow> requeueSandboxes r (om_Name (ap_meta profile));
      upd \<leftarrow> kc_Update (k_Profiles c) (profile\<lparr>ap_meta := RemoveFinalizer (apr_Lib r) (ap_meta profile) AccessProfileFinalizer\<rparr>);
      (case upd of Inl e \<Rightarrow> ret (Inl e) | Inr _ \<Rightarrow> ret (Inr noRequeue)) })
    (\<lambda>_ v. ?I v \<and> profile_released profile (cl_Profiles v))"
    unfolding succeeds_def
    by (rule vtriple_bind [OF requeueSandboxes_frame [OF assms(1)]])
      (use releaseProfile [where I = ?I, OF assms(2)] in \<open>simp_all add: succeeds_def\<close>)
  have has: "ContainsFinalizer (apr_Lib r) (ap_meta profile) AccessProfileFinalizer"
    using assms(3) kube_library.contains_iff [OF assms(2)] by simp
  show ?thesis
    unfolding finalizeProfile_def assms(1)
    by (simp add: has, subst bind_case_assoc [symmetric]) (rule succeeds_then [OF gc rest])
qed

lemma reconcileProfile_finalizes:
  assumes "apr_Client r = c" "kube_library (apr_Lib r)" "cl_Profiles v0 req = Some profile" "deleting (ap_meta profile)"
    "AccessProfileFinalizer \<in> set (om_Finalizers (ap_meta profile))"
  shows "succeeds view (\<lambda>v. v = v0) (reconcileProfile r req)
    (\<lambda>_ v. retired role_meta (profileRoles profile (cl_Roles v0)) (cl_Roles v0) (cl_Roles v) \<and>
      profile_released profile (cl_Profiles v))"
proof -
  have get: "vtriple view (\<lambda>v. v = v0) (kc_Get (k_Profiles c) req) (\<lambda>g v. v = v0 \<and>
      (case g of Inl e \<Rightarrow> \<not> IsNotFound e | Inr x \<Rightarrow> x = profile))"
    by (rule profiles.get_rule) (use assms(3) in auto)
  show ?thesis
    unfolding reconcileProfile_def assms(1)
  proof (rule succeeds_case [OF get], goal_cases)
    case (1 e)
    show ?case by (rule succeeds_pre) (simp add: succeeds_err)
  next
    case (2 x)
    show ?case
      by (rule succeeds_pre) (use finalizeProfile_clears [OF assms(1,2,5)] assms(4) in simp)
  qed
qed

end

section \<open>Properties\<close>

text \<open>
  C24. Collecting a profile's rules namespace by namespace, grant by grant,
  computes the union of its grants: the Role written into a namespace has exactly
  the rules of the grants that name it, in their order, once per mention; the
  namespaces it covers are the granted ones, each once.
\<close>

theorem rulesByNS_union:
  "lookupRules (rulesByNS profile) ns = grantedRules profile ns \<and>
   set (map fst (rulesByNS profile)) = granted profile \<and> distinct (map fst (rulesByNS profile))"
  using rulesByNS_facts [of profile] by simp


text \<open>A profile with two overlapping grants, one namespace of which is missing, and a stray Role.\<close>

definition sampleRule :: "string \<Rightarrow> PolicyRule" where
  "sampleRule verb = \<lparr>pr_Verbs = [verb], pr_APIGroups = [[]], pr_Resources = [''pods''], pr_ResourceNames = [], pr_NonResourceURLs = []\<rparr>"

definition grantProfile :: AccessProfile where
  "grantProfile = sampleProfile\<lparr>ap_spec := (ap_spec sampleProfile)\<lparr>aps_Grants := [
     \<lparr>gr_Namespaces = [''a'', ''b''], gr_Rules = [sampleRule ''get'']\<rparr>,
     \<lparr>gr_Namespaces = [''b'', ''c''], gr_Rules = [sampleRule ''list'']\<rparr>]\<rparr>\<rparr>"

definition sampleProfileReconciler :: "memory AccessProfileReconciler" where
  "sampleProfileReconciler = \<lparr>apr_Client = memKube, apr_Lib = refLib, apr_Order = rev\<rparr>"

definition grantMemory :: "AccessProfile \<Rightarrow> memory" where
  "grantMemory profile = emptyMemory\<lparr>mem_Profiles := [profile],
     mem_Namespaces := map (\<lambda>n. \<lparr>ns_meta = sampleMeta [] n n\<rparr>) [''a'', ''b'', ''old''],
     mem_Roles := [profileRole profile ''old'' [sampleRule ''get'']]\<rparr>"

lemma grant_simps:
  "cl_Profiles (memView (grantMemory p)) (key_of (ap_meta p)) = Some p" "key_of (ap_meta grantProfile) = ([], ''reader'')"
  "\<not> deleting (ap_meta grantProfile)" "live_roles (cl_Roles (memView (grantMemory p)))"
  by (auto simp: grantMemory_def grantProfile_def memView_def emptyMemory_def lookup_def live_roles_def profileRole_def sample_defs key_of_def
      deleting_def IsZero_def split: if_splits)


text \<open>
  C26. Deleting a profile revokes it everywhere: after a successful reconcile of
  a profile under deletion every Role labelled with it is absent or being
  deleted, no other Role has changed, and the finalizer is gone.
\<close>

theorem profile_revoked:
  assumes "kube_server view (apr_Client r)" "kube_library (apr_Lib r)" "cl_Profiles (view w) req = Some profile"
    "deleting (ap_meta profile)" "AccessProfileFinalizer \<in> set (om_Finalizers (ap_meta profile))"
    "run_state (reconcileProfile r req) w = (Inr res, w')"
  shows "retired role_meta (profileRoles profile (cl_Roles (view w))) (cl_Roles (view w)) (cl_Roles (view w')) \<and>
    profile_released profile (cl_Profiles (view w'))"
  by (rule succeedsD [OF kube_server.reconcileProfile_finalizes [OF assms(1) refl assms(2-5)] assms(6) refl])

definition dyingProfile :: AccessProfile where
  "dyingProfile = grantProfile\<lparr>ap_meta := (ap_meta grantProfile)\<lparr>om_Finalizers := [AccessProfileFinalizer],
     om_DeletionTimestamp := Some (4000 * Second)\<rparr>\<rparr>"

theorem profile_revoked_witness:
  "gone role_meta (cl_Roles (memView (snd (run_state (reconcileProfile sampleProfileReconciler ([], ''reader'')) (grantMemory dyingProfile)))))
     (''old'', profileRoleName ''reader'')"
proof -
  let ?m = "reconcileProfile sampleProfileReconciler ([], ''reader'')"
  have "is_ok (fst (run_state ?m (grantMemory dyingProfile)))" by code_simp
  then obtain res w' where run: "run_state ?m (grantMemory dyingProfile) = (Inr res, w')"
    by (auto dest!: result_split)
  have dying: "key_of (ap_meta dyingProfile) = ([], ''reader'')" "deleting (ap_meta dyingProfile)"
      "AccessProfileFinalizer \<in> set (om_Finalizers (ap_meta dyingProfile))"
    using grant_simps(2) by (simp_all add: dyingProfile_def key_of_def deleting_def IsZero_def zeroTime_def)
  have "retired role_meta (profileRoles dyingProfile (cl_Roles (memView (grantMemory dyingProfile))))
      (cl_Roles (memView (grantMemory dyingProfile))) (cl_Roles (memView w')) \<and> profile_released dyingProfile (cl_Profiles (memView w'))"
    using profile_revoked [where view = memView, OF _ _ _ _ _ run] grant_simps(1) [of dyingProfile] dying
    by (simp add: sampleProfileReconciler_def memKube.kube_server_axioms refLib.kube_library_axioms)
  moreover have "(''old'', profileRoleName ''reader'') \<in> profileRoles dyingProfile (cl_Roles (memView (grantMemory dyingProfile)))"
    by (simp add: profileRoles_def grantMemory_def memView_def lookup_def profileRole_def dyingProfile_def grantProfile_def sample_defs key_of_def)
  ultimately show ?thesis unfolding run snd_conv by (auto simp: retired_def)
qed

end
