(* ===== verification/Component_Orders.thy ===== *)
theory Component_Orders
  imports Gateway_Server Sandbox_Finalize Profile_Server
begin

text \<open>
  What every component leaves alone: each handler of the operator and of the
  gateway moves sessions only along their lifecycle, and changes no sandbox
  specification except that the gateway asks a sandbox to run.
\<close>

declare split_paired_All [simp del] split_paired_Ex [simp del]

section \<open>The orders\<close>

text \<open>\<open>specs_kept m m'\<close>: no sandbox appears, and those left have their specification, possibly asked to run.\<close>

definition specs_kept :: "(NamespacedName \<rightharpoonup> Sandbox) \<Rightarrow> (NamespacedName \<rightharpoonup> Sandbox) \<Rightarrow> bool" where
  "specs_kept m m' \<longleftrightarrow> (\<forall>n sb'. m' n = Some sb' \<longrightarrow> (\<exists>sb. m n = Some sb \<and>
     (sb_spec sb' = sb_spec sb \<or> sb_spec sb' = (sb_spec sb)\<lparr>sp_DesiredState := DesiredStateRunning\<rparr>)))"

definition system_order :: "cluster \<Rightarrow> cluster \<Rightarrow> bool" where
  "system_order v v' \<longleftrightarrow> sessions_evolve (cl_Sessions v) (cl_Sessions v') \<and> specs_kept (cl_Sandboxes v) (cl_Sandboxes v')"

definition spares :: "cluster \<Rightarrow> cluster \<Rightarrow> bool" where
  "spares v v' \<longleftrightarrow> cl_Sessions v' = cl_Sessions v \<and> cl_Sandboxes v' = cl_Sandboxes v"

lemma specs_kept_refl [simp]: "specs_kept m m"
  by (auto simp: specs_kept_def)

lemma specs_kept_trans: "specs_kept m m' \<Longrightarrow> specs_kept m' m'' \<Longrightarrow> specs_kept m m''"
  unfolding specs_kept_def by fastforce

lemma specs_kept_upd:
  "specs_kept m (m(k := None))" "m k = Some sb \<Longrightarrow> sb_spec sb' = sb_spec sb \<Longrightarrow> specs_kept m (m(k \<mapsto> sb'))"
  by (auto simp: specs_kept_def)

lemma specs_kept_wakes: "wakes k m m' \<Longrightarrow> specs_kept m m'"
  unfolding wakes_def specs_kept_def woken_def
proof (intro allI impI, goal_cases)
  case (1 n sb')
  show ?case
  proof (cases "m' n = m n")
    case False
    with 1 have "n = k" by blast
    with 1 False show ?thesis by (auto split: if_splits)
  next
    case True
    then show ?thesis using 1(2) by (intro exI [of _ sb']) simp
  qed
qed

interpretation spared: cluster_order spares
  by unfold_locales (auto simp: spares_def)

abbreviation stable :: "('w \<Rightarrow> cluster) \<Rightarrow> ('w, 'a) state \<Rightarrow> bool" where
  "stable view m \<equiv> obeys (\<lambda>v v'. specs_kept (cl_Sandboxes v) (cl_Sandboxes v')) view m"

named_theorems stable_rules

interpretation specs: cluster_order "\<lambda>v v'. specs_kept (cl_Sandboxes v) (cl_Sandboxes v')"
  by unfold_locales (simp, erule specs_kept_trans)

declare specs.rules [stable_rules]

interpretation orderly: cluster_order system_order
  by unfold_locales (unfold system_order_def, simp, metis sessions_evolve_trans specs_kept_trans)

lemma obeys_mono: "obeys R view m \<Longrightarrow> (\<And>v v'. R v v' \<Longrightarrow> R' v v') \<Longrightarrow> obeys R' view m"
  unfolding obeys_def by (intro allI, drule spec, erule vtriple_conseq)

lemma obeys_keeps: "obeys R view m \<Longrightarrow> (\<And>v v'. R v v' \<Longrightarrow> p v \<Longrightarrow> p v') \<Longrightarrow> vtriple view p m (\<lambda>_. p)"
  unfolding obeys_def by (rule vtriple_frozen [where Q = "\<lambda>v0 _ v. R v0 v"]) auto

lemma spares_orderly: "obeys spares view m \<Longrightarrow> obeys system_order view m"
  by (erule obeys_mono) (simp add: spares_def system_order_def)

lemma spares_evolves: "obeys spares view m \<Longrightarrow> evolves view m"
  by (erule obeys_mono) (simp add: spares_def)

lemma spares_stable: "obeys spares view m \<Longrightarrow> stable view m"
  by (erule obeys_mono) (simp add: spares_def)

text \<open>The system order is shown in its two parts.\<close>

lemma orderly_parts:
  assumes "evolves view m" "stable view m"
  shows "obeys system_order view m"
  using assms unfolding obeys_def system_order_def by (intro allI vtriple_conj) blast+

lemma vtriple_for_each_in:
  "(\<And>x. x \<in> set xs \<Longrightarrow> vtriple view p (f x) (\<lambda>_. p)) \<Longrightarrow> vtriple view p (for_each f xs) (\<lambda>_. p)"
  by (induction xs) (auto intro: vtriple_ret vtriple_then)

text \<open>\<open>closing_at\<close>: some active sessions of a sandbox were closed as deleted.\<close>

definition closing_at ::
  "Sandbox \<Rightarrow> Time \<Rightarrow> (NamespacedName \<rightharpoonup> SandboxSession) \<Rightarrow> (NamespacedName \<rightharpoonup> SandboxSession) \<Rightarrow> bool" where
  "closing_at sb now m m' \<longleftrightarrow> (\<forall>n. m' n = m n \<or> (\<exists>s s'. m n = Some s \<and> m' n = Some s' \<and> activeFor sb s \<and>
     ses_status s' = ses_status (closeDeleted now s)))"

lemma closing_at_evolves:
  assumes "closing_at sb now m m'"
  shows "sessions_evolve m m'"
  unfolding sessions_evolve_def
proof
  fix n
  from assms consider "m' n = m n" | s s' where "m n = Some s" "m' n = Some s'" "activeFor sb s" "ses_status s' = ses_status (closeDeleted now s)"
    unfolding closing_at_def by blast
  then show "life_path (life_of (m n)) (life_of (m' n))"
    by cases (auto simp: activeFor_def closeDeleted_def life_of_status_def intro: life_step.close)
qed

text \<open>Key material and certificates are made without touching the cluster.\<close>

definition ssh_quiet :: "('w \<Rightarrow> cluster) \<Rightarrow> 'w sshlib \<Rightarrow> bool" where
  "ssh_quiet view S \<longleftrightarrow> quiet view (sl_GenerateKey S) \<and> (\<forall>n. quiet view (sl_Read S n)) \<and> (\<forall>c ca. quiet view (sl_SignCert S c ca))"

named_theorems spares_rules

declare spared.rules [spares_rules]

lemma spares_frame:
  assumes "\<And>ss m. vtriple view (\<lambda>v. cl_Sessions v = ss \<and> cl_Sandboxes v = m) x (\<lambda>_ v. cl_Sessions v = ss \<and> cl_Sandboxes v = m)"
  shows "obeys spares view x"
  unfolding obeys_def
proof
  fix v0 :: cluster
  show "vtriple view (\<lambda>v. v = v0) x (\<lambda>_ v. spares v0 v)"
    by (rule vtriple_conseq [OF assms [of "cl_Sessions v0" "cl_Sandboxes v0"]]) (simp_all add: spares_def)
qed

context kube_server
begin

lemma spares_calls [spares_rules]:
  "obeys spares view (kc_Get (k_Templates c) n)" "obeys spares view (kc_List (k_EndpointSlices c) opts)"
  "obeys spares view (kc_Get (k_Profiles c) n)" "obeys spares view (kc_Update (k_Profiles c) ap)" "obeys spares view (kc_StatusUpdate (k_Profiles c) ap)"
  "obeys spares view (kc_Get (k_Pods c) n)" "obeys spares view (kc_Create (k_Pods c) pod)" "obeys spares view (kc_Delete (k_Pods c) n)"
  "obeys spares view (kc_Get (k_PVCs c) n)" "obeys spares view (kc_Create (k_PVCs c) pvc)" "obeys spares view (kc_Update (k_PVCs c) pvc)"
  "obeys spares view (kc_Delete (k_PVCs c) n)"
  "obeys spares view (kc_Get (k_Secrets c) n)" "obeys spares view (kc_Create (k_Secrets c) sec)" "obeys spares view (kc_Delete (k_Secrets c) n)"
  "obeys spares view (kc_Get (k_NetPols c) n)" "obeys spares view (kc_Create (k_NetPols c) np)" "obeys spares view (kc_Update (k_NetPols c) np)"
  "obeys spares view (kc_Delete (k_NetPols c) n)"
  "obeys spares view (kc_Create (k_ServiceAccounts c) sa)" "obeys spares view (kc_Delete (k_ServiceAccounts c) n)"
  "obeys spares view (kc_Get (k_RoleBindings c) n)" "obeys spares view (kc_List (k_RoleBindings c) opts)" "obeys spares view (kc_Create (k_RoleBindings c) rb)"
  "obeys spares view (kc_Update (k_RoleBindings c) rb)" "obeys spares view (kc_Delete (k_RoleBindings c) n)"
  "obeys spares view (kc_Get (k_Roles c) n)" "obeys spares view (kc_List (k_Roles c) opts)" "obeys spares view (kc_Create (k_Roles c) role)"
  "obeys spares view (kc_Update (k_Roles c) role)" "obeys spares view (kc_Delete (k_Roles c) n)"
  "obeys spares view (kc_Get (k_Namespaces c) n)"
  by (rule spares_frame, rule kind_server.frame [OF templates_law] kind_server.frame [OF endpointslices_law] profiles.frame pods.frame pvcs.frame
      secrets.frame netpols.frame serviceaccounts.frame rolebindings.frame roles.frame namespaces.frame, simp)+

lemma spares_reads [spares_rules]:
  "obeys spares view (kc_Get (k_Sandboxes c) n)" "obeys spares view (kc_List (k_Sandboxes c) opts)"
  "obeys spares view (kc_List (k_Sessions c) opts)" "obeys spares view (k_Now c)"
  by (rule spared.quiet_obeys, unfold quiet_def, intro allI, rule vtriple_conseq [OF sandboxes.get] vtriple_conseq [OF sandboxes.list]
      vtriple_conseq [OF sessions.list] vtriple_conseq [OF now_law], assumption, simp)+

lemma ssh_spares:
  assumes "ssh_quiet view S"
  shows "obeys spares view (sl_GenerateKey S)" "obeys spares view (sl_Read S n)" "obeys spares view (sl_SignCert S cert ca)"
  using assms by (auto simp: ssh_quiet_def intro: spared.quiet_obeys)

section \<open>The sandbox controller\<close>

lemma ca_spares:
  assumes "ssh_quiet view S"
  shows "obeys spares view (GenerateKeyPair S comment)" "obeys spares view (SignHostCert S ca pub ps d now)"
    "obeys spares view (EnsureCASecret S c ns)"
  unfolding EnsureCASecret_def GenerateKeyPair_def SignHostCert_def NewSerial_def Let_def
  by (intro spares_rules ssh_spares [OF assms])+

lemma hostKey_spares:
  assumes "sr_Client r = c" "ssh_quiet view (sr_Ssh r)"
  shows "obeys spares view (reconcileHostKey r sb)"
  unfolding reconcileHostKey_def sr_wall_def assms(1) Let_def
  by (intro spares_rules ca_spares [OF assms(2)])

lemma children_spares:
  assumes "sr_Client r = c"
  shows "obeys spares view (reconcileHome r sb status)" "obeys spares view (reconcileNetworkPolicy r sb tpl)"
    "obeys spares view (gcRBAC r sb keep)" "obeys spares view (reconcileRBAC r sb status)"
    "obeys spares view (deleteChildren r sb)" "obeys spares view (applyHomeRetainPolicy r sb)"
  unfolding reconcileHome_def claimConflict_def reconcileNetworkPolicy_def apiServerEndpoints_def reconcileRBAC_def refuseRBAC_def grantRBAC_def
    gcRBAC_def gcBinding_def ensureOwned_def applyRoleBinding_def deleteChildren_def applyHomeRetainPolicy_def for_each.simps assms Let_def
  by (intro spares_rules)+

lemma machine_spares:
  assumes "sr_Client r = c" "quiet view (sr_now r)"
  shows "obeys spares view (desiredStateMachine r sb tpl sa status)"
  unfolding desiredStateMachine_def suspend_def activeSessionCount_def idleExpired_def run_def createPod_def replaceDeadPod_def markReady_def
    requeueAtIdleDeadline_def sr_wall_def assms(1) Let_def
  by (intro spares_rules spared.quiet_obeys [OF assms(2)])

lemma reconcileSandbox_spares:
  assumes "sr_Client r = c" "ssh_quiet view (sr_Ssh r)" "quiet view (sr_now r)"
  shows "obeys spares view (reconcileSandbox r sb status)"
  unfolding reconcileSandbox_def assms(1) Let_def
  by (intro spares_rules children_spares [OF assms(1)] hostKey_spares [OF assms(1,2)] machine_spares [OF assms(1,3)])

text \<open>Closing the sessions of a deleted sandbox: a session is as it was, or was active and is closed now.\<close>

lemma closeOne_closing:
  assumes "sr_Client r = c" "m0 (key_of (ses_meta s)) = Some s"
  shows "vtriple view (\<lambda>v. closing_at sb now m0 (cl_Sessions v)) (closeOne r sb now s) (\<lambda>_ v. closing_at sb now m0 (cl_Sessions v))"
proof -
  have key: "key_of (ses_meta (closeDeleted now s)) = key_of (ses_meta s)" by (simp add: closeDeleted_def)
  have "vtriple view (\<lambda>v. closing_at sb now m0 (cl_Sessions v)) (kc_StatusUpdate (k_Sessions c) (closeDeleted now s))
      (\<lambda>_ v. closing_at sb now m0 (cl_Sessions v))" if "activeFor sb s"
    by (rule sessions.status_update_rule) (use that assms(2) key in \<open>auto simp: closing_at_def\<close>)
  then show ?thesis
    unfolding closeOne_def assms(1) by (auto intro!: vtriple_ret vtriple_ignore)
qed

lemma closeSessions_evolves:
  assumes "sr_Client r = c"
  shows "evolves view (closeSessions r sb)"
  unfolding evolves_def
proof
  fix v0 :: cluster
  let ?m = "cl_Sessions v0"
  have list: "vtriple view (\<lambda>v. v = v0) (kc_List (k_Sessions c) opts) (\<lambda>r v. cl_Sessions v = ?m \<and>
      (case r of Inl _ \<Rightarrow> True | Inr items \<Rightarrow> \<forall>s \<in> set items. ?m (key_of (ses_meta s)) = Some s))" for opts
    by (rule vtriple_frozen_view [OF sessions.list]) (auto simp: ran_def dest: sessions.keyed split: sum.splits)
  have loop: "vtriple view (\<lambda>v. cl_Sessions v = ?m) (for_each (closeOne r sb now) items) (\<lambda>_ v. sessions_evolve ?m (cl_Sessions v))"
    if "\<forall>s \<in> set items. ?m (key_of (ses_meta s)) = Some s" for now items
    by (rule vtriple_conseq [OF vtriple_for_each_in [OF closeOne_closing [OF assms, of ?m]]])
      (use that in \<open>auto simp: closing_at_def [of _ _ ?m ?m] dest: closing_at_evolves\<close>)
  show "vtriple view (\<lambda>v. v = v0) (closeSessions r sb) (\<lambda>_ v. sessions_evolve ?m (cl_Sessions v))"
    unfolding closeSessions_def assms
  proof (rule vtriple_bind [OF list], rule vtriple_pre, goal_cases)
    case (1 items)
    then show ?case
      by (cases items) (auto intro!: vtriple_ret vtriple_bind [OF wall_frame [OF assms]] loop)
  qed
qed

lemma finalize_evolves:
  assumes "sr_Client r = c"
  shows "evolves view (finalize r sb)"
  unfolding finalize_def markTerminating_def assms Let_def
  by (intro evolves_rules closeSessions_evolves [OF assms] spares_evolves [OF children_spares(3) [OF assms]]
      spares_evolves [OF children_spares(5) [OF assms]] spares_evolves [OF children_spares(6) [OF assms]])

lemma Reconcile_evolves:
  assumes "sr_Client r = c" "ssh_quiet view (sr_Ssh r)" "quiet view (sr_now r)"
  shows "evolves view (Reconcile r req)"
  unfolding Reconcile_def patchStatus_def assms(1) Let_def
  by (intro evolves_rules finalize_evolves [OF assms(1)] spares_evolves [OF reconcileSandbox_spares [OF assms]])

text \<open>Specifications: every write of a sandbox is of its status, or of the version that was read.\<close>

lemma stable_calls [stable_rules]:
  "stable view (kc_Get (k_Sandboxes c) n)" "stable view (kc_List (k_Sandboxes c) opts)"
  "stable view (kc_StatusUpdate (k_Sandboxes c) sb)" "stable view (kc_StatusPatch (k_Sandboxes c) sb sb')"
  by (rule spares_stable, rule spares_reads)+
    (auto simp: obeys_def intro!: vtriple_conseq [OF sandboxes.status_update] vtriple_conseq [OF sandboxes.status_patch] specs_kept_upd
      split: sum.splits)

lemma update_stable:
  assumes "m0 (key_of (sb_meta sb)) = Some x" "sb_spec sb = sb_spec x"
  shows "vtriple view (\<lambda>v. cl_Sandboxes v = m0) (kc_Update (k_Sandboxes c) sb) (\<lambda>_ v. specs_kept m0 (cl_Sandboxes v))"
  by (rule vtriple_frozen [OF sandboxes.update]) (use assms in \<open>auto intro!: specs_kept_upd split: sum.splits\<close>)

lemma markTerminating_stable:
  assumes "sr_Client r = c" "cl_Sandboxes v0 (key_of (sb_meta sb0)) = Some sb0"
  shows "vtriple view (\<lambda>v. v = v0) (markTerminating r sb0) (\<lambda>g v. specs_kept (cl_Sandboxes v0) (cl_Sandboxes v) \<and>
    (case g of Inl _ \<Rightarrow> True | Inr sb \<Rightarrow> \<exists>x. cl_Sandboxes v (key_of (sb_meta sb)) = Some x \<and> sb_spec sb = sb_spec x))"
  (is "vtriple view _ _ ?q")
proof -
  let ?sb1 = "sb0\<lparr>sb_status := (sb_status sb0)\<lparr>ss_Phase := SandboxPhaseTerminating\<rparr>\<rparr>"
  have upd: "vtriple view (\<lambda>v. v = v0) (kc_StatusUpdate (k_Sandboxes c) ?sb1) (\<lambda>g v. ?q g v \<and> (case g of Inl e \<Rightarrow> \<not> IsNotFound e | Inr _ \<Rightarrow> True))"
  proof (rule sandboxes.status_update_rule, goal_cases)
    case (1 v x0 y)
    then have "key_of (sb_meta y) = key_of (sb_meta sb0)" using sandboxes.keyed assms(2) by (auto simp: user_meta_def)
    then show ?case using 1 assms(2) by (auto intro!: specs_kept_upd)
  qed (use assms(2) in auto)
  show ?thesis
    unfolding markTerminating_def Let_def assms(1)
    by (rule vtriple_if, rule vtriple_bind [OF upd]) (use assms(2) in \<open>auto intro!: vtriple_ret split: sum.splits\<close>)
qed

lemma finalize_stable_tail:
  assumes "sr_Client r = c" "kube_library (sr_Lib r)"
  shows "vtriple view (\<lambda>v. specs_kept m0 (cl_Sandboxes v) \<and>
      (\<exists>x. cl_Sandboxes v (key_of (sb_meta sb)) = Some x \<and> sb_spec sb = sb_spec x)) (do {
      children \<leftarrow> deleteChildren r sb;
      (case children of Inl e \<Rightarrow> ret (Inl e) | Inr _ \<Rightarrow> do {
         gc \<leftarrow> gcRBAC r sb None;
         (case gc of Inl e \<Rightarrow> ret (Inl e) | Inr _ \<Rightarrow> do {
            closed \<leftarrow> closeSessions r sb;
            (case closed of Inl e \<Rightarrow> ret (Inl e) | Inr _ \<Rightarrow> do {
               retained \<leftarrow> applyHomeRetainPolicy r sb;
               (case retained of Inl e \<Rightarrow> ret (Inl e) | Inr _ \<Rightarrow> do {
                  upd \<leftarrow> kc_Update (k_Sandboxes (sr_Client r))
                    (sb\<lparr>sb_meta := RemoveFinalizer (sr_Lib r) (sb_meta sb) SandboxFinalizer\<rparr>);
                  (case upd of Inl e \<Rightarrow> ret (Inl e) | Inr _ \<Rightarrow> ret (Inr noRequeue)) }) }) }) }) })
    (\<lambda>_ v. specs_kept m0 (cl_Sandboxes v))"
  (is "vtriple view ?I _ (\<lambda>_. ?q)")
proof -
  have spared: "vtriple view ?I m (\<lambda>_. ?I)" if "obeys spares view m" for m :: "('w, 'b) state"
    by (rule obeys_keeps [OF that]) (simp add: spares_def)
  have sessions: "vtriple view ?I (closeSessions r sb) (\<lambda>_. ?I)"
    unfolding closeSessions_def closeOne_def assms(1)
    by (auto intro!: vtriple_then vtriple_for_each vtriple_ignore vtriple_ret sessions.frame vtriple_bind [OF wall_frame [OF assms(1)]])
  have update: "vtriple view ?I (kc_Update (k_Sandboxes c)
      (sb\<lparr>sb_meta := RemoveFinalizer (sr_Lib r) (sb_meta sb) SandboxFinalizer\<rparr>)) (\<lambda>_. ?q)"
    by (rule vtriple_frozen [OF sandboxes.update])
      (auto simp: kube_library.remove_key [OF assms(2)] split: sum.splits intro: specs_kept_trans specs_kept_upd)
  show ?thesis
    unfolding assms(1)
    by (intro vtriple_then spared [OF children_spares(5) [OF assms(1)]] spared [OF children_spares(3) [OF assms(1)]] sessions
        spared [OF children_spares(6) [OF assms(1)]] vtriple_bind [OF update]) (auto intro!: vtriple_ret split: sum.split)
qed

lemma finalize_stable:
  assumes "sr_Client r = c" "kube_library (sr_Lib r)" "cl_Sandboxes v0 (key_of (sb_meta sb)) = Some sb"
  shows "vtriple view (\<lambda>v. v = v0) (finalize r sb) (\<lambda>_ v. specs_kept (cl_Sandboxes v0) (cl_Sandboxes v))"
  unfolding finalize_def
proof (rule vtriple_if, rule vtriple_ret, simp, rule vtriple_bind [OF markTerminating_stable [OF assms(1,3)]], goal_cases)
  case (1 g)
  show ?case
  proof (cases g)
    case (Inr x)
    show ?thesis
      unfolding Inr sum.case by (rule finalize_stable_tail [OF assms(1,2)])
  qed (simp add: vtriple_ret)
qed

lemma Reconcile_stable:
  assumes "sr_Client r = c" "kube_library (sr_Lib r)" "ssh_quiet view (sr_Ssh r)" "quiet view (sr_now r)"
  shows "stable view (Reconcile r req)"
  unfolding obeys_def
proof
  fix v0 :: cluster
  let ?m = "cl_Sandboxes v0"
  let ?q = "\<lambda>v. specs_kept ?m (cl_Sandboxes v)"
  have get: "vtriple view (\<lambda>v. v = v0) (kc_Get (k_Sandboxes c) req) (\<lambda>g v. v = v0 \<and>
      (case g of Inl e \<Rightarrow> True | Inr x \<Rightarrow> ?m (key_of (sb_meta x)) = Some x))"
    by (rule sandboxes.get_rule) auto
  have guard: "vtriple view (\<lambda>v. v = v0) (kc_Update (k_Sandboxes c) (x\<lparr>sb_meta := AddFinalizer (sr_Lib r) (sb_meta x) SandboxFinalizer\<rparr>)) (\<lambda>_. ?q)"
    if "?m (key_of (sb_meta x)) = Some x" for x
    by (rule vtriple_conseq [OF update_stable [of ?m _ x]]) (use that kube_library.add_key [OF assms(2)] in simp_all)
  have keep: "vtriple view ?q m (\<lambda>_. ?q)" if "stable view m" for m :: "('w, 'b) state"
    by (rule obeys_keeps [OF that]) (blast intro: specs_kept_trans)
  have rest: "vtriple view ?q (do {
       (result, status) \<leftarrow> reconcileSandbox r sb st;
       updErr \<leftarrow> patchStatus r sb status;
       (case (result, updErr) of (Inr _, Inl e) \<Rightarrow> ret (Inl e) | _ \<Rightarrow> ret result) }) (\<lambda>_. ?q)" for sb st
    unfolding patchStatus_def assms(1)
    by (rule keep) (intro stable_rules spares_stable [OF reconcileSandbox_spares [OF assms(1,3,4)]])
  have branch: "vtriple view ?q (case g of Inl e \<Rightarrow> ret (Inl e) | Inr x \<Rightarrow> f x) (\<lambda>_. ?q)" if "\<And>x. vtriple view ?q (f x) (\<lambda>_. ?q)"
    for g and f :: "Sandbox \<Rightarrow> ('w, Result res) state"
    using that by (cases g) (auto intro: vtriple_ret)
  show "vtriple view (\<lambda>v. v = v0) (Reconcile r req) (\<lambda>_. ?q)"
    unfolding Reconcile_def assms(1)
  proof (rule vtriple_bind [OF get], rule vtriple_pre, goal_cases)
    case (1 g)
    show ?case
    proof (cases g)
      case (Inr x)
      with 1 have x: "?m (key_of (sb_meta x)) = Some x" by simp
      have fin: "vtriple view (\<lambda>v. v = v0) (finalize r x) (\<lambda>_. ?q)" by (rule finalize_stable [OF assms(1,2) x])
      show ?thesis
        unfolding Inr sum.case
        by (rule vtriple_if, rule fin, rule vtriple_bind [where s = "\<lambda>_. ?q"], rule vtriple_if, rule guard [OF x], rule vtriple_ret, simp, rule branch, rule rest)
    qed (auto intro!: vtriple_ret)
  qed
qed

section \<open>The other controllers\<close>

lemma session_calls_stable [stable_rules]:
  "stable view (kc_Get (k_Sessions c) n)" "stable view (kc_StatusUpdate (k_Sessions c) s)" "stable view (kc_Delete (k_Sessions c) n)"
  by (auto simp: obeys_def intro!: vtriple_conseq [OF sessions.frame(1) [where I = "\<lambda>v. cl_Sandboxes v = cl_Sandboxes _"]]
      vtriple_conseq [OF sessions.frame(5) [where I = "\<lambda>v. cl_Sandboxes v = cl_Sandboxes _"]]
      vtriple_conseq [OF sessions.frame(6) [where I = "\<lambda>v. cl_Sandboxes v = cl_Sandboxes _"]])

lemma reconcileSession_stable:
  assumes "ssr_Client r = c" "quiet view (ssr_now r)"
  shows "stable view (reconcileSession r req)"
proof -
  have states: "stable view (case st of SessionStateActive \<Rightarrow> a | SessionStateClosed \<Rightarrow> b | SessionStateOther s \<Rightarrow> d s)"
    if "stable view a" "stable view b" "\<And>s. stable view (d s)" for st a b and d :: "string \<Rightarrow> ('w, Result res) state"
    using that by (cases st) simp_all
  show ?thesis
    unfolding reconcileSession_def reconcileActive_def reconcileClosed_def bumpSandboxActivity_def assms(1) Let_def
    by (intro stable_rules states specs.quiet_obeys [OF assms(2)])
qed

lemma nudge_orderly:
  assumes "apr_Client r = c"
  shows "obeys system_order view (nudge r profile sb)"
proof (rule orderly_parts)
  show "evolves view (nudge r profile sb)" unfolding nudge_def assms by (intro evolves_rules)
  have "stable view (kc_Patch (k_Sandboxes c) (nudged profile sb) sb)"
    unfolding obeys_def
    by (intro allI, rule vtriple_conseq [OF sandboxes.patch])
      (auto simp: nudged_def intro!: specs_kept_upd split: sum.splits if_splits)
  then show "stable view (nudge r profile sb)" unfolding nudge_def assms by (intro stable_rules)
qed

lemma syncEach_spares:
  assumes "apr_Client r = c"
  shows "obeys spares view (syncEach r profile rules acc)"
proof (induction rules arbitrary: acc)
  case (Cons nr rest)
  show ?case
    unfolding syncEach.simps namespaceExists_def applyRole_def assms Let_def by (intro spares_rules Cons.IH)
qed (simp add: spared.ret)

lemma reconcileProfile_orderly:
  assumes "apr_Client r = c"
  shows "obeys system_order view (reconcileProfile r req)"
  unfolding reconcileProfile_def finalizeProfile_def syncRoles_def requeueSandboxes_def gcRole_def assms Let_def
  by (intro orderly.rules nudge_orderly [OF assms] spares_orderly [OF syncEach_spares [OF assms]]
      spares_orderly [OF spares_calls(1)] spares_calls [THEN spares_orderly] spares_reads [THEN spares_orderly])

lemma Reconcile_orderly:
  assumes "sr_Client r = c" "kube_library (sr_Lib r)" "ssh_quiet view (sr_Ssh r)" "quiet view (sr_now r)"
  shows "obeys system_order view (Reconcile r req)"
  by (rule orderly_parts [OF Reconcile_evolves [OF assms(1,3,4)] Reconcile_stable [OF assms]])

lemma reconcileSession_orderly:
  assumes "ssr_Client r = c" "quiet view (ssr_now r)"
  shows "obeys system_order view (reconcileSession r req)"
  by (rule orderly_parts [OF reconcileSession_evolves [OF assms] reconcileSession_stable [OF assms]])

end

section \<open>The gateway\<close>

text \<open>What the gateway's surroundings do while it waits, dials and copies.\<close>

definition runtime_obeys :: "(cluster \<Rightarrow> cluster \<Rightarrow> bool) \<Rightarrow> ('w \<Rightarrow> cluster) \<Rightarrow> ('w, 'conn, 'chan) ssh_runtime \<Rightarrow>
    ('w, 'conn) jumpHandler \<Rightarrow> ('w, 'chan) NewChannel \<Rightarrow> bool" where
  "runtime_obeys R view rt h ch \<longleftrightarrow> obeys R view (jh_Now h) \<and> (\<forall>sb. obeys R view (dl_DialSandbox (jh_Dialer h) sb)) \<and>
     (\<forall>d. obeys R view (rt_Wait rt d)) \<and> (\<forall>n. obeys R view (rt_Read rt n)) \<and> (\<forall>a b. obeys R view (rt_CopyFirst rt a b)) \<and>
     (\<forall>a. obeys R view (rt_CloseChan rt a)) \<and> (\<forall>b. obeys R view (rt_CloseConn rt b)) \<and>
     (\<forall>r m. obeys R view (nc_Reject ch r m)) \<and> obeys R view (nc_Accept ch)"

locale gateway_order = session_store view st + cluster_order R
  for view :: "'w \<Rightarrow> cluster" and st :: "'w Store" and R :: "cluster \<Rightarrow> cluster \<Rightarrow> bool" +
  assumes store_obeys: "obeys R view (sto_GetSandbox st ns n)" "obeys R view (sto_SetDesiredRunning st sb)"
    "obeys R view (sto_CreateSession st session)" "obeys R view (sto_Heartbeat st ns n)" "obeys R view (sto_CloseSession st ns n reason)"
begin

lemma runtime_rules:
  assumes "runtime_obeys R view rt h ch"
  shows "obeys R view (jh_Now h)" "obeys R view (dl_DialSandbox (jh_Dialer h) sb)" "obeys R view (rt_Wait rt d)" "obeys R view (rt_Read rt k)"
    "obeys R view (rt_CopyFirst rt a b)" "obeys R view (rt_CloseChan rt a)" "obeys R view (rt_CloseConn rt b)"
    "obeys R view (nc_Reject ch reason message)" "obeys R view (nc_Accept ch)"
  using assms by (simp_all add: runtime_obeys_def)

lemma wake_obeys:
  assumes "jh_Store h = st" "runtime_obeys R view rt h ch"
  shows "obeys R view (wakeLoop fuel rt h sb deadline)" "obeys R view (wakeAndWait fuel rt h sb)"
proof -
  show loop: "obeys R view (wakeLoop fuel rt h x deadline)" for x deadline
  proof (induction fuel)
    case (Suc fuel)
    show ?case
      unfolding wakeLoop.simps assms(1) by (intro rules runtime_rules [OF assms(2)] store_obeys Suc.IH)
  qed (simp add: ret)
  show "obeys R view (wakeAndWait fuel rt h sb)"
    unfolding wakeAndWait_def assms(1) by (intro rules runtime_rules [OF assms(2)] store_obeys loop)
qed

lemma handle_obeys:
  assumes "jh_Store h = st" "runtime_obeys R view rt h ch"
  shows "obeys R view (handleDirectTCPIP fuel rt h ch ctx)"
  unfolding handleDirectTCPIP_def authorize_def openSession_def randomSuffix_def serveChannel_def bridge_def closeSession_def Let_def assms(1)
  by (intro rules runtime_rules [OF assms(2)] store_obeys wake_obeys [OF assms])

lemma heartbeat_obeys:
  assumes "jh_Store h = st"
  shows "obeys R view (heartbeatLoop h ns name events)"
proof (induction events)
  case (Cons e events)
  then show ?case by (cases e) (auto simp: assms intro!: rules store_obeys)
qed (simp add: ret)

end

text \<open>The gateway over the API server.\<close>

context kube_server
begin

lemma store_orderly:
  "obeys system_order view (sto_GetSandbox (NewStore c) ns n)" "obeys system_order view (sto_SetDesiredRunning (NewStore c) sb)"
  "obeys system_order view (sto_CreateSession (NewStore c) session)" "obeys system_order view (sto_Heartbeat (NewStore c) ns n)"
  "obeys system_order view (sto_CloseSession (NewStore c) ns n reason)"
proof -
  have same: "stable view m" if "\<And>v0. vtriple view (\<lambda>v. v = v0) m (\<lambda>_ v. \<exists>ss. v = v0\<lparr>cl_Sessions := ss\<rparr>)" for m :: "('w, 'b) state"
    unfolding obeys_def by (intro allI, rule vtriple_conseq [OF that]) auto
  show "obeys system_order view (sto_GetSandbox (NewStore c) ns n)"
    by (rule orderly.quiet_obeys, unfold quiet_def, intro allI, rule vtriple_conseq [OF store.get_sandbox]) auto
  show "obeys system_order view (sto_SetDesiredRunning (NewStore c) sb)"
    unfolding obeys_def
    by (intro allI, rule vtriple_conseq [OF store.set_running]) (auto simp: system_order_def dest: specs_kept_wakes)
  show "obeys system_order view (sto_CreateSession (NewStore c) session)"
    by (rule orderly_parts [OF store.sessions_follow(1) same [OF store.create_session_frame]])
  show "obeys system_order view (sto_Heartbeat (NewStore c) ns n)"
    by (rule orderly_parts [OF store.sessions_follow(2) same [OF store.heartbeat]])
  show "obeys system_order view (sto_CloseSession (NewStore c) ns n reason)"
    by (rule orderly_parts [OF store.sessions_follow(3) same [OF store.close_session_frame]])
qed

end

sublocale kube_server \<subseteq> gateway: gateway_order view "NewStore c" system_order
  by unfold_locales (rule store_orderly)+

end
