(* ===== verification/Gateway_Access.thy ===== *)
theory Gateway_Access
  imports Gateway_Http Kube_Memory
begin

text \<open>
  What the HTTP half of the gateway guarantees: the session cookie, who reaches
  an exposed port, and whom the sign endpoint issues certificates to.
\<close>

declare split_paired_All [simp del] split_paired_Ex [simp del]

section \<open>Base64\<close>

lemma b64_digits_range: "list_all (\<lambda>b. b < 256) bs \<Longrightarrow> list_all (\<lambda>d. d < 64) (b64_digits bs)"
  by (induction bs rule: b64_digits.induct) auto

lemma b64_bytes_digits: "list_all (\<lambda>b. b < 256) bs \<Longrightarrow> b64_bytes (b64_digits bs) = Some bs"
  by (induction bs rule: b64_digits.induct) auto

lemma b64_alphabet_find: "n < 64 \<Longrightarrow> b64_value (b64_digit n) = Some n"
proof -
  have "list_all (\<lambda>n. b64_value (b64_digit n) = Some n) [0..<64]" by code_simp
  then show "n < 64 \<Longrightarrow> b64_value (b64_digit n) = Some n" by (simp add: list_all_iff)
qed

lemma b64_alphabet_chars: "n < 64 \<Longrightarrow> b64_digit n \<notin> {CHR ''.'', CHR 0x0A, CHR 0x0D}"
proof -
  have "list_all (\<lambda>n. b64_digit n \<notin> {CHR ''.'', CHR 0x0A, CHR 0x0D}) [0..<64]" by code_simp
  then show "n < 64 \<Longrightarrow> b64_digit n \<notin> {CHR ''.'', CHR 0x0A, CHR 0x0D}" by (simp add: list_all_iff)
qed

lemma bytes_small: "list_all (\<lambda>b. b < 256) (map (of_char :: char \<Rightarrow> nat) bs)"
  by (simp add: list_all_iff)

lemma b64_encoded: "c \<in> set (b64_EncodeToString bs) \<Longrightarrow> \<exists>n < 64. c = b64_digit n"
  using b64_digits_range [OF bytes_small, of bs] by (auto simp: b64_EncodeToString_def list_all_iff)

lemma b64_roundtrip: "b64_DecodeString (b64_EncodeToString bs) = Some bs"
proof -
  let ?ds = "b64_digits (map of_char bs)"
  have small: "\<forall>d \<in> set ?ds. d < 64" using b64_digits_range [OF bytes_small, of bs] by (simp add: list_all_iff)
  have "filter (\<lambda>c. c \<noteq> CHR 0x0A \<and> c \<noteq> CHR 0x0D) (b64_EncodeToString bs) = b64_EncodeToString bs"
    using b64_encoded b64_alphabet_chars by (fastforce simp: filter_id_conv)
  moreover have "map b64_value (b64_EncodeToString bs) = map Some ?ds"
    using small b64_alphabet_find by (auto simp: b64_EncodeToString_def)
  ultimately have "b64_DecodeString (b64_EncodeToString bs) = map_option (map char_of) (b64_bytes ?ds)"
    by (simp add: b64_DecodeString_def Let_def comp_def image_iff)
  then show ?thesis by (simp add: b64_bytes_digits [OF bytes_small] comp_def)
qed

lemma b64_no_dot: "CHR ''.'' \<notin> set (b64_EncodeToString bs)"
  using b64_encoded [of "CHR ''.''" bs] b64_alphabet_chars by (metis insertI1)

section \<open>The session cookie\<close>

lemma verifyCookie_iff:
  "verifyCookie L a raw = Some claims \<longleftrightarrow> (\<exists>b payload. raw = b @ ''.'' @ b64_EncodeToString (wl_HMAC L (ca_hmacKey a) b) \<and>
     CHR ''.'' \<notin> set b \<and> b64_DecodeString b = Some payload \<and> wl_Unmarshal L payload = Some claims)"
  (is "?lhs \<longleftrightarrow> ?rhs")
proof
  assume ?lhs
  then obtain b sig where cut: "Cut raw ''.'' = (b, sig, True)" "sig = b64_EncodeToString (wl_HMAC L (ca_hmacKey a) b)"
    and rest: "\<exists>payload. b64_DecodeString b = Some payload \<and> wl_Unmarshal L payload = Some claims"
    by (auto simp: verifyCookie_def Let_def split: prod.splits if_splits option.splits)
  from cut(1) have "raw = b @ ''.'' @ sig" "\<not> sublist ''.'' b" using Cut_iff [of "''.''" raw b sig] by simp_all
  then show ?rhs using cut(2) rest by (metis in_set_conv_decomp sublist_def append_Cons append_Nil)
next
  assume ?rhs
  then obtain b payload where b: "raw = b @ ''.'' @ b64_EncodeToString (wl_HMAC L (ca_hmacKey a) b)" "CHR ''.'' \<notin> set b"
    "b64_DecodeString b = Some payload" "wl_Unmarshal L payload = Some claims" by auto
  have "\<not> sublist ''.'' b" using b(2) by (auto dest: set_mono_sublist)
  then have "Cut raw ''.'' = (b, b64_EncodeToString (wl_HMAC L (ca_hmacKey a) b), True)"
    using Cut_iff [of "''.''" raw b] b(1) by simp
  then show ?lhs using b(3,4) by (simp add: verifyCookie_def)
qed

lemma signCookie_verifies:
  assumes "wl_Unmarshal L (wl_Marshal L claims) = Some claims"
  shows "verifyCookie L a (signCookie L a claims) = Some claims"
  unfolding verifyCookie_iff signCookie_def Let_def using assms b64_roundtrip b64_no_dot by blast

lemma Identify_run:
  "run_state (Identify L a r) w = (Some (p, gs), w') \<longleftrightarrow> (\<exists>raw claims now. rq_Cookie r sessionCookie = Some raw \<and>
     verifyCookie L a raw = Some claims \<and> run_state (wl_Now L) w = (now, w') \<and> Unix now \<le> scl_Expiry claims \<and>
     p = scl_Principal claims \<and> gs = scl_Groups claims)"
  by (auto simp: Identify_def split: option.splits prod.splits)

text \<open>The ID tokens the provider has vouched for.\<close>

definition vouched :: "(string \<Rightarrow> ('w, IDToken res) state) \<Rightarrow> IDToken \<Rightarrow> bool" where
  "vouched verify tok \<longleftrightarrow> (\<exists>raw w. fst (run_state (verify raw) w) = Inr tok)"

lemma verify_vouches: "always (\<lambda>r. case r of Inl _ \<Rightarrow> True | Inr tok \<Rightarrow> vouched verify tok) (verify raw)"
  unfolding always_def vouched_def by (auto split: sum.splits)

text \<open>The times the clock has shown.\<close>

definition shown :: "('w, Time) state \<Rightarrow> Time \<Rightarrow> bool" where
  "shown clock now \<longleftrightarrow> (\<exists>w. now = fst (run_state clock w))"

text \<open>The cookie of a login is that of the identity of a vouched token.\<close>

definition login_cookie :: "'w weblib \<Rightarrow> 'w CookieAuthenticator \<Rightarrow> HTTPCookie \<Rightarrow> bool" where
  "login_cookie L a ck \<longleftrightarrow> (\<exists>p gs tok now. ck_Name ck = sessionCookie \<and> vouched (ca_Verify a) tok \<and>
     identityFromToken tok (ca_claim a) = (p, gs) \<and> p \<noteq> [] \<and> shown (wl_Now L) now \<and>
     ck_Value ck = signCookie L a \<lparr>scl_Principal = p, scl_Groups = gs, scl_Expiry = Unix (now + ca_ttl a)\<rparr>)"

lemma login_cookieI:
  "vouched (ca_Verify a) tok \<Longrightarrow> identityFromToken tok (ca_claim a) = (p, gs) \<Longrightarrow> p \<noteq> [] \<Longrightarrow> shown (wl_Now L) now \<Longrightarrow>
   login_cookie L a \<lparr>ck_Name = sessionCookie, ck_Value = signCookie L a \<lparr>scl_Principal = p, scl_Groups = gs, scl_Expiry = Unix (now + ca_ttl a)\<rparr>,
     ck_Path = path, ck_HttpOnly = ho, ck_Secure = sec, ck_MaxAge = age\<rparr>"
  unfolding login_cookie_def by (intro exI [of _ p] exI [of _ gs] exI [of _ tok] exI [of _ now]) simp

lemma clock_shows: "always (shown clock) clock"
  unfolding always_def shown_def by blast

lemma Callback_sets:
  "always (\<lambda>resp. case resp of RedirectTo cks loc \<Rightarrow> \<forall>ck \<in> set cks. login_cookie L a ck | ProxyTo _ \<Rightarrow> False | _ \<Rightarrow> True) (Callback L a r)"
proof -
  have exchange: "always (\<lambda>_. True) (ca_Exchange a x)" for x by simp
  show ?thesis
    unfolding Callback_def Let_def
    by (auto intro!: always_ret always_if always_bind [OF exchange] always_bind [OF verify_vouches] always_bind [OF clock_shows]
        login_cookieI split: option.split prod.split sum.split)
qed

section \<open>Routing to exposed ports\<close>

text \<open>The access rule of an exposed port.\<close>

definition port_admits :: "Sandbox \<Rightarrow> ExposedPort \<Rightarrow> string \<Rightarrow> string list \<Rightarrow> bool" where
  "port_admits sb port p gs \<longleftrightarrow> p = own_Name (sp_Owner (sb_spec sb)) \<or> p \<in> set (xp_AllowedUsers port) \<or>
     (\<exists>g \<in> set gs. g \<in> set (xp_AllowedGroups port))"

lemma authorizedForPort_iff: "authorizedForPort sb port p gs \<longleftrightarrow> port_admits sb port p gs"
  by (auto simp: authorizedForPort_def port_admits_def list_ex_iff)

lemma findExposedPort_Some:
  "findExposedPort sb name = Some port \<Longrightarrow> port \<in> set (sp_ExposedPorts (sb_spec sb)) \<and> xp_Name port = name"
  by (auto simp: findExposedPort_def find_Some_iff)

text \<open>What a session cookie proves.\<close>

definition cookie_identity :: "'w weblib \<Rightarrow> 'w CookieAuthenticator \<Rightarrow> HTTPRequest \<Rightarrow> string \<Rightarrow> string list \<Rightarrow> bool" where
  "cookie_identity L a r p gs \<longleftrightarrow> (\<exists>raw claims. rq_Cookie r sessionCookie = Some raw \<and> verifyCookie L a raw = Some claims \<and>
     p = scl_Principal claims \<and> gs = scl_Groups claims)"

lemma Identify_proves:
  "always (\<lambda>who. case who of None \<Rightarrow> True | Some (p, gs) \<Rightarrow> cookie_identity L a r p gs) (Identify L a r)"
  unfolding Identify_def by (auto intro!: always_rules simp: cookie_identity_def split: option.split if_splits)

lemma StartLogin_redirects: "always (\<lambda>resp. \<forall>url. resp \<noteq> ProxyTo url) (StartLogin L a r)"
  unfolding StartLogin_def by (auto intro!: always_rules)

text \<open>Access to an exposed port, from the sandbox that was read.\<close>

definition port_access :: "'w weblib \<Rightarrow> 'w HTTPProxyConfig \<Rightarrow> HTTPRequest \<Rightarrow> Sandbox \<Rightarrow> string \<Rightarrow> bool" where
  "port_access L cfg r sb name \<longleftrightarrow> ss_PodIP (sb_status sb) \<noteq> [] \<and> (\<exists>port \<in> set (sp_ExposedPorts (sb_spec sb)). xp_Name port = name \<and>
     (xp_Auth port = AuthModeOIDC \<longrightarrow> (\<exists>a p gs. hp_Auth cfg = Some a \<and> cookie_identity L a r p gs \<and> port_admits sb port p gs)))"

lemma routeHTTP_access:
  assumes "ParseHTTPHost (rq_Host r) (hp_BaseDomain cfg) = Inr t"
  shows "always (\<lambda>resp. (\<exists>url. resp = ProxyTo url) \<longrightarrow> port_access L cfg r sb (ht_Port t))
    (case findExposedPort sb (ht_Port t) of
       None \<Rightarrow> ret (ErrorPage ''port not exposed'' 404)
     | Some port \<Rightarrow>
         if xp_Auth port = AuthModeOIDC then
           (case hp_Auth cfg of
              None \<Rightarrow> ret (ErrorPage ''OIDC is not configured on this gateway'' 503)
            | Some auth \<Rightarrow> do {
                who \<leftarrow> Identify L auth r;
                (case who of
                   None \<Rightarrow> StartLogin L auth r
                 | Some (prin, groups) \<Rightarrow>
                     if \<not> authorizedForPort sb port prin groups then ret (ErrorPage ''forbidden'' 403)
                     else ret (proxyRequest L cfg sb port))
              })
         else ret (proxyRequest L cfg sb port))"
proof (cases "findExposedPort sb (ht_Port t)")
  case (Some port)
  note found = findExposedPort_Some [OF Some]
  have page: "proxyRequest L cfg sb port = ProxyTo url \<Longrightarrow> ss_PodIP (sb_status sb) \<noteq> []" for url
    by (auto simp: proxyRequest_def split: if_splits)
  have login: "always (\<lambda>resp. (\<exists>url. resp = ProxyTo url) \<longrightarrow> P) (StartLogin L auth r)" for auth P
    by (rule always_mono [OF StartLogin_redirects]) auto
  show ?thesis
    unfolding Some option.case
    by (auto intro!: always_rules always_bind [OF Identify_proves] login simp: port_access_def authorizedForPort_iff
        dest!: page intro: found split: option.split) (use found in blast)+
qed (auto intro: always_ret)

text \<open>Routing a request reads the sandbox and writes nothing.\<close>

definition web_quiet :: "('w \<Rightarrow> cluster) \<Rightarrow> 'w weblib \<Rightarrow> 'w HTTPProxyConfig \<Rightarrow> bool" where
  "web_quiet view L cfg \<longleftrightarrow> quiet view (wl_Now L) \<and> (\<forall>n. quiet view (wl_Random L n)) \<and>
     (\<forall>a. hp_Auth cfg = Some a \<longrightarrow> (\<forall>x. quiet view (ca_Exchange a x)) \<and> (\<forall>x. quiet view (ca_Verify a x)))"

lemma quiet_ret: "quiet view (ret x)"
  unfolding quiet_def by (auto intro: vtriple_ret)

lemma quiet_bind: "quiet view m \<Longrightarrow> (\<And>a. quiet view (f a)) \<Longrightarrow> quiet view (State_Monad.bind m f)"
  unfolding quiet_def using vtriple_bind by fast

lemma quiet_if: "quiet view m \<Longrightarrow> quiet view n \<Longrightarrow> quiet view (if b then m else n)"
  by simp

lemmas quiet_rules = quiet_ret quiet_bind quiet_if

context session_store
begin

lemma get_quiet: "quiet view (sto_GetSandbox st ns n)"
  unfolding quiet_def by (intro allI, rule vtriple_conseq [OF get_sandbox]) auto

lemma ServeHTTP_quiet:
  assumes "hp_Store cfg = st" "web_quiet view L cfg"
  shows "quiet view (ServeHTTP L cfg r)"
  unfolding ServeHTTP_def routeHTTP_def Callback_def Identify_def StartLogin_def randomString_def Let_def assms(1)
  using assms(2) by (auto simp: web_quiet_def intro!: quiet_rules get_quiet split: option.split sum.split prod.split)

end

lemma always_vtriple: "always Q m \<Longrightarrow> vtriple view p m (\<lambda>r _. Q r)"
  by (simp add: always_def vtriple_def triple_def)

context session_store
begin

lemma routeHTTP_proxies:
  assumes "hp_Store cfg = st"
  shows "vtriple view (\<lambda>v. v = v0) (routeHTTP L cfg r) (\<lambda>resp v. (\<exists>url. resp = ProxyTo url) \<longrightarrow>
    (\<exists>t sb. ParseHTTPHost (rq_Host r) (hp_BaseDomain cfg) = Inr t \<and> cl_Sandboxes v0 (ht_Namespace t, ht_Sandbox t) = Some sb \<and>
       port_access L cfg r sb (ht_Port t)))"
proof (cases "ParseHTTPHost (rq_Host r) (hp_BaseDomain cfg)")
  case (Inl e)
  then show ?thesis by (simp add: routeHTTP_def vtriple_ret)
next
  case (Inr t)
  show ?thesis
    unfolding routeHTTP_def Inr sum.case assms
  proof (rule vtriple_bind [OF get_sandbox], goal_cases)
    case (1 got)
    show ?case
    proof (cases got)
      case (Inr sb)
      show ?thesis
        unfolding Inr sum.case
        by (rule vtriple_pre, rule vtriple_conseq [OF always_vtriple [OF routeHTTP_access [where cfg = cfg and r = r and L = L]]])
          (use \<open>ParseHTTPHost _ _ = Inr t\<close> in auto)
    qed (simp add: vtriple_ret)
  qed
qed

end

section \<open>The sign endpoint\<close>

text \<open>A certificate for \<open>p\<close> from the CA \<open>ca\<close>, issued at \<open>t\<close> for \<open>ttl\<close>.\<close>

definition issued_to :: "'w sshlib \<Rightarrow> 'w CertSigner \<Rightarrow> string \<Rightarrow> Time \<Rightarrow> Certificate \<Rightarrow> bool" where
  "issued_to S s p t c \<longleftrightarrow> cert_CertType c = UserCert \<and> cert_ValidPrincipals c = [p] \<and> cert_CriticalOptions c = [] \<and>
     cert_SignatureKey c = Some (sl_SignerPublic S (sg_ca s)) \<and> sl_Verify S c \<and>
     cert_ValidAfter c = uint64 (Unix (t - Minute)) \<and> cert_ValidBefore c = validBefore t (sg_ttl s)"

lemma Sign_issues:
  assumes "ssh_library S"
  shows "always (\<lambda>r. case r of Inl _ \<Rightarrow> True | Inr b \<Rightarrow> p \<noteq> [] \<and> (\<exists>c t. b = sl_MarshalAuthorizedKey S (CertKey c) \<and>
    shown (sg_now s) t \<and> issued_to S s p t c)) (Sign S s pub p)"
proof -
  let ?ok = "\<lambda>b. \<exists>c t. b = sl_MarshalAuthorizedKey S (CertKey c) \<and> shown (sg_now s) t \<and> issued_to S s p t c"
  have signed: "always (\<lambda>r. case r of Inl _ \<Rightarrow> True | Inr c \<Rightarrow> p \<noteq> [] \<and> issued_to S s p now c)
      (SignUserCert S (sg_ca s) key p (sg_ttl s) now)" for key now
    by (rule always_mono [OF ssh_library.signed_user_cert [OF assms]]) (auto simp: issued_to_def split: sum.splits)
  have "?ok (sl_MarshalAuthorizedKey S (CertKey c))" if "shown (sg_now s) t" "issued_to S s p t c" for c t
    using that by blast
  then show ?thesis
    unfolding Sign_def by (auto intro!: always_ret always_bind [OF clock_shows] always_bind [OF signed] split: sum.split)
qed

definition claimed :: "IDToken \<Rightarrow> string \<Rightarrow> string \<Rightarrow> bool" where
  "claimed tok claim p \<longleftrightarrow> p \<noteq> [] \<and> (\<exists>claims. it_Claims tok = Inr claims \<and> map_of claims claim = Some (ClaimString p))"

lemma principalFromClaims_iff: "principalFromClaims tok claim = Inr p \<longleftrightarrow> claimed tok claim p"
  by (auto simp: principalFromClaims_def claimed_def split: sum.splits option.splits Claim.splits if_splits)

text \<open>What an answer with a certificate means.\<close>

definition sign_answer :: "'w sshlib \<Rightarrow> 'w SignServer \<Rightarrow> signResponse \<Rightarrow> bool" where
  "sign_answer S s resp \<longleftrightarrow> (\<exists>verify tok c t. sv_Verify s = Some verify \<and> vouched verify tok \<and>
     claimed tok (oc_PrincipalClaim (sv_oidc s)) (sp_Principal resp) \<and>
     sp_Certificate resp = sl_MarshalAuthorizedKey S (CertKey c) \<and> shown (sg_now (sv_signer s)) t \<and>
     issued_to S (sv_signer s) (sp_Principal resp) t c)"

lemma handleSign_answers:
  assumes "ssh_library S"
  shows "always (\<lambda>resp. case resp of SignBody b \<Rightarrow> rq_Method r = ''POST'' \<and> sign_answer S s b | _ \<Rightarrow> True) (handleSign S L s r)"
proof -
  have "sign_answer S s \<lparr>sp_Certificate = sl_MarshalAuthorizedKey S (CertKey c), sp_Principal = p\<rparr>"
    if "sv_Verify s = Some verify" "vouched verify tok" "principalFromClaims tok (oc_PrincipalClaim (sv_oidc s)) = Inr p"
      "shown (sg_now (sv_signer s)) t" "issued_to S (sv_signer s) p t c" for verify tok p c t
    using that unfolding sign_answer_def principalFromClaims_iff by auto
  then show ?thesis
    unfolding handleSign_def
    by (auto intro!: always_ret always_bind [OF verify_vouches] always_bind [OF Sign_issues [OF assms]] split: sum.split option.split)
qed

section \<open>Properties\<close>


text \<open>A web library on which cookies round-trip, and the sample sandbox behind the proxy.\<close>

definition packClaims :: "sessionClaims \<Rightarrow> bytes" where
  "packClaims cl = (if cl = \<lparr>scl_Principal = ''bob'', scl_Groups = [], scl_Expiry = 9000\<rparr> then ''b'' else ''a'')"

definition unpackClaims :: "bytes \<Rightarrow> sessionClaims option" where
  "unpackClaims b = (if b = ''b'' then Some \<lparr>scl_Principal = ''bob'', scl_Groups = [], scl_Expiry = 9000\<rparr> else None)"

definition sampleWeb :: "memory weblib" where
  "sampleWeb = \<lparr>wl_HMAC = (\<lambda>k b. k @ b), wl_Marshal = packClaims, wl_Unmarshal = unpackClaims,
     wl_DecodeSign = (\<lambda>b. Inr \<lparr>sr_PublicKey = ''alice-key'', sr_IDToken = b\<rparr>), wl_ParseURL = Inr,
     wl_Random = (\<lambda>n. ret (replicate n CHR ''r'')), wl_Now = k_Now memKube\<rparr>"

definition sampleToken :: IDToken where
  "sampleToken = \<lparr>it_Claims = Inr [(''email'', ClaimString ''bob''), (''groups'', ClaimList [ClaimOther])]\<rparr>"

definition sampleAuth :: "memory CookieAuthenticator" where
  "sampleAuth = \<lparr>ca_AuthCodeURL = (\<lambda>s. ''https://idp.example/auth?state='' @ s), ca_Exchange = (\<lambda>_. ret (Inr (Some ''token''))),
     ca_Verify = (\<lambda>_. ret (Inr sampleToken)), ca_claim = ''email'', ca_hmacKey = ''key'', ca_ttl = 4000 * Second, ca_secure = True\<rparr>"

definition sampleProxy :: "memory HTTPProxyConfig" where
  "sampleProxy = \<lparr>hp_BaseDomain = ''park.example'', hp_Store = NewStore memKube, hp_Auth = Some sampleAuth,
     hp_DialAddr = Some (\<lambda>sb _. ''http://'' @ ss_PodIP (sb_status sb))\<rparr>"

definition sampleRequest :: "string \<Rightarrow> string option \<Rightarrow> HTTPRequest" where
  "sampleRequest host cookie = \<lparr>rq_Method = ''GET'', rq_Host = host, rq_Path = ''/'', rq_URL = ''/'', rq_Query = (\<lambda>_. []),
     rq_Cookie = (\<lambda>n. if n = sessionCookie then cookie else None), rq_Body = []\<rparr>"

definition addressedSandbox :: Sandbox where
  "addressedSandbox = sampleSandbox\<lparr>sb_status := sampleStatus\<lparr>ss_PodIP := ''10.0.0.9''\<rparr>\<rparr>"

lemma sampleProxy_quiet: "web_quiet memView sampleWeb sampleProxy"
  by (auto simp: web_quiet_def sampleWeb_def sampleProxy_def sampleAuth_def memKube_def quiet_ret quiet_def vtriple_def triple_def)


text \<open>
  C35. A login is remembered exactly as long as it should be.  The cookie the
  callback sets identifies whoever presents it as the non-empty principal and the
  groups of an ID token the provider vouched for, until the configured lifetime
  has passed since the login, and as nobody afterwards.
\<close>

theorem login_cookie_identifies:
  assumes "\<forall>cl. wl_Unmarshal L (wl_Marshal L cl) = Some cl" "fst (run_state (Callback L a r) w) = RedirectTo cks loc" "ck \<in> set cks"
    "rq_Cookie r' sessionCookie = Some (ck_Value ck)" "run_state (wl_Now L) w1 = (t, w2)"
  shows "\<exists>tok p gs login. vouched (ca_Verify a) tok \<and> identityFromToken tok (ca_claim a) = (p, gs) \<and> p \<noteq> [] \<and> shown (wl_Now L) login \<and>
    fst (run_state (Identify L a r') w1) = (if Unix t \<le> Unix (login + ca_ttl a) then Some (p, gs) else None)"
proof -
  have "login_cookie L a ck" using Callback_sets [of L a r] assms(2,3) unfolding always_def by (auto dest!: spec [of _ w])
  then obtain p gs tok login where l: "vouched (ca_Verify a) tok" "identityFromToken tok (ca_claim a) = (p, gs)" "p \<noteq> []" "shown (wl_Now L) login"
    "ck_Value ck = signCookie L a \<lparr>scl_Principal = p, scl_Groups = gs, scl_Expiry = Unix (login + ca_ttl a)\<rparr>"
    unfolding login_cookie_def by blast
  have "verifyCookie L a (ck_Value ck) = Some \<lparr>scl_Principal = p, scl_Groups = gs, scl_Expiry = Unix (login + ca_ttl a)\<rparr>"
    unfolding l(5) using assms(1) by (intro signCookie_verifies) simp
  then have "fst (run_state (Identify L a r') w1) = (if Unix t \<le> Unix (login + ca_ttl a) then Some (p, gs) else None)"
    using assms(4,5) by (simp add: Identify_def)
  with l(1-4) show ?thesis by blast
qed

text \<open>A codec for session claims: numbers in unary, strings and lists after their length.\<close>

definition pack_nat :: "nat \<Rightarrow> bytes" where
  "pack_nat n = replicate n CHR ''1'' @ ''0''"

definition unpack_nat :: "bytes \<Rightarrow> nat \<times> bytes" where
  "unpack_nat b = (length (takeWhile (\<lambda>c. c = CHR ''1'') b), drop 1 (dropWhile (\<lambda>c. c = CHR ''1'') b))"

definition pack_str :: "string \<Rightarrow> bytes" where
  "pack_str s = pack_nat (length s) @ s"

definition unpack_str :: "bytes \<Rightarrow> string \<times> bytes" where
  "unpack_str b = (case unpack_nat b of (n, r) \<Rightarrow> (take n r, drop n r))"

primrec unpack_strs :: "nat \<Rightarrow> bytes \<Rightarrow> string list \<times> bytes" where
  "unpack_strs 0 b = ([], b)"
| "unpack_strs (Suc n) b = (case unpack_str b of (s, r) \<Rightarrow> (case unpack_strs n r of (ss, r') \<Rightarrow> (s # ss, r')))"

definition pack_claims :: "sessionClaims \<Rightarrow> bytes" where
  "pack_claims cl = pack_str (scl_Principal cl) @ pack_nat (length (scl_Groups cl)) @ concat (map pack_str (scl_Groups cl)) @
     pack_nat (nat (scl_Expiry cl)) @ pack_nat (nat (- scl_Expiry cl))"

definition unpack_claims :: "bytes \<Rightarrow> sessionClaims option" where
  "unpack_claims b =
     (case unpack_str b of (p, b1) \<Rightarrow> case unpack_nat b1 of (n, b2) \<Rightarrow> case unpack_strs n b2 of (gs, b3) \<Rightarrow>
      case unpack_nat b3 of (e, b4) \<Rightarrow> case unpack_nat b4 of (f, b5) \<Rightarrow>
        Some \<lparr>scl_Principal = p, scl_Groups = gs, scl_Expiry = int e - int f\<rparr>)"

lemma unpack_nat_pack [simp]: "unpack_nat (pack_nat n @ b) = (n, b)"
  by (induction n) (simp_all add: unpack_nat_def pack_nat_def)

lemma unpack_str_pack [simp]: "unpack_str (pack_str s @ b) = (s, b)"
  by (simp add: unpack_str_def pack_str_def)

lemma unpack_strs_pack [simp]: "unpack_strs (length ss) (concat (map pack_str ss) @ b) = (ss, b)"
  by (induction ss) simp_all

lemma unpack_claims_pack: "unpack_claims (pack_claims cl) = Some cl"
  using unpack_nat_pack [of "nat (- scl_Expiry cl)" "[]"] by (simp add: unpack_claims_def pack_claims_def)

definition codecWeb :: "memory weblib" where
  "codecWeb = sampleWeb\<lparr>wl_Marshal := pack_claims, wl_Unmarshal := unpack_claims, wl_Now := ret (5000 * Second)\<rparr>"

theorem login_cookie_identifies_witness:
  "\<exists>ck gs. fst (run_state (Callback (codecWeb) sampleAuth
        (sampleRequest [] None\<lparr>rq_Cookie := (\<lambda>_. Some ''s|/x''), rq_Query := (\<lambda>_. ''s'')\<rparr>)) sampleMemory) = RedirectTo [ck] ''/x'' \<and>
     fst (run_state (Identify (codecWeb) sampleAuth
       (sampleRequest [] (Some (ck_Value ck)))) sampleMemory) = Some (''bob'', gs)"
proof -
  let ?r = "sampleRequest [] None\<lparr>rq_Cookie := (\<lambda>_. Some ''s|/x''), rq_Query := (\<lambda>_. ''s'')\<rparr>"
  have law: "\<forall>cl. wl_Unmarshal codecWeb (wl_Marshal codecWeb cl) = Some cl" by (simp add: codecWeb_def unpack_claims_pack)
  have cut: "Cut ''s|/x'' ''|'' = (''s'', ''/x'', True)" by code_simp
  obtain ck where ck: "fst (run_state (Callback codecWeb sampleAuth ?r) sampleMemory) = RedirectTo [ck] ''/x''"
    by (simp add: Callback_def cut sampleAuth_def sampleToken_def identityFromToken_def codecWeb_def Let_def)
  have now: "run_state (wl_Now codecWeb) sampleMemory = (5000 * Second, sampleMemory)" by (simp add: codecWeb_def)
  have tok: "vouched (ca_Verify sampleAuth) tok \<Longrightarrow> tok = sampleToken" for tok by (simp add: vouched_def sampleAuth_def)
  have time: "shown (wl_Now codecWeb) login \<Longrightarrow> login = 5000 * Second" for login by (simp add: shown_def codecWeb_def)
  have p: "identityFromToken sampleToken (ca_claim sampleAuth) = (''bob'', [])"
    by (simp add: identityFromToken_def sampleToken_def sampleAuth_def List.map_filter_def)
  have cookie: "rq_Cookie (sampleRequest [] (Some (ck_Value ck))) sessionCookie = Some (ck_Value ck)" by (simp add: sampleRequest_def)
  have ttl: "Unix (5000 * Second) \<le> Unix (5000 * Second + ca_ttl sampleAuth)" by (simp add: Unix_def sampleAuth_def)
  from login_cookie_identifies [OF law ck _ cookie now] obtain tok pr gs login where l: "vouched (ca_Verify sampleAuth) tok"
    "identityFromToken tok (ca_claim sampleAuth) = (pr, gs)" "shown (wl_Now codecWeb) login"
    "fst (run_state (Identify codecWeb sampleAuth (sampleRequest [] (Some (ck_Value ck)))) sampleMemory) =
      (if Unix (5000 * Second) \<le> Unix (login + ca_ttl sampleAuth) then Some (pr, gs) else None)" by auto
  have "pr = ''bob''" using l(2) p tok [OF l(1)] by simp
  then show ?thesis using ck l(4) ttl unfolding time [OF l(3)] by auto
qed

text \<open>
  A session cookie cannot be made without the key.  A request is identified
  as somebody exactly when its cookie is a body, a dot and the MAC of that body
  under the gateway's key, the body decodes to claims, and the claims have not
  expired.
\<close>

lemma Identify_iff:
  "run_state (Identify L a r) w = (Some (p, gs), w') \<longleftrightarrow> (\<exists>body payload claims now.
     rq_Cookie r sessionCookie = Some (body @ ''.'' @ b64_EncodeToString (wl_HMAC L (ca_hmacKey a) body)) \<and> CHR ''.'' \<notin> set body \<and>
     b64_DecodeString body = Some payload \<and> wl_Unmarshal L payload = Some claims \<and>
     run_state (wl_Now L) w = (now, w') \<and> Unix now \<le> scl_Expiry claims \<and> p = scl_Principal claims \<and> gs = scl_Groups claims)"
  unfolding Identify_run verifyCookie_iff by blast

end
