(* ===== verification/Agent.thy ===== *)
theory Agent
  imports Sandbox_Children
begin

text \<open>
  The in-sandbox SSH agent, \<open>internal/agent/agent.go\<close> and
  \<open>internal/agent/session.go\<close>: its configuration from environment and
  mounted files, its certificate check, how it turns a session into a command,
  and the persistent shell as a machine whose steps are the critical sections of
  the source.  The operating system is a parameter.
\<close>

section \<open>The operating system\<close>

record Cmd =
  cmd_Path :: string
  cmd_Args :: "string list"
  cmd_Dir :: string
  cmd_Env :: "string list"

text \<open>
  How waiting for a child ends: normally, with an exit status (none when the
  platform has no wait status), or with another error.
\<close>

datatype WaitError = ExitError "int option" | OtherWaitError string

record ('w, 'p) os =
  os_Getenv :: "string \<Rightarrow> string"
  os_Environ :: "string list"
  os_ReadFile :: "string \<Rightarrow> ('w, bytes res) state"
  os_Stat :: "string \<Rightarrow> ('w, unit res) state"
  os_StdinPipe :: "Cmd \<Rightarrow> ('w, unit res) state"
  os_Start :: "Cmd \<Rightarrow> ('w, 'p res) state"
  os_Wait :: "'p \<Rightarrow> ('w, WaitError option) state"

section \<open>agent.go\<close>

record 'w AgentConfig =
  ac_Addr :: string
  ac_Owner :: string
  ac_HostKeyPEM :: bytes
  ac_HostCertAuthorized :: bytes
  ac_UserCAAuthorized :: bytes
  ac_Command :: "string list"
  ac_HomeDir :: string
  ac_Now :: "('w, Time) state option"

definition ConfigFromEnv :: "('w, 'p) os \<Rightarrow> string list \<Rightarrow> ('w, 'w AgentConfig res) state" where
  "ConfigFromEnv sys command =
     (let dir = (if os_Getenv sys ''KUBEPARK_HOST_DIR'' = [] then ''/etc/kubepark/host'' else os_Getenv sys ''KUBEPARK_HOST_DIR'') in do {
        hostKey \<leftarrow> os_ReadFile sys (dir @ ''/ssh_host_ed25519_key'');
        (case hostKey of
           Inl e \<Rightarrow> ret (Inl (Wrapped ''read host key'' e))
         | Inr hostKey \<Rightarrow> do {
             hostCert \<leftarrow> os_ReadFile sys (dir @ ''/ssh_host_ed25519_key-cert.pub'');
             (case hostCert of
                Inl e \<Rightarrow> ret (Inl (Wrapped ''read host cert'' e))
              | Inr hostCert \<Rightarrow> do {
                  userCA \<leftarrow> os_ReadFile sys (dir @ ''/user-ca.pub'');
                  (case userCA of
                     Inl e \<Rightarrow> ret (Inl (Wrapped ''read user CA'' e))
                   | Inr userCA \<Rightarrow> ret (Inr \<lparr>
                       ac_Addr = '':2222'',
                       ac_Owner = os_Getenv sys ''KUBEPARK_OWNER'',
                       ac_HostKeyPEM = hostKey,
                       ac_HostCertAuthorized = hostCert,
                       ac_UserCAAuthorized = userCA,
                       ac_Command = command,
                       ac_HomeDir = (if os_Getenv sys ''HOME'' = [] then ''/home/sandbox'' else os_Getenv sys ''HOME''),
                       ac_Now = None\<rparr>))
                })
           })
      })"

text \<open>\<open>ssh.NewCertSigner\<close> is the parameter \<open>newCertSigner\<close>.\<close>

definition signerWithCert ::
  "'w sshlib \<Rightarrow> (Certificate \<Rightarrow> Signer \<Rightarrow> Signer res) \<Rightarrow> bytes \<Rightarrow> bytes \<Rightarrow> Signer res" where
  "signerWithCert S newCertSigner keyPEM certAuthorized =
     (case sl_ParsePrivateKey S keyPEM of
        Inl e \<Rightarrow> Inl (Wrapped ''parse host key'' e)
      | Inr signer \<Rightarrow>
          (case sl_ParseAuthorizedKey S certAuthorized of
             Inl e \<Rightarrow> Inl (Wrapped ''parse host cert'' e)
           | Inr pub \<Rightarrow>
               (case pub of
                  RawKey _ \<Rightarrow> Inl (OtherErr ''host cert is not a certificate'')
                | CertKey cert \<Rightarrow>
                    (case newCertSigner cert signer of
                       Inl e \<Rightarrow> Inl (Wrapped ''build host cert signer'' e)
                     | Inr certSigner \<Rightarrow> Inr certSigner))))"

definition agentPublicKeyHandler ::
  "'w sshlib \<Rightarrow> ('w, Time) state \<Rightarrow> PublicKey \<Rightarrow> string \<Rightarrow> PublicKey \<Rightarrow> ('w, bool) state" where
  "agentPublicKeyHandler S timeNow userCA owner key =
     (case key of
        RawKey _ \<Rightarrow> ret False
      | CertKey cert \<Rightarrow> do {
          now \<leftarrow> timeNow;
          ret (CheckUserCert S (Some cert) (Some userCA) owner now = Inr ())
        })"

section \<open>session.go: commands\<close>

definition homeEnv :: "('w, 'p) os \<Rightarrow> 'w AgentConfig \<Rightarrow> string list" where
  "homeEnv sys cfg = os_Environ sys @ [''HOME='' @ ac_HomeDir cfg]"

definition startMainProcess :: "('w, 'p) os \<Rightarrow> 'w AgentConfig \<Rightarrow> ('w, unit) state" where
  "startMainProcess sys cfg =
     (case ac_Command cfg of
        [] \<Rightarrow> ret ()
      | path # args \<Rightarrow> do {
          started \<leftarrow> os_Start sys \<lparr>cmd_Path = path, cmd_Args = args, cmd_Dir = ac_HomeDir cfg, cmd_Env = homeEnv sys cfg\<rparr>;
          ret ()
        })"

definition loginShell :: "('w, 'p) os \<Rightarrow> ('w, string) state" where
  "loginShell sys =
     (if os_Getenv sys ''SHELL'' \<noteq> [] then ret (os_Getenv sys ''SHELL'')
      else do {
        bash \<leftarrow> os_Stat sys ''/bin/bash'';
        (case bash of
           Inr _ \<Rightarrow> ret ''/bin/bash''
         | Inl _ \<Rightarrow> do {
             sh \<leftarrow> os_Stat sys ''/bin/sh'';
             (case sh of Inr _ \<Rightarrow> ret ''/bin/sh'' | Inl _ \<Rightarrow> ret ''/bin/sh'')
           })
      })"

definition joinCommand :: "string list \<Rightarrow> string" where
  "joinCommand cmd = Join cmd '' ''"

definition shellInvocation :: "('w, 'p) os \<Rightarrow> string list \<Rightarrow> ('w, string \<times> string list) state" where
  "shellInvocation sys clientCmd = do {
     shell \<leftarrow> loginShell sys;
     ret (if clientCmd \<noteq> [] then (shell, [''-c'', joinCommand clientCmd]) else (shell, [''-l'']))
   }"

fun waitStatus :: "WaitError option \<Rightarrow> int" where
  "waitStatus None = 0"
| "waitStatus (Some (ExitError (Some status))) = status"
| "waitStatus (Some (ExitError None)) = 1"
| "waitStatus (Some (OtherWaitError _)) = 1"

text \<open>A session: its command, the terminal of its pty request, and how it is ended.\<close>

record 'w Session =
  gs_Command :: "string list"
  gs_Pty :: "string option"
  gs_Exit :: "int \<Rightarrow> ('w, unit) state"

definition runExec :: "('w, 'p) os \<Rightarrow> 'w AgentConfig \<Rightarrow> 'w Session \<Rightarrow> ('w, unit) state" where
  "runExec sys cfg s = do {
     inv \<leftarrow> shellInvocation sys (gs_Command s);
     let cmd = \<lparr>cmd_Path = fst inv, cmd_Args = snd inv, cmd_Dir = ac_HomeDir cfg, cmd_Env = homeEnv sys cfg\<rparr>;
     stdin \<leftarrow> os_StdinPipe sys cmd;
     (case stdin of
        Inl _ \<Rightarrow> gs_Exit s 1
      | Inr _ \<Rightarrow> do {
          started \<leftarrow> os_Start sys cmd;
          (case started of
             Inl _ \<Rightarrow> gs_Exit s 127
           | Inr p \<Rightarrow> do {
               err \<leftarrow> os_Wait sys p;
               gs_Exit s (waitStatus err)
             })
        })
   }"

definition shellCommand :: "('w, 'p) os \<Rightarrow> 'w AgentConfig \<Rightarrow> string \<Rightarrow> ('w, Cmd) state" where
  "shellCommand sys cfg terminal = do {
     inv \<leftarrow> shellInvocation sys [];
     ret \<lparr>cmd_Path = fst inv, cmd_Args = snd inv, cmd_Dir = ac_HomeDir cfg,
       cmd_Env = homeEnv sys cfg @ [''TERM='' @ (if terminal = [] then ''xterm-256color'' else terminal)]\<rparr>
   }"

section \<open>session.go: the persistent shell\<close>

record ('f, 'p) sessionManager =
  sm_ptmx :: "'f option"
  sm_shellCmd :: "'p option"
  sm_attached :: int

definition newSessionManager :: "('f, 'p) sessionManager" where
  "newSessionManager = \<lparr>sm_ptmx = None, sm_shellCmd = None, sm_attached = 0\<rparr>"

text \<open>
  \<open>ensureShell\<close> under its lock: \<open>exited\<close> says which processes have
  a \<open>ProcessState\<close>, \<open>start\<close> is what \<open>pty.Start\<close> returns
  if it is called.
\<close>

definition ensureShell ::
  "('p \<Rightarrow> bool) \<Rightarrow> ('f \<times> 'p) res \<Rightarrow> ('f, 'p) sessionManager \<Rightarrow> 'f res \<times> ('f, 'p) sessionManager" where
  "ensureShell exited start m =
     (case (sm_ptmx m, sm_shellCmd m) of
        (Some f, Some c) \<Rightarrow>
          if \<not> exited c then (Inr f, m)
          else (case start of
                  Inl e \<Rightarrow> (Inl e, m)
                | Inr (f', c') \<Rightarrow> (Inr f', m\<lparr>sm_ptmx := Some f', sm_shellCmd := Some c'\<rparr>))
      | _ \<Rightarrow> (case start of
                Inl e \<Rightarrow> (Inl e, m)
              | Inr (f', c') \<Rightarrow> (Inr f', m\<lparr>sm_ptmx := Some f', sm_shellCmd := Some c'\<rparr>)))"

text \<open>The reaper of a shell: the PTY it closes, and the manager it leaves.\<close>

definition reapShell :: "'p \<Rightarrow> ('f, 'p) sessionManager \<Rightarrow> 'f option \<times> ('f, 'p) sessionManager" where
  "reapShell c m =
     (if sm_shellCmd m = Some c then (sm_ptmx m, m\<lparr>sm_ptmx := None, sm_shellCmd := None\<rparr>) else (None, m))"

text \<open>The two counters of \<open>attachShell\<close>.\<close>

definition attachClient :: "('f, 'p) sessionManager \<Rightarrow> ('f, 'p) sessionManager" where
  "attachClient m = m\<lparr>sm_attached := sm_attached m + 1\<rparr>"

definition detachClient :: "('f, 'p) sessionManager \<Rightarrow> ('f, 'p) sessionManager" where
  "detachClient m = m\<lparr>sm_attached := sm_attached m - 1\<rparr>"

text \<open>
  A session on the manager: the fields of \<open>sessionManager\<close> are a part of
  the state, the rest is the operating system.  \<open>ph_Exited\<close> reads whether a
  child has a \<open>ProcessState\<close>, \<open>ph_Copy\<close> copies between the client
  and the PTY until one direction ends.
\<close>

record ('w, 'f, 'p) ptyHost =
  ph_Exited :: "'p \<Rightarrow> ('w, bool) state"
  ph_Start :: "Cmd \<Rightarrow> ('w, ('f \<times> 'p) res) state"
  ph_Copy :: "'w Session \<Rightarrow> 'f \<Rightarrow> ('w, unit) state"

definition osCall :: "('w, 'a) state \<Rightarrow> ('m \<times> 'w, 'a) state" where
  "osCall x = State (\<lambda>(m, w). case run_state x w of (a, w') \<Rightarrow> (a, (m, w')))"

definition locked :: "('m \<Rightarrow> 'a \<times> 'm) \<Rightarrow> ('m \<times> 'w, 'a) state" where
  "locked f = State (\<lambda>(m, w). case f m of (a, m') \<Rightarrow> (a, (m', w)))"

definition reusable :: "bool \<Rightarrow> ('f, 'p) sessionManager \<Rightarrow> bool" where
  "reusable exited m \<longleftrightarrow> sm_ptmx m \<noteq> None \<and> sm_shellCmd m \<noteq> None \<and> \<not> exited"

definition startOrReuse ::
  "('w, 'p) os \<Rightarrow> ('w, 'f, 'q) ptyHost \<Rightarrow> 'w AgentConfig \<Rightarrow> string \<Rightarrow> (('f, 'q) sessionManager \<times> 'w, 'f res) state" where
  "startOrReuse sys host cfg terminal = do {
     m \<leftarrow> locked (\<lambda>m. (m, m));
     exited \<leftarrow> (case sm_shellCmd m of None \<Rightarrow> ret False | Some c \<Rightarrow> osCall (ph_Exited host c));
     start \<leftarrow> (if reusable exited m then ret (Inl (OtherErr ''not started''))
               else do { cmd \<leftarrow> osCall (shellCommand sys cfg terminal); osCall (ph_Start host cmd) });
     locked (ensureShell (\<lambda>_. exited) start)
   }"

definition attachShell ::
  "('w, 'p) os \<Rightarrow> ('w, 'f, 'q) ptyHost \<Rightarrow> 'w AgentConfig \<Rightarrow> 'w Session \<Rightarrow> string \<Rightarrow>
   (('f, 'q) sessionManager \<times> 'w, unit) state" where
  "attachShell sys host cfg s terminal = do {
     ptmx \<leftarrow> startOrReuse sys host cfg terminal;
     (case ptmx of
        Inl _ \<Rightarrow> osCall (gs_Exit s 1)
      | Inr f \<Rightarrow> do {
          attached \<leftarrow> locked (\<lambda>m. ((), attachClient m));
          copied \<leftarrow> osCall (ph_Copy host s f);
          locked (\<lambda>m. ((), detachClient m))
        })
   }"

text \<open>\<open>sessionManager.handle\<close>.\<close>

definition handleSession ::
  "('w, 'p) os \<Rightarrow> ('w, 'f, 'q) ptyHost \<Rightarrow> 'w AgentConfig \<Rightarrow> 'w Session \<Rightarrow> (('f, 'q) sessionManager \<times> 'w, unit) state" where
  "handleSession sys host cfg s =
     (if gs_Command s \<noteq> [] then osCall (runExec sys cfg s)
      else (case gs_Pty s of
              None \<Rightarrow> osCall (runExec sys cfg s)
            | Some terminal \<Rightarrow> attachShell sys host cfg s terminal))"

text \<open>
  \<open>sftp.go\<close>.  The server of the library is a parameter:
  \<open>newServer\<close> says whether it starts, \<open>serve\<close> runs it.  Its end
  counts as success either way.
\<close>

definition sftpHandler ::
  "('w Session \<Rightarrow> ('w, 'sftp res) state) \<Rightarrow> ('sftp \<Rightarrow> ('w, unit res) state) \<Rightarrow> ('sftp \<Rightarrow> ('w, unit) state) \<Rightarrow>
   'w Session \<Rightarrow> ('w, unit) state" where
  "sftpHandler newServer serve close s = do {
     server \<leftarrow> newServer s;
     (case server of
        Inl _ \<Rightarrow> gs_Exit s 1
      | Inr server \<Rightarrow> do {
          err \<leftarrow> serve server;
          exited \<leftarrow> gs_Exit s 0;
          close server
        })
   }"

section \<open>agent.go: the server\<close>

record ('w, 'f, 'q) AgentServer =
  as_Addr :: string
  as_Handler :: "'w Session \<Rightarrow> (('f, 'q) sessionManager \<times> 'w, unit) state"
  as_HostSigners :: "Signer list"
  as_PublicKeyHandler :: "PublicKey \<Rightarrow> ('w, bool) state"
  as_LocalForwarding :: "string \<Rightarrow> int \<Rightarrow> bool"
  as_ReverseForwarding :: "string \<Rightarrow> int \<Rightarrow> bool"
  as_Channels :: "string list"
  as_Requests :: "string list"
  as_Subsystems :: "string list"

definition NewServer ::
  "'w sshlib \<Rightarrow> (Certificate \<Rightarrow> Signer \<Rightarrow> Signer res) \<Rightarrow> ('w, Time) state \<Rightarrow> ('w, 'p) os \<Rightarrow> ('w, 'f, 'q) ptyHost \<Rightarrow>
   'w AgentConfig \<Rightarrow> ('w, ('w, 'f, 'q) AgentServer res) state" where
  "NewServer S newCertSigner timeNow sys host cfg =
     (if ac_Owner cfg = [] then ret (Inl (OtherErr ''agent requires an owner principal''))
      else
        (let now = (case ac_Now cfg of None \<Rightarrow> timeNow | Some f \<Rightarrow> f) in
         (case signerWithCert S newCertSigner (ac_HostKeyPEM cfg) (ac_HostCertAuthorized cfg) of
            Inl e \<Rightarrow> ret (Inl e)
          | Inr hostSigner \<Rightarrow>
              (case ParsePublicKey S (ac_UserCAAuthorized cfg) of
                 Inl e \<Rightarrow> ret (Inl (Wrapped ''parse user CA'' e))
               | Inr userCA \<Rightarrow> do {
                   u \<leftarrow> startMainProcess sys cfg;
                   ret (Inr \<lparr>as_Addr = ac_Addr cfg, as_Handler = handleSession sys host cfg, as_HostSigners = [hostSigner],
                     as_PublicKeyHandler = agentPublicKeyHandler S now userCA (ac_Owner cfg),
                     as_LocalForwarding = (\<lambda>_ _. True), as_ReverseForwarding = (\<lambda>_ _. True),
                     as_Channels = [''session'', ''direct-tcpip''],
                     as_Requests = [''tcpip-forward'', ''cancel-tcpip-forward''],
                     as_Subsystems = [''sftp'']\<rparr>)
                 }))))"

end
