(* ===== verification/Agent_Safety.thy ===== *)
theory Agent_Safety
  imports Agent Kube_Memory
begin

text \<open>
  The agent's guarantees: whom it lets in, also when it is configured from the
  pod and the host-key Secret the controller builds, and the persistent shell as
  a machine over the interleaved critical sections of its goroutines.
\<close>

section \<open>The machine of the persistent shell\<close>

text \<open>What \<open>ensureShell\<close> does when there is no live shell.\<close>

definition startShell :: "('f \<times> 'p) res \<Rightarrow> ('f, 'p) sessionManager \<Rightarrow> 'f res \<times> ('f, 'p) sessionManager" where
  "startShell start m = (case start of
     Inl e \<Rightarrow> (Inl e, m)
   | Inr (f, c) \<Rightarrow> (Inr f, m\<lparr>sm_ptmx := Some f, sm_shellCmd := Some c\<rparr>))"

text \<open>
  Shells and their PTYs are numbered as they are started.  A client is pending
  between \<open>ensureShell\<close> and the increment of the counter, and attached
  until the decrement; a shell that has exited is reaped some time later.
\<close>

record agent_state =
  ag_mgr :: "(nat, nat) sessionManager"
  ag_started :: nat
  ag_exited :: "nat set"
  ag_reaped :: "nat set"
  ag_closed :: "nat set"
  ag_pending :: "nat list"
  ag_clients :: "nat list"

definition agent_init :: agent_state where
  "agent_init = \<lparr>ag_mgr = newSessionManager, ag_started = 0, ag_exited = {}, ag_reaped = {}, ag_closed = {},
     ag_pending = [], ag_clients = []\<rparr>"

inductive agent_step :: "agent_state \<Rightarrow> agent_state \<Rightarrow> bool" where
  ensure: "ensureShell (\<lambda>c. c \<in> ag_exited s) (Inr (ag_started s, ag_started s)) (ag_mgr s) = (Inr f, m) \<Longrightarrow>
    agent_step s (s\<lparr>ag_mgr := m, ag_started := (if f = ag_started s then Suc f else ag_started s), ag_pending := f # ag_pending s\<rparr>)"
| refused: "ensureShell (\<lambda>c. c \<in> ag_exited s) (Inl e) (ag_mgr s) = (Inl e', m) \<Longrightarrow> agent_step s (s\<lparr>ag_mgr := m\<rparr>)"
| attach: "f \<in> set (ag_pending s) \<Longrightarrow> agent_step s (s\<lparr>ag_mgr := attachClient (ag_mgr s),
    ag_pending := remove1 f (ag_pending s), ag_clients := f # ag_clients s\<rparr>)"
| detach: "f \<in> set (ag_clients s) \<Longrightarrow> agent_step s (s\<lparr>ag_mgr := detachClient (ag_mgr s), ag_clients := remove1 f (ag_clients s)\<rparr>)"
| exit: "c < ag_started s \<Longrightarrow> c \<notin> ag_exited s \<Longrightarrow> agent_step s (s\<lparr>ag_exited := insert c (ag_exited s)\<rparr>)"
| reap: "c \<in> ag_exited s \<Longrightarrow> c \<notin> ag_reaped s \<Longrightarrow> reapShell c (ag_mgr s) = (f, m) \<Longrightarrow>
    agent_step s (s\<lparr>ag_mgr := m, ag_reaped := insert c (ag_reaped s), ag_closed := ag_closed s \<union> set_option f\<rparr>)"

inductive_cases agent_stepE: "agent_step s s'"

abbreviation agent_reachable :: "agent_state \<Rightarrow> bool" where
  "agent_reachable \<equiv> agent_step\<^sup>*\<^sup>* agent_init"

definition shell_inv :: "agent_state \<Rightarrow> bool" where
  "shell_inv s \<longleftrightarrow> sm_ptmx (ag_mgr s) = sm_shellCmd (ag_mgr s) \<and>
     {..<ag_started s} - ag_exited s \<subseteq> set_option (sm_shellCmd (ag_mgr s)) \<and> set_option (sm_shellCmd (ag_mgr s)) \<subseteq> {..<ag_started s} \<and>
     set (ag_pending s) \<union> set (ag_clients s) \<union> ag_exited s \<subseteq> {..<ag_started s} \<and>
     ag_closed s \<subseteq> ag_exited s \<and> sm_attached (ag_mgr s) = int (length (ag_clients s))"

lemma ensureShell_outcome:
  assumes "sm_ptmx m = sm_shellCmd m"
  shows "ensureShell exited start m =
    (case sm_shellCmd m of
       Some c \<Rightarrow> if exited c then startShell start m else (Inr c, m)
     | None \<Rightarrow> startShell start m)"
  using assms by (simp add: ensureShell_def startShell_def split: option.split)

lemma shell_inv_ensure:
  assumes "shell_inv s" "ensureShell (\<lambda>c. c \<in> ag_exited s) (Inr (ag_started s, ag_started s)) (ag_mgr s) = (Inr f, m)"
  shows "shell_inv (s\<lparr>ag_mgr := m, ag_started := (if f = ag_started s then Suc f else ag_started s), ag_pending := f # ag_pending s\<rparr>)"
proof -
  let ?e = "ensureShell (\<lambda>c. c \<in> ag_exited s) (Inr (ag_started s, ag_started s)) (ag_mgr s)"
  have ptmx: "sm_ptmx (ag_mgr s) = sm_shellCmd (ag_mgr s)" and cur: "\<And>c. sm_shellCmd (ag_mgr s) = Some c \<Longrightarrow> c < ag_started s"
    and run: "\<And>c. c < ag_started s \<Longrightarrow> c \<notin> ag_exited s \<Longrightarrow> sm_shellCmd (ag_mgr s) = Some c"
    using assms(1) by (auto simp: shell_inv_def)
  show ?thesis
  proof (cases "\<exists>c. sm_shellCmd (ag_mgr s) = Some c \<and> c \<notin> ag_exited s")
    case True
    then obtain c where c: "sm_shellCmd (ag_mgr s) = Some c" "c \<notin> ag_exited s" by auto
    have "?e = (Inr c, ag_mgr s)" unfolding ensureShell_outcome [OF ptmx] c(1) by (simp add: c(2))
    then have "f = c" "m = ag_mgr s" using assms(2) by simp_all
    then show ?thesis using assms(1) cur [OF c(1)] by (simp add: shell_inv_def)
  next
    case False
    have "?e = startShell (Inr (ag_started s, ag_started s)) (ag_mgr s)"
      unfolding ensureShell_outcome [OF ptmx] using False by (cases "sm_shellCmd (ag_mgr s)") auto
    then have "f = ag_started s" "m = (ag_mgr s)\<lparr>sm_ptmx := Some f, sm_shellCmd := Some f\<rparr>"
      using assms(2) by (simp_all add: startShell_def)
    moreover have "c \<in> ag_exited s" if "c < ag_started s" for c using run False that by blast
    ultimately show ?thesis
      using assms(1) by (auto simp: shell_inv_def lessThan_Suc)
  qed
qed

lemma shell_inv_step: "agent_step s s' \<Longrightarrow> shell_inv s \<Longrightarrow> shell_inv s'"
proof (induction rule: agent_step.induct)
  case (ensure s f m)
  then show ?case by (rule shell_inv_ensure [rotated])
next
  case (refused s e e' m)
  then have "m = ag_mgr s"
    by (auto simp: shell_inv_def ensureShell_outcome startShell_def split: option.splits if_splits)
  then show ?case using refused(2) by simp
next
  case (attach f s)
  then show ?case by (auto simp: shell_inv_def attachClient_def dest: in_set_remove1 notin_set_remove1)
next
  case (detach f s)
  then have "length (ag_clients s) = Suc (length (remove1 f (ag_clients s)))"
    by (simp add: length_remove1) (metis Suc_pred length_pos_if_in_set)
  then show ?case using detach by (auto simp: shell_inv_def detachClient_def dest: notin_set_remove1)
next
  case (exit c s)
  then show ?case by (auto simp: shell_inv_def)
next
  case (reap c s f m)
  then show ?case by (auto simp: shell_inv_def reapShell_def split: if_splits)
qed

lemma shell_inv_reachable: "agent_reachable s \<Longrightarrow> shell_inv s"
proof (induction rule: rtranclp_induct)
  case base
  show ?case by (simp add: shell_inv_def agent_init_def newSessionManager_def)
qed (rule shell_inv_step)

section \<open>The agent in its pod\<close>

text \<open>The value a container sees for a variable: of several entries of one name the last counts.\<close>

definition container_env :: "EnvVar list \<Rightarrow> string \<Rightarrow> string" where
  "container_env env name = (case find (\<lambda>e. ev_Name e = name) (rev env) of None \<Rightarrow> [] | Some e \<Rightarrow> ev_Value e)"

lemma find_append: "find P (xs @ ys) = (case find P xs of None \<Rightarrow> find P ys | Some x \<Rightarrow> Some x)"
  by (induction xs) auto

lemma container_env_owner:
  assumes "\<forall>e \<in> set (ts_Env (tpl_spec tpl)). ev_Name e \<noteq> ''KUBEPARK_OWNER''"
  shows "container_env (podEnv sb tpl) ''KUBEPARK_OWNER'' = own_Name (sp_Owner (sb_spec sb))"
proof -
  have "find (\<lambda>e. ev_Name e = ''KUBEPARK_OWNER'') (rev (ts_Env (tpl_spec tpl))) = None"
    using assms by (auto simp: find_None_iff)
  then show ?thesis by (simp add: container_env_def podEnv_def find_append)
qed

text \<open>A template that sets the variable itself wins over the owner the builder writes.\<close>

lemma template_env_overrides_owner:
  assumes "ts_Env (tpl_spec tpl) = [\<lparr>ev_Name = ''KUBEPARK_OWNER'', ev_Value = other\<rparr>]"
  shows "container_env (podEnv sb tpl) ''KUBEPARK_OWNER'' = other"
  using assms by (simp add: container_env_def podEnv_def)

text \<open>The host-key Secret as the files of its mount.\<close>

definition mounts_secret :: "('w, 'p) os \<Rightarrow> Secret \<Rightarrow> bool" where
  "mounts_secret sys secret \<longleftrightarrow> (\<forall>(k, _) \<in> set (sec_Data secret).
     os_ReadFile sys (HostKeyMountPath @ ''/'' @ k) = ret (Inr (map_get (sec_Data secret) k)))"

lemma mounted_config:
  assumes "mounts_secret sys (hostKeySecret S sb key cert userCAPub)" "os_Getenv sys ''KUBEPARK_HOST_DIR'' = []"
    "run_state (ConfigFromEnv sys command) w = (Inr cfg, w')"
  shows "ac_UserCAAuthorized cfg = userCAPub" "ac_Owner cfg = os_Getenv sys ''KUBEPARK_OWNER''" "ac_Now cfg = None"
  using assms by (auto simp: mounts_secret_def hostKeySecret_def HostKeyMountPath_def ConfigFromEnv_def map_get_def)

lemma NewServer_handler:
  assumes "run_state (NewServer S newCertSigner timeNow sys host cfg) w = (Inr srv, w')" "ac_Now cfg = None"
  obtains ca where "ParsePublicKey S (ac_UserCAAuthorized cfg) = Inr ca" "ac_Owner cfg \<noteq> []"
    "as_PublicKeyHandler srv = agentPublicKeyHandler S timeNow ca (ac_Owner cfg)"
  using assms by (auto simp: NewServer_def Let_def split: if_splits sum.splits prod.splits)

text \<open>Which keys a certificate check for the owner lets in.\<close>

definition owner_cert :: "'w sshlib \<Rightarrow> PublicKey \<Rightarrow> string \<Rightarrow> Time \<Rightarrow> PublicKey \<Rightarrow> bool" where
  "owner_cert S ca owner now key \<longleftrightarrow> (\<exists>c. key = CertKey c \<and> cert_CertType c = UserCert \<and> owner \<in> set (cert_ValidPrincipals c) \<and>
     keysEqual S (cert_SignatureKey c) (Some ca) \<and> in_window c now \<and> critical_ok c \<and> sl_Verify S c)"

lemma agentPublicKeyHandler_iff:
  assumes "ssh_library S" "run_state timeNow w = (now, w')"
  shows "fst (run_state (agentPublicKeyHandler S timeNow ca owner key) w) \<longleftrightarrow> owner_cert S ca owner now key"
  using assms ssh_library.check_user_cert [OF assms(1), of _ "Some ca" owner now]
  by (cases key) (simp_all add: agentPublicKeyHandler_def owner_cert_def)

section \<open>Properties\<close>


definition sampleOptions :: Options where
  "sampleOptions = \<lparr>opt_AgentImage = ''agent'', opt_PriorityClassName = [], opt_ServiceAccountName = []\<rparr>"

text \<open>An agent with the files and environment of the sample pod.\<close>

definition sampleHostCert :: Certificate where
  "sampleHostCert = Certificate (RawKey ''host'') 8 HostCert ''dev.team'' [''dev.team''] 940 4600 [] [] (Some (RawKey ''hostca'')) ''hostca''"

definition agentSsh :: "'w sshlib" where
  "agentSsh = refSsh\<lparr>sl_ParseAuthorizedKey := (\<lambda>b. if b = ''hostca-cert'' then Inr (CertKey sampleHostCert)
     else if b = [] then Inl (OtherErr ''no key found'') else Inr (RawKey b))\<rparr>"

lemma agentSsh_library: "ssh_library agentSsh"
  by unfold_locales (auto simp: agentSsh_def refSsh_def signed_as_def refVerify_def key_pair_def intro: always_ret)

definition sampleOs :: "(unit, unit) os" where
  "sampleOs = \<lparr>os_Getenv = container_env (podEnv sampleSandbox sampleTemplate), os_Environ = [],
     os_ReadFile = (\<lambda>p. ret (
       if p = ''/etc/kubepark/host/ssh_host_ed25519_key'' then Inr ''host''
       else if p = ''/etc/kubepark/host/ssh_host_ed25519_key.pub'' then Inr ''host''
       else if p = ''/etc/kubepark/host/ssh_host_ed25519_key-cert.pub'' then Inr ''hostca-cert''
       else if p = ''/etc/kubepark/host/user-ca.pub'' then Inr ''ca'' else Inl (OtherErr ''no such file''))),
     os_Stat = (\<lambda>_. ret (Inr ())), os_StdinPipe = (\<lambda>_. ret (Inr ())), os_Start = (\<lambda>_. ret (Inr ())), os_Wait = (\<lambda>_. ret None)\<rparr>"

definition samplePty :: "(unit, unit, unit) ptyHost" where
  "samplePty = \<lparr>ph_Exited = (\<lambda>_. ret False), ph_Start = (\<lambda>_. ret (Inr ((), ()))), ph_Copy = (\<lambda>_ _. ret ())\<rparr>"


text \<open>
  C33. There is at most one persistent shell, whatever the interleaving of
  attaching and detaching clients, exiting shells and their reapers: two running
  shells are the same one; the counter of attached clients is their number and
  never negative; a PTY is closed only after its shell has exited; and a client
  that finds a running shell is attached to it.
\<close>

theorem single_persistent_shell:
  assumes "agent_reachable s"
  shows "(\<forall>c c'. c < ag_started s \<and> c' < ag_started s \<and> c \<notin> ag_exited s \<and> c' \<notin> ag_exited s \<longrightarrow> c = c') \<and>
    sm_attached (ag_mgr s) = int (length (ag_clients s)) \<and> ag_closed s \<subseteq> ag_exited s \<and>
    (\<forall>c start. c < ag_started s \<and> c \<notin> ag_exited s \<longrightarrow> fst (ensureShell (\<lambda>c. c \<in> ag_exited s) start (ag_mgr s)) = Inr c)"
proof -
  note inv = shell_inv_reachable [OF assms]
  have cur: "sm_shellCmd (ag_mgr s) = Some c" if "c < ag_started s" "c \<notin> ag_exited s" for c
    using inv that by (auto simp: shell_inv_def)
  have ptmx: "sm_ptmx (ag_mgr s) = sm_shellCmd (ag_mgr s)" using inv by (simp add: shell_inv_def)
  have "c = c'" if "c < ag_started s" "c' < ag_started s" "c \<notin> ag_exited s" "c' \<notin> ag_exited s" for c c'
    using cur [OF that(1,3)] cur [OF that(2,4)] by simp
  moreover have "fst (ensureShell (\<lambda>c. c \<in> ag_exited s) start (ag_mgr s)) = Inr c" if "c < ag_started s" "c \<notin> ag_exited s" for c start
    unfolding ensureShell_outcome [OF ptmx] cur [OF that] using that(2) by simp
  ultimately show ?thesis using inv by (auto simp: shell_inv_def)
qed

text \<open>A client attaches, its shell exits and a second client attaches before the shell is reaped.\<close>

definition twoShells :: agent_state where
  "twoShells = \<lparr>ag_mgr = \<lparr>sm_ptmx = Some 1, sm_shellCmd = Some 1, sm_attached = 1\<rparr>, ag_started = 2, ag_exited = {0}, ag_reaped = {0},
     ag_closed = {}, ag_pending = [1], ag_clients = [0]\<rparr>"

lemma twoShells_reachable: "agent_reachable twoShells"
proof -
  let ?s1 = "agent_init\<lparr>ag_mgr := \<lparr>sm_ptmx = Some 0, sm_shellCmd = Some 0, sm_attached = 0\<rparr>, ag_started := 1, ag_pending := [0]\<rparr>"
  let ?s2 = "?s1\<lparr>ag_mgr := attachClient (ag_mgr ?s1), ag_pending := remove1 0 (ag_pending ?s1), ag_clients := 0 # ag_clients ?s1\<rparr>"
  let ?s3 = "?s2\<lparr>ag_exited := insert 0 (ag_exited ?s2)\<rparr>"
  let ?s4 = "?s3\<lparr>ag_mgr := \<lparr>sm_ptmx = Some 1, sm_shellCmd = Some 1, sm_attached = 1\<rparr>, ag_started := 2, ag_pending := 1 # ag_pending ?s3\<rparr>"
  have 1: "agent_step agent_init ?s1"
    using agent_step.ensure [of agent_init 0 "\<lparr>sm_ptmx = Some 0, sm_shellCmd = Some 0, sm_attached = 0\<rparr>"]
    by (simp add: agent_init_def newSessionManager_def ensureShell_def)
  have 2: "agent_step ?s1 ?s2" by (rule agent_step.attach) simp
  have 3: "agent_step ?s2 ?s3" by (rule agent_step.exit) (simp_all add: agent_init_def)
  have 4: "agent_step ?s3 ?s4"
    using agent_step.ensure [of ?s3 1 "\<lparr>sm_ptmx = Some 1, sm_shellCmd = Some 1, sm_attached = 1\<rparr>"]
    by (simp add: agent_init_def attachClient_def ensureShell_def numeral_2_eq_2)
  have 5: "agent_step ?s4 twoShells"
    using agent_step.reap [of 0 ?s4 None "\<lparr>sm_ptmx = Some 1, sm_shellCmd = Some 1, sm_attached = 1\<rparr>"]
    by (simp add: agent_init_def reapShell_def twoShells_def attachClient_def)
  show ?thesis
    by (rule converse_rtranclp_into_rtranclp [of agent_step, OF 1] converse_rtranclp_into_rtranclp [of agent_step, OF 2]
        converse_rtranclp_into_rtranclp [of agent_step, OF 3] converse_rtranclp_into_rtranclp [of agent_step, OF 4] r_into_rtranclp 5)+
qed

text \<open>The PTY of a shell that was replaced before it was reaped is never closed.\<close>

lemma replaced_pty_stays_open: "\<exists>s. agent_reachable s \<and> 0 \<in> ag_reaped s \<and> 0 \<notin> ag_closed s"
  using twoShells_reachable by (auto simp: twoShells_def)

theorem single_persistent_shell_witness:
  "fst (ensureShell (\<lambda>c. c \<in> ag_exited twoShells) (Inl (OtherErr ''none'')) (ag_mgr twoShells)) = Inr 1 \<and> sm_attached (ag_mgr twoShells) = 1"
  using single_persistent_shell [OF twoShells_reachable] by (simp add: twoShells_def)

end
