(* ===== verification/System.thy ===== *)
theory System
  imports Component_Orders Gateway_Access Agent_Safety
begin

text \<open>
  The components together: histories in which the three controllers and the SSH
  gateway take turns on one API server, and the way of a user from the sign
  endpoint through the gateway to the agent.
\<close>

declare split_paired_All [simp del] split_paired_Ex [simp del]

section \<open>Histories\<close>

text \<open>
  An installation: the reconcilers of the operator, the gateway's jump handler
  with its runtime and the channels clients open.
\<close>

record ('w, 'conn, 'chan) kubepark =
  kp_Sandboxes :: "'w SandboxReconciler"
  kp_Sessions :: "'w SandboxSessionReconciler"
  kp_Profiles :: "'w AccessProfileReconciler"
  kp_Gateway :: "('w, 'conn) jumpHandler"
  kp_Runtime :: "('w, 'conn, 'chan) ssh_runtime"
  kp_Channels :: "('w, 'chan) NewChannel set"
  kp_Fuel :: nat

text \<open>
  One step is a complete run of a handler, whatever it returns.  A connection is
  one step as well; what the others do while it waits is part of the runtime.
\<close>

inductive system_step :: "('w, 'conn, 'chan) kubepark \<Rightarrow> 'w \<Rightarrow> 'w \<Rightarrow> bool" for k where
  sandbox: "run_state (Reconcile (kp_Sandboxes k) req) w = (r, w') \<Longrightarrow> system_step k w w'"
| session: "run_state (reconcileSession (kp_Sessions k) req) w = (r, w') \<Longrightarrow> system_step k w w'"
| profile: "run_state (reconcileProfile (kp_Profiles k) req) w = (r, w') \<Longrightarrow> system_step k w w'"
| connection: "ch \<in> kp_Channels k \<Longrightarrow>
    run_state (handleDirectTCPIP (kp_Fuel k) (kp_Runtime k) (kp_Gateway k) ch ctx) w = (u, w') \<Longrightarrow> system_step k w w'"
| heartbeats: "run_state (heartbeatLoop (kp_Gateway k) ns name events) w = (x, w') \<Longrightarrow> system_step k w w'"

abbreviation history :: "('w, 'conn, 'chan) kubepark \<Rightarrow> 'w \<Rightarrow> 'w \<Rightarrow> bool" where
  "history k \<equiv> (system_step k)\<^sup>*\<^sup>*"

text \<open>
  All components talk to one lawful server, clocks and key generation leave it
  alone, and what happens during the gateway's waits obeys the same order.
\<close>

definition wired :: "('w \<Rightarrow> cluster) \<Rightarrow> 'w kube \<Rightarrow> ('w, 'conn, 'chan) kubepark \<Rightarrow> bool" where
  "wired view c k \<longleftrightarrow> kube_server view c \<and>
     sr_Client (kp_Sandboxes k) = c \<and> kube_library (sr_Lib (kp_Sandboxes k)) \<and> ssh_quiet view (sr_Ssh (kp_Sandboxes k)) \<and>
     quiet view (sr_now (kp_Sandboxes k)) \<and>
     ssr_Client (kp_Sessions k) = c \<and> quiet view (ssr_now (kp_Sessions k)) \<and>
     apr_Client (kp_Profiles k) = c \<and>
     jh_Store (kp_Gateway k) = NewStore c \<and>
     (\<forall>ch \<in> kp_Channels k. runtime_obeys system_order view (kp_Runtime k) (kp_Gateway k) ch)"

lemma step_orderly:
  assumes "wired view c k" "system_step k w w'"
  shows "system_order (view w) (view w')"
proof -
  have server: "kube_server view c" using assms(1) by (simp add: wired_def)
  have gateway: "gateway_order view (NewStore c) system_order"
    unfolding gateway_order_def gateway_order_axioms_def
    using kube_server.store_laws [OF server] orderly.cluster_order_axioms kube_server.store_orderly [OF server] by blast
  show ?thesis
    using assms(2)
  proof cases
    case (sandbox req r)
    show ?thesis
      by (rule orderly.dest [OF kube_server.Reconcile_orderly [OF server] sandbox]) (use assms(1) in \<open>simp_all add: wired_def\<close>)
  next
    case (session req r)
    show ?thesis
      by (rule orderly.dest [OF kube_server.reconcileSession_orderly [OF server] session]) (use assms(1) in \<open>simp_all add: wired_def\<close>)
  next
    case (profile req r)
    show ?thesis
      by (rule orderly.dest [OF kube_server.reconcileProfile_orderly [OF server] profile]) (use assms(1) in \<open>simp add: wired_def\<close>)
  next
    case (connection ch ctx u)
    show ?thesis
      by (rule orderly.dest [OF gateway_order.handle_obeys [OF gateway] connection(2)])
        (use assms(1) connection(1) in \<open>simp_all add: wired_def\<close>)
  next
    case (heartbeats ns name events x)
    show ?thesis
      by (rule orderly.dest [OF gateway_order.heartbeat_obeys [OF gateway] heartbeats]) (use assms(1) in \<open>simp add: wired_def\<close>)
  qed
qed

lemma history_orderly:
  assumes "wired view c k" "history k w w'"
  shows "system_order (view w) (view w')"
  using assms(2)
proof (induction rule: rtranclp_induct)
  case (step w1 w2)
  then show ?case using step_orderly [OF assms(1)] orderly.transitive by blast
qed (rule orderly.reflexive)

section \<open>A sample installation\<close>

definition samplePark :: "(memory, unit, unit) kubepark" where
  "samplePark = \<lparr>kp_Sandboxes = sampleReconciler, kp_Sessions = sampleSessionReconciler, kp_Profiles = sampleProfileReconciler,
     kp_Gateway = sampleJump, kp_Runtime = sampleRuntime, kp_Channels = range sampleChannel, kp_Fuel = 10\<rparr>"

lemma memory_clock_quiet: "quiet memView (k_Now memKube)"
  using memKube.now_law by (simp add: quiet_def)

lemma memory_wait_quiet: "quiet memView (rt_Wait sampleRuntime d)"
  by (simp add: quiet_def vtriple_def triple_def sampleRuntime_def memView_def)

lemma samplePark_wired: "wired memView memKube samplePark"
  unfolding wired_def runtime_obeys_def
  by (auto simp: samplePark_def sampleJump_def sampleRuntime_def sampleChannel_def sampleSessionReconciler_def sampleProfileReconciler_def
      sr_now_def sr_wall_def ssr_now_def sampleReconciler_def ssh_quiet_def quiet_ret refSsh_def NewDirectDialer_def DialSandbox_def
      intro!: memKube.kube_server_axioms refLib.kube_library_axioms memory_clock_quiet orderly.ret orderly.bind orderly.cases
        orderly.quiet_obeys [OF memory_clock_quiet] orderly.quiet_obeys [OF memory_wait_quiet [unfolded sampleRuntime_def, simplified]])

section \<open>Properties\<close>


text \<open>A stale session of the sample installation is reaped, then its sandbox is reconciled.\<close>

lemma samplePark_history:
  "history samplePark sampleMemory (snd (run_state (do {
     a \<leftarrow> reconcileSession sampleSessionReconciler (''team'', ''dev-1'');
     Reconcile sampleReconciler (''team'', ''dev'') }) sampleMemory))"
proof -
  let ?s = "reconcileSession sampleSessionReconciler (''team'', ''dev-1'')" and ?b = "Reconcile sampleReconciler (''team'', ''dev'')"
  let ?w = "snd (run_state ?s sampleMemory)"
  have "system_step samplePark sampleMemory ?w"
    by (rule system_step.session [where req = "(''team'', ''dev-1'')" and r = "fst (run_state ?s sampleMemory)"]) (simp add: samplePark_def)
  moreover have "system_step samplePark ?w (snd (run_state ?b ?w))"
    by (rule system_step.sandbox [where req = "(''team'', ''dev'')" and r = "fst (run_state ?b ?w)"]) (simp add: samplePark_def)
  ultimately have "history samplePark sampleMemory (snd (run_state ?b ?w))" by (meson converse_rtranclp_into_rtranclp r_into_rtranclp)
  then show ?thesis by (simp add: split_beta)
qed


text \<open>
  C37. The owner of a sandbox cannot change hands.  In every history of the
  controllers and the gateway a sandbox keeps the specification it had, owner
  included, except that its desired state may become Running; no component makes
  a sandbox; and whoever was not the owner at the start is still turned away at
  the end, before anything happens in the cluster.
\<close>

theorem owner_is_permanent:
  assumes "wired view c k" "history k w w'" "cl_Sandboxes (view w) (sst_Namespace t, sst_Sandbox t) = Some sb"
    "rt_Unmarshal (kp_Runtime k) (nc_ExtraData ch) = Inr payload"
    "ParseSSHTarget (lf_DestAddr payload) (jh_DefaultNamespace (kp_Gateway k)) = Inr t"
    "ctx_Principal ctx \<noteq> Some (own_Name (sp_Owner (sb_spec sb)))"
  shows "(\<forall>sb'. cl_Sandboxes (view w') (sst_Namespace t, sst_Sandbox t) = Some sb' \<longrightarrow>
      sb_spec sb' = sb_spec sb \<or> sb_spec sb' = (sb_spec sb)\<lparr>sp_DesiredState := DesiredStateRunning\<rparr>) \<and>
    (\<forall>n. cl_Sandboxes (view w) n = None \<longrightarrow> cl_Sandboxes (view w') n = None) \<and>
    (\<exists>w2. view w2 = view w' \<and> run_state (handleDirectTCPIP (kp_Fuel k) (kp_Runtime k) (kp_Gateway k) ch ctx) w' =
      run_state (do { u \<leftarrow> nc_Reject ch Prohibited ''not authorized for this sandbox''; ret (Some ()) }) w2)"
proof -
  let ?n = "(sst_Namespace t, sst_Sandbox t)" and ?p = "case ctx_Principal ctx of None \<Rightarrow> [] | Some p \<Rightarrow> p"
  have wiring: "kube_server view c" "jh_Store (kp_Gateway k) = NewStore c" using assms(1) by (simp_all add: wired_def)
  have kept: "specs_kept (cl_Sandboxes (view w)) (cl_Sandboxes (view w'))"
    using history_orderly [OF assms(1,2)] by (simp add: system_order_def)
  have spec: "sb_spec sb' = sb_spec sb \<or> sb_spec sb' = (sb_spec sb)\<lparr>sp_DesiredState := DesiredStateRunning\<rparr>"
    if "cl_Sandboxes (view w') ?n = Some sb'" for sb'
    using kept that assms(3) by (fastforce simp: specs_kept_def)
  have owner: "own_Name (sp_Owner (sb_spec sb')) = own_Name (sp_Owner (sb_spec sb))" if "cl_Sandboxes (view w') ?n = Some sb'" for sb'
    using spec [OF that] by (elim disjE) simp_all
  have "\<exists>e w2. run_state (authorize (kp_Gateway k) t ?p) w' = (Inl e, w2) \<and> view w2 = view w'"
  proof (rule session_store.denied [OF kube_server.store_laws [OF wiring(1)] wiring(2)], cases "ctx_Principal ctx")
    case (Some p)
    then show "\<not> (\<exists>sb'. cl_Sandboxes (view w') ?n = Some sb' \<and> own_Name (sp_Owner (sb_spec sb')) = ?p) \<or> ?p = []"
      using owner assms(6) by fastforce
  qed simp
  then obtain e w2 where denied: "run_state (authorize (kp_Gateway k) t ?p) w' = (Inl e, w2)" "view w2 = view w'" by blast
  have none: "cl_Sandboxes (view w') n = None" if "cl_Sandboxes (view w) n = None" for n
  proof (rule ccontr)
    assume "cl_Sandboxes (view w') n \<noteq> None"
    then obtain sb' where "cl_Sandboxes (view w') n = Some sb'" by blast
    with kept that show False unfolding specs_kept_def by fastforce
  qed
  show ?thesis
    by (intro conjI allI impI, erule spec, erule none, rule exI [of _ w2]) (intro conjI denied(2) handle_denied [OF assms(4,5) denied(1)])
qed

theorem owner_is_permanent_witness:
  "\<exists>w' w2. history samplePark sampleMemory w' \<and> memView w2 = memView w' \<and>
     run_state (handleDirectTCPIP 10 sampleRuntime sampleJump (sampleChannel ''dev'') (sampleContext ''mallory'')) w' = (Some (), w2)"
proof -
  let ?w = "snd (run_state (do {
     a \<leftarrow> reconcileSession sampleSessionReconciler (''team'', ''dev-1'');
     Reconcile sampleReconciler (''team'', ''dev'') }) sampleMemory)"
  let ?t = "\<lparr>sst_Sandbox = ''dev'', sst_Namespace = ''team''\<rparr>"
  let ?payload = "\<lparr>lf_DestAddr = ''dev'', lf_DestPort = 22, lf_OriginAddr = [], lf_OriginPort = 0\<rparr>"
  have stored: "cl_Sandboxes (memView sampleMemory) (sst_Namespace ?t, sst_Sandbox ?t) = Some sampleSandbox"
    by (simp add: memView_def sampleMemory_def lookup_def key_of_def sample_defs)
  have unmarshal: "rt_Unmarshal (kp_Runtime samplePark) (nc_ExtraData (sampleChannel ''dev'')) = Inr ?payload"
    by (simp add: samplePark_def sampleRuntime_def sampleChannel_def)
  have "ParseSSHTarget ''dev'' ''team'' = Inr ?t" by code_simp
  then have target: "ParseSSHTarget (lf_DestAddr ?payload) (jh_DefaultNamespace (kp_Gateway samplePark)) = Inr ?t"
    by (simp add: samplePark_def sampleJump_def)
  have other: "ctx_Principal (sampleContext ''mallory'') \<noteq> Some (own_Name (sp_Owner (sb_spec sampleSandbox)))"
    by (simp add: sampleContext_def sample_defs)
  from owner_is_permanent [OF samplePark_wired samplePark_history stored unmarshal target other] obtain w2 where
    w2: "memView w2 = memView ?w" "run_state (handleDirectTCPIP (kp_Fuel samplePark) (kp_Runtime samplePark) (kp_Gateway samplePark)
      (sampleChannel ''dev'') (sampleContext ''mallory'')) ?w =
      run_state (do { u \<leftarrow> nc_Reject (sampleChannel ''dev'') Prohibited ''not authorized for this sandbox''; ret (Some ()) }) w2" by blast
  then have "run_state (handleDirectTCPIP 10 sampleRuntime sampleJump (sampleChannel ''dev'') (sampleContext ''mallory'')) ?w = (Some (), w2)"
    by (simp add: samplePark_def sampleChannel_def)
  with w2(1) samplePark_history show ?thesis by blast
qed

text \<open>
  From an identity to a shell: a gateway and an agent that trust the key of the
  signing CA agree on the certificates of the sign endpoint.
\<close>

lemma login_chain:
  assumes "ssh_library S" "run_state (handleSign S L s req) w = (SignBody b, w')"
    "keysEqual S (Some (sl_SignerPublic S (sg_ca (sv_signer s)))) (Some userCA)"
    "\<forall>t. shown (sg_now (sv_signer s)) t \<longrightarrow> 0 \<le> Unix (t - Minute) \<and> Unix t < 2 ^ 63 \<and> Unix (t + sg_ttl (sv_signer s)) < 2 ^ 63"
    "run_state timeNow w1 = (now, w2)"
  shows "\<exists>verify tok c t. sv_Verify s = Some verify \<and> vouched verify tok \<and> claimed tok (oc_PrincipalClaim (sv_oidc s)) (sp_Principal b) \<and>
    sp_Certificate b = sl_MarshalAuthorizedKey S (CertKey c) \<and> shown (sg_now (sv_signer s)) t \<and>
    (let valid = Unix (t - Minute) \<le> Unix now \<and> (sg_ttl (sv_signer s) \<le> 0 \<or> Unix now < Unix (t + sg_ttl (sv_signer s)))
     in fst (run_state (publicKeyHandler S timeNow userCA ctx (CertKey c)) w1) =
          (if valid then (True, ctx\<lparr>ctx_Principal := Some (sp_Principal b), ctx_CertSerial := Some (show_int (cert_Serial c))\<rparr>) else (False, ctx)) \<and>
        (\<forall>owner. fst (run_state (agentPublicKeyHandler S timeNow userCA owner (CertKey c)) w1) \<longleftrightarrow> valid \<and> owner = sp_Principal b))"
proof -
  let ?p = "sp_Principal b" and ?ttl = "sg_ttl (sv_signer s)"
  have "sign_answer S s b" using handleSign_answers [OF assms(1), of req s L] assms(2) unfolding always_def by (auto dest!: spec [of _ w])
  then obtain verify tok c t where ans: "sv_Verify s = Some verify" "vouched verify tok" "claimed tok (oc_PrincipalClaim (sv_oidc s)) ?p"
      "sp_Certificate b = sl_MarshalAuthorizedKey S (CertKey c)" "shown (sg_now (sv_signer s)) t" and iss: "issued_to S (sv_signer s) ?p t c"
    unfolding sign_answer_def by blast
  let ?valid = "Unix (t - Minute) \<le> Unix now \<and> (?ttl \<le> 0 \<or> Unix now < Unix (t + ?ttl))"
  have win: "in_window c now \<longleftrightarrow> ?valid"
    using assms(4) ans(5) iss by (intro user_window) (auto simp: issued_to_def)
  have check: "CheckUserCert S (Some c) (Some userCA) q now = Inr () \<longleftrightarrow> ?valid \<and> q = ?p" for q
    using iss assms(3) win by (auto simp: ssh_library.check_user_cert [OF assms(1)] issued_to_def critical_ok_def)
  have gate: "fst (run_state (publicKeyHandler S timeNow userCA ctx (CertKey c)) w1) =
      (if ?valid then (True, ctx\<lparr>ctx_Principal := Some ?p, ctx_CertSerial := Some (show_int (cert_Serial c))\<rparr>) else (False, ctx))"
    using check [of ?p] iss assms(5)
    by (cases "CheckUserCert S (Some c) (Some userCA) ?p now") (auto simp: publicKeyHandler_def issued_to_def)
  have agent: "fst (run_state (agentPublicKeyHandler S timeNow userCA owner (CertKey c)) w1) \<longleftrightarrow> ?valid \<and> owner = ?p" for owner
    unfolding agentPublicKeyHandler_iff [OF assms(1,5)]
    using check [of owner] by (auto simp: owner_cert_def ssh_library.check_user_cert [OF assms(1)])
  show ?thesis
    unfolding Let_def by (rule exI [of _ verify], rule exI [of _ tok], rule exI [of _ c], rule exI [of _ t]) (intro conjI allI ans gate agent)
qed

end
