(* ===== verification/Gateway_Boot.thy ===== *)
theory Gateway_Boot
  imports Gateway_Main System
begin

text \<open>
  What the gateway process starts from: the key material is made once and kept,
  and the two servers of the process and the agents of the sandboxes agree on the
  certificates that one of them issues.
\<close>

section \<open>Key material\<close>

text \<open>A private key and the public key that belongs to it; both pairs of the CA Secret.\<close>

definition paired :: "'w sshlib \<Rightarrow> bytes \<Rightarrow> bytes \<Rightarrow> bool" where
  "paired S priv pub \<longleftrightarrow> (\<forall>s k. ParseSigner S priv = Inr s \<and> ParsePublicKey S pub = Inr k \<longrightarrow> sl_SignerPublic S s = k)"

definition ca_paired :: "'w sshlib \<Rightarrow> Secret \<Rightarrow> bool" where
  "ca_paired S ca \<longleftrightarrow>
     paired S (map_get (sec_Data ca) KeyUserCAPrivate) (map_get (sec_Data ca) KeyUserCAPublic) \<and>
     paired S (map_get (sec_Data ca) KeyHostCAPrivate) (map_get (sec_Data ca) KeyHostCAPublic)"

text \<open>The Secret \<open>sec\<close> is stored under \<open>k\<close>: it was there before, or it is the only change.\<close>

definition stored_once :: "NamespacedName \<Rightarrow> cluster \<Rightarrow> Secret \<Rightarrow> cluster \<Rightarrow> bool" where
  "stored_once k v0 sec v \<longleftrightarrow> cl_Secrets v k = Some sec \<and>
     (case cl_Secrets v0 k of Some s0 \<Rightarrow> sec = s0 \<and> v = v0 | None \<Rightarrow> v = v0\<lparr>cl_Secrets := (cl_Secrets v0)(k \<mapsto> sec)\<rparr>)"

lemma stored_once_lookup: "stored_once k v0 sec v \<Longrightarrow> cl_Secrets v k = Some sec"
  by (simp add: stored_once_def)

lemma stored_once_old: "stored_once k v0 sec v \<Longrightarrow> cl_Secrets v0 k = Some s0 \<Longrightarrow> sec = s0"
  by (simp add: stored_once_def)

lemma stored_once_view:
  assumes "stored_once k v0 sec v"
  shows "v = v0\<lparr>cl_Secrets := (cl_Secrets v0)(k \<mapsto> sec)\<rparr>"
proof (cases "cl_Secrets v0 k")
  case None
  then show ?thesis using assms by (simp add: stored_once_def)
next
  case (Some s0)
  then have "sec = s0" "v = v0" using assms by (simp_all add: stored_once_def)
  with Some show ?thesis by (simp add: fun_upd_idem)
qed

lemma stored_once_other: "stored_once k v0 sec v \<Longrightarrow> k \<noteq> n \<Longrightarrow> cl_Secrets v n = cl_Secrets v0 n"
  by (cases "cl_Secrets v0 k") (simp_all add: stored_once_def)

lemma caSecret_simps [simp]:
  "key_of (sec_meta (caSecret ns u h m)) = (ns, CASecretName)"
  "map_get (sec_Data (caSecret ns u h m)) KeyUserCAPrivate = PrivatePEM u"
  "map_get (sec_Data (caSecret ns u h m)) KeyUserCAPublic = PublicAuthorized u"
  "map_get (sec_Data (caSecret ns u h m)) KeyHostCAPrivate = PrivatePEM h"
  "map_get (sec_Data (caSecret ns u h m)) KeyHostCAPublic = PublicAuthorized h"
  by (simp_all add: caSecret_def key_of_def map_get_def KeyUserCAPrivate_def KeyUserCAPublic_def KeyHostCAPrivate_def KeyHostCAPublic_def)

lemma caSecret_paired:
  "sec_Data ca = sec_Data (caSecret ns u h m) \<Longrightarrow> paired S (PrivatePEM u) (PublicAuthorized u) \<Longrightarrow>
   paired S (PrivatePEM h) (PublicAuthorized h) \<Longrightarrow> ca_paired S ca"
  by (simp add: ca_paired_def)

lemma generated_pair:
  assumes "ssh_library S"
  shows "always (\<lambda>r. case r of Inl _ \<Rightarrow> True | Inr kp \<Rightarrow> paired S (PrivatePEM kp) (PublicAuthorized kp)) (GenerateKeyPair S comment)"
proof -
  have "paired S pem (sl_MarshalAuthorizedKey S k)"
    if "key_pair S pub priv" "sl_MarshalPrivateKey S priv comment = Inr pem" "sl_NewPublicKey S pub = Inr k" for pub priv pem k
    using that unfolding paired_def key_pair_def ParseSigner_def ParsePublicKey_def by (auto split: sum.splits)
  then show ?thesis
    unfolding GenerateKeyPair_def
    by (auto intro!: always_ret always_bind [OF ssh_library.generate_key [OF assms]] split: sum.split)
qed

lemma generate_quiet: "ssh_quiet view S \<Longrightarrow> quiet view (GenerateKeyPair S comment)"
  unfolding GenerateKeyPair_def ssh_quiet_def
  by (auto intro!: quiet_bind quiet_ret split: sum.split)

lemma generate_rule:
  assumes "ssh_library S" "ssh_quiet view S"
  shows "succeeds view p (GenerateKeyPair S comment) (\<lambda>kp v. p v \<and> paired S (PrivatePEM kp) (PublicAuthorized kp))"
  unfolding succeeds_def
  by (rule vtriple_conseq [OF vtriple_conj [OF quiet_keeps [OF generate_quiet [OF assms(2)], of p] always_vtriple [OF generated_pair [OF assms(1)]]]])
    (auto split: sum.splits)

context kube_server
begin

lemma secret_get:
  "vtriple view (\<lambda>v. v = v0) (kc_Get (k_Secrets c) k)
     (\<lambda>r v. v = v0 \<and> (case r of Inr s \<Rightarrow> cl_Secrets v0 k = Some s | Inl e \<Rightarrow> IsNotFound e \<longrightarrow> cl_Secrets v0 k = None))"
  by (rule secrets.get_rule) auto

lemma secret_create:
  "vtriple view (\<lambda>v. v = v0 \<and> cl_Secrets v0 (key_of (sec_meta x)) = None) (kc_Create (k_Secrets c) x)
     (\<lambda>r v. case r of
        Inl e \<Rightarrow> \<not> IsAlreadyExists e
      | Inr y \<Rightarrow> sec_Data y = sec_Data x \<and> stored_once (key_of (sec_meta x)) v0 y v)"
  by (rule vtriple_frozen [OF secrets.create]) (auto simp: stored_once_def split: sum.splits)

text \<open>Load the Secret, or make it if there is none; \<open>mk\<close> is what the source does to make it.\<close>

lemma load_or_make:
  assumes "\<And>s. cl_Secrets v0 k = Some s \<Longrightarrow> Q s"
    "cl_Secrets v0 k = None \<Longrightarrow> succeeds view (\<lambda>v. v = v0) mk (\<lambda>r v. \<exists>s. r = F s \<and> Q s \<and> stored_once k v0 s v)"
  shows "succeeds view (\<lambda>v. v = v0)
    (do { got \<leftarrow> kc_Get (k_Secrets c) k;
          (case got of Inr s \<Rightarrow> ret (Inr (F s)) | Inl e \<Rightarrow> if \<not> IsNotFound e then ret (Inl (W e)) else mk) })
    (\<lambda>r v. \<exists>s. r = F s \<and> Q s \<and> stored_once k v0 s v)"
proof (rule succeeds_case [OF secret_get], goal_cases)
  case (1 e)
  show ?case by (rule succeeds_if [OF succeeds_err], rule succeeds_pre) (simp add: assms(2))
next
  case (2 s)
  then show ?case by (rule succeeds_ret) (auto simp: stored_once_def intro: assms(1))
qed

text \<open>Creating it; the branch for a Secret of that name is not taken by a sole writer.\<close>

lemma create_new:
  assumes "cl_Secrets v0 (key_of (sec_meta x)) = None" "\<And>y. sec_Data y = sec_Data x \<Longrightarrow> Q y \<and> G y = F y"
  shows "succeeds view (\<lambda>v. v = v0)
    (do { created \<leftarrow> kc_Create (k_Secrets c) x;
          (case created of
             Inr y \<Rightarrow> ret (Inr (G y))
           | Inl err \<Rightarrow> if IsAlreadyExists err then again err else ret (Inl (W err))) })
    (\<lambda>r v. \<exists>s. r = F s \<and> Q s \<and> stored_once (key_of (sec_meta x)) v0 s v)"
proof (rule succeeds_case [where R = "\<lambda>r v. case r of Inl e \<Rightarrow> \<not> IsAlreadyExists e
      | Inr y \<Rightarrow> sec_Data y = sec_Data x \<and> stored_once (key_of (sec_meta x)) v0 y v"], goal_cases)
  case 1
  show ?case by (rule vtriple_conseq [OF secret_create]) (auto simp: assms(1))
next
  case (2 e)
  show ?case by (rule succeeds_if) (simp_all add: succeeds_def vtriple_def triple_def)
next
  case (3 y)
  show ?case by (rule succeeds_ret) (use assms(2) in auto)
qed

lemma EnsureCASecret_stores:
  assumes "ssh_library S" "ssh_quiet view S" "\<And>ca. cl_Secrets v0 (ns, CASecretName) = Some ca \<Longrightarrow> ca_paired S ca"
  shows "succeeds view (\<lambda>v. v = v0) (EnsureCASecret S c ns) (\<lambda>ca v. ca_paired S ca \<and> stored_once (ns, CASecretName) v0 ca v)"
proof -
  have hmac: "succeeds view p (sl_Read S 32) (\<lambda>_. p)" for p
    unfolding succeeds_def using assms(2)
    by (intro vtriple_conseq [OF quiet_keeps [of view _ p]]) (auto simp: ssh_quiet_def split: sum.splits)
  have "succeeds view (\<lambda>v. v = v0) (EnsureCASecret S c ns) (\<lambda>r v. \<exists>s. r = id s \<and> ca_paired S s \<and> stored_once (ns, CASecretName) v0 s v)"
    unfolding EnsureCASecret_def id_apply
    apply (rule load_or_make [where F = "\<lambda>x. x"], erule assms(3))
    apply (rule succeeds_then [OF generate_rule [OF assms(1,2)]], rule succeeds_pre)
    apply (rule succeeds_then [OF generate_rule [OF assms(1,2)]], rule succeeds_pre)
    apply (rule succeeds_then [OF hmac])
    apply (rule create_new [where F = "\<lambda>x. x" and G = "\<lambda>x. x" and x = "caSecret ns u h m" for u h m, unfolded caSecret_simps])
    by (auto intro: caSecret_paired)
  then show ?thesis by simp
qed

lemma gatewayHostKey_stores:
  assumes "ssh_library S" "ssh_quiet view S"
  shows "succeeds view (\<lambda>v. v = v0) (gatewayHostKey S c ns)
    (\<lambda>key v. \<exists>s. key = map_get (sec_Data s) ''ssh_host_ed25519_key'' \<and> True \<and> stored_once (ns, gatewayHostKeyName) v0 s v)"
proof -
  have key: "key_of (sec_meta (gatewayHostKeySecret ns kp)) = (ns, gatewayHostKeyName)"
    "map_get (sec_Data (gatewayHostKeySecret ns kp)) ''ssh_host_ed25519_key'' = PrivatePEM kp" for kp
    by (simp_all add: gatewayHostKeySecret_def key_of_def map_get_def)
  show ?thesis
    unfolding gatewayHostKey_def
    apply (rule load_or_make, simp)
    apply (rule succeeds_then [OF generate_rule [OF assms]], rule succeeds_pre)
    apply (rule create_new [where x = "gatewayHostKeySecret ns kp" for kp, unfolded key(1)])
    by (simp_all add: key(2))
qed

end

section \<open>The servers of the process\<close>

definition host_quiet :: "('w \<Rightarrow> cluster) \<Rightarrow> ('w, 'conn, 'chan) gatewayHost \<Rightarrow> bool" where
  "host_quiet view host \<longleftrightarrow> quiet view (gh_NewManager host) \<and> quiet view (gh_NewClient host) \<and>
     (\<forall>r. quiet view (gh_Add host r)) \<and> (\<forall>issuer. quiet view (gh_NewProvider host issuer))"

text \<open>The sign server of the process: its signer, its claim, and the provider it asks.\<close>

definition signs_for ::
  "'w sshlib \<Rightarrow> 'w weblib \<Rightarrow> (string \<Rightarrow> ('w, 'w oidcProvider res) state) \<Rightarrow> gatewayOptions \<Rightarrow> Secret \<Rightarrow> 'w SignServer \<Rightarrow> bool" where
  "signs_for S L newProvider opts ca s \<longleftrightarrow>
     NewSigner S (wl_Now L) (map_get (sec_Data ca) KeyUserCAPrivate) (gwo_certTTL opts) = Inr (sv_signer s) \<and>
     oc_PrincipalClaim (sv_oidc s) = (if gwo_principalClaim opts = [] then defaultPrincipalClaim else gwo_principalClaim opts) \<and>
     (\<exists>prov. provided (newProvider (gwo_oidcIssuer opts)) (Inr prov) \<and> sv_Verify s = Some (pv_Verify prov (gwo_oidcClientID opts)))"

lemma signVerifier_provides:
  "always (\<lambda>r. case r of Inl _ \<Rightarrow> True | Inr v \<Rightarrow> \<exists>prov. provided (np issuer) (Inr prov) \<and> v = pv_Verify prov clientID)
     (signVerifier np issuer clientID)"
  unfolding signVerifier_def by (auto intro!: always_ret always_bind [OF always_provided] split: sum.split)

lemma NewSignServer_signs:
  assumes "NewSigner S (wl_Now L) (map_get (sec_Data ca) KeyUserCAPrivate) (gwo_certTTL opts) = Inr signer" "gwo_oidcIssuer opts \<noteq> []"
  shows "always (\<lambda>r. case r of Inl _ \<Rightarrow> True | Inr s \<Rightarrow> signs_for S L np opts ca s)
    (NewSignServer (signVerifier np) signer \<lparr>oc_Issuer = gwo_oidcIssuer opts, oc_ClientID = gwo_oidcClientID opts,
       oc_PrincipalClaim = gwo_principalClaim opts, oc_BaseDomain = gwo_baseDomain opts, oc_GatewaySSHAddr = gwo_sshAddr opts\<rparr>)"
  unfolding NewSignServer_def Let_def
  using assms by (auto intro!: always_ret always_bind [OF signVerifier_provides] simp: signs_for_def split: sum.split)

lemma buildOIDC_signs:
  "always (\<lambda>r. case r of Inr (Some s, _) \<Rightarrow> signs_for S L np opts ca s | _ \<Rightarrow> True) (buildOIDC S L np opts ca)"
  unfolding buildOIDC_def
  by (auto intro!: always_ret always_bind [OF NewSignServer_signs] always_bind [OF always_True [of "NewCookieAuthenticator a b c d e f g h i" for a b c d e f g h i]] split: sum.split)

lemma buildHTTPHandler_signs:
  "always (\<lambda>r. case r of Inr (Some f) \<Rightarrow> \<exists>sign proxy. f = dispatchHTTP S L sign proxy \<and> (\<forall>s. sign = Some s \<longrightarrow> signs_for S L np opts ca s)
     | _ \<Rightarrow> True) (buildHTTPHandler S L np opts ca c)"
  unfolding buildHTTPHandler_def Let_def
  by (rule always_bind [OF buildOIDC_signs]) (fastforce intro!: always_ret split: sum.split prod.split option.splits)

lemma buildHTTPHandler_quiet:
  assumes "\<And>issuer. quiet view (np issuer)"
  shows "quiet view (buildHTTPHandler S L np opts ca c)"
  unfolding buildHTTPHandler_def buildOIDC_def NewSignServer_def signVerifier_def NewCookieAuthenticator_def Let_def
  by (auto intro!: quiet_bind quiet_ret assms split: sum.split prod.split)

text \<open>Only the sign endpoint answers with a certificate.\<close>

lemma proxy_signs_nothing: "always (\<lambda>resp. \<forall>b. resp \<noteq> SignBody b) (ServeHTTP L cfg r)"
  unfolding ServeHTTP_def routeHTTP_def Callback_def StartLogin_def proxyRequest_def Let_def
  by (auto intro!: always_ret always_bind [OF always_True] split: sum.split option.split prod.split)

lemma dispatch_signs:
  assumes "run_state (dispatchHTTP S L sign proxy r) w = (SignBody b, w')"
  obtains s where "sign = Some s" "run_state (handleSign S L s r) w = (SignBody b, w')"
proof -
  have "fst (run_state (ServeHTTP L cfg r) w) \<noteq> SignBody b" for cfg
    using proxy_signs_nothing [of L cfg r] by (simp add: always_def)
  then show thesis
    using assms that
    by (auto simp: dispatchHTTP_def signHandler_def handleConfig_def split: option.splits if_splits) (metis fst_conv)+
qed

text \<open>
  A browser returns a cookie without a domain only to the host that set it.  The
  provider sends the browser back to the base domain, which is the host of no
  sandbox, so the state cookie of a login that began on a sandbox is not there.
\<close>

definition hostOnly :: "(string \<Rightarrow> string \<rightharpoonup> string) \<Rightarrow> string \<Rightarrow> HTTPCookie \<Rightarrow> string \<Rightarrow> string \<rightharpoonup> string" where
  "hostOnly jar host ck = jar(host := (jar host)(ck_Name ck \<mapsto> ck_Value ck))"

lemma Cut_length: "fst (Cut s sep) = a \<Longrightarrow> length a \<le> length s"
  by (induction s sep arbitrary: a rule: Cut.induct) (auto split: prod.splits if_splits)

lemma normalizeHost_length: "length (normalizeHost h) \<le> length h"
proof -
  let ?s = "ToLower (TrimSpace h)"
  have "length ?s \<le> length h"
    using length_dropWhile_le [of is_space h] length_dropWhile_le [of is_space "rev (dropWhile is_space h)"] by (simp add: ToLower_def TrimSpace_def)
  moreover have "length (normalizeHost h) \<le> length ?s"
    using Cut_length [of ?s "'':''"] by (auto simp: normalizeHost_def Let_def split: prod.split)
  ultimately show ?thesis by simp
qed

lemma base_is_no_route: "base \<noteq> [] \<Longrightarrow> ParseHTTPHost base base \<noteq> Inr t"
  using normalizeHost_length [of base]
  by (auto simp: ParseHTTPHost_base routeHost_def routeLabel_def TrimPrefix_def dest!: arg_cong [where f = length])

lemma browser_login_stuck:
  assumes "base \<noteq> []" "ParseHTTPHost host base = Inr t" "jar base stateCookie = None" "rq_Cookie r = hostOnly jar host ck base"
  shows "run_state (Callback L a r) w = (ErrorPage ''missing state'' 400, w)"
proof -
  have "host \<noteq> base" using base_is_no_route [OF assms(1)] assms(2) by auto
  then show ?thesis using assms(3,4) by (simp add: Callback_def hostOnly_def)
qed

text \<open>
  What a process that was set up consists of: its servers use the keys of one CA
  Secret, which is the one that is stored.
\<close>

definition gateway_ready ::
  "'w sshlib \<Rightarrow> 'w weblib \<Rightarrow> ('w, 'conn, 'chan) gatewayHost \<Rightarrow> gatewayOptions \<Rightarrow> Secret \<Rightarrow> ('w, 'conn, 'chan) gatewayProcess \<Rightarrow> bool" where
  "gateway_ready S L host opts ca p \<longleftrightarrow>
     (\<exists>userCA. ParsePublicKey S (map_get (sec_Data ca) KeyUserCAPublic) = Inr userCA \<and>
        srv_PublicKeyHandler (gp_SSH p) = publicKeyHandler S (wl_Now L) userCA) \<and>
     (\<forall>addr f. gp_HTTP p = Some (addr, f) \<longrightarrow> (\<exists>sign proxy. f = dispatchHTTP S L sign proxy \<and>
        (\<forall>s. sign = Some s \<longrightarrow> signs_for S L (gh_NewProvider host) opts ca s)))"

lemma quiet_succeeds: "quiet view m \<Longrightarrow> succeeds view p m (\<lambda>_. p)"
  unfolding succeeds_def by (rule vtriple_conseq [OF quiet_keeps [of view m p]]) (auto split: sum.splits)

lemma NewSSHServer_handler:
  assumes "NewSSHServer S now fuel rt (gatewaySSHConfig host opts hostKey ca c) = Inr server"
  shows "\<exists>userCA. ParsePublicKey S (map_get (sec_Data ca) KeyUserCAPublic) = Inr userCA \<and>
    srv_PublicKeyHandler server = publicKeyHandler S now userCA"
  using assms by (auto simp: NewSSHServer_def gatewaySSHConfig_def Let_def split: sum.splits)

lemma addServers_ready:
  assumes "host_quiet view host" "NewSSHServer S (wl_Now L) fuel rt (gatewaySSHConfig host opts hostKey ca c) = Inr server"
  shows "succeeds view p (addServers S L host opts c ca server) (\<lambda>proc v. p v \<and> gateway_ready S L host opts ca proc)"
proof -
  have add: "succeeds view p (gh_Add host r) (\<lambda>_. p)" for r
    using assms(1) by (intro quiet_succeeds) (simp add: host_quiet_def)
  let ?H = "\<lambda>h. case h of None \<Rightarrow> True | Some f \<Rightarrow> \<exists>sign proxy. f = dispatchHTTP S L sign proxy \<and>
    (\<forall>s. sign = Some s \<longrightarrow> signs_for S L (gh_NewProvider host) opts ca s)"
  have "quiet view (buildHTTPHandler S L (gh_NewProvider host) opts ca c)"
    using assms(1) by (intro buildHTTPHandler_quiet) (simp add: host_quiet_def)
  from vtriple_conj [OF quiet_keeps [OF this, of p] always_vtriple [OF buildHTTPHandler_signs]]
  have build: "succeeds view p (buildHTTPHandler S L (gh_NewProvider host) opts ca c) (\<lambda>h v. p v \<and> ?H h)"
    unfolding succeeds_def by (rule vtriple_conseq) (auto split: sum.splits option.splits)
  have ready: "gateway_ready S L host opts ca \<lparr>gp_SSH = server, gp_HTTP = map_option (\<lambda>f. (addr, f)) h\<rparr>" if "?H h" for h addr
    using that NewSSHServer_handler [OF assms(2)] by (auto simp: gateway_ready_def split: option.splits)
  let ?tail = "\<lambda>h. case h of None \<Rightarrow> ret (Inr \<lparr>gp_SSH = server, gp_HTTP = None\<rparr>)
     | Some f \<Rightarrow> do {
         added \<leftarrow> gh_Add host (httpRunnable (gwo_httpAddr opts) f);
         (case added of Inl e \<Rightarrow> ret (Inl e) | Inr _ \<Rightarrow> ret (Inr \<lparr>gp_SSH = server, gp_HTTP = Some (gwo_httpAddr opts, f)\<rparr>)) }"
  have tail: "succeeds view p (?tail h) (\<lambda>proc v. p v \<and> gateway_ready S L host opts ca proc)" if "?H h" for h
    using that ready [of h] by (cases h) (auto intro!: succeeds_ret succeeds_then [OF add])
  show ?thesis
    unfolding addServers_def by (rule succeeds_then [OF add], rule succeeds_then [OF build], rule succeeds_pre, rule tail)
qed

context kube_server
begin

lemma setupGateway_ready:
  assumes "ssh_library S" "ssh_quiet view S" "host_quiet view host" "\<And>w d. fst (run_state (gh_NewClient host) w) = Inr d \<Longrightarrow> d = c"
    "ns = OperatorNamespace (gh_PodNamespace host)" "\<And>ca. cl_Secrets v0 (ns, CASecretName) = Some ca \<Longrightarrow> ca_paired S ca"
  shows "succeeds view (\<lambda>v. v = v0) (setupGateway S L host opts) (\<lambda>p v. \<exists>ca. cl_Secrets v (ns, CASecretName) = Some ca \<and>
    ca_paired S ca \<and> gateway_ready S L host opts ca p)"
proof -
  have man: "succeeds view p (gh_NewManager host) (\<lambda>_. p)" for p
    using assms(3) by (intro quiet_succeeds) (simp add: host_quiet_def)
  have is_c: "always (\<lambda>r. case r of Inl _ \<Rightarrow> True | Inr d \<Rightarrow> d = c) (gh_NewClient host)"
    unfolding always_def using assms(4) by (simp split: sum.split)
  have "quiet view (gh_NewClient host)" using assms(3) by (simp add: host_quiet_def)
  from vtriple_conj [OF quiet_keeps [OF this] always_vtriple [OF is_c]]
  have client: "succeeds view p (gh_NewClient host) (\<lambda>d v. p v \<and> d = c)" for p
    unfolding succeeds_def by (rule vtriple_conseq) (simp_all split: sum.splits)
  have other: "(ns, gatewayHostKeyName) \<noteq> (ns, CASecretName)" by (simp add: gatewayHostKeyName_def CASecretName_def)
  have host: "succeeds view (\<lambda>v. v = v1) (gatewayHostKey S c ns) (\<lambda>_ v. cl_Secrets v (ns, CASecretName) = cl_Secrets v1 (ns, CASecretName))" for v1
    by (rule succeeds_conseq [OF gatewayHostKey_stores [OF assms(1,2)]]) (auto dest: stored_once_other [OF _ other])
  have hostkey: "succeeds view (\<lambda>v. ca_paired S ca \<and> stored_once (ns, CASecretName) v0 ca v) (gatewayHostKey S c ns)
      (\<lambda>_ v. cl_Secrets v (ns, CASecretName) = Some ca \<and> ca_paired S ca)" for ca
    by (rule succeeds_conseq [OF succeeds_frozen [where p = "\<lambda>v. ca_paired S ca \<and> stored_once (ns, CASecretName) v0 ca v", OF host]])
      (auto dest: stored_once_lookup)
  show ?thesis
    unfolding setupGateway_def assms(5) [symmetric]
    apply (rule succeeds_then [OF man], rule succeeds_then [OF client], rule succeeds_pre, erule ssubst)
    apply (rule succeeds_then [OF EnsureCASecret_stores [OF assms(1,2,6)]], assumption)
    apply (rule succeeds_then [OF hostkey])
    apply (split sum.split, intro conjI allI impI succeeds_err)
    apply (rule succeeds_conseq [OF addServers_ready [OF assms(3)]], assumption)
    by blast+
qed

end

section \<open>Racing for the keys\<close>

text \<open>
  A Secret several gateways agree on: the server has handed it out, or has accepted
  it as the one that is created.
\<close>

definition agreed :: "'w kube \<Rightarrow> NamespacedName \<Rightarrow> Secret \<Rightarrow> bool" where
  "agreed d n s \<longleftrightarrow> provided (kc_Get (k_Secrets d) n) (Inr s) \<or>
     (\<exists>x y. key_of (sec_meta x) = n \<and> provided (kc_Create (k_Secrets d) x) (Inr y) \<and> (s = x \<or> s = y))"

lemmas asked = always_bind [OF always_provided [of "kc_Get (k_Secrets d) n" for d n]]
  always_bind [OF always_provided [of "kc_Create (k_Secrets d) x" for d x]]

lemma agreed_got: "provided (kc_Get (k_Secrets d) n) (Inr s) \<Longrightarrow> agreed d n s"
  by (simp add: agreed_def)

lemma agreed_created: "provided (kc_Create (k_Secrets d) x) (Inr y) \<Longrightarrow> key_of (sec_meta x) = n \<Longrightarrow> agreed d n x \<and> agreed d n y"
  by (auto simp: agreed_def)

lemma EnsureCASecret_agreed:
  "always (\<lambda>r. case r of Inl _ \<Rightarrow> True | Inr s \<Rightarrow> agreed d (ns, CASecretName) s) (EnsureCASecret S d ns)"
proof -
  have made: "provided (kc_Create (k_Secrets d) (caSecret ns u h k)) (Inr y) \<Longrightarrow> agreed d (ns, CASecretName) y" for u h k y
    using agreed_created [of d "caSecret ns u h k" y "(ns, CASecretName)"] by (simp add: caSecret_def key_of_def)
  show ?thesis
    unfolding EnsureCASecret_def
    by (auto intro!: always_ret always_if always_case_sum asked always_bind_any [where m = "GenerateKeyPair S t" for t]
        always_bind_any [where m = "sl_Read S k" for k] intro: agreed_got made)
qed

lemma gatewayHostKey_agreed:
  "always (\<lambda>r. case r of Inl _ \<Rightarrow> True | Inr k \<Rightarrow> \<exists>s. agreed d (ns, gatewayHostKeyName) s \<and> k = map_get (sec_Data s) ''ssh_host_ed25519_key'')
     (gatewayHostKey S d ns)"
proof -
  have made: "provided (kc_Create (k_Secrets d) (gatewayHostKeySecret ns kp)) (Inr y) \<Longrightarrow>
      \<exists>s. agreed d (ns, gatewayHostKeyName) s \<and> PrivatePEM kp = map_get (sec_Data s) ''ssh_host_ed25519_key''" for kp y
    by (rule exI [of _ "gatewayHostKeySecret ns kp"])
      (use agreed_created [of d "gatewayHostKeySecret ns kp" y "(ns, gatewayHostKeyName)"] in
        \<open>simp add: gatewayHostKeySecret_def key_of_def map_get_def\<close>)
  have got: "provided (kc_Get (k_Secrets d) (ns, gatewayHostKeyName)) (Inr v) \<Longrightarrow>
      \<exists>s. agreed d (ns, gatewayHostKeyName) s \<and> map_get (sec_Data v) ''ssh_host_ed25519_key'' = map_get (sec_Data s) ''ssh_host_ed25519_key''" for v
    using agreed_got by blast
  show ?thesis
    unfolding gatewayHostKey_def
    by (auto intro!: always_ret always_if always_case_sum asked always_bind_any [where m = "GenerateKeyPair S t" for t] intro: got made)
qed

section \<open>Properties\<close>

text \<open>
  C11. Keys are made once.  When the gateway has loaded its CA and its host key,
  both are stored: a Secret that was there before is used and never replaced, and
  otherwise the new one is the only change to the cluster.  Each public key of the
  CA belongs to its private key.  When gateways race for the keys, whatever the
  server answers in between, each ends up with a Secret the server has handed out
  or accepted, never with keys of its own that lost the race.
\<close>

theorem gateway_keys_once:
  assumes "kube_server view c" "ssh_library S" "ssh_quiet view S" "\<forall>ca. cl_Secrets (view w) (ns, CASecretName) = Some ca \<longrightarrow> ca_paired S ca"
    "run_state (EnsureCASecret S c ns) w = (Inr ca, w1)" "run_state (gatewayHostKey S c ns) w1 = (Inr key, w2)"
  shows "ca_paired S ca \<and> (\<forall>ca0. cl_Secrets (view w) (ns, CASecretName) = Some ca0 \<longrightarrow> ca = ca0) \<and>
    (\<exists>hk. key = map_get (sec_Data hk) ''ssh_host_ed25519_key'' \<and>
       (\<forall>hk0. cl_Secrets (view w) (ns, gatewayHostKeyName) = Some hk0 \<longrightarrow> hk = hk0) \<and>
       view w2 = (view w)\<lparr>cl_Secrets := (cl_Secrets (view w))((ns, CASecretName) \<mapsto> ca, (ns, gatewayHostKeyName) \<mapsto> hk)\<rparr>) \<and>
    (\<forall>d. always (\<lambda>r. case r of Inl _ \<Rightarrow> True | Inr s \<Rightarrow> agreed d (ns, CASecretName) s) (EnsureCASecret S d ns) \<and>
       always (\<lambda>r. case r of Inl _ \<Rightarrow> True | Inr k \<Rightarrow> \<exists>s. agreed d (ns, gatewayHostKeyName) s \<and> k = map_get (sec_Data s) ''ssh_host_ed25519_key'')
         (gatewayHostKey S d ns))"
proof -
  have ca: "ca_paired S ca" "stored_once (ns, CASecretName) (view w) ca (view w1)"
    using succeedsD [OF kube_server.EnsureCASecret_stores [OF assms(1-3), of "view w" ns] assms(5)] assms(4) by auto
  obtain hk where hk: "key = map_get (sec_Data hk) ''ssh_host_ed25519_key''" "stored_once (ns, gatewayHostKeyName) (view w1) hk (view w2)"
    using succeedsD [OF kube_server.gatewayHostKey_stores [OF assms(1-3), of "view w1" ns] assms(6)] by auto
  have ne: "(ns, CASecretName) \<noteq> (ns, gatewayHostKeyName)" by (simp add: gatewayHostKeyName_def CASecretName_def)
  have w1: "view w1 = (view w)\<lparr>cl_Secrets := (cl_Secrets (view w))((ns, CASecretName) \<mapsto> ca)\<rparr>"
    by (rule stored_once_view [OF ca(2)])
  have w2: "view w2 = (view w1)\<lparr>cl_Secrets := (cl_Secrets (view w1))((ns, gatewayHostKeyName) \<mapsto> hk)\<rparr>"
    by (rule stored_once_view [OF hk(2)])
  have "view w2 = (view w)\<lparr>cl_Secrets := (cl_Secrets (view w))((ns, CASecretName) \<mapsto> ca, (ns, gatewayHostKeyName) \<mapsto> hk)\<rparr>"
    unfolding w2 w1 by simp
  moreover have "hk = hk0" if "cl_Secrets (view w) (ns, gatewayHostKeyName) = Some hk0" for hk0
    using stored_once_old [OF hk(2), of hk0] stored_once_other [OF ca(2) ne] that by simp
  ultimately show ?thesis using ca(1) hk(1) stored_once_old [OF ca(2)] EnsureCASecret_agreed gatewayHostKey_agreed by blast
qed

lemma refSsh_quiet: "ssh_quiet view refSsh"
  by (simp add: ssh_quiet_def refSsh_def quiet_ret)

theorem gateway_keys_once_witness:
  "\<exists>ca hk w2. snd (run_state (gatewayHostKey (refSsh :: memory sshlib) memKube ''kubepark-system'')
       (snd (run_state (EnsureCASecret (refSsh :: memory sshlib) memKube ''kubepark-system'') emptyMemory))) = w2 \<and>
     cl_Secrets (memView w2) (''kubepark-system'', CASecretName) = Some ca \<and> ca_paired (refSsh :: memory sshlib) ca \<and>
     cl_Secrets (memView w2) (''kubepark-system'', gatewayHostKeyName) = Some hk \<and>
     map_get (sec_Data hk) ''ssh_host_ed25519_key'' = ''key''"
proof -
  let ?ca = "run_state (EnsureCASecret (refSsh :: memory sshlib) memKube ''kubepark-system'') emptyMemory"
  let ?hk = "run_state (gatewayHostKey (refSsh :: memory sshlib) memKube ''kubepark-system'') (snd ?ca)"
  have "(case fst ?ca of Inr _ \<Rightarrow> True | _ \<Rightarrow> False) \<and> (case fst ?hk of Inr k \<Rightarrow> k = ''key'' | _ \<Rightarrow> False)" by code_simp
  then obtain ca w1 w2 where run: "?ca = (Inr ca, w1)" "run_state (gatewayHostKey (refSsh :: memory sshlib) memKube ''kubepark-system'') w1 = (Inr ''key'', w2)"
    by (cases ?ca; cases ?hk) (auto split: sum.splits)
  have none: "\<forall>ca. cl_Secrets (memView emptyMemory) (''kubepark-system'', CASecretName) = Some ca \<longrightarrow> ca_paired (refSsh :: memory sshlib) ca"
    by (simp add: memView_def emptyMemory_def lookup_def)
  from gateway_keys_once [OF memKube.kube_server_axioms refSsh.ssh_library_axioms refSsh_quiet none run] obtain hk where
    "ca_paired (refSsh :: memory sshlib) ca" "''key'' = map_get (sec_Data hk) ''ssh_host_ed25519_key''"
    "memView w2 = (memView emptyMemory)\<lparr>cl_Secrets := (cl_Secrets (memView emptyMemory))((''kubepark-system'', CASecretName) \<mapsto> ca,
       (''kubepark-system'', gatewayHostKeyName) \<mapsto> hk)\<rparr>" by blast
  with run show ?thesis by (simp add: gatewayHostKeyName_def CASecretName_def)
qed

text \<open>
  C5. From an identity to a shell.  A certificate that the HTTP server of a
  gateway process hands out was issued for the principal that a token of its OIDC
  provider claims.  The SSH server of the same process admits its holder as that
  principal exactly while it is valid, and the agent of a sandbox that was given
  the public user CA of the stored CA Secret admits them exactly while it is valid
  and that principal is the owner.
\<close>

theorem gateway_process_login:
  assumes "kube_server view direct" "ssh_library S" "ssh_quiet view S" "host_quiet view host"
    "\<forall>w d. fst (run_state (gh_NewClient host) w) = Inr d \<longrightarrow> d = direct"
    "\<forall>ca. cl_Secrets (view w0) (OperatorNamespace (gh_PodNamespace host), CASecretName) = Some ca \<longrightarrow> ca_paired S ca"
    "run_state (setupGateway S L host opts) w0 = (Inr p, w)" "gp_HTTP p = Some (addr, handler)"
    "run_state (handler req) w1 = (SignBody b, w2)" "run_state (wl_Now L) w3 = (now, w4)"
    "ttl = (if gwo_certTTL opts \<le> 0 then 8 * Hour else gwo_certTTL opts)"
    "\<forall>t. shown (wl_Now L) t \<longrightarrow> 0 \<le> Unix (t - Minute) \<and> Unix t < 2 ^ 63 \<and> Unix (t + ttl) < 2 ^ 63"
    "cl_Secrets (view w) (OperatorNamespace (gh_PodNamespace host), CASecretName) = Some ca"
    "ac_UserCAAuthorized cfg = map_get (sec_Data ca) KeyUserCAPublic" "ac_Now cfg = None"
    "run_state (NewServer S newCertSigner (wl_Now L) sys pty cfg) w5 = (Inr agent, w6)"
  shows "\<exists>prov tok c t. provided (gh_NewProvider host (gwo_oidcIssuer opts)) (Inr prov) \<and> vouched (pv_Verify prov (gwo_oidcClientID opts)) tok \<and>
    claimed tok (if gwo_principalClaim opts = [] then ''email'' else gwo_principalClaim opts) (sp_Principal b) \<and>
    sp_Certificate b = sl_MarshalAuthorizedKey S (CertKey c) \<and> shown (wl_Now L) t \<and>
    (let valid = Unix (t - Minute) \<le> Unix now \<and> Unix now < Unix (t + ttl)
     in fst (run_state (srv_PublicKeyHandler (gp_SSH p) ctx (CertKey c)) w3) =
          (if valid then (True, ctx\<lparr>ctx_Principal := Some (sp_Principal b), ctx_CertSerial := Some (show_int (cert_Serial c))\<rparr>) else (False, ctx)) \<and>
        (fst (run_state (as_PublicKeyHandler agent (CertKey c)) w3) \<longleftrightarrow> valid \<and> ac_Owner cfg = sp_Principal b))"
proof -
  have "\<exists>ca. cl_Secrets (view w) (OperatorNamespace (gh_PodNamespace host), CASecretName) = Some ca \<and> ca_paired S ca \<and> gateway_ready S L host opts ca p"
    by (rule succeedsD [OF kube_server.setupGateway_ready [OF assms(1-4) _ refl] assms(7)]) (use assms(5,6) in auto)
  then have ca: "ca_paired S ca" "gateway_ready S L host opts ca p" using assms(13) by auto
  then obtain userCA sign proxy where ssh: "ParsePublicKey S (map_get (sec_Data ca) KeyUserCAPublic) = Inr userCA"
      "srv_PublicKeyHandler (gp_SSH p) = publicKeyHandler S (wl_Now L) userCA"
    and http: "handler = dispatchHTTP S L sign proxy" "\<And>s. sign = Some s \<Longrightarrow> signs_for S L (gh_NewProvider host) opts ca s"
    using assms(8) unfolding gateway_ready_def by blast
  from dispatch_signs [OF assms(9) [unfolded http(1)]] obtain s where s: "sign = Some s" "run_state (handleSign S L s req) w1 = (SignBody b, w2)" .
  note signs = http(2) [OF s(1), unfolded signs_for_def]
  then have signer: "ParseSigner S (map_get (sec_Data ca) KeyUserCAPrivate) = Inr (sg_ca (sv_signer s))" "sg_ttl (sv_signer s) = ttl" "sg_now (sv_signer s) = wl_Now L"
    by (auto simp: NewSigner_def assms(11) split: sum.splits dest!: sym [of _ "sv_signer s"])
  have keys: "keysEqual S (Some (sl_SignerPublic S (sg_ca (sv_signer s)))) (Some userCA)"
    using ca(1) signer(1) ssh(1) by (simp add: ca_paired_def paired_def keysEqual_def)
  have agent: "as_PublicKeyHandler agent = agentPublicKeyHandler S (wl_Now L) userCA (ac_Owner cfg)"
    by (rule NewServer_handler [OF assms(16,15)]) (use ssh(1) assms(14) in simp)
  have "0 < ttl" by (simp add: assms(11))
  then have pos: "\<not> ttl \<le> 0" by simp
  from signs obtain prov where prov: "provided (gh_NewProvider host (gwo_oidcIssuer opts)) (Inr prov)" "sv_Verify s = Some (pv_Verify prov (gwo_oidcClientID opts))"
      "oc_PrincipalClaim (sv_oidc s) = (if gwo_principalClaim opts = [] then ''email'' else gwo_principalClaim opts)"
    by (auto simp: defaultPrincipalClaim_def)
  show ?thesis
    using login_chain [OF assms(2) s(2) keys _ assms(10), of ctx, unfolded signer(2,3) prov(3), OF assms(12)] prov(1,2) pos
    unfolding agent ssh(2) Let_def by (elim exE) (intro exI conjI; force)
qed

text \<open>A gateway process on the in-memory server, and an agent in a sandbox of \<open>bob\<close>.\<close>

definition sampleHost :: "(memory, unit, unit) gatewayHost" where
  "sampleHost = \<lparr>gh_NewManager = ret (Inr memKube), gh_NewClient = ret (Inr memKube), gh_Add = (\<lambda>_. ret (Inr ())), gh_Start = ret (Inr ()),
     gh_PodNamespace = [], gh_Dial = (\<lambda>_ _. ret (Inr ())), gh_Runtime = sampleRuntime,
     gh_NewProvider = (\<lambda>_. ret (Inr \<lparr>pv_AuthCodeURL = (\<lambda>_ s. s), pv_Exchange = (\<lambda>_ _. ret (Inr None)), pv_Verify = (\<lambda>_ _. ret (Inr sampleToken))\<rparr>)),
     gh_Fuel = 10\<rparr>"

definition sampleGateway :: gatewayOptions where
  "sampleGateway = (newGatewayCommand (\<lambda>_. []))\<lparr>gwo_oidcIssuer := ''https://idp.example'', gwo_oidcClientID := ''kubepark''\<rparr>"

definition loginWeb :: "memory weblib" where
  "loginWeb = sampleWeb\<lparr>wl_Now := ret (1000 * Second)\<rparr>"

definition bobAgent :: "memory AgentConfig" where
  "bobAgent = \<lparr>ac_Addr = '':2222'', ac_Owner = ''bob'', ac_HostKeyPEM = ''host'', ac_HostCertAuthorized = ''hostca-cert'',
     ac_UserCAAuthorized = ''key'', ac_Command = [], ac_HomeDir = ''/home/sandbox'', ac_Now = None\<rparr>"

definition idleOs :: "(memory, unit) os" where
  "idleOs = \<lparr>os_Getenv = (\<lambda>_. []), os_Environ = [], os_ReadFile = (\<lambda>_. ret (Inl (OtherErr ''no such file''))), os_Stat = (\<lambda>_. ret (Inr ())),
     os_StdinPipe = (\<lambda>_. ret (Inr ())), os_Start = (\<lambda>_. ret (Inr ())), os_Wait = (\<lambda>_. ret None)\<rparr>"

definition idlePty :: "(memory, unit, unit) ptyHost" where
  "idlePty = \<lparr>ph_Exited = (\<lambda>_. ret False), ph_Start = (\<lambda>_. ret (Inr ((), ()))), ph_Copy = (\<lambda>_ _. ret ())\<rparr>"

definition sampleSetup :: "(memory, (memory, unit, unit) gatewayProcess res) state" where
  "sampleSetup = setupGateway agentSsh loginWeb sampleHost sampleGateway"

definition signRequest1 :: HTTPRequest where
  "signRequest1 = (sampleRequest ''gateway'' None)\<lparr>rq_Method := ''POST'', rq_Path := ''/v1/sign''\<rparr>"

lemma sampleHost_quiet: "host_quiet memView sampleHost"
  by (simp add: host_quiet_def sampleHost_def quiet_ret)

lemma agentSsh_quiet: "ssh_quiet view agentSsh"
  by (simp add: ssh_quiet_def agentSsh_def refSsh_def quiet_ret)

lemma sampleSetup_runs:
  obtains p w addr handler b w2 ca where "run_state (setupGateway agentSsh loginWeb sampleHost sampleGateway) emptyMemory = (Inr p, w)"
    "gp_HTTP p = Some (addr, handler)" "run_state (handler signRequest1) w = (SignBody b, w2)" "sp_Principal b = ''bob''"
    "cl_Secrets (memView w) (''kubepark-system'', CASecretName) = Some ca" "map_get (sec_Data ca) KeyUserCAPublic = ''key''"
proof -
  have run: "case run_state sampleSetup emptyMemory of (Inr p, w) \<Rightarrow>
      (case gp_HTTP p of Some (addr, handler) \<Rightarrow>
         (case fst (run_state (handler signRequest1) w) of SignBody b \<Rightarrow> sp_Principal b = ''bob'' | _ \<Rightarrow> False) \<and>
         (case lookup sec_meta (mem_Secrets w) (''kubepark-system'', CASecretName) of Some ca \<Rightarrow> map_get (sec_Data ca) KeyUserCAPublic = ''key'' | None \<Rightarrow> False)
       | None \<Rightarrow> False) | _ \<Rightarrow> False"
    by code_simp
  obtain r w where rw: "run_state sampleSetup emptyMemory = (r, w)" by fastforce
  with run obtain p addr handler where p: "r = Inr p" "gp_HTTP p = Some (addr, handler)" by (auto split: sum.splits option.splits)
  obtain resp w2 where resp: "run_state (handler signRequest1) w = (resp, w2)" by fastforce
  from run rw p resp obtain b ca where "resp = SignBody b" "sp_Principal b = ''bob''"
      "lookup sec_meta (mem_Secrets w) (''kubepark-system'', CASecretName) = Some ca" "map_get (sec_Data ca) KeyUserCAPublic = ''key''"
    by (auto split: HTTPResponse.splits option.splits)
  with rw p resp show thesis by (intro that) (simp_all add: sampleSetup_def memView_def)
qed

theorem gateway_process_login_witness:
  "\<exists>p w addr handler b agent c. run_state (setupGateway agentSsh loginWeb sampleHost sampleGateway) emptyMemory = (Inr p, w) \<and>
     gp_HTTP p = Some (addr, handler) \<and> fst (run_state (handler signRequest1) w) = SignBody b \<and>
     sp_Certificate b = sl_MarshalAuthorizedKey (agentSsh :: memory sshlib) (CertKey c) \<and>
     fst (run_state (NewServer agentSsh (\<lambda>_ s. Inr s) (wl_Now loginWeb) idleOs idlePty bobAgent) w) = Inr agent \<and>
     fst (fst (run_state (srv_PublicKeyHandler (gp_SSH p) (sampleContext []) (CertKey c)) w)) \<and>
     fst (run_state (as_PublicKeyHandler agent (CertKey c)) w)"
proof -
  obtain p w addr handler b w2 ca where run: "run_state (setupGateway agentSsh loginWeb sampleHost sampleGateway) emptyMemory = (Inr p, w)"
    "gp_HTTP p = Some (addr, handler)" "run_state (handler signRequest1) w = (SignBody b, w2)" "sp_Principal b = ''bob''"
    "cl_Secrets (memView w) (''kubepark-system'', CASecretName) = Some ca" "map_get (sec_Data ca) KeyUserCAPublic = ''key''"
    by (rule sampleSetup_runs)
  obtain agent w6 where agent: "run_state (NewServer agentSsh (\<lambda>_ s. Inr s) (wl_Now loginWeb) idleOs idlePty bobAgent) w = (Inr agent, w6)"
    by (auto simp: NewServer_def bobAgent_def signerWithCert_def ParsePublicKey_def agentSsh_def refSsh_def startMainProcess_def)
  have host: "\<forall>w d. fst (run_state (gh_NewClient sampleHost) w) = Inr d \<longrightarrow> d = memKube" "OperatorNamespace (gh_PodNamespace sampleHost) = ''kubepark-system''"
    by (simp_all add: sampleHost_def OperatorNamespace_def)
  have fresh: "\<forall>ca. cl_Secrets (memView emptyMemory) (OperatorNamespace (gh_PodNamespace sampleHost), CASecretName) = Some ca \<longrightarrow>
      ca_paired (agentSsh :: memory sshlib) ca"
    by (simp add: memView_def emptyMemory_def lookup_def)
  have now: "run_state (wl_Now loginWeb) w = (1000 * Second, w)" and clock: "shown (wl_Now loginWeb) t \<longleftrightarrow> t = 1000 * Second" for t
    by (auto simp: loginWeb_def shown_def)
  have ttl: "8 * Hour = (if gwo_certTTL sampleGateway \<le> 0 then 8 * Hour else gwo_certTTL sampleGateway)"
    by (simp add: sampleGateway_def newGatewayCommand_def)
  have times: "\<forall>t. shown (wl_Now loginWeb) t \<longrightarrow> 0 \<le> Unix (t - Minute) \<and> Unix t < 2 ^ 63 \<and> Unix (t + 8 * Hour) < 2 ^ 63"
    by (simp add: clock Unix_def)
  have cfg: "ac_UserCAAuthorized bobAgent = map_get (sec_Data ca) KeyUserCAPublic" "ac_Now bobAgent = None" "ac_Owner bobAgent = ''bob''"
    by (simp_all add: bobAgent_def run(6))
  from gateway_process_login [OF memKube.kube_server_axioms agentSsh_library agentSsh_quiet sampleHost_quiet host(1) fresh run(1-3) now ttl times
      run(5) [folded host(2)] cfg(1,2) agent, of "sampleContext []"]
  obtain c where "sp_Certificate b = sl_MarshalAuthorizedKey (agentSsh :: memory sshlib) (CertKey c)"
    "fst (fst (run_state (srv_PublicKeyHandler (gp_SSH p) (sampleContext []) (CertKey c)) w))" "fst (run_state (as_PublicKeyHandler agent (CertKey c)) w)"
    by (auto simp: clock Unix_def Let_def cfg(3) run(4))
  with run agent show ?thesis by (metis fst_conv)
qed

end
