(* ===== verification/Operator_Main.thy ===== *)
theory Operator_Main
  imports Session_Controller Profile_Controller Sandbox_Server
begin

text \<open>
  \<open>cmd/operator.go\<close> and the \<open>SetupWithManager\<close> methods of the three
  reconcilers: which objects wake which controller, and what the operator process
  is assembled from.  The manager, flag parsing and certificates are parameters.
\<close>

section \<open>What wakes a controller\<close>

text \<open>
  A registration: the reconciled kind itself, a kind whose objects are mapped to
  the owner that controls them, or a kind with a mapping of its own.  The mapping
  of sessions needs the session, the others only metadata.
\<close>

datatype 'w watch =
    For
  | Owns
  | Watches "ObjectMeta \<Rightarrow> ('w, NamespacedName list) state"
  | WatchesSession "SandboxSession \<Rightarrow> NamespacedName list"

record 'w controller =
  cn_Name :: string
  cn_Watches :: "(Kind \<times> 'w watch) list"

text \<open>\<open>indexField\<close> registers a field index, \<open>complete\<close> a controller.\<close>

record 'w manager =
  mg_Client :: "'w kube"
  mg_IndexField :: "string \<Rightarrow> ('w, unit res) state"
  mg_Complete :: "'w controller \<Rightarrow> ('w, unit res) state"
  mg_AddHealthzCheck :: "string \<Rightarrow> ('w, unit res) state"
  mg_AddReadyzCheck :: "string \<Rightarrow> ('w, unit res) state"
  mg_Start :: "('w, unit res) state"

definition sandboxController :: "'w SandboxReconciler \<Rightarrow> 'w controller" where
  "sandboxController r = \<lparr>cn_Name = ''sandbox'', cn_Watches = [
     (KSandbox, For), (KPod, Owns), (KNetworkPolicy, Owns), (KSecret, Owns), (KServiceAccount, Owns),
     (KSandboxTemplate, Watches (sandboxesForTemplate r)),
     (KAccessProfile, Watches (sandboxesForAccessProfile r)),
     (KSandboxSession, WatchesSession sandboxForSession),
     (KEndpointSlice, Watches (sandboxesForAPIServerEndpoints r))]\<rparr>"

definition setupSandboxReconciler :: "'w SandboxReconciler \<Rightarrow> 'w manager \<Rightarrow> ('w, unit res) state" where
  "setupSandboxReconciler r mgr = do {
     indexed \<leftarrow> for_each (mg_IndexField mgr) [indexSandboxTemplate, indexSandboxExistingClaim, indexSandboxAccessProfile];
     (case indexed of
        Inl e \<Rightarrow> ret (Inl e)
      | Inr _ \<Rightarrow> mg_Complete mgr (sandboxController r))
   }"

definition profileController :: "'w AccessProfileReconciler \<Rightarrow> 'w controller" where
  "profileController r = \<lparr>cn_Name = ''accessprofile'', cn_Watches = [
     (KAccessProfile, For), (KNamespaceKind, Watches (\<lambda>ns. profilesForNamespace r (om_Name ns)))]\<rparr>"

definition setupAccessProfileReconciler :: "'w AccessProfileReconciler \<Rightarrow> 'w manager \<Rightarrow> ('w, unit res) state" where
  "setupAccessProfileReconciler r mgr = mg_Complete mgr (profileController r)"

definition sessionController :: "'w SandboxSessionReconciler \<Rightarrow> 'w controller" where
  "sessionController r = \<lparr>cn_Name = ''sandboxsession'', cn_Watches = [(KSandboxSession, For)]\<rparr>"

definition setupSandboxSessionReconciler :: "'w SandboxSessionReconciler \<Rightarrow> 'w manager \<Rightarrow> ('w, unit res) state" where
  "setupSandboxSessionReconciler r mgr = mg_Complete mgr (sessionController r)"

section \<open>Options\<close>

record operatorOptions =
  opo_agentImage :: string
  opo_priorityClassName :: string
  opo_gatewayNamespace :: string
  opo_metricsAddr :: string
  opo_probeAddr :: string
  opo_enableLeaderElection :: bool
  opo_secureMetrics :: bool
  opo_webhookCertPath :: string
  opo_webhookCertName :: string
  opo_webhookCertKey :: string
  opo_metricsCertPath :: string
  opo_metricsCertName :: string
  opo_metricsCertKey :: string
  opo_enableHTTP2 :: bool

definition operatorFlags :: "(string \<Rightarrow> string) \<Rightarrow> operatorOptions" where
  "operatorFlags getenv = \<lparr>opo_agentImage = getenv ''AGENT_IMAGE'', opo_priorityClassName = [], opo_gatewayNamespace = [],
     opo_metricsAddr = ''0'', opo_probeAddr = '':8081'', opo_enableLeaderElection = False, opo_secureMetrics = True,
     opo_webhookCertPath = [], opo_webhookCertName = ''tls.crt'', opo_webhookCertKey = ''tls.key'',
     opo_metricsCertPath = [], opo_metricsCertName = ''tls.crt'', opo_metricsCertKey = ''tls.key'', opo_enableHTTP2 = False\<rparr>"

text \<open>
  The options of the two servers; a TLS option changes the protocols a server
  offers.  \<open>mso_Filter\<close> says whether requests are authenticated and
  authorised.
\<close>

type_synonym tlsOpt = "string list \<Rightarrow> string list"

record webhookOptions =
  who_TLSOpts :: "tlsOpt list"
  who_CertDir :: string
  who_CertName :: string
  who_KeyName :: string

record metricsOptions =
  mso_BindAddress :: string
  mso_SecureServing :: bool
  mso_TLSOpts :: "tlsOpt list"
  mso_Filter :: bool
  mso_CertDir :: string
  mso_CertName :: string
  mso_KeyName :: string

definition disableHTTP2 :: tlsOpt where "disableHTTP2 nextProtos = [''http/1.1'']"

definition tlsOpts :: "operatorOptions \<Rightarrow> tlsOpt list" where
  "tlsOpts o1 = (if \<not> opo_enableHTTP2 o1 then [disableHTTP2] else [])"

definition webhookServerOptions :: "operatorOptions \<Rightarrow> webhookOptions" where
  "webhookServerOptions o1 =
     (let w = \<lparr>who_TLSOpts = tlsOpts o1, who_CertDir = [], who_CertName = [], who_KeyName = []\<rparr>
      in if length (opo_webhookCertPath o1) > 0
         then w\<lparr>who_CertDir := opo_webhookCertPath o1, who_CertName := opo_webhookCertName o1, who_KeyName := opo_webhookCertKey o1\<rparr>
         else w)"

definition metricsServerOptions :: "operatorOptions \<Rightarrow> metricsOptions" where
  "metricsServerOptions o1 =
     (let m = \<lparr>mso_BindAddress = opo_metricsAddr o1, mso_SecureServing = opo_secureMetrics o1, mso_TLSOpts = tlsOpts o1,
            mso_Filter = False, mso_CertDir = [], mso_CertName = [], mso_KeyName = []\<rparr>;
          m = (if opo_secureMetrics o1 then m\<lparr>mso_Filter := True\<rparr> else m)
      in if length (opo_metricsCertPath o1) > 0
         then m\<lparr>mso_CertDir := opo_metricsCertPath o1, mso_CertName := opo_metricsCertName o1, mso_KeyName := opo_metricsCertKey o1\<rparr>
         else m)"

record managerOptions =
  mo_Metrics :: metricsOptions
  mo_Webhook :: webhookOptions
  mo_HealthProbeBindAddress :: string
  mo_LeaderElection :: bool
  mo_LeaderElectionID :: string

definition operatorManagerOptions :: "operatorOptions \<Rightarrow> managerOptions" where
  "operatorManagerOptions o1 = \<lparr>mo_Metrics = metricsServerOptions o1, mo_Webhook = webhookServerOptions o1,
     mo_HealthProbeBindAddress = opo_probeAddr o1, mo_LeaderElection = opo_enableLeaderElection o1,
     mo_LeaderElectionID = ''de7f76eb.kubepark.dev''\<rparr>"

section \<open>The process\<close>

record 'w operatorHost =
  oh_Getenv :: "string \<Rightarrow> string"
  oh_Parse :: "operatorOptions \<Rightarrow> string list \<Rightarrow> nat + operatorOptions"
  oh_NewManager :: "managerOptions \<Rightarrow> ('w, 'w manager res) state"
  oh_Lib :: klib
  oh_Ssh :: "'w sshlib"
  oh_Marshal :: "SandboxTemplateSpec \<Rightarrow> bytes res"
  oh_Sum256 :: "bytes \<Rightarrow> bytes"
  oh_Order :: "string list \<Rightarrow> string list"

definition operatorSandboxReconciler :: "'w operatorHost \<Rightarrow> operatorOptions \<Rightarrow> 'w manager \<Rightarrow> 'w SandboxReconciler" where
  "operatorSandboxReconciler host o1 mgr = \<lparr>sr_Client = mg_Client mgr, sr_AgentImage = opo_agentImage o1,
     sr_PriorityClassName = opo_priorityClassName o1, sr_GatewayNamespace = opo_gatewayNamespace o1, sr_Now = None,
     sr_Lib = oh_Lib host, sr_Ssh = oh_Ssh host, sr_Marshal = oh_Marshal host, sr_Sum256 = oh_Sum256 host,
     sr_PodNamespace = oh_Getenv host ''POD_NAMESPACE''\<rparr>"

definition operatorAccessProfileReconciler :: "'w operatorHost \<Rightarrow> 'w manager \<Rightarrow> 'w AccessProfileReconciler" where
  "operatorAccessProfileReconciler host mgr = \<lparr>apr_Client = mg_Client mgr, apr_Lib = oh_Lib host, apr_Order = oh_Order host\<rparr>"

definition operatorSandboxSessionReconciler :: "'w manager \<Rightarrow> 'w SandboxSessionReconciler" where
  "operatorSandboxSessionReconciler mgr = \<lparr>ssr_Client = mg_Client mgr, ssr_Now = None\<rparr>"

text \<open>The three registrations and the two probes, in order; the first error ends the process.\<close>

definition operatorSetup :: "'w operatorHost \<Rightarrow> operatorOptions \<Rightarrow> 'w manager \<Rightarrow> ('w, unit res) state" where
  "operatorSetup host o1 mgr = for_each (\<lambda>m. m) [
     setupSandboxReconciler (operatorSandboxReconciler host o1 mgr) mgr,
     setupAccessProfileReconciler (operatorAccessProfileReconciler host mgr) mgr,
     setupSandboxSessionReconciler (operatorSandboxSessionReconciler mgr) mgr,
     mg_AddHealthzCheck mgr ''healthz'',
     mg_AddReadyzCheck mgr ''readyz'']"

text \<open>
  \<open>runOperator\<close>: the exit status of the process.  The flag set ends the
  process itself when it cannot parse the arguments, with the status
  \<open>oh_Parse\<close> gives.
\<close>

definition runOperator :: "'w operatorHost \<Rightarrow> string list \<Rightarrow> ('w, nat) state" where
  "runOperator host args =
     (case oh_Parse host (operatorFlags (oh_Getenv host)) args of
        Inl status \<Rightarrow> ret status
      | Inr o1 \<Rightarrow> do {
          mgr \<leftarrow> oh_NewManager host (operatorManagerOptions o1);
          (case mgr of
             Inl _ \<Rightarrow> ret 1
           | Inr mgr \<Rightarrow> do {
               setup \<leftarrow> operatorSetup host o1 mgr;
               (case setup of
                  Inl _ \<Rightarrow> ret 1
                | Inr _ \<Rightarrow> do {
                    err \<leftarrow> mg_Start mgr;
                    (case err of Inl _ \<Rightarrow> ret 1 | Inr _ \<Rightarrow> ret 0)
                  })
             })
        })"

end
