(* ===== verification/Deployment.thy ===== *)
theory Deployment
  imports Gateway_Boot Operator_Main
begin

text \<open>
  The two server processes of an installation together: which changes wake the
  sandbox controller, and that what \<open>cmd/operator.go\<close> and
  \<open>cmd/gateway.go\<close> assemble is an installation in the sense of the histories.
\<close>

declare split_paired_All [simp del] split_paired_Ex [simp del]

section \<open>Watches\<close>

lemma index_template: "t \<in> set (sandboxIndex indexSandboxTemplate sb) \<longleftrightarrow> sp_Template (sb_spec sb) = t"
  by (auto simp: sandboxIndex_def)

lemma index_profile: "p \<in> set (sandboxIndex indexSandboxAccessProfile sb) \<longleftrightarrow> p \<noteq> [] \<and> sp_AccessProfile (sb_spec sb) = p"
  by (auto simp: sandboxIndex_def indexSandboxAccessProfile_def indexSandboxTemplate_def indexSandboxExistingClaim_def)

text \<open>The requests for the sandboxes a predicate holds of.\<close>

definition requests_for :: "cluster \<Rightarrow> (Sandbox \<Rightarrow> bool) \<Rightarrow> NamespacedName set" where
  "requests_for v P = {n. \<exists>sb. cl_Sandboxes v n = Some sb \<and> P sb}"

lemma keyed_image:
  assumes "\<And>n x. m n = Some x \<Longrightarrow> f x = n"
  shows "f ` {x \<in> ran m. Q x} = {n. \<exists>x. m n = Some x \<and> Q x}"
proof -
  have "n \<in> f ` {x \<in> ran m. Q x}" if "m n = Some x" "Q x" for n x
    using assms [OF that(1)] that by (auto simp: ran_def intro!: image_eqI [of _ _ x])
  then show ?thesis using assms by (auto simp: ran_def)
qed

context kube_server
begin

lemma list_requests:
  assumes "\<And>sb. P sb \<longleftrightarrow> (\<forall>opt \<in> set opts. selected sandboxIndex sb_meta opt sb)"
  shows "vtriple view (\<lambda>v. v = v0) (kc_List (k_Sandboxes c) opts)
    (\<lambda>r v. v = v0 \<and> (case r of Inl _ \<Rightarrow> True | Inr items \<Rightarrow> set (toRequests items) = requests_for v0 P))"
proof (rule vtriple_frozen_view [OF sandboxes.list], goal_cases)
  case (1 w r v)
  have "(\<lambda>sb. (sb_Namespace sb, sb_Name sb)) ` {x \<in> ran (cl_Sandboxes (view w)). P x} = requests_for (view w) P"
    unfolding requests_for_def by (rule keyed_image) (use sandboxes.keyed in \<open>auto simp: key_of_def\<close>)
  with 1 show ?case by (auto simp: toRequests_def assms split: sum.splits)
qed

text \<open>A mapping lists the sandboxes an option selects; it finds nobody only if the call fails.\<close>

lemma mapped_requests:
  assumes "run_state (do { sandboxes \<leftarrow> kc_List (k_Sandboxes c) opts;
      (case sandboxes of Inl _ \<Rightarrow> ret [] | Inr items \<Rightarrow> ret (toRequests items)) }) w = (reqs, w')"
    "\<not> isl (fst (run_state (kc_List (k_Sandboxes c) opts) w))"
    "\<And>sb. P sb \<longleftrightarrow> (\<forall>opt \<in> set opts. selected sandboxIndex sb_meta opt sb)"
  shows "view w' = view w \<and> set reqs = requests_for (view w) P"
proof (cases "run_state (kc_List (k_Sandboxes c) opts) w")
  case (Pair res w1)
  then obtain items where "res = Inr items" using assms(2) by (cases res) auto
  with Pair assms(1) vtripleD [OF list_requests [of P opts "view w"] Pair] assms(3) show ?thesis by auto
qed

end

text \<open>A missing claim is waited for without a timer, and no registration reports that it appears.\<close>

lemma missing_claim_not_awaited:
  assumes "sp_Home (sb_spec sb) = Some h" "hs_ExistingClaim h \<noteq> []" "run_state (claimConflict r sb (homeClaim sb)) w = (Inr [], w1)"
    "run_state (kc_Get (k_PVCs (sr_Client r)) (sb_Namespace sb, homeClaim sb)) w1 = (Inl e, w2)" "IsNotFound e"
  shows "fst (fst (run_state (reconcileHome r sb status) w)) = Inr (Some noRequeue) \<and>
    KPersistentVolumeClaim \<notin> fst ` set (cn_Watches (sandboxController r))"
  using assms by (simp add: reconcileHome_def Let_def sandboxController_def)

section \<open>The processes as an installation\<close>

text \<open>The jump handler the gateway process serves connections with, and the installation of both processes.\<close>

definition gatewayJump :: "'w weblib \<Rightarrow> ('w, 'conn, 'chan) gatewayHost \<Rightarrow> gatewayOptions \<Rightarrow> 'w kube \<Rightarrow> ('w, 'conn) jumpHandler" where
  "gatewayJump L host opts c = \<lparr>jh_DefaultNamespace = gwo_defaultNamespace opts, jh_WakeTimeout = defaultWakeTimeout, jh_Now = wl_Now L,
     jh_Store = NewStore c, jh_Dialer = NewDirectDialer (gh_Dial host)\<rparr>"

definition installation ::
  "'w operatorHost \<Rightarrow> operatorOptions \<Rightarrow> 'w manager \<Rightarrow> 'w weblib \<Rightarrow> ('w, 'conn, 'chan) gatewayHost \<Rightarrow> gatewayOptions \<Rightarrow> 'w kube \<Rightarrow>
   ('w, 'chan) NewChannel set \<Rightarrow> ('w, 'conn, 'chan) kubepark" where
  "installation oh o1 mgr L gh opts c chs = \<lparr>kp_Sandboxes = operatorSandboxReconciler oh o1 mgr, kp_Sessions = operatorSandboxSessionReconciler mgr,
     kp_Profiles = operatorAccessProfileReconciler oh mgr, kp_Gateway = gatewayJump L gh opts c, kp_Runtime = gh_Runtime gh, kp_Channels = chs,
     kp_Fuel = gh_Fuel gh\<rparr>"

definition serves_jump :: "'w weblib \<Rightarrow> ('w, 'conn, 'chan) gatewayHost \<Rightarrow> gatewayOptions \<Rightarrow> ('w, 'conn, 'chan) gatewayProcess \<Rightarrow> bool" where
  "serves_jump L host opts p \<longleftrightarrow> (\<exists>c. provided (gh_NewManager host) (Inr c) \<and>
     srv_ChannelHandlers (gp_SSH p) = [(''direct-tcpip'', handleDirectTCPIP (gh_Fuel host) (gh_Runtime host) (gatewayJump L host opts c))])"

lemma NewSSHServer_serves:
  assumes "NewSSHServer S (wl_Now L) (gh_Fuel host) (gh_Runtime host) (gatewaySSHConfig host opts hostKey ca c) = Inr server"
    "provided (gh_NewManager host) (Inr c)" "gp_SSH p = server"
  shows "serves_jump L host opts p"
proof -
  have "srv_ChannelHandlers server = [(''direct-tcpip'', handleDirectTCPIP (gh_Fuel host) (gh_Runtime host) (gatewayJump L host opts c))]"
    using assms(1) by (auto simp: NewSSHServer_def gatewaySSHConfig_def gatewayJump_def Let_def split: sum.splits)
  with assms(2,3) show ?thesis by (auto simp: serves_jump_def)
qed

lemma addServers_keeps_server:
  "always (\<lambda>r. case r of Inl _ \<Rightarrow> True | Inr p \<Rightarrow> gp_SSH p = server) (addServers S L host opts c ca server)"
  unfolding addServers_def by (auto intro!: always_ret always_bind [OF always_True] split: sum.split option.split)

lemma setupGateway_serves:
  fixes host :: "('a, 'b, 'c) gatewayHost"
  shows "always (\<lambda>r. case r of Inl _ \<Rightarrow> True | Inr p \<Rightarrow> serves_jump L host opts p) (setupGateway S L host opts)"
proof -
  define Q where "Q = (\<lambda>r :: err + ('a, 'b, 'c) gatewayProcess. case r of Inl _ \<Rightarrow> True | Inr p \<Rightarrow> serves_jump L host opts p)"
  have err: "always Q (ret (Inl e))" for e by (simp add: Q_def always_ret)
  have tail: "always Q (addServers S L host opts c ca server)"
    if "provided (gh_NewManager host) (Inr c)"
      "NewSSHServer S (wl_Now L) (gh_Fuel host) (gh_Runtime host) (gatewaySSHConfig host opts hostKey ca c) = Inr server" for hostKey ca c server
    unfolding Q_def
    by (rule always_mono [OF addServers_keeps_server]) (use that in \<open>auto intro: NewSSHServer_serves split: sum.splits\<close>)
  have "always Q (setupGateway S L host opts)"
    unfolding setupGateway_def
    by (rule always_bind [OF always_provided]) (auto intro!: err always_bind [OF always_True] tail split: sum.split)
  then show ?thesis by (simp add: Q_def)
qed

lemma installation_wired:
  assumes "kube_server view c" "mg_Client mgr = c" "kube_library (oh_Lib oh)" "ssh_quiet view (oh_Ssh oh)"
    "\<forall>ch \<in> chs. runtime_obeys system_order view (gh_Runtime gh) (gatewayJump L gh opts c) ch"
  shows "wired view c (installation oh o1 mgr L gh opts c chs)"
proof -
  have "quiet view (k_Now c)" using kube_server.now_law [OF assms(1)] by (simp add: quiet_def)
  then show ?thesis
    using assms
    by (simp add: wired_def installation_def operatorSandboxReconciler_def operatorSandboxSessionReconciler_def operatorAccessProfileReconciler_def
        gatewayJump_def sr_now_def sr_wall_def ssr_now_def)
qed

section \<open>Properties\<close>

text \<open>What a sandbox depends on, of the kinds with a mapping to sandboxes.\<close>

definition depends_on :: "Kind \<Rightarrow> ObjectMeta \<Rightarrow> Sandbox \<Rightarrow> bool" where
  "depends_on kind obj sb =
     (case kind of
        KSandboxTemplate \<Rightarrow> sp_Template (sb_spec sb) = om_Name obj
      | KAccessProfile \<Rightarrow> sp_AccessProfile (sb_spec sb) = om_Name obj
      | KEndpointSlice \<Rightarrow> om_Namespace obj = ''default'' \<and> map_get (om_Labels obj) ''kubernetes.io/service-name'' = ''kubernetes''
      | _ \<Rightarrow> False)"




definition sampleManager :: "memory manager" where
  "sampleManager = \<lparr>mg_Client = memKube, mg_IndexField = (\<lambda>_. ret (Inr ())), mg_Complete = (\<lambda>_. ret (Inr ())),
     mg_AddHealthzCheck = (\<lambda>_. ret (Inr ())), mg_AddReadyzCheck = (\<lambda>_. ret (Inr ())), mg_Start = ret (Inr ())\<rparr>"

definition sampleOperator :: "memory operatorHost" where
  "sampleOperator = \<lparr>oh_Getenv = (\<lambda>_. []), oh_Parse = (\<lambda>o1 _. Inr o1), oh_NewManager = (\<lambda>_. ret (Inr sampleManager)), oh_Lib = refLib, oh_Ssh = refSsh,
     oh_Marshal = sr_Marshal sampleReconciler, oh_Sum256 = sr_Sum256 sampleReconciler, oh_Order = (\<lambda>xs. xs)\<rparr>"

lemma sampleJump_obeys: "runtime_obeys system_order memView (gh_Runtime sampleHost) (gatewayJump loginWeb sampleHost sampleGateway memKube) (sampleChannel a)"
  unfolding runtime_obeys_def
  by (auto simp: gatewayJump_def sampleHost_def loginWeb_def sampleRuntime_def sampleChannel_def NewDirectDialer_def DialSandbox_def
      intro!: orderly.ret orderly.bind orderly.cases orderly.quiet_obeys [OF memory_wait_quiet [unfolded sampleRuntime_def, simplified]])


end
