(* ===== verification/Cli.thy ===== *)
theory Cli
  imports Gateway_Http Agent
begin

text \<open>
  The command line: \<open>cmd/main.go\<close> and \<open>cmd/agent.go\<close> of the server
  binary, and the client \<open>cmd/kubepark\<close> with its keys, login, admin and ssh
  commands.  Files, processes and HTTP are parameters; paths are computed as
  \<open>path/filepath\<close> does on Unix.
\<close>

section \<open>Paths\<close>

fun components :: "string \<Rightarrow> string list" where
  "components [] = [[]]"
| "components (c # s) = (if c = CHR ''/'' then [] # components s
     else (case components s of x # xs \<Rightarrow> (c # x) # xs | [] \<Rightarrow> [[c]]))"

text \<open>One component on the reversed stack of those before it.\<close>

definition cleanStep :: "bool \<Rightarrow> string list \<Rightarrow> string \<Rightarrow> string list" where
  "cleanStep rooted stack x =
     (if x = [] \<or> x = ''.'' then stack
      else if x = ''..'' then
        (case stack of
           [] \<Rightarrow> if rooted then [] else [''..'']
         | t # rest \<Rightarrow> if t \<noteq> ''..'' then rest else ''..'' # stack)
      else x # stack)"

definition rooted :: "string \<Rightarrow> bool" where
  "rooted path \<longleftrightarrow> path \<noteq> [] \<and> hd path = CHR ''/''"

definition Clean :: "string \<Rightarrow> string" where
  "Clean path =
     (let out = (if rooted path then ''/'' else []) @ Join (rev (foldl (cleanStep (rooted path)) [] (components path))) ''/''
      in if out = [] then ''.'' else out)"

definition JoinPath :: "string list \<Rightarrow> string" where
  "JoinPath elem = (let rest = dropWhile (\<lambda>e. e = []) elem in if rest = [] then [] else Clean (Join rest ''/''))"

definition BasePath :: "string \<Rightarrow> string" where
  "BasePath path =
     (if path = [] then ''.''
      else (let stripped = rev (dropWhile (\<lambda>c. c = CHR ''/'') (rev path));
                base = rev (takeWhile (\<lambda>c. c \<noteq> CHR ''/'') (rev stripped))
            in if base = [] then ''/'' else base))"

section \<open>The host system\<close>

definition octal :: "nat \<Rightarrow> nat \<Rightarrow> nat \<Rightarrow> nat" where "octal u g x = 64 * u + 8 * g + x"

text \<open>
  Files are opened as handles \<open>'h\<close>; a temporary file comes with its name.
  \<open>ho_Exec\<close> replaces the process and returns only with an error.
\<close>

record ('w, 'h) cliHost =
  ho_Getenv :: "string \<Rightarrow> string"
  ho_Environ :: "string list"
  ho_UserHomeDir :: "('w, string res) state"
  ho_MkdirAll :: "string \<Rightarrow> nat \<Rightarrow> ('w, unit res) state"
  ho_Stat :: "string \<Rightarrow> ('w, unit res) state"
  ho_ReadFile :: "string \<Rightarrow> ('w, bytes res) state"
  ho_WriteFile :: "string \<Rightarrow> bytes \<Rightarrow> nat \<Rightarrow> ('w, unit res) state"
  ho_Executable :: "('w, string res) state"
  ho_Open :: "string \<Rightarrow> ('w, 'h res) state"
  ho_CreateTemp :: "string \<Rightarrow> string \<Rightarrow> ('w, ('h \<times> string) res) state"
  ho_Copy :: "'h \<Rightarrow> 'h \<Rightarrow> ('w, unit res) state"
  ho_Chmod :: "'h \<Rightarrow> nat \<Rightarrow> ('w, unit res) state"
  ho_Close :: "'h \<Rightarrow> ('w, unit res) state"
  ho_Rename :: "string \<Rightarrow> string \<Rightarrow> ('w, unit res) state"
  ho_Remove :: "string \<Rightarrow> ('w, unit res) state"
  ho_LookPath :: "string \<Rightarrow> ('w, string res) state"
  ho_Exec :: "string \<Rightarrow> string list \<Rightarrow> string list \<Rightarrow> ('w, unit res) state"

section \<open>cmd/main.go\<close>

definition agentBinaryName :: string where "agentBinaryName = ''agent''"

text \<open>The arguments the root command sees; the first one is the name of the process.\<close>

fun modeArgs :: "string list \<Rightarrow> string list" where
  "modeArgs [] = []"
| "modeArgs (arg0 # args) = (if BasePath arg0 = agentBinaryName then arg0 # agentBinaryName # args else arg0 # args)"

section \<open>cmd/agent.go\<close>

text \<open>The first argument is \<open>cmd.ArgsLenAtDash()\<close>, negative without \<open>--\<close>.\<close>

definition argsAfterDashDash :: "int \<Rightarrow> string list \<Rightarrow> string list" where
  "argsAfterDashDash idx args = (if idx \<ge> 0 then drop (nat idx) args else args)"

definition agentCommand ::
  "'w sshlib \<Rightarrow> (Certificate \<Rightarrow> Signer \<Rightarrow> Signer res) \<Rightarrow> ('w, Time) state \<Rightarrow> ('w, 'p) os \<Rightarrow> ('w, 'f, 'q) ptyHost \<Rightarrow>
   (('w, 'f, 'q) AgentServer \<Rightarrow> ('w, unit res) state) \<Rightarrow> int \<Rightarrow> string list \<Rightarrow> ('w, unit res) state" where
  "agentCommand S newCertSigner timeNow sys pty listenAndServe idx args = do {
     cfg \<leftarrow> ConfigFromEnv sys (argsAfterDashDash idx args);
     (case cfg of
        Inl e \<Rightarrow> ret (Inl e)
      | Inr cfg \<Rightarrow> do {
          server \<leftarrow> NewServer S newCertSigner timeNow sys pty cfg;
          (case server of
             Inl e \<Rightarrow> ret (Inl e)
           | Inr server \<Rightarrow> listenAndServe server)
        })
   }"

text \<open>Filling the temporary file and moving it into place.\<close>

definition installCopy :: "('w, 'h) cliHost \<Rightarrow> 'h \<Rightarrow> 'h \<Rightarrow> string \<Rightarrow> string \<Rightarrow> ('w, unit res) state" where
  "installCopy H src tmp tmpName dst = do {
     copied \<leftarrow> ho_Copy H tmp src;
     (case copied of
        Inl e \<Rightarrow> do { closed \<leftarrow> ho_Close H tmp; ret (Inl (Wrapped ''copy binary'' e)) }
      | Inr _ \<Rightarrow> do {
          moded \<leftarrow> ho_Chmod H tmp (octal 7 5 5);
          (case moded of
             Inl e \<Rightarrow> do { closed \<leftarrow> ho_Close H tmp; ret (Inl (Wrapped ''chmod'' e)) }
           | Inr _ \<Rightarrow> do {
               closed \<leftarrow> ho_Close H tmp;
               (case closed of
                  Inl e \<Rightarrow> ret (Inl (Wrapped ''close temp file'' e))
                | Inr _ \<Rightarrow> do {
                    renamed \<leftarrow> ho_Rename H tmpName dst;
                    (case renamed of
                       Inl e \<Rightarrow> ret (Inl (Wrapped ''rename into place'' e))
                     | Inr _ \<Rightarrow> ret (Inr ()))
                  })
             })
        })
   }"

definition installSelf :: "('w, 'h) cliHost \<Rightarrow> string \<Rightarrow> ('w, unit res) state" where
  "installSelf H dir = do {
     self \<leftarrow> ho_Executable H;
     (case self of
        Inl e \<Rightarrow> ret (Inl (Wrapped ''resolve own executable'' e))
      | Inr self \<Rightarrow> do {
          src \<leftarrow> ho_Open H self;
          (case src of
             Inl e \<Rightarrow> ret (Inl (Wrapped (''open '' @ self) e))
           | Inr src \<Rightarrow> do {
               made \<leftarrow> ho_MkdirAll H dir (octal 7 5 5);
               (case made of
                  Inl e \<Rightarrow> do { closed \<leftarrow> ho_Close H src; ret (Inl (Wrapped (''create '' @ dir) e)) }
                | Inr _ \<Rightarrow> do {
                    tmp \<leftarrow> ho_CreateTemp H dir ''.agent-*'';
                    (case tmp of
                       Inl e \<Rightarrow> do { closed \<leftarrow> ho_Close H src; ret (Inl (Wrapped (''create temp file in '' @ dir) e)) }
                     | Inr (tmp, tmpName) \<Rightarrow> do {
                         result \<leftarrow> installCopy H src tmp tmpName (JoinPath [dir, agentBinaryName]);
                         removed \<leftarrow> ho_Remove H tmpName;
                         closed \<leftarrow> ho_Close H src;
                         ret result
                       })
                  })
             })
        })
   }"

section \<open>cmd/kubepark/keys.go\<close>

definition configDir :: "('w, 'h) cliHost \<Rightarrow> ('w, string res) state" where
  "configDir H = do {
     home \<leftarrow> ho_UserHomeDir H;
     (case home of
        Inl e \<Rightarrow> ret (Inl e)
      | Inr home \<Rightarrow> (let dir = JoinPath [home, ''.kubepark''] in do {
          made \<leftarrow> ho_MkdirAll H dir (octal 7 0 0);
          (case made of Inl e \<Rightarrow> ret (Inl e) | Inr _ \<Rightarrow> ret (Inr dir))
        }))
   }"

text \<open>The paths of the private and the public key.\<close>

definition ensureKeyPair :: "'w sshlib \<Rightarrow> ('w, 'h) cliHost \<Rightarrow> ('w, (string \<times> string) res) state" where
  "ensureKeyPair S H = do {
     dir \<leftarrow> configDir H;
     (case dir of
        Inl e \<Rightarrow> ret (Inl e)
      | Inr dir \<Rightarrow> (let privPath = JoinPath [dir, ''id_ed25519'']; pubPath = privPath @ ''.pub'' in do {
          stat \<leftarrow> ho_Stat H privPath;
          (case stat of
             Inr _ \<Rightarrow> ret (Inr (privPath, pubPath))
           | Inl _ \<Rightarrow> do {
               kp \<leftarrow> GenerateKeyPair S ''kubepark-cli'';
               (case kp of
                  Inl e \<Rightarrow> ret (Inl e)
                | Inr kp \<Rightarrow> do {
                    wrote \<leftarrow> ho_WriteFile H privPath (PrivatePEM kp) (octal 6 0 0);
                    (case wrote of
                       Inl e \<Rightarrow> ret (Inl (Wrapped ''write private key'' e))
                     | Inr _ \<Rightarrow> do {
                         wrote \<leftarrow> ho_WriteFile H pubPath (PublicAuthorized kp) (octal 6 4 4);
                         (case wrote of
                            Inl e \<Rightarrow> ret (Inl (Wrapped ''write public key'' e))
                          | Inr _ \<Rightarrow> ret (Inr (privPath, pubPath)))
                       })
                  })
             })
        }))
   }"

definition certPath :: "('w, 'h) cliHost \<Rightarrow> ('w, string res) state" where
  "certPath H = do {
     dir \<leftarrow> configDir H;
     (case dir of Inl e \<Rightarrow> ret (Inl e) | Inr dir \<Rightarrow> ret (Inr (JoinPath [dir, ''id_ed25519-cert.pub''])))
   }"

section \<open>cmd/kubepark/ssh.go\<close>

definition envOr :: "('w, 'h) cliHost \<Rightarrow> string \<Rightarrow> string \<Rightarrow> string" where
  "envOr H key fallback = (if ho_Getenv H key \<noteq> [] then ho_Getenv H key else fallback)"

text \<open>The loop from the end of the address to its last colon, on the reversed address.\<close>

fun lastColon :: "string \<Rightarrow> string \<Rightarrow> (string \<times> string) option" where
  "lastColon [] port = None"
| "lastColon (c # rest) port = (if c = CHR '':'' then Some (rev rest, port) else lastColon rest (c # port))"

definition splitHostPort :: "string \<Rightarrow> string \<times> string" where
  "splitHostPort addr =
     (let (host, port) = (case lastColon (rev addr) [] of None \<Rightarrow> (addr, ''2222'') | Some hp \<Rightarrow> hp)
      in (if host = [] then ''localhost'' else host, port))"

definition NL :: string where "NL = [CHR 0x0A]"

definition sshConfigText :: "string \<Rightarrow> string \<Rightarrow> string \<Rightarrow> string \<Rightarrow> string \<Rightarrow> string \<Rightarrow> string \<Rightarrow> string" where
  "sshConfigText gwHost gwPort gatewayUser priv gwKnownHosts cert knownHosts =
     ''# Generated by kubepark; do not edit.'' @ NL @
     ''Host kubepark-gateway'' @ NL @
     ''    HostName '' @ gwHost @ NL @
     ''    Port '' @ gwPort @ NL @
     ''    User '' @ gatewayUser @ NL @
     ''    IdentityFile '' @ priv @ NL @
     ''    IdentitiesOnly yes'' @ NL @
     ''    UserKnownHostsFile '' @ gwKnownHosts @ NL @
     ''    StrictHostKeyChecking accept-new'' @ NL @
     NL @
     ''Host * !kubepark-gateway'' @ NL @
     ''    ProxyJump kubepark-gateway'' @ NL @
     ''    IdentityFile '' @ priv @ NL @
     ''    CertificateFile '' @ cert @ NL @
     ''    IdentitiesOnly yes'' @ NL @
     ''    ConnectTimeout 180'' @ NL @
     knownHosts"

text \<open>How sandbox host keys are checked: by the host CA if its public key is given, otherwise on first use.\<close>

definition sandboxHostChecks :: "('w, 'h) cliHost \<Rightarrow> string \<Rightarrow> string \<Rightarrow> ('w, string res) state" where
  "sandboxHostChecks H dir hostCAPath =
     (if hostCAPath \<noteq> [] then (let khPath = JoinPath [dir, ''known_hosts''] in do {
        caPub \<leftarrow> ho_ReadFile H hostCAPath;
        (case caPub of
           Inl e \<Rightarrow> ret (Inl (Wrapped ''read host CA'' e))
         | Inr caPub \<Rightarrow> do {
             wrote \<leftarrow> ho_WriteFile H khPath (''@cert-authority * '' @ caPub) (octal 6 4 4);
             (case wrote of
                Inl e \<Rightarrow> ret (Inl e)
              | Inr _ \<Rightarrow> ret (Inr (''    UserKnownHostsFile '' @ khPath @ NL @ ''    StrictHostKeyChecking yes'' @ NL)))
           })
      })
      else ret (Inr (''    StrictHostKeyChecking accept-new'' @ NL)))"

definition writeSSHConfig :: "'w sshlib \<Rightarrow> ('w, 'h) cliHost \<Rightarrow> string \<Rightarrow> string \<Rightarrow> string \<Rightarrow> ('w, string res) state" where
  "writeSSHConfig S H gatewayAddr gatewayUser hostCAPath = do {
     dir \<leftarrow> configDir H;
     (case dir of
        Inl e \<Rightarrow> ret (Inl e)
      | Inr dir \<Rightarrow> do {
          keys \<leftarrow> ensureKeyPair S H;
          (case keys of
             Inl e \<Rightarrow> ret (Inl e)
           | Inr (priv, _) \<Rightarrow> do {
               cert \<leftarrow> certPath H;
               (case cert of
                  Inl e \<Rightarrow> ret (Inl e)
                | Inr cert \<Rightarrow> do {
                    checks \<leftarrow> sandboxHostChecks H dir hostCAPath;
                    (case checks of
                       Inl e \<Rightarrow> ret (Inl e)
                     | Inr knownHosts \<Rightarrow>
                         (case splitHostPort gatewayAddr of (gwHost, gwPort) \<Rightarrow>
                          let cfgPath = JoinPath [dir, ''ssh_config''];
                              cfg = sshConfigText gwHost gwPort gatewayUser priv (JoinPath [dir, ''known_hosts'']) cert knownHosts
                          in do {
                            wrote \<leftarrow> ho_WriteFile H cfgPath cfg (octal 6 0 0);
                            (case wrote of Inl e \<Rightarrow> ret (Inl e) | Inr _ \<Rightarrow> ret (Inr cfgPath))
                          }))
                  })
             })
        })
   }"

definition execSSH :: "('w, 'h) cliHost \<Rightarrow> string \<Rightarrow> string \<Rightarrow> ('w, unit res) state" where
  "execSSH H cfgPath target = do {
     sshPath \<leftarrow> ho_LookPath H ''ssh'';
     (case sshPath of
        Inl e \<Rightarrow> ret (Inl (Wrapped ''ssh not found on PATH'' e))
      | Inr sshPath \<Rightarrow> ho_Exec H sshPath [''ssh'', ''-F'', cfgPath, target] (ho_Environ H))
   }"

record sshFlags =
  sf_namespace :: string
  sf_gatewayAddr :: string
  sf_gatewayUser :: string
  sf_hostCAPath :: string
  sf_printConfig :: bool

definition newSSHCommand :: "('w, 'h) cliHost \<Rightarrow> sshFlags" where
  "newSSHCommand H = \<lparr>sf_namespace = [], sf_gatewayAddr = envOr H ''KUBEPARK_GATEWAY'' ''localhost:2222'',
     sf_gatewayUser = envOr H ''KUBEPARK_GATEWAY_USER'' ''jump'', sf_hostCAPath = [], sf_printConfig = False\<rparr>"

definition sshTarget :: "string \<Rightarrow> string \<Rightarrow> string" where
  "sshTarget arg namespace = (if namespace \<noteq> [] then arg @ ''.'' @ namespace else arg)"

definition runSSH :: "'w sshlib \<Rightarrow> ('w, 'h) cliHost \<Rightarrow> sshFlags \<Rightarrow> string \<Rightarrow> ('w, unit res) state" where
  "runSSH S H fl arg = do {
     cfgPath \<leftarrow> writeSSHConfig S H (sf_gatewayAddr fl) (sf_gatewayUser fl) (sf_hostCAPath fl);
     (case cfgPath of
        Inl e \<Rightarrow> ret (Inl e)
      | Inr cfgPath \<Rightarrow> if sf_printConfig fl then ret (Inr ()) else execSSH H cfgPath (sshTarget arg (sf_namespace fl)))
   }"

section \<open>cmd/kubepark/admin.go\<close>

record signCertFlags =
  cf_principal :: string
  cf_namespace :: string
  cf_ttl :: Duration

definition newSignCertCommand :: signCertFlags where
  "newSignCertCommand = \<lparr>cf_principal = [], cf_namespace = ''kubepark-system'', cf_ttl = 8 * Hour\<rparr>"

text \<open>\<open>loadConfig\<close> and \<open>newClient\<close> are the kubeconfig and the API client.\<close>

definition runSignCert ::
  "'w sshlib \<Rightarrow> ('w, 'h) cliHost \<Rightarrow> ('w, 'cfg res) state \<Rightarrow> ('cfg \<Rightarrow> ('w, 'w kube res) state) \<Rightarrow> ('w, Time) state \<Rightarrow>
   string \<Rightarrow> string \<Rightarrow> Duration \<Rightarrow> ('w, unit res) state" where
  "runSignCert S H loadConfig newClient timeNow prin namespace ttl = do {
     keys \<leftarrow> ensureKeyPair S H;
     (case keys of
        Inl e \<Rightarrow> ret (Inl e)
      | Inr (_, pubPath) \<Rightarrow> do {
          pub \<leftarrow> ho_ReadFile H pubPath;
          (case pub of
             Inl e \<Rightarrow> ret (Inl e)
           | Inr pub \<Rightarrow> do {
               cfg \<leftarrow> loadConfig;
               (case cfg of
                  Inl e \<Rightarrow> ret (Inl (Wrapped ''load kubeconfig'' e))
                | Inr cfg \<Rightarrow> do {
                    c \<leftarrow> newClient cfg;
                    (case c of
                       Inl e \<Rightarrow> ret (Inl e)
                     | Inr c \<Rightarrow> do {
                         secret \<leftarrow> kc_Get (k_Secrets c) (namespace, ''kubepark-ca'');
                         (case secret of
                            Inl e \<Rightarrow> ret (Inl (Wrapped ''read kubepark-ca secret'' e))
                          | Inr secret \<Rightarrow>
                              (case NewSigner S timeNow (map_get (sec_Data secret) ''user-ca.key'') ttl of
                                 Inl e \<Rightarrow> ret (Inl e)
                               | Inr signer \<Rightarrow> do {
                                   cert \<leftarrow> Sign S signer pub prin;
                                   (case cert of
                                      Inl e \<Rightarrow> ret (Inl e)
                                    | Inr certBytes \<Rightarrow> do {
                                        outPath \<leftarrow> certPath H;
                                        (case outPath of
                                           Inl e \<Rightarrow> ret (Inl e)
                                         | Inr outPath \<Rightarrow> ho_WriteFile H outPath certBytes (octal 6 4 4))
                                      })
                                 }))
                       })
                  })
             })
        })
   }"

definition signCertCommand ::
  "'w sshlib \<Rightarrow> ('w, 'h) cliHost \<Rightarrow> ('w, 'cfg res) state \<Rightarrow> ('cfg \<Rightarrow> ('w, 'w kube res) state) \<Rightarrow> ('w, Time) state \<Rightarrow>
   signCertFlags \<Rightarrow> ('w, unit res) state" where
  "signCertCommand S H loadConfig newClient timeNow fl =
     (if cf_principal fl = [] then ret (Inl (OtherErr ''--principal is required''))
      else runSignCert S H loadConfig newClient timeNow (cf_principal fl) (cf_namespace fl) (cf_ttl fl))"

section \<open>cmd/kubepark/login.go\<close>

record gatewayConfig =
  gc_Issuer :: string
  gc_ClientID :: string
  gc_PrincipalClaim :: string

text \<open>
  The provider with proof keys: the last argument of both operations is the
  verifier.  A login waits for one event: a request to the callback of its
  listener, the end of its context, or its timer.
\<close>

record 'w pkceProvider =
  pk_AuthCodeURL :: "oauthConfig \<Rightarrow> string \<Rightarrow> string \<Rightarrow> string"
  pk_Exchange :: "oauthConfig \<Rightarrow> string \<Rightarrow> string \<Rightarrow> ('w, string option res) state"

datatype loginEvent = CallbackRequest HTTPRequest | ContextDone err | TimerFired

record 'w loginHost =
  lh_NewRequest :: "string \<Rightarrow> string \<Rightarrow> unit res"
  lh_Do :: "string \<Rightarrow> string \<Rightarrow> bytes \<Rightarrow> ('w, (nat \<times> string \<times> bytes) res) state"
  lh_DecodeConfig :: "bytes \<Rightarrow> gatewayConfig res"
  lh_EncodeSign :: "string \<Rightarrow> string \<Rightarrow> bytes"
  lh_DecodeSign :: "bytes \<Rightarrow> (string \<times> string) res"
  lh_NewProvider :: "string \<Rightarrow> ('w, 'w pkceProvider res) state"
  lh_Listen :: "('w, string res) state"
  lh_GenerateVerifier :: "('w, string) state"
  lh_Random :: "nat \<Rightarrow> ('w, bytes) state"
  lh_Event :: "string \<Rightarrow> ('w, loginEvent) state"
  lh_CloseListener :: "('w, unit) state"

definition fetchGatewayConfig :: "'w loginHost \<Rightarrow> string \<Rightarrow> ('w, gatewayConfig res) state" where
  "fetchGatewayConfig N gatewayURL =
     (case lh_NewRequest N ''GET'' (gatewayURL @ ''/v1/config'') of
        Inl e \<Rightarrow> ret (Inl e)
      | Inr _ \<Rightarrow> do {
          resp \<leftarrow> lh_Do N ''GET'' (gatewayURL @ ''/v1/config'') [];
          (case resp of
             Inl e \<Rightarrow> ret (Inl (Wrapped ''fetch gateway config'' e))
           | Inr (_, _, body) \<Rightarrow> ret (lh_DecodeConfig N body))
        })"

text \<open>What the callback answers the browser, and what it reports to the waiting login.\<close>

definition loginCallback :: "'w pkceProvider \<Rightarrow> oauthConfig \<Rightarrow> string \<Rightarrow> string \<Rightarrow> HTTPRequest \<Rightarrow> ('w, HTTPResponse option \<times> string res) state" where
  "loginCallback P cfg state1 verifier r =
     (if rq_Query r ''state'' \<noteq> state1
      then ret (Some (ErrorPage ''state mismatch'' 400), Inl (OtherErr ''state mismatch''))
      else do {
        token \<leftarrow> pk_Exchange P cfg (rq_Query r ''code'') verifier;
        ret (case token of
               Inl e \<Rightarrow> (Some (ErrorPage ''token exchange failed'' 502), Inl e)
             | Inr None \<Rightarrow> (Some (ErrorPage ''no id_token in response'' 502), Inl (OtherErr ''no id_token returned''))
             | Inr (Some rawID) \<Rightarrow> (None, Inr rawID))
      })"

definition oidcAuthCodeFlow :: "'w loginHost \<Rightarrow> 'w pkceProvider \<Rightarrow> string \<Rightarrow> ('w, string res) state" where
  "oidcAuthCodeFlow N P clientID = do {
     addr \<leftarrow> lh_Listen N;
     (case addr of
        Inl e \<Rightarrow> ret (Inl e)
      | Inr addr \<Rightarrow> (let cfg = \<lparr>oa_ClientID = clientID, oa_ClientSecret = [], oa_RedirectURL = ''http://'' @ addr @ ''/callback'',
             oa_Scopes = [''openid'', ''email'', ''profile'']\<rparr> in do {
          verifier \<leftarrow> lh_GenerateVerifier N;
          b \<leftarrow> lh_Random N 16;
          (let state1 = b64_EncodeToString b in do {
             ev \<leftarrow> lh_Event N (pk_AuthCodeURL P cfg state1 verifier);
             res \<leftarrow> (case ev of
                ContextDone e \<Rightarrow> ret (Inl e)
              | TimerFired \<Rightarrow> ret (Inl (OtherErr ''timed out waiting for OIDC callback''))
              | CallbackRequest r \<Rightarrow> do { out \<leftarrow> loginCallback P cfg state1 verifier r; ret (snd out) });
             closed \<leftarrow> lh_CloseListener N;
             ret res
           })
        }))
   }"

definition requestCert :: "'w loginHost \<Rightarrow> string \<Rightarrow> string \<Rightarrow> string \<Rightarrow> ('w, (string \<times> string) res) state" where
  "requestCert N gatewayURL publicKey idToken =
     (case lh_NewRequest N ''POST'' (gatewayURL @ ''/v1/sign'') of
        Inl e \<Rightarrow> ret (Inl e)
      | Inr _ \<Rightarrow> do {
          resp \<leftarrow> lh_Do N ''POST'' (gatewayURL @ ''/v1/sign'') (lh_EncodeSign N publicKey idToken);
          (case resp of
             Inl e \<Rightarrow> ret (Inl (Wrapped ''sign request'' e))
           | Inr (statusCode, status, body) \<Rightarrow>
               if statusCode \<noteq> 200 then ret (Inl (OtherErr (''sign request failed: '' @ status)))
               else ret (lh_DecodeSign N body))
        })"

text \<open>The second half of \<open>runLogin\<close>: from the ID token to the stored certificate.\<close>

definition storeCert :: "'w sshlib \<Rightarrow> ('w, 'h) cliHost \<Rightarrow> 'w loginHost \<Rightarrow> string \<Rightarrow> string \<Rightarrow> ('w, unit res) state" where
  "storeCert S H N gatewayURL idToken = do {
     keys \<leftarrow> ensureKeyPair S H;
     (case keys of
        Inl e \<Rightarrow> ret (Inl e)
      | Inr (_, pubPath) \<Rightarrow> do {
          pub \<leftarrow> ho_ReadFile H pubPath;
          (case pub of
             Inl e \<Rightarrow> ret (Inl e)
           | Inr pub \<Rightarrow> do {
               signed \<leftarrow> requestCert N gatewayURL pub idToken;
               (case signed of
                  Inl e \<Rightarrow> ret (Inl e)
                | Inr (cert, _) \<Rightarrow> do {
                    out \<leftarrow> certPath H;
                    (case out of
                       Inl e \<Rightarrow> ret (Inl e)
                     | Inr out \<Rightarrow> ho_WriteFile H out cert (octal 6 4 4))
                  })
             })
        })
   }"

definition runLogin :: "'w sshlib \<Rightarrow> ('w, 'h) cliHost \<Rightarrow> 'w loginHost \<Rightarrow> string \<Rightarrow> ('w, unit res) state" where
  "runLogin S H N gatewayURL = do {
     cfg \<leftarrow> fetchGatewayConfig N gatewayURL;
     (case cfg of
        Inl e \<Rightarrow> ret (Inl e)
      | Inr cfg \<Rightarrow>
          if gc_Issuer cfg = [] then ret (Inl (OtherErr ''gateway has no OIDC issuer configured''))
          else do {
            provider \<leftarrow> lh_NewProvider N (gc_Issuer cfg);
            (case provider of
               Inl e \<Rightarrow> ret (Inl (Wrapped ''discover OIDC provider'' e))
             | Inr provider \<Rightarrow> do {
                 idToken \<leftarrow> oidcAuthCodeFlow N provider (gc_ClientID cfg);
                 (case idToken of
                    Inl e \<Rightarrow> ret (Inl e)
                  | Inr idToken \<Rightarrow> storeCert S H N gatewayURL idToken)
               })
          })
   }"

definition loginCommand :: "'w sshlib \<Rightarrow> ('w, 'h) cliHost \<Rightarrow> 'w loginHost \<Rightarrow> string \<Rightarrow> ('w, unit res) state" where
  "loginCommand S H N gatewayURL =
     (if gatewayURL = [] then ret (Inl (OtherErr ''--gateway-url is required (e.g. https://gateway.example.com:8080)''))
      else runLogin S H N gatewayURL)"

end
