(* ===== verification/Commands.thy ===== *)
theory Commands
  imports Cli Gateway_Main Operator_Main
begin

text \<open>
  The command trees of the two binaries and their \<open>main\<close> functions
  (\<open>cmd/main.go\<close>, \<open>cmd/kubepark/main.go\<close> and the
  \<open>new...Command\<close> functions).  The trees are values; running one on
  arguments is the work of \<open>spf13/cobra\<close>, a parameter whose documented
  behaviour is the locale \<open>cobra_library\<close>.
\<close>

section \<open>Commands\<close>

datatype flagValue = StringFlag string | DurationFlag Duration | BoolFlag bool

text \<open>How a command ends: it returns to \<open>main\<close>, or it ends the process itself.\<close>

datatype ending = Returned "unit res" | Exited nat

text \<open>
  The fields of a \<open>cobra.Command\<close> the sources set: its use line, its flags
  with their defaults, \<open>DisableFlagParsing\<close>, the number of arguments
  \<open>ExactArgs\<close> demands, what it runs, and its subcommands.  \<open>RunE\<close>
  gets the values of the flags, \<open>ArgsLenAtDash\<close> and the arguments.
\<close>

datatype 'w command = Command
  (cm_Use: string)
  (cm_Flags: "(string \<times> flagValue) list")
  (cm_DisableFlagParsing: bool)
  (cm_Interspersed: bool)
  (cm_ExactArgs: "nat option")
  (cm_RunE: "((string \<Rightarrow> flagValue) \<Rightarrow> int \<Rightarrow> string list \<Rightarrow> ('w, ending) state) option")
  (cm_Commands: "'w command list")

text \<open>The name of a command is the first word of its use line.\<close>

definition commandName :: "'w command \<Rightarrow> string" where
  "commandName c = fst (Cut (cm_Use c) '' '')"

definition subcommand :: "'w command \<Rightarrow> string \<Rightarrow> 'w command option" where
  "subcommand c name = find (\<lambda>s. commandName s = name) (cm_Commands c)"

definition flagsOf :: "'w command \<Rightarrow> string \<Rightarrow> flagValue" where
  "flagsOf c k = (case map_of (cm_Flags c) k of Some v \<Rightarrow> v | None \<Rightarrow> StringFlag [])"

definition withFlag :: "'w command \<Rightarrow> string \<Rightarrow> flagValue \<Rightarrow> 'w command" where
  "withFlag c k v = Command (cm_Use c) (AList.update k v (cm_Flags c)) (cm_DisableFlagParsing c) (cm_Interspersed c)
     (cm_ExactArgs c) (cm_RunE c) (cm_Commands c)"

definition acceptsArgs :: "'w command \<Rightarrow> string list \<Rightarrow> bool" where
  "acceptsArgs c args = (case cm_ExactArgs c of None \<Rightarrow> True | Some n \<Rightarrow> length args = n)"

definition isFlag :: "string \<Rightarrow> bool" where
  "isFlag a = HasPrefix a ''-''"

definition stringFlag :: "(string \<Rightarrow> flagValue) \<Rightarrow> string \<Rightarrow> string" where
  "stringFlag fl k = (case fl k of StringFlag s \<Rightarrow> s | _ \<Rightarrow> [])"

definition durationFlag :: "(string \<Rightarrow> flagValue) \<Rightarrow> string \<Rightarrow> Duration" where
  "durationFlag fl k = (case fl k of DurationFlag d \<Rightarrow> d | _ \<Rightarrow> 0)"

definition boolFlag :: "(string \<Rightarrow> flagValue) \<Rightarrow> string \<Rightarrow> bool" where
  "boolFlag fl k = (case fl k of BoolFlag b \<Rightarrow> b | _ \<Rightarrow> False)"

definition returned :: "('w, unit res) state \<Rightarrow> ('w, ending) state" where
  "returned m = do { r \<leftarrow> m; ret (Returned r) }"

section \<open>The server binary\<close>

text \<open>What the three modes of the server binary need of their surroundings.\<close>

record ('w, 'conn, 'chan, 'h, 'p, 'f, 'q) serverHost =
  sv_Operator :: "'w operatorHost"
  sv_Ssh :: "'w sshlib"
  sv_Web :: "'w weblib"
  sv_Gateway :: "('w, 'conn, 'chan) gatewayHost"
  sv_Files :: "('w, 'h) cliHost"
  sv_CertSigner :: "Certificate \<Rightarrow> Signer \<Rightarrow> Signer res"
  sv_Os :: "('w, 'p) os"
  sv_Pty :: "('w, 'f, 'q) ptyHost"
  sv_Listen :: "('w, 'f, 'q) AgentServer \<Rightarrow> ('w, unit res) state"

definition newOperatorCommand :: "('w, 'conn, 'chan, 'h, 'p, 'f, 'q) serverHost \<Rightarrow> 'w command" where
  "newOperatorCommand host = Command ''operator'' [] True True None
     (Some (\<lambda>fl dash args. do { status \<leftarrow> runOperator (sv_Operator host) args; ret (Exited status) })) []"

definition gatewayFlags :: "gatewayOptions \<Rightarrow> (string \<times> flagValue) list" where
  "gatewayFlags d = [
     (''ssh-address'', StringFlag (gwo_sshAddr d)),
     (''http-address'', StringFlag (gwo_httpAddr d)),
     (''default-namespace'', StringFlag (gwo_defaultNamespace d)),
     (''oidc-issuer'', StringFlag (gwo_oidcIssuer d)),
     (''oidc-client-id'', StringFlag (gwo_oidcClientID d)),
     (''oidc-client-secret'', StringFlag (gwo_oidcClientSecret d)),
     (''principal-claim'', StringFlag (gwo_principalClaim d)),
     (''base-domain'', StringFlag (gwo_baseDomain d)),
     (''cert-ttl'', DurationFlag (gwo_certTTL d))]"

definition parsedGatewayOptions :: "(string \<Rightarrow> flagValue) \<Rightarrow> gatewayOptions" where
  "parsedGatewayOptions fl = \<lparr>gwo_sshAddr = stringFlag fl ''ssh-address'', gwo_httpAddr = stringFlag fl ''http-address'',
     gwo_defaultNamespace = stringFlag fl ''default-namespace'', gwo_oidcIssuer = stringFlag fl ''oidc-issuer'',
     gwo_oidcClientID = stringFlag fl ''oidc-client-id'', gwo_oidcClientSecret = stringFlag fl ''oidc-client-secret'',
     gwo_principalClaim = stringFlag fl ''principal-claim'', gwo_baseDomain = stringFlag fl ''base-domain'',
     gwo_certTTL = durationFlag fl ''cert-ttl''\<rparr>"

definition gatewayCommand :: "('w, 'conn, 'chan, 'h, 'p, 'f, 'q) serverHost \<Rightarrow> 'w command" where
  "gatewayCommand host = Command ''gateway'' (gatewayFlags (newGatewayCommand (ho_Getenv (sv_Files host)))) False True None
     (Some (\<lambda>fl dash args. returned (runGateway (sv_Ssh host) (sv_Web host) (sv_Gateway host) (parsedGatewayOptions fl)))) []"

definition installCommand :: "('w, 'conn, 'chan, 'h, 'p, 'f, 'q) serverHost \<Rightarrow> 'w command" where
  "installCommand host = Command ''install <dir>'' [] False True (Some 1)
     (Some (\<lambda>fl dash args. returned (installSelf (sv_Files host) (hd args)))) []"

definition runAgent :: "('w, 'conn, 'chan, 'h, 'p, 'f, 'q) serverHost \<Rightarrow> int \<Rightarrow> string list \<Rightarrow> ('w, unit res) state" where
  "runAgent host dash args =
     agentCommand (sv_Ssh host) (sv_CertSigner host) (wl_Now (sv_Web host)) (sv_Os host) (sv_Pty host) (sv_Listen host) dash args"

definition newAgentCommand :: "('w, 'conn, 'chan, 'h, 'p, 'f, 'q) serverHost \<Rightarrow> 'w command" where
  "newAgentCommand host = Command agentBinaryName [] False False None
     (Some (\<lambda>fl dash args. returned (runAgent host dash args))) [installCommand host]"

definition serverRoot :: "('w, 'conn, 'chan, 'h, 'p, 'f, 'q) serverHost \<Rightarrow> 'w command" where
  "serverRoot host = Command ''kubepark'' [] False True None None
     [newOperatorCommand host, gatewayCommand host, newAgentCommand host]"

text \<open>The exit status of a process.\<close>

definition exitStatus :: "ending \<Rightarrow> nat" where
  "exitStatus r = (case r of Exited n \<Rightarrow> n | Returned (Inl _) \<Rightarrow> 1 | Returned (Inr _) \<Rightarrow> 0)"

definition serverMain ::
  "('w command \<Rightarrow> string list \<Rightarrow> ('w, ending) state) \<Rightarrow> ('w, 'conn, 'chan, 'h, 'p, 'f, 'q) serverHost \<Rightarrow> string list \<Rightarrow> ('w, nat) state" where
  "serverMain execute host argv = do {
     r \<leftarrow> execute (serverRoot host) (tl (modeArgs argv));
     ret (exitStatus r)
   }"

section \<open>The client\<close>

record ('w, 'h, 'cfg) clientHost =
  cl_Ssh :: "'w sshlib"
  cl_Files :: "('w, 'h) cliHost"
  cl_Login :: "'w loginHost"
  cl_LoadConfig :: "('w, 'cfg res) state"
  cl_NewClient :: "'cfg \<Rightarrow> ('w, 'w kube res) state"
  cl_Now :: "('w, Time) state"

definition newLoginCommand :: "('w, 'h, 'cfg) clientHost \<Rightarrow> 'w command" where
  "newLoginCommand host = Command ''login'' [(''gateway-url'', StringFlag (envOr (cl_Files host) ''KUBEPARK_GATEWAY_URL'' []))] False True None
     (Some (\<lambda>fl dash args. returned (loginCommand (cl_Ssh host) (cl_Files host) (cl_Login host) (stringFlag fl ''gateway-url'')))) []"

definition sshFlagList :: "sshFlags \<Rightarrow> (string \<times> flagValue) list" where
  "sshFlagList d = [
     (''namespace'', StringFlag (sf_namespace d)),
     (''gateway'', StringFlag (sf_gatewayAddr d)),
     (''gateway-user'', StringFlag (sf_gatewayUser d)),
     (''host-ca'', StringFlag (sf_hostCAPath d)),
     (''print-config'', BoolFlag (sf_printConfig d))]"

definition parsedSSHFlags :: "(string \<Rightarrow> flagValue) \<Rightarrow> sshFlags" where
  "parsedSSHFlags fl = \<lparr>sf_namespace = stringFlag fl ''namespace'', sf_gatewayAddr = stringFlag fl ''gateway'',
     sf_gatewayUser = stringFlag fl ''gateway-user'', sf_hostCAPath = stringFlag fl ''host-ca'', sf_printConfig = boolFlag fl ''print-config''\<rparr>"

definition sshCommand :: "('w, 'h, 'cfg) clientHost \<Rightarrow> 'w command" where
  "sshCommand host = Command ''ssh <sandbox>'' (sshFlagList (newSSHCommand (cl_Files host))) False True (Some 1)
     (Some (\<lambda>fl dash args. returned (runSSH (cl_Ssh host) (cl_Files host) (parsedSSHFlags fl) (hd args)))) []"

definition parsedSignCertFlags :: "(string \<Rightarrow> flagValue) \<Rightarrow> signCertFlags" where
  "parsedSignCertFlags fl = \<lparr>cf_principal = stringFlag fl ''principal'', cf_namespace = stringFlag fl ''ca-namespace'', cf_ttl = durationFlag fl ''ttl''\<rparr>"

definition signCert :: "('w, 'h, 'cfg) clientHost \<Rightarrow> 'w command" where
  "signCert host = Command ''sign-cert'' [
     (''principal'', StringFlag (cf_principal newSignCertCommand)),
     (''ca-namespace'', StringFlag (cf_namespace newSignCertCommand)),
     (''ttl'', DurationFlag (cf_ttl newSignCertCommand))] False True None
     (Some (\<lambda>fl dash args. returned (signCertCommand (cl_Ssh host) (cl_Files host) (cl_LoadConfig host) (cl_NewClient host) (cl_Now host)
        (parsedSignCertFlags fl)))) []"

definition newAdminCommand :: "('w, 'h, 'cfg) clientHost \<Rightarrow> 'w command" where
  "newAdminCommand host = Command ''admin'' [] False True None None [signCert host]"

definition clientRoot :: "('w, 'h, 'cfg) clientHost \<Rightarrow> 'w command" where
  "clientRoot host = Command ''kubepark'' [] False True None None [newLoginCommand host, sshCommand host, newAdminCommand host]"

definition clientMain ::
  "('w command \<Rightarrow> string list \<Rightarrow> ('w, ending) state) \<Rightarrow> ('w, 'h, 'cfg) clientHost \<Rightarrow> string list \<Rightarrow> ('w, nat) state" where
  "clientMain execute host argv = do {
     r \<leftarrow> execute (clientRoot host) (tl argv);
     ret (exitStatus r)
   }"

section \<open>What cobra promises\<close>

text \<open>
  Arguments are read from the left.  A word that is no flag and names a
  subcommand selects it; \<open>--\<close> ends the flags, and the arguments behind it
  are passed on as they are; a string flag is set to what follows its equals
  sign, and the last one counts; a command that has disabled the parsing of flags
  gets everything; \<open>ExactArgs\<close> is checked before the command runs; a
  command without \<open>RunE\<close> prints its help.
\<close>

locale cobra_library =
  fixes execute :: "'w command \<Rightarrow> string list \<Rightarrow> ('w, ending) state"
  assumes descend: "subcommand c a = Some s \<Longrightarrow> \<not> isFlag a \<Longrightarrow> \<not> cm_DisableFlagParsing c \<Longrightarrow> execute c (a # args) = execute s args"
    and string_flag: "map_of (cm_Flags c) k = Some (StringFlag d) \<Longrightarrow> k \<noteq> [] \<Longrightarrow> CHR ''='' \<notin> set k \<Longrightarrow> \<not> isFlag k \<Longrightarrow>
      \<not> cm_DisableFlagParsing c \<Longrightarrow> cm_Commands c = [] \<Longrightarrow>
      execute c ((''--'' @ k @ ''='' @ v) # args) = execute (withFlag c k (StringFlag v)) args"
    and dashed: "cm_RunE c = Some f \<Longrightarrow> \<not> cm_DisableFlagParsing c \<Longrightarrow> acceptsArgs c args \<Longrightarrow>
      execute c (''--'' # args) = f (flagsOf c) 0 args"
    and positional: "cm_RunE c = Some f \<Longrightarrow> \<not> cm_DisableFlagParsing c \<Longrightarrow> acceptsArgs c args \<Longrightarrow> list_all (\<lambda>a. \<not> isFlag a) args \<Longrightarrow>
      args = [] \<or> subcommand c (hd args) = None \<Longrightarrow> execute c args = f (flagsOf c) (-1) args"
    and wrong_count: "cm_RunE c = Some f \<Longrightarrow> \<not> cm_DisableFlagParsing c \<Longrightarrow> \<not> acceptsArgs c args \<Longrightarrow> list_all (\<lambda>a. \<not> isFlag a) args \<Longrightarrow>
      args = [] \<or> subcommand c (hd args) = None \<Longrightarrow> \<exists>e. execute c args = ret (Returned (Inl e))"
    and raw: "cm_RunE c = Some f \<Longrightarrow> cm_DisableFlagParsing c \<Longrightarrow> cm_Commands c = [] \<Longrightarrow> cm_ExactArgs c = None \<Longrightarrow>
      execute c args = f (flagsOf c) (-1) args"
    and usage: "cm_RunE c = None \<Longrightarrow> execute c [] = ret (Returned (Inr ()))"
begin

text \<open>Setting string flags one by one.\<close>

lemma string_flags:
  assumes "\<forall>(k, v) \<in> set fs. k \<noteq> [] \<and> CHR ''='' \<notin> set k \<and> \<not> isFlag k \<and> (\<exists>d. map_of (cm_Flags c) k = Some (StringFlag d))"
    "\<not> cm_DisableFlagParsing c" "cm_Commands c = []"
  shows "execute c (map (\<lambda>(k, v). ''--'' @ k @ ''='' @ v) fs @ args) = execute (fold (\<lambda>(k, v) c. withFlag c k (StringFlag v)) fs c) args"
  using assms
proof (induction fs arbitrary: c)
  case (Cons kv fs)
  obtain k v where kv: "kv = (k, v)" by (cases kv)
  from Cons.prems kv obtain d where k: "k \<noteq> []" "CHR ''='' \<notin> set k" "\<not> isFlag k" "map_of (cm_Flags c) k = Some (StringFlag d)" by auto
  have "execute c ((''--'' @ k @ ''='' @ v) # map (\<lambda>(k, v). ''--'' @ k @ ''='' @ v) fs @ args) =
    execute (withFlag c k (StringFlag v)) (map (\<lambda>(k, v). ''--'' @ k @ ''='' @ v) fs @ args)"
    by (rule string_flag) (use k Cons.prems in auto)
  also have "\<dots> = execute (fold (\<lambda>(k, v) c. withFlag c k (StringFlag v)) fs (withFlag c k (StringFlag v))) args"
    by (rule Cons.IH) (use Cons.prems in \<open>auto simp: withFlag_def update_conv' split: if_splits\<close>)
  finally show ?case by (simp add: kv)
qed simp

end

section \<open>A reference implementation\<close>

text \<open>One that behaves as documented, for evaluating whole command lines.\<close>

definition invoke :: "'w command \<Rightarrow> int \<Rightarrow> string list \<Rightarrow> ('w, ending) state" where
  "invoke c dash args =
     (case cm_RunE c of
        None \<Rightarrow> ret (Returned (Inr ()))
      | Some f \<Rightarrow> if acceptsArgs c args then f (flagsOf c) dash args
          else ret (Returned (Inl (OtherErr (''accepts a number of arg(s), received '' @ show_nat (length args))))))"

definition setStringFlag :: "'w command \<Rightarrow> string \<Rightarrow> 'w command option" where
  "setStringFlag c kv =
     (case Cut kv ''='' of (k, v, found) \<Rightarrow>
        (case map_of (cm_Flags c) k of
           Some (StringFlag _) \<Rightarrow> if found then Some (withFlag c k (StringFlag v)) else None
         | _ \<Rightarrow> None))"

fun refExecute :: "'w command \<Rightarrow> string list \<Rightarrow> ('w, ending) state" where
  "refExecute c [] = invoke c (-1) []"
| "refExecute c (a # args) =
     (if cm_DisableFlagParsing c then invoke c (-1) (a # args)
      else if a = ''--'' then invoke c 0 args
      else if isFlag a then
        (case setStringFlag c (drop 2 a) of
           None \<Rightarrow> ret (Returned (Inl (OtherErr (''unknown flag: '' @ a))))
         | Some c' \<Rightarrow> refExecute c' args)
      else (case subcommand c a of
           Some s \<Rightarrow> refExecute s args
         | None \<Rightarrow> invoke c (-1) (a # args)))"

lemma setStringFlag_set:
  "map_of (cm_Flags c) k = Some (StringFlag d) \<Longrightarrow> CHR ''='' \<notin> set k \<Longrightarrow> setStringFlag c (k @ CHR ''='' # v) = Some (withFlag c k (StringFlag v))"
  using Cut_iff [of "''=''" "k @ ''='' @ v" k v] by (simp add: setStringFlag_def)

lemma refExecute_raw: "cm_DisableFlagParsing c \<Longrightarrow> refExecute c args = invoke c (-1) args"
  by (cases args) auto

interpretation refCobra: cobra_library refExecute
proof
  fix c :: "'a command" and args f
  assume run: "cm_RunE c = Some f" "\<not> cm_DisableFlagParsing c" and plain: "list_all (\<lambda>a. \<not> isFlag a) args" "args = [] \<or> subcommand c (hd args) = None"
  have ref: "refExecute c args = invoke c (-1) args"
    using run plain by (cases args) (auto simp: isFlag_def HasPrefix_def)
  show "refExecute c args = f (flagsOf c) (-1) args" if "acceptsArgs c args" using run(1) that by (simp add: ref invoke_def)
  show "\<exists>e. refExecute c args = ret (Returned (Inl e))" if "\<not> acceptsArgs c args"
    using run(1) that by (auto simp: ref invoke_def simp del: append.simps)
qed (auto simp: isFlag_def HasPrefix_def invoke_def setStringFlag_set refExecute_raw acceptsArgs_def split: option.split)

end
