(* ===== verification/Cli_Paths.thy ===== *)
theory Cli_Paths
  imports Cli
begin

text \<open>
  Cleaned paths: the last element of a path survives \<open>filepath.Clean\<close>, so
  files with different names in one directory stay different.
\<close>

lemma components_ne [simp]: "components s \<noteq> []"
  by (induction s rule: components.induct) (auto split: list.splits)

lemma components_append: "components (a @ CHR ''/'' # b) = components a @ components b"
  by (induction a rule: components.induct) (auto split: list.splits)

lemma components_plain: "CHR ''/'' \<notin> set x \<Longrightarrow> components x = [x]"
  by (induction x rule: components.induct) auto

text \<open>An ordinary file name.\<close>

definition plain_name :: "string \<Rightarrow> bool" where
  "plain_name x \<longleftrightarrow> x \<noteq> [] \<and> x \<noteq> ''.'' \<and> x \<noteq> ''..'' \<and> CHR ''/'' \<notin> set x"

definition leaf :: "string \<Rightarrow> string" where
  "leaf path = last (components path)"

lemma leaf_append: "leaf (a @ CHR ''/'' # b) = leaf b"
  by (simp add: leaf_def components_append)

lemma leaf_plain: "plain_name x \<Longrightarrow> leaf x = x"
  by (simp add: leaf_def plain_name_def components_plain)

lemma Join_snoc: "Join (ys @ [x]) sep = (if ys = [] then x else Join ys sep @ sep @ x)"
  by (induction ys rule: induct_list012) auto

lemma leaf_joined: "plain_name x \<Longrightarrow> leaf (Join (ys @ [x]) ''/'') = x"
  by (simp add: Join_snoc leaf_plain leaf_append)

lemma leaf_Clean:
  assumes "plain_name (leaf p)"
  shows "leaf (Clean p) = leaf p"
proof -
  let ?x = "leaf p"
  have "components p = butlast (components p) @ [?x]" by (simp add: leaf_def)
  then have "foldl (cleanStep (rooted p)) [] (components p) = cleanStep (rooted p) (foldl (cleanStep (rooted p)) [] (butlast (components p))) ?x"
    by (metis foldl_Cons foldl_Nil foldl_append)
  also have "\<dots> = ?x # foldl (cleanStep (rooted p)) [] (butlast (components p))"
    using assms by (simp add: cleanStep_def plain_name_def)
  finally obtain ys where ys: "rev (foldl (cleanStep (rooted p)) [] (components p)) = ys @ [?x]" by simp
  have "Join (ys @ [?x]) ''/'' \<noteq> []" using assms by (auto simp: Join_snoc plain_name_def)
  then show ?thesis
    using leaf_joined [OF assms, of ys] leaf_append [of "[]" "Join (ys @ [?x]) ''/''"] by (simp add: Clean_def ys Let_def)
qed

lemma leaf_JoinPath:
  assumes "dir \<noteq> []" "plain_name x"
  shows "leaf (JoinPath [dir, x]) = x"
  using assms leaf_Clean [of "dir @ ''/'' @ x"] by (simp add: JoinPath_def leaf_append leaf_plain)

lemma leaf_takeWhile: "leaf p = rev (takeWhile (\<lambda>c. c \<noteq> CHR ''/'') (rev p))"
proof (cases "CHR ''/'' \<in> set p")
  case True
  from split_list_last [OF this] obtain a b where p: "p = a @ CHR ''/'' # b" "CHR ''/'' \<notin> set b" by blast
  have "takeWhile (\<lambda>c. c \<noteq> CHR ''/'') (rev b @ CHR ''/'' # rev a) = rev b @ takeWhile (\<lambda>c. c \<noteq> CHR ''/'') (CHR ''/'' # rev a)"
    by (rule takeWhile_append2) (use p(2) in auto)
  moreover have "leaf p = b" unfolding p(1) leaf_append by (simp add: leaf_def components_plain p(2))
  ultimately show ?thesis by (simp add: p(1))
next
  case False
  then have all: "takeWhile (\<lambda>c. c \<noteq> CHR ''/'') (rev p) = rev p" by (auto simp: takeWhile_eq_all_conv)
  show ?thesis unfolding all using False by (simp add: leaf_def components_plain)
qed

end
