(* ===== verification/Cli_Safety.thy ===== *)
theory Cli_Safety
  imports Cli_Paths Gateway_Boot
begin

unbundle bit_operations_syntax

text \<open>
  What the commands do to files.  The locale states what the operating system
  promises about the files named by cleaned paths; the lemmas follow the commands
  through it.
\<close>

declare split_paired_All [simp del] split_paired_Ex [simp del]

section \<open>The promises of the operating system\<close>

type_synonym files = "string \<rightharpoonup> bytes \<times> nat"

text \<open>The directory part of a temporary name, and the mode of a written file.\<close>

definition tempPrefix :: "string \<Rightarrow> string \<Rightarrow> string" where
  "tempPrefix dir pre = (if HasSuffix dir ''/'' then dir @ pre else dir @ ''/'' @ pre)"

definition written :: "files \<Rightarrow> string \<Rightarrow> bytes \<Rightarrow> nat \<Rightarrow> files \<Rightarrow> bool" where
  "written fs p b perm fs' \<longleftrightarrow> (\<exists>m. fs' = fs(Clean p \<mapsto> (b, m)) \<and>
     (case fs (Clean p) of None \<Rightarrow> m AND perm = m | Some (_, m0) \<Rightarrow> m = m0))"

lemma triple_ex: "(\<And>x. triple (P x) m Q) \<Longrightarrow> triple (\<lambda>w. \<exists>x. P x w) m Q"
  by (auto simp: triple_def)

lemma triple_pure: "(A \<Longrightarrow> triple P m Q) \<Longrightarrow> triple (\<lambda>w. A \<and> P w) m Q"
  by (auto simp: triple_def)

text \<open>A call, its failure and its success.\<close>

lemma triple_case:
  assumes "triple P m (\<lambda>r w. case r of Inl e \<Rightarrow> E e w | Inr x \<Rightarrow> R x w)" "\<And>e. triple (E e) (f e) Q" "\<And>x. triple (R x) (g x) Q"
  shows "triple P (State_Monad.bind m (\<lambda>r. case r of Inl e \<Rightarrow> f e | Inr x \<Rightarrow> g x)) Q"
proof (rule triple_bind [OF assms(1)])
  fix r
  show "triple (\<lambda>w. case r of Inl e \<Rightarrow> E e w | Inr x \<Rightarrow> R x w) (case r of Inl e \<Rightarrow> f e | Inr x \<Rightarrow> g x) Q"
    by (cases r) (simp_all add: assms(2,3))
qed

lemma show_nat_digits: "CHR ''/'' \<notin> set (show_nat i)"
proof (induction i rule: show_nat.induct)
  case (1 n)
  have "char_of (48 + k) \<noteq> CHR ''/''" if "k < 10" for k :: nat
  proof
    assume "char_of (48 + k) = CHR ''/''"
    then have "of_char (char_of (48 + k) :: char) = (47 :: nat)" by simp
    with that show False by simp
  qed
  with 1 show ?case by (subst show_nat.simps) (auto dest: sym)
qed

lemma temp_leaf: "leaf (Clean (tempPrefix dir ''.agent-'' @ show_nat i)) = ''.agent-'' @ show_nat i"
proof -
  have plain: "plain_name (''.agent-'' @ show_nat i)"
    using show_nat_digits [of i] by (auto simp: plain_name_def)
  have "leaf (tempPrefix dir ''.agent-'' @ show_nat i) = leaf (''.agent-'' @ show_nat i)"
  proof (cases "HasSuffix dir ''/''")
    case True
    then obtain d where "dir = d @ ''/''" by (auto simp: HasSuffix_def suffix_def)
    then show ?thesis using leaf_append [of d "''.agent-'' @ show_nat i"] True by (simp add: tempPrefix_def)
  next
    case False
    then show ?thesis using leaf_append [of dir "''.agent-'' @ show_nat i"] by (simp add: tempPrefix_def)
  qed
  with plain show ?thesis by (metis leaf_Clean leaf_plain)
qed

lemma binary_leaf: "dir \<noteq> [] \<Longrightarrow> leaf (Clean (JoinPath [dir, agentBinaryName])) = agentBinaryName"
  using leaf_Clean [of "JoinPath [dir, agentBinaryName]"] leaf_JoinPath [of dir agentBinaryName]
  by (simp add: agentBinaryName_def plain_name_def)

text \<open>Nothing but one new file beside \<open>d\<close> may be different.\<close>

definition stray :: "string \<Rightarrow> files \<Rightarrow> files \<Rightarrow> bool" where
  "stray d fs fs' \<longleftrightarrow> fs' = fs \<or> (\<exists>t x. t \<noteq> d \<and> fs t = None \<and> fs' = fs(t := x))"

lemma strayI: "t \<noteq> d \<Longrightarrow> fs t = None \<Longrightarrow> stray d fs (fs(t := x))"
  by (auto simp: stray_def)

lemma triple_provided: "triple P m Q \<Longrightarrow> triple P m (\<lambda>r w. Q r w \<and> provided m r)"
  by (auto simp: triple_def provided_def)

text \<open>What \<open>installSelf\<close> leaves behind; the copy is of the executable \<open>self\<close>.\<close>

definition install_post :: "('w, 'h) cliHost \<Rightarrow> ('w \<Rightarrow> files) \<Rightarrow> string \<Rightarrow> files \<Rightarrow> unit res \<Rightarrow> 'w \<Rightarrow> bool" where
  "install_post H files d fs r w = (case r of
       Inl _ \<Rightarrow> stray d fs (files w)
     | Inr _ \<Rightarrow> \<exists>self b ms. provided (ho_Executable H) (Inr self) \<and> fs (Clean self) = Some (b, ms) \<and> stray d (fs(d \<mapsto> (b, octal 7 5 5))) (files w))"

locale file_system =
  fixes H :: "('w, 'h) cliHost" and files :: "'w \<Rightarrow> files" and names :: "'h \<Rightarrow> string"
  assumes homes: "triple (\<lambda>w. files w = fs) (ho_UserHomeDir H) (\<lambda>_ w. files w = fs)"
    and mkdirs: "triple (\<lambda>w. files w = fs) (ho_MkdirAll H p m) (\<lambda>_ w. files w = fs)"
    and stats: "triple (\<lambda>w. files w = fs) (ho_Stat H p) (\<lambda>_ w. files w = fs)"
    and executables: "triple (\<lambda>w. files w = fs) (ho_Executable H) (\<lambda>_ w. files w = fs)"
    and reads: "triple (\<lambda>w. files w = fs) (ho_ReadFile H p)
      (\<lambda>r w. files w = fs \<and> (case r of Inl _ \<Rightarrow> True | Inr b \<Rightarrow> \<exists>m. fs (Clean p) = Some (b, m)))"
    and writes: "triple (\<lambda>w. files w = fs) (ho_WriteFile H p b perm)
      (\<lambda>r w. case r of Inl _ \<Rightarrow> \<exists>x. files w = fs(Clean p := x) | Inr _ \<Rightarrow> written fs p b perm (files w))"
    and opens: "triple (\<lambda>w. files w = fs) (ho_Open H p)
      (\<lambda>r w. files w = fs \<and> (case r of Inl _ \<Rightarrow> True | Inr h \<Rightarrow> names h = p))"
    and creates_temp: "dir \<noteq> [] \<Longrightarrow> CHR ''*'' \<notin> set pre \<Longrightarrow> triple (\<lambda>w. files w = fs) (ho_CreateTemp H dir (pre @ ''*''))
      (\<lambda>r w. case r of
         Inl _ \<Rightarrow> files w = fs
       | Inr (h, n) \<Rightarrow> names h = n \<and> (\<exists>i m. n = tempPrefix dir pre @ show_nat i \<and> files w = fs(Clean n \<mapsto> ([], m))) \<and> fs (Clean n) = None)"
    and copies: "triple (\<lambda>w. files w = fs \<and> fs (Clean (names dst)) = Some ([], m)) (ho_Copy H dst src)
      (\<lambda>r w. case r of
         Inl _ \<Rightarrow> \<exists>b. files w = fs(Clean (names dst) \<mapsto> (b, m))
       | Inr _ \<Rightarrow> \<exists>b ms. fs (Clean (names src)) = Some (b, ms) \<and> files w = fs(Clean (names dst) \<mapsto> (b, m)))"
    and chmods: "triple (\<lambda>w. files w = fs) (ho_Chmod H h mode)
      (\<lambda>r w. case r of Inl _ \<Rightarrow> files w = fs | Inr _ \<Rightarrow> files w = fs(Clean (names h) := map_option (\<lambda>(b, _). (b, mode)) (fs (Clean (names h)))))"
    and closes: "triple (\<lambda>w. files w = fs) (ho_Close H h) (\<lambda>_ w. files w = fs)"
    and renames: "triple (\<lambda>w. files w = fs) (ho_Rename H old new)
      (\<lambda>r w. case r of Inl _ \<Rightarrow> files w = fs | Inr _ \<Rightarrow> files w = fs(Clean old := None, Clean new := fs (Clean old)))"
    and removes: "triple (\<lambda>w. files w = fs) (ho_Remove H p)
      (\<lambda>r w. case r of Inl _ \<Rightarrow> files w = fs | Inr _ \<Rightarrow> files w = fs(Clean p := None))"
begin

text \<open>Moving the finished copy into place: all or nothing, apart from the temporary file.\<close>

lemma installCopy_moves:
  assumes "fs (Clean tmpName) = Some ([], m)" "names tmp = tmpName" "Clean dst \<noteq> Clean tmpName"
  shows "triple (\<lambda>w. files w = fs) (installCopy H src tmp tmpName dst)
    (\<lambda>r w. case r of
       Inl _ \<Rightarrow> \<exists>x. files w = fs(Clean tmpName := x)
     | Inr _ \<Rightarrow> \<exists>b ms. fs (Clean (names src)) = Some (b, ms) \<and> files w = fs(Clean tmpName := None, Clean dst \<mapsto> (b, octal 7 5 5)))"
proof -
  let ?t = "Clean tmpName" and ?d = "Clean dst"
  let ?Q = "\<lambda>r w. case r of Inl _ \<Rightarrow> \<exists>x. files w = fs(?t := x)
     | Inr _ \<Rightarrow> \<exists>b ms. fs (Clean (names src)) = Some (b, ms) \<and> files w = fs(?t := None, ?d \<mapsto> (b, octal 7 5 5))"
  have fail: "triple (\<lambda>w. files w = fs(?t := x)) (do { closed \<leftarrow> ho_Close H tmp; ret (Inl e) }) ?Q" for x e
    by (rule triple_bind [OF closes], rule triple_ret) auto
  have keep: "triple (\<lambda>w. files w = fs(?t \<mapsto> (b, k))) (ret (Inl e)) ?Q" for b k e by (rule triple_ret) auto
  have move: "triple (\<lambda>w. files w = fs(?t \<mapsto> (b, octal 7 5 5))) (do { renamed \<leftarrow> ho_Rename H tmpName dst;
      (case renamed of Inl e \<Rightarrow> ret (Inl (Wrapped ''rename into place'' e)) | Inr _ \<Rightarrow> ret (Inr ())) }) ?Q"
    if "fs (Clean (names src)) = Some (b, ms)" for b ms
    by (rule triple_case [OF renames keep], rule triple_ret) (use that in \<open>auto simp: assms(3)\<close>)
  have shut: "triple (\<lambda>w. files w = fs') (ho_Close H tmp) (\<lambda>r w. case r of Inl e \<Rightarrow> files w = fs' | Inr _ \<Rightarrow> files w = fs')" for fs'
    by (rule triple_weaken [OF closes]) (auto split: sum.split)
  have mode: "triple (\<lambda>w. files w = fs(?t \<mapsto> (b, m))) (ho_Chmod H tmp (octal 7 5 5))
      (\<lambda>r w. case r of Inl e \<Rightarrow> files w = fs(?t := Some (b, m)) | Inr _ \<Rightarrow> files w = fs(?t \<mapsto> (b, octal 7 5 5)))" for b
    by (rule triple_weaken [OF chmods]) (auto simp: assms(2) split: sum.splits)
  have finish: "triple (\<lambda>w. files w = fs(?t \<mapsto> (b, m))) (do { moded \<leftarrow> ho_Chmod H tmp (octal 7 5 5);
      (case moded of
         Inl e \<Rightarrow> do { closed \<leftarrow> ho_Close H tmp; ret (Inl (Wrapped ''chmod'' e)) }
       | Inr _ \<Rightarrow> do { closed \<leftarrow> ho_Close H tmp;
           (case closed of Inl e \<Rightarrow> ret (Inl (Wrapped ''close temp file'' e))
            | Inr _ \<Rightarrow> do { renamed \<leftarrow> ho_Rename H tmpName dst;
                (case renamed of Inl e \<Rightarrow> ret (Inl (Wrapped ''rename into place'' e)) | Inr _ \<Rightarrow> ret (Inr ())) }) }) }) ?Q"
    if "fs (Clean (names src)) = Some (b, ms)" for b ms
    by (rule triple_case [OF mode fail], rule triple_case [OF shut keep], rule move [OF that])
  have copied: "triple (\<lambda>w. files w = fs) (ho_Copy H tmp src) (\<lambda>r w. case r of Inl _ \<Rightarrow> \<exists>x. files w = fs(?t := x)
      | Inr _ \<Rightarrow> \<exists>b ms. fs (Clean (names src)) = Some (b, ms) \<and> files w = fs(?t \<mapsto> (b, m)))"
    by (rule triple_weaken [OF copies [of fs tmp m src]]) (auto simp: assms(1,2) split: sum.splits)
  show ?thesis
    unfolding installCopy_def
    by (rule triple_case [OF copied]; (rule triple_ex)+; (rule fail | rule triple_pure, rule finish))
qed

text \<open>The temporary file never has the name of the binary.\<close>

lemma removes_any:
  assumes "\<And>fs. P fs \<Longrightarrow> P (fs(Clean p := None))"
  shows "triple (\<lambda>w. P (files w)) (ho_Remove H p) (\<lambda>_ w. P (files w))"
  unfolding triple_def
proof (intro allI impI)
  fix w
  assume "P (files w)"
  with removes [of "files w" p, unfolded triple_def, rule_format, OF refl] assms [of "files w"]
  show "P (files (snd (run_state (ho_Remove H p) w)))" by (auto split: sum.splits)
qed

lemma closes_any: "triple (\<lambda>w. P (files w)) (ho_Close H h) (\<lambda>_ w. P (files w))"
  using closes [of _ h] by (simp add: triple_def)

lemma installSelf_tail:
  assumes "dir \<noteq> []" "\<forall>p. provided (ho_Executable H) (Inr p) \<longrightarrow> fs (Clean p) \<noteq> None" "d = Clean (JoinPath [dir, agentBinaryName])"
    and n: "n = tempPrefix dir ''.agent-'' @ show_nat i" "names tmp = n" "fs (Clean n) = None"
    and self: "provided (ho_Executable H) (Inr self)" "names src = self"
  shows "triple (\<lambda>w. files w = fs(Clean n \<mapsto> ([], m))) (do {
      result \<leftarrow> installCopy H src tmp n (JoinPath [dir, agentBinaryName]); removed \<leftarrow> ho_Remove H n; closed \<leftarrow> ho_Close H src; ret result })
    (install_post H files d fs)"
proof -
  let ?t = "Clean n"
  have ne: "d \<noteq> ?t" using temp_leaf [of dir i] binary_leaf [OF assms(1)] unfolding assms(3) n(1) by (auto simp: agentBinaryName_def)
  have src: "Clean self \<noteq> ?t" using assms(2) self(1) n(3) by auto
  define P where "P = (\<lambda>r :: unit res. \<lambda>fs'. case r of Inl _ \<Rightarrow> \<exists>x. fs' = fs(?t := x)
    | Inr _ \<Rightarrow> \<exists>b ms. fs (Clean self) = Some (b, ms) \<and> (\<exists>x. fs' = fs(d \<mapsto> (b, octal 7 5 5), ?t := x)))"
  have moved: "triple (\<lambda>w. files w = fs(?t \<mapsto> ([], m))) (installCopy H src tmp n (JoinPath [dir, agentBinaryName])) (\<lambda>r w. P r (files w))"
    by (rule triple_weaken [OF installCopy_moves [of "fs(?t \<mapsto> ([], m))" n m tmp "JoinPath [dir, agentBinaryName]" src]])
      (use n ne src self(2) in \<open>auto simp: P_def assms(3) [symmetric] fun_upd_twist split: sum.splits\<close>)
  have gone: "P r fs' \<Longrightarrow> P r (fs'(?t := None))" for r fs'
    by (cases r) (auto simp: P_def)
  have result: "triple (\<lambda>w. P r (files w)) (ret r) (install_post H files d fs)" for r
  proof (rule triple_ret)
    fix w
    assume "P r (files w)"
    moreover have "stray d fs (fs(?t := x))" "stray d (fs(d \<mapsto> f)) (fs(d \<mapsto> f, ?t := x))" for f x
      by (rule strayI; use ne n(3) in simp)+
    ultimately show "install_post H files d fs r w" using self(1) by (cases r) (simp_all add: P_def install_post_def, metis+)
  qed
  have removed: "triple (\<lambda>w. P r (files w)) (ho_Remove H n) (\<lambda>_ w. P r (files w))" for r
    by (rule removes_any) (rule gone)
  have closed: "triple (\<lambda>w. P r (files w)) (ho_Close H src) (\<lambda>_ w. P r (files w))" for r
    by (rule closes_any)
  show ?thesis
    by (rule triple_bind [OF moved], rule triple_bind [OF removed], rule triple_bind [OF closed], rule result)
qed

lemma installSelf_outcome:
  assumes "dir \<noteq> []" "\<forall>p. provided (ho_Executable H) (Inr p) \<longrightarrow> fs (Clean p) \<noteq> None" "d = Clean (JoinPath [dir, agentBinaryName])"
  shows "triple (\<lambda>w. files w = fs) (installSelf H dir) (install_post H files d fs)"
proof -
  have err: "triple (\<lambda>w. files w = fs) (ret (Inl e)) (install_post H files d fs)" for e by (rule triple_ret) (simp add: install_post_def stray_def)
  have fail: "triple (\<lambda>w. files w = fs) (do { closed \<leftarrow> ho_Close H src; ret (Inl e) }) (install_post H files d fs)" for src e
    by (rule triple_bind [OF closes]) (rule err)
  have exe: "triple (\<lambda>w. files w = fs) (ho_Executable H) (\<lambda>r w. case r of Inl _ \<Rightarrow> files w = fs
      | Inr self \<Rightarrow> provided (ho_Executable H) (Inr self) \<and> files w = fs)"
    by (rule triple_weaken [OF triple_provided [OF executables]]) (auto split: sum.splits)
  have opened: "triple (\<lambda>w. files w = fs) (ho_Open H self) (\<lambda>r w. case r of Inl _ \<Rightarrow> files w = fs | Inr h \<Rightarrow> names h = self \<and> files w = fs)" for self
    by (rule triple_weaken [OF opens]) (auto split: sum.splits)
  have made: "triple (\<lambda>w. files w = fs) (ho_MkdirAll H p k) (\<lambda>r w. case r of Inl _ \<Rightarrow> files w = fs | Inr _ \<Rightarrow> files w = fs)" for p k
    by (rule triple_weaken [OF mkdirs]) (auto split: sum.splits)
  have temp: "triple (\<lambda>w. files w = fs) (ho_CreateTemp H dir ''.agent-*'') (\<lambda>r w. case r of Inl _ \<Rightarrow> files w = fs
      | Inr hn \<Rightarrow> \<exists>i m. (names (fst hn) = snd hn \<and> snd hn = tempPrefix dir ''.agent-'' @ show_nat i \<and> fs (Clean (snd hn)) = None) \<and>
          files w = fs(Clean (snd hn) \<mapsto> ([], m)))"
    by (rule triple_weaken [OF creates_temp [OF assms(1), of "''.agent-''", simplified]]) (auto split: sum.splits)
  show ?thesis
    unfolding installSelf_def
    apply (rule triple_case [OF exe err], rule triple_pure)
    apply (rule triple_case [OF opened err], rule triple_pure)
    apply (rule triple_case [OF made fail])
    apply (rule triple_case [OF temp fail], (rule triple_ex)+, rule triple_pure)
    by (auto intro: installSelf_tail [OF assms])
qed

end

section \<open>The keys of the client\<close>

text \<open>Computations that leave files alone.\<close>

definition leaves :: "('w \<Rightarrow> files) \<Rightarrow> ('w, 'a) state \<Rightarrow> bool" where
  "leaves files m \<longleftrightarrow> (\<forall>w. files (snd (run_state m w)) = files w)"

named_theorems leaves_rules

lemma leaves_ret [leaves_rules]: "leaves files (ret x)"
  by (simp add: leaves_def)

lemma leaves_bind [leaves_rules]: "leaves files m \<Longrightarrow> (\<And>a. leaves files (f a)) \<Longrightarrow> leaves files (State_Monad.bind m f)"
  by (simp add: leaves_def split_beta)

lemma leaves_cases [leaves_rules]:
  "(b \<Longrightarrow> leaves files m) \<Longrightarrow> (\<not> b \<Longrightarrow> leaves files n) \<Longrightarrow> leaves files (if b then m else n)"
  "(\<And>e. r = Inl e \<Longrightarrow> leaves files (f e)) \<Longrightarrow> (\<And>x. r = Inr x \<Longrightarrow> leaves files (g x)) \<Longrightarrow> leaves files (case r of Inl e \<Rightarrow> f e | Inr x \<Rightarrow> g x)"
  by (simp_all split: sum.split)

lemma leaves_triple: "leaves files m \<Longrightarrow> triple (\<lambda>w. files w = fs) m (\<lambda>_ w. files w = fs)"
  by (simp add: leaves_def triple_def)

lemma leavesI: "(\<And>fs. triple (\<lambda>w. files w = fs) m (\<lambda>_ w. files w = fs)) \<Longrightarrow> leaves files m"
  by (auto simp: leaves_def triple_def)

text \<open>The files of the client under a home directory.\<close>

definition kubeparkDir :: "string \<Rightarrow> string" where "kubeparkDir h = JoinPath [h, ''.kubepark'']"
definition privFile :: "string \<Rightarrow> string" where "privFile h = JoinPath [kubeparkDir h, ''id_ed25519'']"
definition pubFile :: "string \<Rightarrow> string" where "pubFile h = privFile h @ ''.pub''"
definition certFile :: "string \<Rightarrow> string" where "certFile h = JoinPath [kubeparkDir h, ''id_ed25519-cert.pub'']"

lemma JoinPath_ne: "x \<noteq> [] \<Longrightarrow> JoinPath [d, x] \<noteq> []"
  by (simp add: JoinPath_def Clean_def Let_def)

lemma leaf_extend: "CHR ''/'' \<notin> set s \<Longrightarrow> leaf (p @ s) = leaf p @ s"
proof -
  assume "CHR ''/'' \<notin> set s"
  then have "takeWhile (\<lambda>c. c \<noteq> CHR ''/'') (rev s @ rev p) = rev s @ takeWhile (\<lambda>c. c \<noteq> CHR ''/'') (rev p)"
    by (intro takeWhile_append2) auto
  then show ?thesis by (simp add: leaf_takeWhile)
qed

lemma client_leaves:
  "leaf (Clean (privFile h)) = ''id_ed25519''" "leaf (Clean (pubFile h)) = ''id_ed25519.pub''" "leaf (Clean (certFile h)) = ''id_ed25519-cert.pub''"
proof -
  have dir: "kubeparkDir h \<noteq> []" unfolding kubeparkDir_def by (rule JoinPath_ne) simp
  have priv: "leaf (privFile h) = ''id_ed25519''" unfolding privFile_def by (rule leaf_JoinPath [OF dir]) (simp add: plain_name_def)
  have cert: "leaf (certFile h) = ''id_ed25519-cert.pub''" unfolding certFile_def by (rule leaf_JoinPath [OF dir]) (simp add: plain_name_def)
  have pub: "leaf (pubFile h) = ''id_ed25519.pub''" unfolding pubFile_def by (subst leaf_extend) (simp_all add: priv)
  show "leaf (Clean (privFile h)) = ''id_ed25519''" "leaf (Clean (pubFile h)) = ''id_ed25519.pub''" "leaf (Clean (certFile h)) = ''id_ed25519-cert.pub''"
    by (simp_all add: leaf_Clean priv pub cert plain_name_def)
qed

lemma client_files_distinct: "Clean (certFile h) \<noteq> Clean (privFile h)" "Clean (certFile h) \<noteq> Clean (pubFile h)"
  by (rule notI, drule arg_cong [where f = leaf], simp add: client_leaves)+

text \<open>The key pair is kept, or a new pair is stored whose private key only its owner can read.\<close>

definition keys_kept :: "'w sshlib \<Rightarrow> string \<Rightarrow> files \<Rightarrow> files \<Rightarrow> bool" where
  "keys_kept S h fs fs' \<longleftrightarrow> fs' = fs \<or> (\<exists>(kp :: KeyPair) m m'. paired S (PrivatePEM kp) (PublicAuthorized kp) \<and>
     fs' = fs(Clean (privFile h) \<mapsto> (PrivatePEM kp, m), Clean (pubFile h) \<mapsto> (PublicAuthorized kp, m')) \<and>
     (fs (Clean (privFile h)) = None \<longrightarrow> m AND octal 6 0 0 = m))"

lemma keys_keptI:
  "paired S (PrivatePEM kp) (PublicAuthorized kp) \<Longrightarrow> fs (Clean (privFile h)) = None \<longrightarrow> m AND octal 6 0 0 = m \<Longrightarrow>
   keys_kept S h fs (fs(Clean (privFile h) \<mapsto> (PrivatePEM kp, m), Clean (pubFile h) \<mapsto> (PublicAuthorized kp, m')))" for kp :: KeyPair
  unfolding keys_kept_def by (intro disjI2 exI [of _ kp] exI [of _ m] exI [of _ m']) simp

text \<open>Nothing but the files named by \<open>ps\<close> is different.\<close>

definition only :: "string set \<Rightarrow> files \<Rightarrow> files \<Rightarrow> bool" where
  "only ps fs fs' \<longleftrightarrow> (\<forall>p. p \<notin> ps \<longrightarrow> fs' p = fs p)"

lemma triple_all: "(\<And>fs. P fs \<Longrightarrow> triple (\<lambda>w. files w = fs) m Q) \<Longrightarrow> triple (\<lambda>w. P (files w)) m Q"
  by (auto simp: triple_def)

definition signed_login :: "'w sshlib \<Rightarrow> 'w loginHost \<Rightarrow> string \<Rightarrow> string \<Rightarrow> string \<Rightarrow> files \<Rightarrow> files \<Rightarrow> bool" where
  "signed_login S N h url tok fs fs' \<longleftrightarrow> (\<exists>fs1 pub m cert prin m'. keys_kept S h fs fs1 \<and> fs1 (Clean (pubFile h)) = Some (pub, m) \<and>
     provided (requestCert N url pub tok) (Inr (cert, prin)) \<and> fs' = fs1(Clean (certFile h) \<mapsto> (cert, m')))"

lemma signed_loginI:
  "keys_kept S h fs fs1 \<Longrightarrow> fs1 (Clean (pubFile h)) = Some (pub, m) \<Longrightarrow> provided (requestCert N url pub tok) (Inr (cert, prin)) \<Longrightarrow>
   signed_login S N h url tok fs (fs1(Clean (certFile h) \<mapsto> (cert, m')))"
  unfolding signed_login_def by blast

lemma triple_if: "(b \<Longrightarrow> triple P m Q) \<Longrightarrow> (\<not> b \<Longrightarrow> triple P n Q) \<Longrightarrow> triple P (if b then m else n) Q"
  by simp

text \<open>Talking to the gateway and the provider leaves files alone.\<close>

definition net_leaves :: "('w \<Rightarrow> files) \<Rightarrow> 'w loginHost \<Rightarrow> bool" where
  "net_leaves files N \<longleftrightarrow> (\<forall>m u b. leaves files (lh_Do N m u b)) \<and> (\<forall>i. leaves files (lh_NewProvider N i)) \<and> leaves files (lh_Listen N) \<and>
     leaves files (lh_GenerateVerifier N) \<and> (\<forall>n. leaves files (lh_Random N n)) \<and> (\<forall>u. leaves files (lh_Event N u)) \<and> leaves files (lh_CloseListener N) \<and>
     (\<forall>i P cfg code v. provided (lh_NewProvider N i) (Inr P) \<longrightarrow> leaves files (pk_Exchange P cfg code v))"

locale key_client = file_system H files names + ssh_library S
  for H :: "('w, 'h) cliHost" and files :: "'w \<Rightarrow> files" and names :: "'h \<Rightarrow> string" and S :: "'w sshlib" +
  fixes h :: string
  assumes one_home: "always (\<lambda>r. case r of Inl _ \<Rightarrow> True | Inr d \<Rightarrow> d = h) (ho_UserHomeDir H)"
    and keygen: "leaves files (sl_GenerateKey S)"
begin

lemma generate_leaves: "leaves files (GenerateKeyPair S comment)"
  unfolding GenerateKeyPair_def by (auto intro!: leaves_rules keygen split: sum.split)

lemma dir_leaves: "leaves files (configDir H)"
  unfolding configDir_def Let_def by (intro leaves_rules leavesI [OF homes] leavesI [OF mkdirs])

lemma configDir_is: "always (\<lambda>r. case r of Inl _ \<Rightarrow> True | Inr d \<Rightarrow> d = kubeparkDir h) (configDir H)"
  unfolding configDir_def Let_def kubeparkDir_def
  by (auto intro!: always_ret always_bind [OF one_home] always_bind [OF always_True [of "ho_MkdirAll H p k" for p k]] split: sum.split)

lemma dir_rule: "triple (\<lambda>w. files w = fs) (configDir H) (\<lambda>r w. case r of Inl _ \<Rightarrow> files w = fs | Inr d \<Rightarrow> d = kubeparkDir h \<and> files w = fs)"
  using leaves_triple [OF dir_leaves, of fs] configDir_is by (auto simp: triple_def always_def split: sum.splits)

lemma ensureKeyPair_outcome:
  "triple (\<lambda>w. files w = fs) (ensureKeyPair S H) (\<lambda>r w. case r of
     Inl _ \<Rightarrow> only {Clean (privFile h), Clean (pubFile h)} fs (files w)
   | Inr k \<Rightarrow> k = (privFile h, pubFile h) \<and> keys_kept S h fs (files w))"
    (is "triple _ _ ?Q")
proof -
  let ?p = "Clean (privFile h)" and ?q = "Clean (pubFile h)"
  have err: "triple (\<lambda>w. files w = fs) (ret (Inl e)) ?Q" for e by (rule triple_ret) (simp add: only_def)
  have gen: "triple (\<lambda>w. files w = fs) (GenerateKeyPair S comment) (\<lambda>r w. case r of Inl _ \<Rightarrow> files w = fs
      | Inr kp \<Rightarrow> paired S (PrivatePEM kp) (PublicAuthorized kp) \<and> files w = fs)" for comment
    using leaves_triple [OF generate_leaves, of fs comment] generated_pair [OF ssh_library_axioms, of comment]
    by (auto simp: triple_def always_def split: sum.splits)
  have pub: "triple (\<lambda>w. files w = fs(?p \<mapsto> (PrivatePEM kp, m))) (ho_WriteFile H (pubFile h) (PublicAuthorized kp) (octal 6 4 4))
      (\<lambda>r w. case r of Inl _ \<Rightarrow> only {?p, ?q} fs (files w) | Inr _ \<Rightarrow> keys_kept S h fs (files w))"
    if "paired S (PrivatePEM kp) (PublicAuthorized kp)" "fs ?p = None \<longrightarrow> m AND octal 6 0 0 = m" for kp :: KeyPair and m
    by (rule triple_weaken [OF writes]) (use that in \<open>auto simp: only_def written_def intro!: keys_keptI split: sum.splits\<close>)
  have priv: "triple (\<lambda>w. files w = fs) (ho_WriteFile H (privFile h) b (octal 6 0 0))
      (\<lambda>r w. case r of Inl _ \<Rightarrow> only {?p, ?q} fs (files w)
       | Inr _ \<Rightarrow> \<exists>m. (fs ?p = None \<longrightarrow> m AND octal 6 0 0 = m) \<and> files w = fs(?p \<mapsto> (b, m)))" for b
    by (rule triple_weaken [OF writes]) (auto simp: only_def written_def split: sum.splits option.splits)
  have fail: "triple (\<lambda>w. only {?p, ?q} fs (files w)) (ret (Inl e)) ?Q" for e by (rule triple_ret) simp
  have stat: "triple (\<lambda>w. files w = fs) (ho_Stat H p) (\<lambda>r w. case r of Inl _ \<Rightarrow> files w = fs | Inr _ \<Rightarrow> files w = fs)" for p
    by (rule triple_weaken [OF stats]) (auto split: sum.splits)
  have found: "triple (\<lambda>w. files w = fs) (ret (Inr (privFile h, pubFile h))) ?Q" by (rule triple_ret) (simp add: keys_kept_def)
  have saved: "triple (\<lambda>w. keys_kept S h fs (files w)) (ret (Inr (privFile h, pubFile h))) ?Q" by (rule triple_ret) simp
  show ?thesis
    unfolding ensureKeyPair_def Let_def
    apply (rule triple_case [OF dir_rule err], rule triple_pure, erule ssubst, fold privFile_def, fold pubFile_def)
    apply (rule triple_case [OF stat _ found])
    apply (rule triple_case [OF gen err], rule triple_pure)
    apply (rule triple_case [OF priv fail], rule triple_ex, rule triple_pure)
    by (rule triple_case [OF pub fail saved])
qed

text \<open>What a login leaves: the certificate the gateway signed for the stored public key.\<close>

lemma storeCert_outcome:
  assumes "\<And>m u b. leaves files (lh_Do N m u b)"
  shows "triple (\<lambda>w. files w = fs) (storeCert S H N url tok) (\<lambda>r w. only {Clean (privFile h), Clean (pubFile h), Clean (certFile h)} fs (files w) \<and>
    (case r of Inl _ \<Rightarrow> True | Inr _ \<Rightarrow> signed_login S N h url tok fs (files w)))"
    (is "triple _ _ ?Q")
proof -
  let ?p = "Clean (privFile h)" and ?q = "Clean (pubFile h)" and ?c = "Clean (certFile h)"
  have keys: "only {?p, ?q} fs fs1" if "keys_kept S h fs fs1" for fs1 using that by (auto simp: keys_kept_def only_def)
  have fail: "triple (\<lambda>w. only {?p, ?q} fs (files w)) (ret (Inl e)) ?Q" for e by (rule triple_ret) (auto simp: only_def)
  have err: "triple (\<lambda>w. files w = fs1) (ret (Inl e)) ?Q" if "keys_kept S h fs fs1" for fs1 e
    by (rule triple_ret) (use keys [OF that] in \<open>auto simp: only_def\<close>)
  have readPub: "triple (\<lambda>w. files w = fs1) (ho_ReadFile H p) (\<lambda>r w. case r of Inl _ \<Rightarrow> files w = fs1
      | Inr b \<Rightarrow> (\<exists>m. fs1 (Clean p) = Some (b, m)) \<and> files w = fs1)" for fs1 p
    by (rule triple_weaken [OF reads]) (auto split: sum.splits)
  have quiet: "leaves files (requestCert N url pub tok)" for pub
    unfolding requestCert_def by (auto intro!: leaves_rules assms split: sum.split prod.split)
  have request: "triple (\<lambda>w. files w = fs1) (requestCert N url pub tok) (\<lambda>r w. case r of Inl _ \<Rightarrow> files w = fs1
      | Inr cp \<Rightarrow> provided (requestCert N url pub tok) (Inr cp) \<and> files w = fs1)" for fs1 pub
    by (rule triple_weaken [OF triple_provided [OF leaves_triple [OF quiet]]]) (auto split: sum.splits)
  have store: "triple (\<lambda>w. files w = fs1) (ho_WriteFile H (certFile h) (fst cp) (octal 6 4 4)) ?Q"
    if "keys_kept S h fs fs1" "fs1 ?q = Some (pub, m)" "provided (requestCert N url pub tok) (Inr cp)" for fs1 pub m cp
    by (rule triple_weaken [OF writes])
      (use keys [OF that(1)] signed_loginI [OF that(1,2), of N url tok "fst cp" "snd cp"] that(3) in \<open>auto simp: only_def written_def split: sum.splits\<close>)
  have cert: "triple (\<lambda>w. files w = fs1) (certPath H) (\<lambda>r w. case r of Inl _ \<Rightarrow> files w = fs1 | Inr p \<Rightarrow> p = certFile h \<and> files w = fs1)" for fs1
    unfolding certPath_def
    by (rule triple_case [OF dir_rule]; rule triple_ret; simp add: certFile_def)
  show ?thesis
    unfolding storeCert_def case_prod_unfold
    apply (rule triple_case [OF ensureKeyPair_outcome fail], rule triple_pure, erule ssubst, unfold snd_conv, rule triple_all [where files = files])
    apply (rule triple_case [OF readPub err], assumption, rule triple_pure, erule exE)
    apply (rule triple_case [OF request err], assumption, rule triple_pure)
    apply (rule triple_case [OF cert err], assumption, rule triple_pure)
    by (clarify, rule store)
qed

lemma runLogin_outcome:
  assumes "net_leaves files N"
  shows "triple (\<lambda>w. files w = fs) (runLogin S H N url) (\<lambda>r w. only {Clean (privFile h), Clean (pubFile h), Clean (certFile h)} fs (files w) \<and>
    (case r of Inl _ \<Rightarrow> True | Inr _ \<Rightarrow> \<exists>tok. signed_login S N h url tok fs (files w)))"
    (is "triple _ _ ?Q")
proof -
  have err: "triple (\<lambda>w. files w = fs) (ret (Inl e)) ?Q" for e by (rule triple_ret) (simp add: only_def)
  have flow: "triple (\<lambda>w. files w = fs) m (\<lambda>r w. case r of Inl _ \<Rightarrow> files w = fs | Inr _ \<Rightarrow> files w = fs)" if "leaves files m" for m :: "('w, 'x res) state"
    by (rule triple_weaken [OF leaves_triple [OF that]]) (auto split: sum.splits)
  have new: "leaves files (lh_NewProvider N issuer)" for issuer using assms by (simp add: net_leaves_def)
  have provider: "triple (\<lambda>w. files w = fs) (lh_NewProvider N issuer) (\<lambda>r w. case r of Inl _ \<Rightarrow> files w = fs
      | Inr P \<Rightarrow> (\<forall>cfg code v. leaves files (pk_Exchange P cfg code v)) \<and> files w = fs)" for issuer
    by (rule triple_weaken [OF triple_provided [OF leaves_triple [OF new]]]) (use assms in \<open>auto simp: net_leaves_def split: sum.splits\<close>)
  have config: "leaves files (fetchGatewayConfig N url)"
    unfolding fetchGatewayConfig_def using assms by (auto intro!: leaves_rules simp: net_leaves_def split: sum.split prod.split)
  have auth: "leaves files (oidcAuthCodeFlow N P clientID)" if "\<forall>cfg code v. leaves files (pk_Exchange P cfg code v)" for P clientID
    unfolding oidcAuthCodeFlow_def loginCallback_def Let_def using assms that
    by (auto intro!: leaves_rules simp: net_leaves_def split: sum.split loginEvent.split)
  have store: "triple (\<lambda>w. files w = fs) (storeCert S H N url tok) ?Q" for tok
    by (rule triple_weaken [OF storeCert_outcome]) (use assms in \<open>auto simp: net_leaves_def split: sum.splits\<close>)
  show ?thesis
    unfolding runLogin_def
    apply (rule triple_case [OF flow [OF config] err], rule triple_if, rule err)
    apply (rule triple_case [OF provider err], rule triple_pure)
    by (rule triple_case [OF flow [OF auth] err], assumption, rule store)
qed

end

section \<open>A file system in memory\<close>

text \<open>Handles are paths; a temporary file gets a fixed number and fails if it is taken.\<close>

definition diskHost :: "(files, string) cliHost" where
  "diskHost = \<lparr>ho_Getenv = (\<lambda>_. []), ho_Environ = [], ho_UserHomeDir = ret (Inr ''/home/bob''), ho_MkdirAll = (\<lambda>_ _. ret (Inr ())),
     ho_Stat = (\<lambda>p. State (\<lambda>fs. (case fs (Clean p) of None \<Rightarrow> Inl (NotFound p) | Some _ \<Rightarrow> Inr (), fs))),
     ho_ReadFile = (\<lambda>p. State (\<lambda>fs. (case fs (Clean p) of None \<Rightarrow> Inl (NotFound p) | Some (b, _) \<Rightarrow> Inr b, fs))),
     ho_WriteFile = (\<lambda>p b perm. State (\<lambda>fs. (Inr (), fs(Clean p \<mapsto> (b, case fs (Clean p) of None \<Rightarrow> perm | Some (_, m) \<Rightarrow> m))))),
     ho_Executable = ret (Inr ''/kubepark''), ho_Open = (\<lambda>p. ret (Inr p)),
     ho_CreateTemp = (\<lambda>dir pat. State (\<lambda>fs. let n = tempPrefix dir (butlast pat) @ show_nat 7 in
       if fs (Clean n) = None then (Inr (n, n), fs(Clean n \<mapsto> ([], octal 6 0 0))) else (Inl (AlreadyExists n), fs))),
     ho_Copy = (\<lambda>dst src. State (\<lambda>fs. case fs (Clean src) of None \<Rightarrow> (Inl (NotFound src), fs)
       | Some (b, _) \<Rightarrow> (Inr (), fs(Clean dst := map_option (\<lambda>(_, m). (b, m)) (fs (Clean dst)))))),
     ho_Chmod = (\<lambda>h mode. State (\<lambda>fs. (Inr (), fs(Clean h := map_option (\<lambda>(b, _). (b, mode)) (fs (Clean h)))))),
     ho_Close = (\<lambda>_. ret (Inr ())),
     ho_Rename = (\<lambda>old new. State (\<lambda>fs. (Inr (), fs(Clean old := None, Clean new := fs (Clean old))))),
     ho_Remove = (\<lambda>p. State (\<lambda>fs. (case fs (Clean p) of None \<Rightarrow> Inl (NotFound p) | Some _ \<Rightarrow> Inr (), fs(Clean p := None)))),
     ho_LookPath = (\<lambda>p. ret (Inr (''/usr/bin/'' @ p))), ho_Exec = (\<lambda>_ _ _. ret (Inr ()))\<rparr>"

lemma upd_same: "fs k = Some (b, m) \<Longrightarrow> \<exists>b. fs = fs(k \<mapsto> (b, m))"
  by (metis fun_upd_triv)

interpretation disk: file_system diskHost "\<lambda>fs. fs" "\<lambda>p. p"
  by unfold_locales
    (auto simp: diskHost_def triple_def written_def Let_def fun_upd_idem intro: upd_same split: option.splits sum.splits if_splits)

text \<open>
  Installing the agent is all or nothing.  When \<open>agent install\<close> succeeds,
  the file \<open>agent\<close> in the directory is a complete, executable copy of the
  running binary; when it fails at any point, that
  file is what it was before.  No other file that existed is touched.
\<close>

lemma installSelf_atomic:
  assumes "file_system H files names" "dir \<noteq> []" "\<forall>p. provided (ho_Executable H) (Inr p) \<longrightarrow> files w (Clean p) \<noteq> None"
    "run_state (installSelf H dir) w = (r, w')"
  shows "(case r of
      Inl _ \<Rightarrow> files w' (Clean (JoinPath [dir, agentBinaryName])) = files w (Clean (JoinPath [dir, agentBinaryName]))
    | Inr _ \<Rightarrow> \<exists>self b m. provided (ho_Executable H) (Inr self) \<and> files w (Clean self) = Some (b, m) \<and>
        files w' (Clean (JoinPath [dir, agentBinaryName])) = Some (b, octal 7 5 5)) \<and>
    (\<forall>p. p \<noteq> Clean (JoinPath [dir, agentBinaryName]) \<and> files w p \<noteq> None \<longrightarrow> files w' p = files w p)"
proof -
  let ?d = "Clean (JoinPath [dir, agentBinaryName])"
  have post: "install_post H files ?d (files w) r w'"
    using file_system.installSelf_outcome [OF assms(1-3) refl] assms(4) unfolding triple_def by (metis fst_conv snd_conv)
  have stray: "fs' ?d = fs ?d" "fs p \<noteq> None \<Longrightarrow> fs' p = fs p" if "stray ?d fs fs'" for fs fs' p
    using that by (auto simp: stray_def)
  show ?thesis
  proof (cases r)
    case (Inl e)
    then show ?thesis using post stray by (simp add: install_post_def)
  next
    case (Inr u)
    with post obtain self b m where "provided (ho_Executable H) (Inr self)" "files w (Clean self) = Some (b, m)"
      "stray ?d ((files w)(?d \<mapsto> (b, octal 7 5 5))) (files w')" by (auto simp: install_post_def)
    with Inr stray [of "(files w)(?d \<mapsto> (b, octal 7 5 5))" "files w'"] show ?thesis by fastforce
  qed
qed

section \<open>Properties\<close>

text \<open>
  C40. A login ends with a certificate for the stored key.  Whatever happens,
  \<open>kubepark login\<close> changes no file but the key pair and the certificate.
  When it succeeds, the certificate file holds what the gateway's sign endpoint
  answered for the public key that is stored; an existing key pair was kept, or a
  new pair was stored whose new private key nobody but its owner can read.
\<close>

theorem login_stores_certificate:
  assumes "key_client H files names S h" "net_leaves files N" "run_state (runLogin S H N url) w = (r, w')"
  shows "(\<forall>p. p \<notin> {Clean (privFile h), Clean (pubFile h), Clean (certFile h)} \<longrightarrow> files w' p = files w p) \<and>
    (\<not> isl r \<longrightarrow> (\<exists>tok pub m cert prin m'. files w' (Clean (pubFile h)) = Some (pub, m) \<and>
        provided (requestCert N url pub tok) (Inr (cert, prin)) \<and> files w' (Clean (certFile h)) = Some (cert, m')) \<and>
      keys_kept S h (files w) ((files w')(Clean (certFile h) := files w (Clean (certFile h)))))"
proof -
  let ?c = "Clean (certFile h)"
  have post: "only {Clean (privFile h), Clean (pubFile h), ?c} (files w) (files w') \<and>
      (case r of Inl _ \<Rightarrow> True | Inr _ \<Rightarrow> \<exists>tok. signed_login S N h url tok (files w) (files w'))"
    using key_client.runLogin_outcome [OF assms(1,2), of "files w" url, unfolded triple_def, rule_format, OF refl] unfolding assms(3) fst_conv snd_conv .
  have ok: "(\<exists>pub m cert prin m'. files w' (Clean (pubFile h)) = Some (pub, m) \<and> provided (requestCert N url pub tok) (Inr (cert, prin)) \<and>
        files w' ?c = Some (cert, m')) \<and> keys_kept S h (files w) ((files w')(?c := files w ?c))"
    if "signed_login S N h url tok (files w) (files w')" for tok
  proof -
    from that obtain fs1 pub m cert prin m' where l: "keys_kept S h (files w) fs1" "fs1 (Clean (pubFile h)) = Some (pub, m)"
      "provided (requestCert N url pub tok) (Inr (cert, prin))" "files w' = fs1(?c \<mapsto> (cert, m'))" unfolding signed_login_def by blast
    have "fs1 ?c = files w ?c" using l(1) client_files_distinct [of h] by (auto simp: keys_kept_def)
    then have "(files w')(?c := files w ?c) = fs1" by (simp add: l(4) fun_upd_idem)
    moreover have "files w' (Clean (pubFile h)) = Some (pub, m)" "files w' ?c = Some (cert, m')" using l client_files_distinct [of h] by auto
    ultimately show ?thesis using l(1,3) by auto
  qed
  show ?thesis
  proof (rule conjI, use post in \<open>simp add: only_def\<close>, rule impI)
    assume "\<not> isl r"
    then obtain tok where "signed_login S N h url tok (files w) (files w')" using post by (cases r) auto
    from conjunct1 [OF ok [OF this]] conjunct2 [OF ok [OF this]]
    show "(\<exists>tok pub m cert prin m'. files w' (Clean (pubFile h)) = Some (pub, m) \<and> provided (requestCert N url pub tok) (Inr (cert, prin)) \<and>
        files w' ?c = Some (cert, m')) \<and> keys_kept S h (files w) ((files w')(?c := files w ?c))"
      by (rule conjI [OF exI [of _ tok]])
  qed
qed

text \<open>A gateway that signs, and a login that is answered at once.\<close>

definition sampleLogin :: "files loginHost" where
  "sampleLogin = \<lparr>lh_NewRequest = (\<lambda>_ _. Inr ()), lh_Do = (\<lambda>m u b. ret (Inr (200, ''200 OK'', b))),
     lh_DecodeConfig = (\<lambda>_. Inr \<lparr>gc_Issuer = ''https://idp.example'', gc_ClientID = ''kubepark'', gc_PrincipalClaim = ''email''\<rparr>),
     lh_EncodeSign = (\<lambda>k t. k @ ''|'' @ t), lh_DecodeSign = (\<lambda>b. Inr (''cert:'' @ b, ''bob'')),
     lh_NewProvider = (\<lambda>_. ret (Inr \<lparr>pk_AuthCodeURL = (\<lambda>_ s _. s), pk_Exchange = (\<lambda>_ _ _. ret (Inr (Some ''token'')))\<rparr>)),
     lh_Listen = ret (Inr ''127.0.0.1:4000''), lh_GenerateVerifier = ret ''verifier'', lh_Random = (\<lambda>n. ret (replicate n CHR ''r'')),
     lh_Event = (\<lambda>u. ret (CallbackRequest ((sampleRequest ''127.0.0.1:4000'' None)\<lparr>rq_Query := (\<lambda>k. if k = ''state'' then u else [])\<rparr>))),
     lh_CloseListener = ret ()\<rparr>"

interpretation diskKeys: key_client diskHost "\<lambda>fs. fs" "\<lambda>p. p" refSsh "''/home/bob''"
  by (intro key_client.intro disk.file_system_axioms refSsh.ssh_library_axioms key_client_axioms.intro)
    (auto simp: diskHost_def refSsh_def leaves_rules intro: always_ret)

lemma sampleLogin_leaves: "net_leaves (\<lambda>fs. fs) sampleLogin"
  by (auto simp: net_leaves_def sampleLogin_def provided_def leaves_rules)

theorem login_stores_certificate_witness:
  "\<exists>w'. run_state (runLogin refSsh diskHost sampleLogin ''https://gw'') Map.empty = (Inr (), w') \<and>
     (\<exists>cert m. w' (Clean (certFile ''/home/bob'')) = Some (cert, m) \<and> take 9 cert = ''cert:key|'')"
proof -
  obtain r w' where run: "run_state (runLogin refSsh diskHost sampleLogin ''https://gw'') Map.empty = (r, w')" by fastforce
  have "fst (run_state (runLogin refSsh diskHost sampleLogin ''https://gw'') Map.empty) = Inr ()" by code_simp
  with run have ok: "r = Inr ()" by simp
  have "snd (run_state (runLogin refSsh diskHost sampleLogin ''https://gw'') Map.empty) (Clean (pubFile ''/home/bob'')) = Some (''key'', octal 6 4 4)" by code_simp
  with run have pub: "w' (Clean (pubFile ''/home/bob'')) = Some (''key'', octal 6 4 4)" by simp
  from login_stores_certificate [OF diskKeys.key_client_axioms sampleLogin_leaves run] ok obtain tok key m cert prin m' where
    l: "w' (Clean (pubFile ''/home/bob'')) = Some (key, m)" "provided (requestCert sampleLogin ''https://gw'' key tok) (Inr (cert, prin))"
    "w' (Clean (certFile ''/home/bob'')) = Some (cert, m')" by auto
  have key: "key = ''key''" using l(1) pub by simp
  have "cert = ''cert:key|'' @ tok" using l(2) by (auto simp: key provided_def requestCert_def sampleLogin_def)
  with l(3) run ok show ?thesis by (intro exI [of _ w'] exI [of _ cert] exI [of _ m'] conjI) simp_all
qed

end
