(* ===== verification/Pod_Types.thy ===== *)
theory Pod_Types
  imports Routing
begin

text \<open>
  When the pods the builder makes have the type the API server demands of pods:
  unique and declared names, port names and numbers in their ranges, and a host
  name that is a DNS label.
\<close>

section \<open>Names\<close>

fun dot_labels :: "string \<Rightarrow> string list" where
  "dot_labels [] = [[]]"
| "dot_labels (c # s) = (if c = CHR ''.'' then [] # dot_labels s
     else (case dot_labels s of x # xs \<Rightarrow> (c # x) # xs | [] \<Rightarrow> [[c]]))"

text \<open>The name of an object is a DNS subdomain: DNS labels separated by dots.\<close>

definition object_name :: "string \<Rightarrow> bool" where
  "object_name s \<longleftrightarrow> list_all dns_label (dot_labels s)"

lemma dot_labels_single: "CHR ''.'' \<notin> set s \<Longrightarrow> dot_labels s = [s]"
  by (induction s rule: dot_labels.induct) auto

lemma dns_label_no_dot: "dns_label s \<Longrightarrow> CHR ''.'' \<notin> set s"
  by (auto simp: dns_label_def list_all_iff is_lower_digit_def dest!: bspec)

lemma object_name_label: "object_name s \<Longrightarrow> dns_label s \<longleftrightarrow> CHR ''.'' \<notin> set s"
  using dns_label_no_dot dot_labels_single by (fastforce simp: object_name_def)

section \<open>Pods\<close>

definition port_name :: "string \<Rightarrow> bool" where
  "port_name s \<longleftrightarrow> s \<noteq> [] \<and> length s \<le> 15 \<and> list_all (\<lambda>c. c = CHR ''-'' \<or> is_lower_digit c) s \<and> list_ex is_lower s \<and>
     \<not> Contains s ''--'' \<and> hd s \<noteq> CHR ''-'' \<and> last s \<noteq> CHR ''-''"

definition container_welltyped :: "Container \<Rightarrow> bool" where
  "container_welltyped ct \<longleftrightarrow> dns_label (ct_Name ct) \<and> ct_Image ct \<noteq> [] \<and> distinct (map cp_Name (ct_Ports ct)) \<and>
     list_all (\<lambda>p. port_name (cp_Name p) \<and> 1 \<le> cp_ContainerPort p \<and> cp_ContainerPort p \<le> 65535) (ct_Ports ct)"

definition pod_welltyped :: "Pod \<Rightarrow> bool" where
  "pod_welltyped pod \<longleftrightarrow> mounts_wellformed pod \<and> ps_Containers (pod_spec pod) \<noteq> [] \<and>
     distinct (map ct_Name (ps_InitContainers (pod_spec pod) @ ps_Containers (pod_spec pod))) \<and>
     list_all container_welltyped (ps_InitContainers (pod_spec pod) @ ps_Containers (pod_spec pod)) \<and>
     dns_label (ps_Hostname (pod_spec pod)) \<and> length (ps_Hostname (pod_spec pod)) \<le> 63"

lemma BuildPod_all:
  "ps_InitContainers (pod_spec (BuildPod sb tpl opts)) @ ps_Containers (pod_spec (BuildPod sb tpl opts)) = cts \<Longrightarrow>
   map ct_Name cts = [''agent-install'', ''sandbox''] \<and> map ct_Image cts = [opt_AgentImage opts, ts_Image (tpl_spec tpl)] \<and>
   map ct_Ports cts = [[], podPorts sb]"
  by (auto simp: BuildPod_def Let_def)

lemma BuildPod_hostname: "ps_Hostname (pod_spec (BuildPod sb tpl opts)) = sb_Name sb"
  by (simp add: BuildPod_def Let_def)

lemma exposed_port_name: "validExposedPort p \<Longrightarrow> port_name (xp_Name p)"
  by (cases "xp_Name p") (auto simp: validExposedPort_def port_name_def port_name_pattern_def is_lower_def is_lower_digit_def Let_def split: if_splits)

lemma podPorts_typed:
  assumes "validSandbox sb"
  shows "list_all (\<lambda>p. port_name (cp_Name p) \<and> 1 \<le> cp_ContainerPort p \<and> cp_ContainerPort p \<le> 65535) (podPorts sb)"
proof -
  have "port_name ''ssh''" by code_simp
  moreover have "list_all (\<lambda>p. port_name (xp_Name p) \<and> 1 \<le> xp_Port p \<and> xp_Port p \<le> 65535) (sp_ExposedPorts (sb_spec sb))"
    using assms unfolding validSandbox_def validSandboxSpec_def list_all_iff by (auto intro: exposed_port_name simp: validExposedPort_def)
  ultimately show ?thesis by (simp add: podPorts_def AgentPort_def list.pred_map comp_def)
qed

section \<open>Properties\<close>



end
