(* ===== verification/Pod_Boot.thy ===== *)
theory Pod_Boot
  imports Commands Cli_Safety Pod_Types
begin

text \<open>
  From command lines to behaviour: what the processes do that a sandbox pod, a
  gateway deployment and a user at a terminal start.  The lemmas are proved for
  every library that reads command lines as cobra documents it.
\<close>

section \<open>Command lines of the server binary\<close>

lemma finish_returned: "State_Monad.bind (returned m) (\<lambda>r. ret (exitStatus r)) = do { r \<leftarrow> m; ret (exitStatus (Returned r)) }"
  by (simp add: returned_def)

text \<open>The entrypoint of the image: any name but that of the agent.\<close>

lemma modeArgs_entry: "BasePath entry \<noteq> agentBinaryName \<Longrightarrow> tl (modeArgs (entry # args)) = args"
  by simp

lemma modeArgs_agent: "BasePath self = agentBinaryName \<Longrightarrow> tl (modeArgs (self # args)) = agentBinaryName # args"
  by simp

lemmas command_defs = subcommand_def commandName_def serverRoot_def newOperatorCommand_def gatewayCommand_def newAgentCommand_def
  installCommand_def agentBinaryName_def isFlag_def HasPrefix_def acceptsArgs_def

section \<open>Flags\<close>

definition givenFlags :: "(string \<times> string) list \<Rightarrow> (string \<Rightarrow> flagValue) \<Rightarrow> string \<Rightarrow> flagValue" where
  "givenFlags fs dflt k = (case map_of (rev fs) k of Some v \<Rightarrow> StringFlag v | None \<Rightarrow> dflt k)"

lemma set_flags_fields:
  "cm_RunE (fold (\<lambda>(k, v) c. withFlag c k (StringFlag v)) fs c) = cm_RunE c"
  "cm_DisableFlagParsing (fold (\<lambda>(k, v) c. withFlag c k (StringFlag v)) fs c) = cm_DisableFlagParsing c"
  "cm_ExactArgs (fold (\<lambda>(k, v) c. withFlag c k (StringFlag v)) fs c) = cm_ExactArgs c"
  by (induction fs arbitrary: c) (auto simp: withFlag_def)

lemma flags_set: "flagsOf (fold (\<lambda>(k, v) c. withFlag c k (StringFlag v)) fs c) = givenFlags fs (flagsOf c)"
proof (induction fs arbitrary: c)
  case (Cons kv fs)
  have "flagsOf (withFlag c k (StringFlag v)) = (flagsOf c)(k := StringFlag v)" for k v
    by (auto simp: flagsOf_def withFlag_def update_conv')
  then show ?case by (cases kv) (auto simp: Cons.IH givenFlags_def fun_eq_iff map_add_def split: option.split)
qed (simp add: givenFlags_def fun_eq_iff)

lemma gatewayFlag_name: "map_of (gatewayFlags d) k = Some (StringFlag x) \<Longrightarrow> k \<noteq> [] \<and> CHR ''='' \<notin> set k \<and> \<not> isFlag k"
  by (auto simp: gatewayFlags_def isFlag_def HasPrefix_def split: if_splits)

section \<open>Command lines of the client\<close>

text \<open>The client on a target, with the flags at their defaults: write the configuration, then become \<open>ssh\<close>.\<close>

definition sshLine :: "('w, 'h, 'cfg) clientHost \<Rightarrow> string \<Rightarrow> ('w, nat) state" where
  "sshLine host target =
     (let d = newSSHCommand (cl_Files host) in do {
        cfgPath \<leftarrow> writeSSHConfig (cl_Ssh host) (cl_Files host) (sf_gatewayAddr d) (sf_gatewayUser d) (sf_hostCAPath d);
        r \<leftarrow> (case cfgPath of Inl e \<Rightarrow> ret (Inl e) | Inr cfgPath \<Rightarrow> execSSH (cl_Files host) cfgPath target);
        ret (exitStatus (Returned r))
      })"

lemma dns_label_trim:
  assumes "dns_label s"
  shows "\<not> is_space (hd s) \<and> \<not> is_space (last s)"
proof -
  have s: "s \<noteq> []" "\<forall>c \<in> set s. c = CHR ''-'' \<or> c = CHR ''.'' \<or> is_lower_digit c" using assms by (auto simp: dns_label_def list_all_iff)
  show ?thesis
    by (intro conjI dns_char(2) bspec [OF s(2)] hd_in_set last_in_set s(1))
qed

lemma runSSH_line:
  assumes "fl = (newSSHCommand (cl_Files host))\<lparr>sf_namespace := ns\<rparr>"
  shows "State_Monad.bind (runSSH (cl_Ssh host) (cl_Files host) fl arg) (\<lambda>r. ret (exitStatus (Returned r))) = sshLine host (sshTarget arg ns)"
proof -
  have fl: "\<not> sf_printConfig fl" "sf_namespace fl = ns" by (simp_all add: assms newSSHCommand_def)
  have "runSSH (cl_Ssh host) (cl_Files host) fl arg = do {
     cfgPath \<leftarrow> writeSSHConfig (cl_Ssh host) (cl_Files host) (sf_gatewayAddr fl) (sf_gatewayUser fl) (sf_hostCAPath fl);
     (case cfgPath of Inl e \<Rightarrow> ret (Inl e) | Inr cfgPath \<Rightarrow> execSSH (cl_Files host) cfgPath (sshTarget arg ns)) }"
    unfolding runSSH_def fl by (simp add: fl cong: sum.case_cong)
  then show ?thesis by (simp add: sshLine_def Let_def assms)
qed

context cobra_library
begin

lemma root_agent: "execute (serverRoot host) (agentBinaryName # args) = execute (newAgentCommand host) args"
  by (rule descend) (simp_all add: command_defs)

lemma root_gateway: "execute (serverRoot host) (''gateway'' # args) = execute (gatewayCommand host) args"
  by (rule descend) (simp_all add: command_defs)

lemma root_operator: "execute (serverRoot host) (''operator'' # args) = execute (newOperatorCommand host) args"
  by (rule descend) (simp_all add: command_defs)

lemma install_line:
  assumes "BasePath entry \<noteq> agentBinaryName" "\<not> isFlag dir"
  shows "serverMain execute host [entry, ''agent'', ''install'', dir] =
    do { r \<leftarrow> installSelf (sv_Files host) dir; ret (exitStatus (Returned r)) }"
proof -
  have "execute (serverRoot host) [''agent'', ''install'', dir] = execute (installCommand host) [dir]"
    using root_agent [of host "[''install'', dir]"] descend [of "newAgentCommand host" "''install''" "installCommand host" "[dir]"]
    by (simp add: command_defs)
  also have "\<dots> = returned (installSelf (sv_Files host) dir)"
  proof -
    have "cm_RunE (installCommand host) = Some (\<lambda>fl dash args. returned (installSelf (sv_Files host) (hd args)))"
      by (simp add: installCommand_def)
    from positional [OF this, of "[dir]"] assms(2) show ?thesis by (simp add: command_defs)
  qed
  finally show ?thesis
    by (simp only: serverMain_def modeArgs_entry [OF assms(1)] finish_returned)
qed

text \<open>What follows \<open>--\<close> reaches the agent as it is, even if it looks like a flag or a subcommand.\<close>

lemma agent_line:
  assumes "BasePath self = agentBinaryName"
  shows "serverMain execute host (self # (if cmd = [] then [] else ''--'' # cmd)) =
    do { r \<leftarrow> runAgent host (-1) cmd; ret (exitStatus (Returned r)) }"
proof -
  have verbatim: "runAgent host 0 cmd = runAgent host (-1) cmd" by (simp add: runAgent_def agentCommand_def argsAfterDashDash_def)
  have run: "cm_RunE (newAgentCommand host) = Some (\<lambda>fl dash args. returned (runAgent host dash args))"
    by (simp add: newAgentCommand_def)
  have "execute (newAgentCommand host) (if cmd = [] then [] else ''--'' # cmd) = returned (runAgent host (-1) cmd)"
  proof (cases "cmd = []")
    case True
    then show ?thesis using positional [OF run, of "[]"] by (simp add: command_defs)
  next
    case False
    then show ?thesis using dashed [OF run, of cmd] by (simp add: command_defs verbatim)
  qed
  then show ?thesis
    by (simp only: serverMain_def modeArgs_agent [OF assms] root_agent finish_returned)
qed

lemma operator_line:
  assumes "BasePath entry \<noteq> agentBinaryName"
  shows "serverMain execute host (entry # ''operator'' # args) = runOperator (sv_Operator host) args"
proof -
  have "execute (newOperatorCommand host) args = do { status \<leftarrow> runOperator (sv_Operator host) args; ret (Exited status) }"
    by (subst raw) (auto simp: command_defs)
  then show ?thesis by (simp add: serverMain_def assms root_operator exitStatus_def)
qed

text \<open>A gateway started with string flags runs with the last value given for each, and the defaults otherwise.\<close>

lemma gateway_line:
  assumes "BasePath entry \<noteq> agentBinaryName"
    "\<forall>(k, v) \<in> set fs. \<exists>d. map_of (gatewayFlags (newGatewayCommand (ho_Getenv (sv_Files host)))) k = Some (StringFlag d)"
  shows "serverMain execute host (entry # ''gateway'' # map (\<lambda>(k, v). ''--'' @ k @ ''='' @ v) fs) = do {
    r \<leftarrow> runGateway (sv_Ssh host) (sv_Web host) (sv_Gateway host) (parsedGatewayOptions (givenFlags fs (flagsOf (gatewayCommand host))));
    ret (exitStatus (Returned r)) }"
proof -
  let ?c = "fold (\<lambda>(k, v) c. withFlag c k (StringFlag v)) fs (gatewayCommand host)"
  have "execute (gatewayCommand host) (map (\<lambda>(k, v). ''--'' @ k @ ''='' @ v) fs @ []) = execute ?c []"
    by (rule string_flags) (use assms(2) gatewayFlag_name in \<open>fastforce simp: gatewayCommand_def\<close>)+
  moreover have "cm_RunE ?c = Some (\<lambda>fl dash args. returned (runGateway (sv_Ssh host) (sv_Web host) (sv_Gateway host) (parsedGatewayOptions fl)))"
    by (simp add: set_flags_fields gatewayCommand_def)
  from positional [OF this, of "[]"]
  have "execute ?c [] = returned (runGateway (sv_Ssh host) (sv_Web host) (sv_Gateway host) (parsedGatewayOptions (givenFlags fs (flagsOf (gatewayCommand host)))))"
    by (simp add: set_flags_fields acceptsArgs_def gatewayCommand_def flags_set)
  ultimately show ?thesis
    by (simp add: serverMain_def assms(1) root_gateway finish_returned del: bind_assoc)
qed

lemma root_ssh: "execute (clientRoot host) (''ssh'' # args) = execute (sshCommand host) args"
  by (rule descend) (simp_all add: subcommand_def commandName_def clientRoot_def newLoginCommand_def sshCommand_def isFlag_def HasPrefix_def)

lemma sshCommand_runs:
  assumes "\<not> isFlag name" "cm_Commands c = []" "cm_ExactArgs c = Some 1" "\<not> cm_DisableFlagParsing c" "cm_RunE c = cm_RunE (sshCommand host)"
  shows "execute c [name] = returned (runSSH (cl_Ssh host) (cl_Files host) (parsedSSHFlags (flagsOf c)) name)"
proof -
  have "cm_RunE c = Some (\<lambda>fl dash args. returned (runSSH (cl_Ssh host) (cl_Files host) (parsedSSHFlags fl) (hd args)))"
    by (simp add: assms(5) sshCommand_def)
  from positional [OF this, of "[name]"] assms(1-4) show ?thesis by (simp add: acceptsArgs_def subcommand_def)
qed

lemma ssh_line:
  assumes "\<not> isFlag name"
  shows "clientMain execute host [arg0, ''ssh'', name] = sshLine host name"
proof -
  let ?fl = "parsedSSHFlags (flagsOf (sshCommand host))"
  have fl: "?fl = (newSSHCommand (cl_Files host))\<lparr>sf_namespace := []\<rparr>"
    by (simp add: newSSHCommand_def parsedSSHFlags_def sshCommand_def sshFlagList_def flagsOf_def stringFlag_def boolFlag_def)
  have "execute (sshCommand host) [name] = returned (runSSH (cl_Ssh host) (cl_Files host) ?fl name)"
    by (rule sshCommand_runs [OF assms]) (simp_all add: sshCommand_def)
  then show ?thesis
    using runSSH_line [OF fl, of name] by (simp add: clientMain_def root_ssh finish_returned sshTarget_def del: bind_assoc)
qed

lemma ssh_namespace_line:
  assumes "\<not> isFlag name" "ns \<noteq> []"
  shows "clientMain execute host [arg0, ''ssh'', ''--namespace='' @ ns, name] = sshLine host (name @ ''.'' @ ns)"
proof -
  let ?c = "withFlag (sshCommand host) ''namespace'' (StringFlag ns)"
  have "execute (sshCommand host) [''--'' @ ''namespace'' @ ''='' @ ns, name] = execute ?c [name]"
    by (rule string_flag [where d = "sf_namespace (newSSHCommand (cl_Files host))"])
      (simp_all add: sshCommand_def sshFlagList_def isFlag_def HasPrefix_def)
  moreover have "execute ?c [name] = returned (runSSH (cl_Ssh host) (cl_Files host) (parsedSSHFlags (flagsOf ?c)) name)"
    by (rule sshCommand_runs [OF assms(1)]) (simp_all add: withFlag_def sshCommand_def)
  moreover have "parsedSSHFlags (flagsOf ?c) = (newSSHCommand (cl_Files host))\<lparr>sf_namespace := ns\<rparr>"
    by (simp add: newSSHCommand_def parsedSSHFlags_def withFlag_def sshCommand_def sshFlagList_def flagsOf_def stringFlag_def boolFlag_def)
  note runSSH_line [OF this, of name]
  ultimately show ?thesis
    using assms(2) by (simp add: clientMain_def root_ssh finish_returned sshTarget_def del: bind_assoc)
qed

end

text \<open>What the two containers of a sandbox pod start.\<close>

lemma BuildPod_lines:
  "map (\<lambda>c. (ct_Command c, ct_Args c)) (ps_InitContainers (pod_spec (BuildPod sb tpl opts))) = [([], [''agent'', ''install'', agentDir])]"
  "map (\<lambda>c. (ct_Command c, ct_Args c)) (ps_Containers (pod_spec (BuildPod sb tpl opts))) =
     [([agentDir @ ''/agent''], if ts_Command (tpl_spec tpl) = [] then [] else ''--'' # ts_Command (tpl_spec tpl))]"
  by (simp_all add: BuildPod_def Let_def)

lemma only_line: "x \<in> set xs \<Longrightarrow> map f xs = [y] \<Longrightarrow> f x = y"
  by (cases xs) auto

section \<open>Properties\<close>

text \<open>
  C16. A sandbox pod boots into its agent.  The init container runs
  \<open>agent install\<close> on the directory both containers mount: when it succeeds,
  the file the sandbox container starts is a complete, executable copy of the
  server binary; when it fails at any point, that file is what it was; no other
  file that existed is touched.  Starting that file runs the agent with exactly the command of the template.
\<close>

theorem sandbox_pod_boots:
  assumes "cobra_library execute" "file_system (sv_Files host) files names" "BasePath entry \<noteq> agentBinaryName"
    "\<forall>p. provided (ho_Executable (sv_Files host)) (Inr p) \<longrightarrow> files w (Clean p) \<noteq> None"
    "ic \<in> set (ps_InitContainers (pod_spec (BuildPod sb tpl opts)))" "c \<in> set (ps_Containers (pod_spec (BuildPod sb tpl opts)))"
    "run_state (serverMain execute host (entry # ct_Command ic @ ct_Args ic)) w = (status, w')"
  shows "(if status = 0
      then \<exists>self b m. provided (ho_Executable (sv_Files host)) (Inr self) \<and> files w (Clean self) = Some (b, m) \<and>
        files w' (hd (ct_Command c)) = Some (b, octal 7 5 5)
      else files w' (hd (ct_Command c)) = files w (hd (ct_Command c))) \<and>
    (\<forall>p. p \<noteq> hd (ct_Command c) \<and> files w p \<noteq> None \<longrightarrow> files w' p = files w p) \<and>
    serverMain execute host (ct_Command c @ ct_Args c) =
      do { r \<leftarrow> runAgent host (-1) (ts_Command (tpl_spec tpl)); ret (exitStatus (Returned r)) }"
proof -
  have dst: "Clean (JoinPath [agentDir, agentBinaryName]) = agentDir @ ''/agent''" "BasePath (agentDir @ ''/agent'') = agentBinaryName"
    by code_simp+
  have ic: "ct_Command ic = []" "ct_Args ic = [''agent'', ''install'', agentDir]" using only_line [OF assms(5) BuildPod_lines(1)] by simp_all
  have c: "ct_Command c = [agentDir @ ''/agent'']" "ct_Args c = (if ts_Command (tpl_spec tpl) = [] then [] else ''--'' # ts_Command (tpl_spec tpl))"
    using only_line [OF assms(6) BuildPod_lines(2)] by simp_all
  have dir: "\<not> isFlag agentDir" "agentDir \<noteq> []" by code_simp+
  obtain r where r: "run_state (installSelf (sv_Files host) agentDir) w = (r, w')" "status = exitStatus (Returned r)"
    using assms(7) by (auto simp: ic cobra_library.install_line [OF assms(1,3) dir(1)] split: prod.splits)
  note atomic = installSelf_atomic [OF assms(2) dir(2) assms(4) r(1), unfolded dst]
  have "if status = 0
      then \<exists>self b m. provided (ho_Executable (sv_Files host)) (Inr self) \<and> files w (Clean self) = Some (b, m) \<and>
        files w' (agentDir @ ''/agent'') = Some (b, octal 7 5 5)
      else files w' (agentDir @ ''/agent'') = files w (agentDir @ ''/agent'')"
    using conjunct1 [OF atomic] by (cases r) (auto simp: r(2) exitStatus_def)
  then show ?thesis
    using conjunct2 [OF atomic] cobra_library.agent_line [OF assms(1) dst(2), of host "ts_Command (tpl_spec tpl)"]
    unfolding c list.sel append.simps by (intro conjI)
qed

theorem sandbox_pod_boots_witness:
  "\<forall>host :: (files, unit, unit, string, unit, unit, unit) serverHost.
     snd (run_state (serverMain refExecute (host\<lparr>sv_Files := diskHost\<rparr>) [''/kubepark'', ''agent'', ''install'', ''/opt/kubepark''])
       [''/kubepark'' \<mapsto> (''binary'', octal 7 5 5)]) ''/opt/kubepark/agent'' = Some (''binary'', octal 7 5 5)"
proof
  fix host :: "(files, unit, unit, string, unit, unit, unit) serverHost"
  let ?h = "host\<lparr>sv_Files := diskHost\<rparr>" and ?w = "[''/kubepark'' \<mapsto> (''binary'', octal 7 5 5)] :: files"
  let ?opts = "\<lparr>opt_AgentImage = ''agent'', opt_PriorityClassName = [], opt_ServiceAccountName = []\<rparr>"
  let ?pod = "BuildPod sampleSandbox sampleTemplate ?opts"
  have entry: "BasePath ''/kubepark'' \<noteq> agentBinaryName" "\<not> isFlag ''/opt/kubepark''" "Clean ''/kubepark'' = ''/kubepark''" by code_simp+
  have fs: "file_system (sv_Files ?h) (\<lambda>fs. fs) (\<lambda>p. p)" by (simp add: disk.file_system_axioms)
  have exe: "provided (ho_Executable diskHost) (Inr p) \<longleftrightarrow> p = ''/kubepark''" for p by (auto simp: provided_def diskHost_def)
  then have exists: "\<forall>p. provided (ho_Executable (sv_Files ?h)) (Inr p) \<longrightarrow> ?w (Clean p) \<noteq> None" by (simp add: entry(3))
  obtain ic where ic: "ic \<in> set (ps_InitContainers (pod_spec ?pod))"
    using BuildPod_lines(1) [of sampleSandbox sampleTemplate ?opts] by (cases "ps_InitContainers (pod_spec ?pod)") auto
  obtain c where c: "c \<in> set (ps_Containers (pod_spec ?pod))"
    using BuildPod_lines(2) [of sampleSandbox sampleTemplate ?opts] by (cases "ps_Containers (pod_spec ?pod)") auto
  have lines: "ct_Command ic @ ct_Args ic = [''agent'', ''install'', ''/opt/kubepark'']" "hd (ct_Command c) = ''/opt/kubepark/agent''"
    using only_line [OF ic BuildPod_lines(1)] only_line [OF c BuildPod_lines(2)] by (simp_all add: agentDir_def)
  have "\<not> isl (fst (run_state (installSelf diskHost ''/opt/kubepark'') ?w))" by code_simp
  then have ok: "fst (run_state (serverMain refExecute ?h (''/kubepark'' # ct_Command ic @ ct_Args ic)) ?w) = 0"
    unfolding lines refCobra.install_line [OF entry(1,2)] by (auto simp: exitStatus_def split_beta split: sum.split)
  obtain status w' where run: "run_state (serverMain refExecute ?h (''/kubepark'' # ct_Command ic @ ct_Args ic)) ?w = (status, w')" by fastforce
  have "status = 0" using ok unfolding run by (simp only: fst_conv)
  with conjunct1 [OF sandbox_pod_boots [OF refCobra.cobra_library_axioms fs entry(1) exists ic c run]]
  have "w' ''/opt/kubepark/agent'' = Some (''binary'', octal 7 5 5)" unfolding lines by (auto simp: exe entry(3))
  with run show "snd (run_state (serverMain refExecute ?h [''/kubepark'', ''agent'', ''install'', ''/opt/kubepark'']) ?w) ''/opt/kubepark/agent'' =
    Some (''binary'', octal 7 5 5)" unfolding lines by (simp only: snd_conv)
qed

text \<open>
  C20. \<open>kubepark ssh\<close> reaches the sandbox it names, and its host key can be
  checked.  With the namespace given, the client asks \<open>ssh\<close> for the very name
  the host certificate of the sandbox is issued for, and every gateway resolves
  that name to the sandbox.  With the namespace left out, a gateway whose default
  is that namespace resolves the bare name as well, but it is not a name of the
  host certificate.
\<close>

theorem ssh_command_reaches:
  assumes "cobra_library execute" "dns_label (sb_Name sb)" "dns_label (sb_Namespace sb)"
  shows "clientMain execute host [arg0, ''ssh'', ''--namespace='' @ sb_Namespace sb, sb_Name sb] =
      sshLine host (hd (FQDNPrincipals sb)) \<and>
    ParseSSHTarget (hd (FQDNPrincipals sb)) dflt = Inr \<lparr>sst_Sandbox = sb_Name sb, sst_Namespace = sb_Namespace sb\<rparr> \<and>
    clientMain execute host [arg0, ''ssh'', sb_Name sb] = sshLine host (sb_Name sb) \<and>
    ParseSSHTarget (sb_Name sb) (sb_Namespace sb) = Inr \<lparr>sst_Sandbox = sb_Name sb, sst_Namespace = sb_Namespace sb\<rparr> \<and>
    sb_Name sb \<notin> set (FQDNPrincipals sb)"
proof -
  have plain: "\<not> isFlag (sb_Name sb)" "sb_Name sb \<noteq> []" "sb_Namespace sb \<noteq> []" "CHR ''.'' \<notin> set (sb_Name sb)"
    using assms(2,3) dns_label_no_dot [OF assms(2)] by (auto simp: dns_label_def isFlag_def HasPrefix_def prefix_def)
  have trim: "TrimSpace (sb_Name sb) = sb_Name sb" "TrimSpace (sb_Name sb @ ''.'' @ sb_Namespace sb) = sb_Name sb @ ''.'' @ sb_Namespace sb"
    using dns_label_trim [OF assms(2)] dns_label_trim [OF assms(3)] plain by (auto intro!: TrimSpace_id)
  note reach = ParseSSHTarget_reaches [OF plain(2,3,4)]
  have "ParseSSHTarget (hd (FQDNPrincipals sb)) dflt = Inr \<lparr>sst_Sandbox = sb_Name sb, sst_Namespace = sb_Namespace sb\<rparr>"
    "ParseSSHTarget (sb_Name sb) (sb_Namespace sb) = Inr \<lparr>sst_Sandbox = sb_Name sb, sst_Namespace = sb_Namespace sb\<rparr>"
    unfolding reach using trim by (simp_all add: FQDNPrincipals_def)
  moreover have "sb_Name sb \<notin> set (FQDNPrincipals sb)" by (simp add: FQDNPrincipals_def)
  moreover have "clientMain execute host [arg0, ''ssh'', sb_Name sb] = sshLine host (sb_Name sb)"
    using cobra_library.ssh_line [OF assms(1) plain(1), of host arg0] by simp
  moreover have "clientMain execute host [arg0, ''ssh'', ''--namespace='' @ sb_Namespace sb, sb_Name sb] = sshLine host (hd (FQDNPrincipals sb))"
    using cobra_library.ssh_namespace_line [OF assms(1) plain(1,3), of host arg0] by (simp add: FQDNPrincipals_def)
  ultimately show ?thesis by blast
qed

theorem ssh_command_reaches_witness:
  "(\<forall>host :: (files, string, unit) clientHost.
     clientMain refExecute host [''kubepark'', ''ssh'', ''--namespace=team'', ''dev''] = sshLine host ''dev.team'') \<and>
   ParseSSHTarget ''dev.team'' [] = Inr \<lparr>sst_Sandbox = ''dev'', sst_Namespace = ''team''\<rparr> \<and> ''dev'' \<notin> set (FQDNPrincipals sampleSandbox)"
proof -
  have names: "sb_Name sampleSandbox = ''dev''" "sb_Namespace sampleSandbox = ''team''" "FQDNPrincipals sampleSandbox = [''dev.team'']"
    by (simp_all add: sample_defs FQDNPrincipals_def)
  have labels: "dns_label (sb_Name sampleSandbox)" "dns_label (sb_Namespace sampleSandbox)" unfolding names by code_simp+
  note reach = ssh_command_reaches [OF refCobra.cobra_library_axioms labels, unfolded names list.sel, of host "''kubepark''" "[]"
    for host :: "(files, string, unit) clientHost"]
  show ?thesis
    unfolding names using reach by (simp only: append.simps simp_thms list.set)
qed

end
