(* ===== verification/Spec2Isabelle.thy ===== *)
theory Spec2Isabelle
  imports Sandbox_Home Fault_Reports Deployment Pod_Boot
begin

text \<open>
  Verification of kubepark, a system for personal sandboxes in a Kubernetes
  cluster.  All file names are relative to \<open>src/\<close>.

  \<^bold>\<open>The program.\<close>  A \<open>Sandbox\<close> is a pod with a home volume
  that belongs to one user, suspends when it is idle and resumes when the user
  connects.  Four custom resources (\<open>api/v1alpha1\<close>) describe it: the
  \<open>Sandbox\<close> itself, its \<open>SandboxTemplate\<close>, the
  \<open>AccessProfile\<close> that grants it rights in namespaces, and a
  \<open>SandboxSession\<close> per connection.  Two processes share them through the
  API server.  The \<^emph>\<open>operator\<close> (\<open>cmd/operator.go\<close>) runs three
  reconcilers (\<open>internal/controller\<close>): sandboxes get their pod, home
  claim, host key, network policy, ServiceAccount and RoleBindings; profiles get
  their Roles; sessions are reaped and collected.  The \<^emph>\<open>gateway\<close>
  (\<open>cmd/gateway.go\<close>, \<open>internal/gateway\<close>) signs SSH certificates for
  users an OIDC provider vouches for, lets the owner of a sandbox through to it
  over SSH, wakes it, records the session, and proxies HTTP to exposed ports.  In
  the pod the \<^emph>\<open>agent\<close> (\<open>internal/agent\<close>, the same binary) is the SSH
  server.  The \<^emph>\<open>client\<close> (\<open>cmd/kubepark\<close>) keeps the user's keys and
  starts \<open>ssh\<close>.

  \<^bold>\<open>How it is modelled.\<close>  A Go function without effects is a function on
  records that carry the names of the structs.  A function with effects is a
  computation of the state monad over an arbitrary outside world; a Go result
  \<open>(v, err)\<close> is an error or a value (\<open>KP_Prelude\<close>).  Every early
  return, ignored error class and wrapped error of the sources is a branch.  The
  code kubepark calls but does not contain is a parameter: the API server behind
  the client (record \<open>kube\<close>), the Kubernetes helper functions
  (\<open>klib\<close>), \<open>golang.org/x/crypto/ssh\<close> (\<open>sshlib\<close>), the SSH
  and HTTP transports, the OIDC library, the operating system and cobra.  What is
  relied on is a locale: \<open>kube_library\<close>, \<open>ssh_library\<close>,
  \<open>kube_server\<close> (built from \<open>kind_server\<close>, one kind of object),
  \<open>file_system\<close>, \<open>key_client\<close>, \<open>cobra_library\<close>; each has an
  interpretation on a reference implementation that can be evaluated.  Interfaces
  between components are locales that are interpreted on the models:
  \<open>session_store\<close> (what the gateway needs of its store) on the store of
  \<open>store.go\<close>, \<open>cluster_order\<close> and \<open>gateway_order\<close> (what a
  component leaves alone) on the handlers.  Times are nanoseconds; durations are
  signed 64-bit numbers, with saturation and wrap-around written out.

  \<^bold>\<open>Theories.\<close>
  \<^item> \<open>KP_Prelude\<close>: errors, the monad with its proof predicates
    (\<open>always\<close>: every result; \<open>keeps\<close>: an invariant of the world;
    \<open>triple\<close>), Go's strings and time.  \<open>Kube_Types\<close>,
    \<open>Api_Types\<close>: the objects, and the admission rules of the schemas.
    \<open>Kube_Client\<close>: the client, and the audited client that records every
    call.  \<open>Kube_Server\<close>, \<open>Kube_Memory\<close>: the laws of a server with no
    other writer during a call, and a server in memory.
    \<open>Sample_Objects\<close>: the objects the witnesses use.
  \<^item> \<open>Podspec\<close>, \<open>Pod_Types\<close>, \<open>NetPol\<close>
    (\<open>internal/controller/podspec\<close>): the pod, claim and network policy.  Shown:
    the isolation baseline, when the pod is well-typed for the API server, and
    exactly which traffic the policy admits.
  \<^item> \<open>Ssh_CA\<close> (\<open>internal/sshca\<close>, \<open>controller/ca.go\<close>):
    keys and certificates.  Shown: exactly which certificates
    \<open>CheckUserCert\<close> accepts.
  \<^item> \<open>Sandbox_Base\<close>, \<open>Sandbox_Rbac\<close>, \<open>Sandbox_Children\<close>,
    \<open>Sandbox_Controller\<close> (\<open>sandbox_controller.go\<close>,
    \<open>sandbox_rbac.go\<close>, \<open>rbacnames.go\<close>, \<open>util.go\<close>): the sandbox
    reconciler.  \<open>Sandbox_Safety\<close> holds whatever the server answers: a pod
    in use is not deleted, no credentials without a permitted profile, how phase
    and status move, that an idle sandbox is looked at again.
    \<open>Sandbox_Server\<close>, \<open>Sandbox_Finalize\<close> and \<open>Sandbox_Home\<close>
    hold against a lawful server: RBAC is exactly what the profile grants, deletion
    is complete and keeps homes it must keep, one sandbox per existing claim.
  \<^item> \<open>Session_Controller\<close>, \<open>Session_Life\<close>, \<open>Session_Server\<close>
    (\<open>sandboxsession_controller.go\<close>) and \<open>Profile_Controller\<close>,
    \<open>Profile_Server\<close> (\<open>accessprofile_controller.go\<close>): when sessions are
    closed and collected, and that the Roles of a profile are exactly its grants.
  \<^item> \<open>Fault_Reports\<close>: from the first unexpected answer of the server on,
    each reconciler makes no further call (but the status write of a sandbox) and
    returns an error.
  \<^item> \<open>Routing\<close> (\<open>routing.go\<close>, \<open>httproute.go\<close>),
    \<open>Gateway_Store\<close>, \<open>Gateway_Ssh\<close>, \<open>Gateway_Server\<close>
    (\<open>store.go\<close>, \<open>dialer.go\<close>, \<open>signer.go\<close>, \<open>sshjump.go\<close>),
    \<open>Gateway_Http\<close>, \<open>Gateway_Access\<close> (\<open>httpproxy.go\<close>,
    \<open>cookieauth.go\<close>, \<open>signhttp.go\<close>): the gateway.  Shown: which hosts
    name which target, who gets through over SSH and HTTP, that waking ends, that
    the record of a session outlives its heartbeats, and the round trip of the
    login cookie.
  \<^item> \<open>Agent\<close>, \<open>Agent_Safety\<close> (\<open>internal/agent\<close>): whom the
    agent of a pod admits, and one persistent shell under every interleaving of its
    critical sections (an inductive step relation).
  \<^item> \<open>Gateway_Main\<close>, \<open>Gateway_Boot\<close>, \<open>Operator_Main\<close>,
    \<open>Cli\<close>, \<open>Cli_Paths\<close>, \<open>Cli_Safety\<close>, \<open>Commands\<close>,
    \<open>Pod_Boot\<close> (\<open>cmd\<close>): the processes, the command trees and the
    client.  Shown: key material is made once, who is issued a certificate and where
    it is good for, what a login does to the user's files, that a sandbox pod boots
    into its agent, and that \<open>kubepark ssh\<close> reaches the sandbox it names.
  \<^item> \<open>Component_Orders\<close>, \<open>System\<close>, \<open>Deployment\<close>: histories
    in which the three reconcilers and the gateway take turns.  Shown: sessions
    refine the abstract lifecycle of \<open>Session_Life\<close>, no component changes
    who owns a sandbox, what the two processes assemble is such a system, and which
    changes wake the sandbox reconciler.

  \<^bold>\<open>Assumptions on the outside.\<close>  The theories ending in \<open>Safety\<close>
  and \<open>Fault_Reports\<close> let the server answer anything between any two calls.
  The theories ending in \<open>Server\<close>, and \<open>Sandbox_Finalize\<close>, let a
  handler run without another writer until it returns; in a history handlers take
  turns, and while the gateway waits for a sandbox or copies bytes the others may act,
  as far as their own guarantees go (\<open>runtime_obeys\<close>).

  \<^bold>\<open>Bounds and fuel.\<close>  The only loop whose end depends on the outside is
  the polling in \<open>wakeAndWait\<close>; \<open>wakeLoop\<close> takes fuel and is
  \<open>None\<close> when it runs out.  \<open>wakeFuel\<close>, the number of polls in the wake
  timeout and two more, is enough whenever a wait takes its poll interval
  (\<open>ssh_wake_terminates\<close>).  The heartbeat of a session is given as the finite
  list of events it reacts to, the copying of bytes as one computation of the
  transport.  All other loops are structural.

  \<^bold>\<open>Not modelled.\<close>
  \<^item> The generated deep copies (\<open>zz_generated.deepcopy.go\<close>): the values here
    are immutable, so a copy is the value itself.
  \<^item> The registration of types with a runtime scheme
    (\<open>groupversion_info.go\<close> and the \<open>init\<close> functions): tables of the
    Kubernetes libraries without behaviour of their own.  \<open>SandboxTemplateStatus\<close>
    is neither read nor written by any code.
  \<^item> Log messages, usage texts and messages on the terminal; the resizing of
    terminal windows in the agent, which only forwards sizes to the system.
  \<^item> The cryptography, the SSH and HTTP transports, OIDC discovery, JSON, URL
    parsing, flag parsing, the manager with its caches and queues: libraries, which
    are parameters.
  \<^item> \<open>test/utils\<close>, which drives tools for the end-to-end tests, and the charts,
    manifests and documentation.
\<close>

end
